(* ===== verification/Prelude.thy ===== *)
theory Prelude
  imports Main "HOL-Library.Word" "HOL-Library.AList"
begin

text \<open>
  Shared vocabulary of the development: the machine integers of the Rust sources as words,
  the standard library's big-endian conversions (\<^verbatim>\<open>to_be_bytes\<close>, \<^verbatim>\<open>from_be_bytes\<close>,
  \<^verbatim>\<open>to_be\<close>), IPv4 addresses, results as sums, and the generic lemmas the component
  theories share. Arithmetic wraps: the project is built with \<^verbatim>\<open>cargo build --release\<close>
  (README, Quick start), where Rust integer arithmetic is modular, and the host and the eBPF target are
  little-endian (the sources write the EtherType as \<^verbatim>\<open>0x0008u16\<close>).
\<close>

unbundle bit_operations_syntax

type_synonym u8 = "8 word"
type_synonym u16 = "16 word"
type_synonym u32 = "32 word"
type_synonym u64 = "64 word"
type_synonym bytes = "u8 list"

named_theorems wire \<open>unfolding rules for wire-format encoders\<close>
named_theorems ie_parse \<open>evaluation rules for parsers applied to encoded information elements\<close>
named_theorems upf_defs \<open>definitions of the control-plane operations\<close>

section \<open>Big-endian conversions\<close>

primrec be_bytes :: "nat \<Rightarrow> 'a::len word \<Rightarrow> bytes" where
  "be_bytes 0 w = []"
| "be_bytes (Suc n) w = be_bytes n (drop_bit 8 w) @ [ucast w]"

definition from_be_bytes :: "bytes \<Rightarrow> 'a::len word" where
  "from_be_bytes bs = foldl (\<lambda>acc b. push_bit 8 acc OR ucast b) 0 bs"

definition to_be_bytes :: "'a::len word \<Rightarrow> bytes" where
  "to_be_bytes w = be_bytes (LENGTH('a) div 8) w"

lemma be_bytes_numeral [simp]:
  "be_bytes (numeral k) w = be_bytes (pred_numeral k) (drop_bit 8 w) @ [ucast w]"
  by (simp add: numeral_eq_Suc)

lemma length_be_bytes [simp]: "length (be_bytes n w) = n"
  by (induction n arbitrary: w) auto

lemma length_to_be_bytes [simp]: "length (to_be_bytes (w :: 'a::len word)) = LENGTH('a) div 8"
  by (simp add: to_be_bytes_def)

lemma from_be_bytes_Nil [simp]: "from_be_bytes [] = 0"
  by (simp add: from_be_bytes_def)

lemma from_be_bytes_snoc: "from_be_bytes (bs @ [b]) = push_bit 8 (from_be_bytes bs) OR ucast b"
  by (simp add: from_be_bytes_def)

lemma from_be_bytes_be_bytes: "from_be_bytes (be_bytes n w) = take_bit (8 * n) w"
proof (induction n arbitrary: w)
  case 0
  then show ?case by simp
next
  case (Suc n)
  show ?case
    by (rule bit_word_eqI) (auto simp: from_be_bytes_snoc Suc bit_simps)
qed

lemma from_be_bytes_to_be_bytes:
  assumes "8 dvd LENGTH('a::len)"
  shows "from_be_bytes (to_be_bytes (w :: 'a word)) = w"
  using assms by (simp add: to_be_bytes_def from_be_bytes_be_bytes)

lemma from_be_bytes_bound: "take_bit (8 * length bs) (from_be_bytes bs :: 'a::len word) = from_be_bytes bs"
proof (induction bs rule: rev_induct)
  case Nil
  then show ?case by simp
next
  case (snoc b bs)
  have "bit (from_be_bytes bs :: 'a word) i \<Longrightarrow> i < 8 * length bs" for i
    by (subst (asm) snoc [symmetric]) (simp add: bit_simps)
  then show ?case
    by (intro bit_word_eqI) (fastforce simp: from_be_bytes_snoc bit_simps dest: bit_imp_le_length)
qed

lemma be_bytes_from_be_bytes:
  "8 * length bs \<le> LENGTH('a::len) \<Longrightarrow> be_bytes (length bs) (from_be_bytes bs :: 'a word) = bs"
proof (induction bs rule: rev_induct)
  case Nil
  then show ?case by simp
next
  case (snoc b bs)
  have lim: "bit (from_be_bytes bs :: 'a word) i \<Longrightarrow> i < 8 * length bs" for i
    by (subst (asm) from_be_bytes_bound [symmetric]) (simp add: bit_simps)
  have "drop_bit 8 (push_bit 8 (from_be_bytes bs) OR ucast b :: 'a word) = from_be_bytes bs"
    using snoc.prems by (intro bit_word_eqI) (auto simp: bit_simps dest: lim bit_imp_le_length)
  moreover have "ucast (push_bit 8 (from_be_bytes bs) OR ucast b :: 'a word) = b"
    using snoc.prems by (intro bit_word_eqI) (auto simp: bit_simps)
  ultimately show ?case using snoc by (simp add: from_be_bytes_snoc)
qed

lemma to_be_bytes_u16 [wire]: "to_be_bytes (w :: u16) = [ucast (drop_bit 8 w), ucast w]"
  by (simp add: to_be_bytes_def)

lemma to_be_bytes_u32 [wire]:
  "to_be_bytes (w :: u32) =
     [ucast (drop_bit 24 w), ucast (drop_bit 16 w), ucast (drop_bit 8 w), ucast w]"
  by (simp add: to_be_bytes_def)

lemma to_be_bytes_u64 [wire]:
  "to_be_bytes (w :: u64) =
     [ucast (drop_bit 56 w), ucast (drop_bit 48 w), ucast (drop_bit 40 w), ucast (drop_bit 32 w),
      ucast (drop_bit 24 w), ucast (drop_bit 16 w), ucast (drop_bit 8 w), ucast w]"
  by (simp add: to_be_bytes_def)

lemma from_be_bytes_u16 [simp]: "from_be_bytes [ucast (drop_bit 8 w), ucast w] = (w :: u16)"
  using from_be_bytes_to_be_bytes [of w] by (simp add: to_be_bytes_u16)

lemma from_be_bytes_u32 [simp]:
  "from_be_bytes [ucast (drop_bit 24 w), ucast (drop_bit 16 w), ucast (drop_bit 8 w), ucast w] = (w :: u32)"
  using from_be_bytes_to_be_bytes [of w] by (simp add: to_be_bytes_u32)

lemma from_be_bytes_u64 [simp]:
  "from_be_bytes [ucast (drop_bit 56 w), ucast (drop_bit 48 w), ucast (drop_bit 40 w), ucast (drop_bit 32 w),
      ucast (drop_bit 24 w), ucast (drop_bit 16 w), ucast (drop_bit 8 w), ucast w] = (w :: u64)"
  using from_be_bytes_to_be_bytes [of w] by (simp add: to_be_bytes_u64)

lemma to_be_bytes_from_be_bytes:
  assumes "8 * length bs = LENGTH('a::len)"
  shows "to_be_bytes (from_be_bytes bs :: 'a word) = bs"
proof -
  have "LENGTH('a) div 8 = length bs" using assms by linarith
  then show ?thesis
    using be_bytes_from_be_bytes [of bs, where 'a = 'a] assms by (simp add: to_be_bytes_def)
qed

lemma to_be_bytes_from_be_bytes_u16 [simp]: "to_be_bytes (from_be_bytes [a, b] :: u16) = [a, b]"
  by (rule to_be_bytes_from_be_bytes) simp

lemma to_be_bytes_from_be_bytes_u32 [simp]:
  "to_be_bytes (from_be_bytes [a, b, c, d] :: u32) = [a, b, c, d]"
  by (rule to_be_bytes_from_be_bytes) simp

lemma to_be_bytes_from_be_bytes_u64 [simp]:
  "to_be_bytes (from_be_bytes [a, b, c, d, e, f, g, h] :: u64) = [a, b, c, d, e, f, g, h]"
  by (rule to_be_bytes_from_be_bytes) simp

subsection \<open>Native (little-endian) memory and byte swaps\<close>

text \<open>
  \<open>ne_bytes\<close> is the memory image of an integer on the little-endian host, \<open>from_ne_bytes\<close> the
  value read back through a raw pointer, and \<open>to_be\<close> (also \<^verbatim>\<open>from_be\<close>, the same swap)
  the byte swap of the standard library's integer types.
\<close>

definition ne_bytes :: "'a::len word \<Rightarrow> bytes" where
  "ne_bytes w = rev (to_be_bytes w)"

definition from_ne_bytes :: "bytes \<Rightarrow> 'a::len word" where
  "from_ne_bytes bs = from_be_bytes (rev bs)"

definition to_be :: "'a::len word \<Rightarrow> 'a word" where
  "to_be w = from_be_bytes (rev (to_be_bytes w))"

lemma length_ne_bytes [simp]: "length (ne_bytes (w :: 'a::len word)) = LENGTH('a) div 8"
  by (simp add: ne_bytes_def)

lemma from_ne_ne_bytes: "8 dvd LENGTH('a::len) \<Longrightarrow> from_ne_bytes (ne_bytes (w :: 'a word)) = w"
  by (simp add: from_ne_bytes_def ne_bytes_def from_be_bytes_to_be_bytes)

lemma to_be_bytes_to_be: "8 dvd LENGTH('a::len) \<Longrightarrow> to_be_bytes (to_be (w :: 'a word)) = rev (to_be_bytes w)"
  by (simp add: to_be_def to_be_bytes_from_be_bytes)

lemma ne_bytes_to_be: "8 dvd LENGTH('a::len) \<Longrightarrow> ne_bytes (to_be (w :: 'a word)) = to_be_bytes w"
  by (simp add: ne_bytes_def to_be_bytes_to_be)

lemma to_be_to_be: "8 dvd LENGTH('a::len) \<Longrightarrow> to_be (to_be (w :: 'a word)) = w"
  by (simp add: to_be_def [of "to_be w"] to_be_bytes_to_be from_be_bytes_to_be_bytes)

lemma from_ne_bytes_to_be_bytes: "from_ne_bytes (to_be_bytes w) = to_be w"
  by (simp add: from_ne_bytes_def to_be_def)

lemma to_be_from_ne_bytes:
  "8 * length bs = LENGTH('a::len) \<Longrightarrow> to_be (from_ne_bytes bs :: 'a word) = from_be_bytes bs"
  by (simp add: to_be_def from_ne_bytes_def to_be_bytes_from_be_bytes)

lemma to_be_inject: "8 dvd LENGTH('a::len) \<Longrightarrow> to_be (v :: 'a word) = to_be w \<longleftrightarrow> v = w"
  by (metis to_be_to_be)

section \<open>IPv4 addresses\<close>

datatype ipv4 = Ipv4Addr u8 u8 u8 u8

fun octets :: "ipv4 \<Rightarrow> bytes" where
  "octets (Ipv4Addr a b c d) = [a, b, c, d]"

definition UNSPECIFIED :: ipv4 where
  "UNSPECIFIED = Ipv4Addr 0 0 0 0"

definition u32_from_ip :: "ipv4 \<Rightarrow> u32" where
  "u32_from_ip ip = from_be_bytes (octets ip)"

lemma length_octets [simp]: "length (octets ip) = 4"
  by (cases ip) simp

lemma octets_nth: "Ipv4Addr (octets ip ! 0) (octets ip ! 1) (octets ip ! 2) (octets ip ! 3) = ip"
  by (cases ip) simp

lemma to_be_bytes_u32_from_ip: "to_be_bytes (u32_from_ip ip) = octets ip"
  by (cases ip) (simp add: u32_from_ip_def)

lemma u32_from_ip_inject [simp]: "u32_from_ip a = u32_from_ip b \<longleftrightarrow> a = b"
proof
  assume "u32_from_ip a = u32_from_ip b"
  then have "octets a = octets b" by (metis to_be_bytes_u32_from_ip)
  then show "a = b" by (cases a; cases b) simp
qed simp

section \<open>Results\<close>

text \<open>
  \<^verbatim>\<open>Result<T, E>\<close> is the sum \<open>'e + 'a\<close>: \<open>Inl\<close> is \<^verbatim>\<open>Err\<close>, \<open>Inr\<close> is \<^verbatim>\<open>Ok\<close>.
  \<open>collect_results\<close> is \<^verbatim>\<open>collect::<Result<Vec<_>, _>>()\<close>: all values, or the first error.
\<close>

fun ok_of :: "'e + 'a \<Rightarrow> 'a option" where
  "ok_of (Inl e) = None"
| "ok_of (Inr x) = Some x"

fun map_err :: "('e \<Rightarrow> 'f) \<Rightarrow> 'e + 'a \<Rightarrow> 'f + 'a" where
  "map_err f (Inl e) = Inl (f e)"
| "map_err f (Inr x) = Inr x"

fun collect_results :: "('e + 'a) list \<Rightarrow> 'e + 'a list" where
  "collect_results [] = Inr []"
| "collect_results (Inl e # rs) = Inl e"
| "collect_results (Inr x # rs) = map_sum id (Cons x) (collect_results rs)"

lemma collect_results_Inr [simp]: "collect_results (map (\<lambda>x. Inr (f x)) xs) = Inr (map f xs)"
  by (induction xs) auto

lemma collect_results_map_Inr [simp]: "collect_results (map Inr ys) = Inr ys"
  using collect_results_Inr [of "\<lambda>x. x"] by simp

lemma collect_results_okD: "collect_results rs = Inr ys \<Longrightarrow> rs = map Inr ys"
proof (induction rs arbitrary: ys)
  case (Cons r rs)
  then show ?case
    by (cases r; cases "collect_results rs") (auto dest: Cons.IH)
qed simp

text \<open>\<^verbatim>\<open>Iterator::find_map\<close>: the first \<open>Some\<close>.\<close>

fun find_map :: "('a \<Rightarrow> 'b option) \<Rightarrow> 'a list \<Rightarrow> 'b option" where
  "find_map f [] = None"
| "find_map f (x # xs) = (case f x of Some y \<Rightarrow> Some y | None \<Rightarrow> find_map f xs)"

lemma find_map_SomeD: "find_map f xs = Some y \<Longrightarrow> \<exists>x \<in> set xs. f x = Some y"
  by (induction xs) (auto split: option.splits)

lemma find_map_None_iff: "find_map f xs = None \<longleftrightarrow> (\<forall>x \<in> set xs. f x = None)"
  by (induction xs) (auto split: option.splits)

text \<open>
  A \<^verbatim>\<open>for\<close> loop whose body may leave with \<^verbatim>\<open>?\<close>: the state is threaded through,
  the first error ends the loop.
\<close>

fun try_fold :: "('a \<Rightarrow> 's \<Rightarrow> 'e + 's) \<Rightarrow> 'a list \<Rightarrow> 's \<Rightarrow> 'e + 's" where
  "try_fold f [] s = Inr s"
| "try_fold f (x # xs) s = (case f x s of Inl e \<Rightarrow> Inl e | Inr s' \<Rightarrow> try_fold f xs s')"

lemma try_fold_append:
  "try_fold f (xs @ ys) s = (case try_fold f xs s of Inl e \<Rightarrow> Inl e | Inr s' \<Rightarrow> try_fold f ys s')"
  by (induction xs arbitrary: s) (auto split: sum.splits)

lemma try_fold_invariant:
  assumes "\<And>x s s'. x \<in> set xs \<Longrightarrow> P s \<Longrightarrow> f x s = Inr s' \<Longrightarrow> P s'" and "P s" and "try_fold f xs s = Inr s'"
  shows "P s'"
  using assms by (induction xs arbitrary: s) (auto split: sum.splits)

section \<open>Sums in groups\<close>

lemma sum_list_update_group:
  fixes xs :: "'a::ab_group_add list"
  shows "k < length xs \<Longrightarrow> sum_list (xs[k := x]) = sum_list xs + x - xs ! k"
  by (induction xs arbitrary: k) (auto simp: less_Suc_eq_0_disj algebra_simps)

lemma sum_list_replicate_zero: "sum_list (replicate n (0 :: 'a::monoid_add)) = 0"
  by (induction n) simp_all

end
