(* ===== verification/Rust_Text.thy ===== *)
theory Rust_Text
  imports Prelude
begin

text \<open>
  The text operations of the Rust standard library that the sources use: trimming and splitting,
  \<^verbatim>\<open>lines\<close>, prefixes, \<^verbatim>\<open>from_str_radix\<close> and \<^verbatim>\<open>parse\<close> of unsigned integers with their overflow
  checks, decimal and hexadecimal printing, and IPv4 addresses. A \<open>char\<close> stands for a Unicode scalar
  value below 256; wider characters are outside the model. The locale \<open>text_codec\<close> is what a printed
  value promises to the code that reads it back.
\<close>

section \<open>Splitting and trimming\<close>

definition is_whitespace :: "char \<Rightarrow> bool" where
  "is_whitespace c \<longleftrightarrow> (let n = of_char c :: nat in 9 \<le> n \<and> n \<le> 13 \<or> n = 32 \<or> n = 0x85 \<or> n = 0xA0)"

definition trim_text :: "string \<Rightarrow> string" where
  "trim_text s = rev (dropWhile is_whitespace (rev (dropWhile is_whitespace s)))"

function split_whitespace :: "string \<Rightarrow> string list" where
  "split_whitespace s =
     (let rest = dropWhile is_whitespace s in
      if rest = [] then []
      else takeWhile (\<lambda>c. \<not> is_whitespace c) rest # split_whitespace (dropWhile (\<lambda>c. \<not> is_whitespace c) rest))"
  by pat_completeness auto

termination split_whitespace
proof (relation "measure length")
  fix s rest :: string
  assume r: "rest = dropWhile is_whitespace s" "rest \<noteq> []"
  then have "\<not> is_whitespace (hd rest)" using hd_dropWhile by metis
  with r(2) have "length (dropWhile (\<lambda>c. \<not> is_whitespace c) rest) < length rest"
    by (cases rest) (simp_all add: length_dropWhile_le le_imp_less_Suc)
  moreover have "length rest \<le> length s" using r(1) by (simp add: length_dropWhile_le)
  ultimately show "(dropWhile (\<lambda>c. \<not> is_whitespace c) rest, s) \<in> measure length" by simp
qed simp

declare split_whitespace.simps [simp del]

fun split_char :: "char \<Rightarrow> string \<Rightarrow> string list" where
  "split_char d [] = [[]]"
| "split_char d (c # cs) =
     (if c = d then [] # split_char d cs
      else case split_char d cs of [] \<Rightarrow> [[c]] | p # ps \<Rightarrow> (c # p) # ps)"

definition strip_cr :: "string \<Rightarrow> string" where
  "strip_cr s = (if s \<noteq> [] \<and> last s = CHR 0x0D then butlast s else s)"

definition text_lines :: "string \<Rightarrow> string list" where
  "text_lines s =
     (let ps = split_char CHR 0x0A s
      in map strip_cr (butlast ps) @ (if last ps = [] then [] else [last ps]))"

definition strip_prefix :: "string \<Rightarrow> string \<Rightarrow> string option" where
  "strip_prefix p s = (if take (length p) s = p then Some (drop (length p) s) else None)"

function trim_start_matches :: "string \<Rightarrow> string \<Rightarrow> string" where
  "trim_start_matches p s =
     (if p = [] then s
      else case strip_prefix p s of None \<Rightarrow> s | Some rest \<Rightarrow> trim_start_matches p rest)"
  by pat_completeness auto

termination trim_start_matches
proof (relation "measure (\<lambda>(p, s). length s)")
  fix p s rest :: string
  assume "p \<noteq> []" "strip_prefix p s = Some rest"
  then have "rest = drop (length p) s" "take (length p) s = p" "0 < length p"
    by (auto simp: strip_prefix_def split: if_splits)
  then have "length rest < length s"
    by (metis append_take_drop_id length_append less_add_same_cancel2)
  then show "((p, rest), p, s) \<in> measure (\<lambda>(p, s). length s)" by simp
qed simp

declare trim_start_matches.simps [simp del]

section \<open>Unsigned integers\<close>

definition to_digit :: "nat \<Rightarrow> char \<Rightarrow> nat option" where
  "to_digit radix c =
     (let n = of_char c :: nat;
          d = (if 48 \<le> n \<and> n \<le> 57 then n - 48
               else if 97 \<le> n \<and> n \<le> 122 then n - 87
               else if 65 \<le> n \<and> n \<le> 90 then n - 55 else radix)
      in if d < radix then Some d else None)"

text \<open>The checked accumulation of \<^verbatim>\<open>from_str_radix\<close> for a type with \<open>bound\<close> values.\<close>

fun accumulate :: "nat \<Rightarrow> nat \<Rightarrow> nat \<Rightarrow> string \<Rightarrow> nat option" where
  "accumulate radix bound acc [] = Some acc"
| "accumulate radix bound acc (c # cs) =
     (case to_digit radix c of None \<Rightarrow> None | Some d \<Rightarrow>
      if bound \<le> acc * radix then None
      else if bound \<le> acc * radix + d then None
      else accumulate radix bound (acc * radix + d) cs)"

definition from_str_radix :: "nat \<Rightarrow> nat \<Rightarrow> string \<Rightarrow> nat option" where
  "from_str_radix radix bound s =
     (if s = [] \<or> s = ''+'' \<or> s = ''-'' then None
      else accumulate radix bound 0 (if hd s = CHR ''+'' then tl s else s))"

definition parse_word :: "string \<Rightarrow> 'a::len word option" where
  "parse_word s = map_option of_nat (from_str_radix 10 (2 ^ LENGTH('a)) s)"

definition parse_hex :: "string \<Rightarrow> 'a::len word option" where
  "parse_hex s = map_option of_nat (from_str_radix 16 (2 ^ LENGTH('a)) s)"

function digits :: "nat \<Rightarrow> nat \<Rightarrow> nat list" where
  "digits b n = (if b < 2 \<or> n < b then [n] else digits b (n div b) @ [n mod b])"
  by pat_completeness auto

termination digits
  by (relation "measure snd") simp_all

declare digits.simps [simp del]

definition digit_char :: "nat \<Rightarrow> char" where
  "digit_char d = char_of (if d < 10 then 48 + d else 87 + d)"

definition print_radix :: "nat \<Rightarrow> nat \<Rightarrow> string" where
  "print_radix b n = map digit_char (digits b n)"

definition print_word :: "'a::len word \<Rightarrow> string" where
  "print_word w = print_radix 10 (unat w)"

text \<open>The format \<^verbatim>\<open>{:#x}\<close>.\<close>

definition print_hex_word :: "'a::len word \<Rightarrow> string" where
  "print_hex_word w = ''0x'' @ print_radix 16 (unat w)"

section \<open>IPv4 addresses\<close>

text \<open>An octet has at most three digits, no sign and no leading zero.\<close>

definition parse_octet :: "string \<Rightarrow> u8 option" where
  "parse_octet s =
     (if s = [] \<or> 3 < length s \<or> (hd s = CHR ''0'' \<and> 1 < length s) then None
      else map_option of_nat (accumulate 10 256 0 s))"

definition parse_ipv4 :: "string \<Rightarrow> ipv4 option" where
  "parse_ipv4 s =
     (case map parse_octet (split_char CHR ''.'' s) of
        [Some a, Some b, Some c, Some d] \<Rightarrow> Some (Ipv4Addr a b c d)
      | _ \<Rightarrow> None)"

fun print_ipv4 :: "ipv4 \<Rightarrow> string" where
  "print_ipv4 (Ipv4Addr a b c d) =
     print_word a @ ''.'' @ print_word b @ ''.'' @ print_word c @ ''.'' @ print_word d"

section \<open>Integers: the parser against its reference\<close>

text \<open>All digits, or nothing, and the number they denote.\<close>

definition digits_of :: "nat \<Rightarrow> string \<Rightarrow> nat list option" where
  "digits_of radix s = those (map (to_digit radix) s)"

definition number :: "nat \<Rightarrow> nat \<Rightarrow> nat list \<Rightarrow> nat" where
  "number radix acc ds = foldl (\<lambda>a d. a * radix + d) acc ds"

lemma number_simps [simp]: "number b acc [] = acc" "number b acc (d # ds) = number b (acc * b + d) ds"
  by (simp_all add: number_def)

lemma number_append: "number b acc (xs @ ys) = number b (number b acc xs) ys"
  by (simp add: number_def)

lemma number_ge: "0 < b \<Longrightarrow> acc \<le> number b acc ds"
proof (induction ds arbitrary: acc)
  case (Cons d ds)
  have "acc \<le> acc * b" using Cons.prems by (cases b) simp_all
  then have "acc \<le> acc * b + d" by linarith
  also have "\<dots> \<le> number b (acc * b + d) ds" using Cons by blast
  finally show ?case by simp
qed simp

lemma accumulate_exact:
  assumes "0 < b" "acc < bound"
  shows "accumulate b bound acc s =
    (case digits_of b s of None \<Rightarrow> None
     | Some ds \<Rightarrow> if number b acc ds < bound then Some (number b acc ds) else None)"
  using assms(2)
proof (induction s arbitrary: acc)
  case (Cons c s)
  show ?case
  proof (cases "to_digit b c")
    case (Some d)
    have over: "bound \<le> acc * b + d \<Longrightarrow> \<not> number b (acc * b + d) ds < bound" for ds
      using number_ge [OF assms(1), of "acc * b + d" ds] by linarith
    show ?thesis
    proof (cases "bound \<le> acc * b + d")
      case True
      with Some over show ?thesis
        by (auto simp: digits_of_def split: option.splits)
    next
      case False
      with Some Cons.IH [of "acc * b + d"] show ?thesis
        by (auto simp: digits_of_def split: option.splits)
    qed
  qed (simp add: digits_of_def)
qed (simp add: digits_of_def)

lemma to_digit_char:
  assumes "d < b" "b \<le> 36"
  shows "to_digit b (digit_char d) = Some d"
proof -
  have "d < 36" using assms by simp
  then have "of_char (digit_char d) = (if d < 10 then 48 + d else 87 + d)"
    by (simp add: digit_char_def of_char_of take_bit_nat_def) 
  with assms show ?thesis
    by (auto simp: to_digit_def Let_def)
qed

lemma digits_less: "2 \<le> b \<Longrightarrow> \<forall>d\<in>set (digits b n). d < b"
proof (induction b n rule: digits.induct)
  case (1 b n)
  then show ?case by (subst digits.simps) auto
qed

lemma number_digits: "2 \<le> b \<Longrightarrow> number b 0 (digits b n) = n"
proof (induction b n rule: digits.induct)
  case (1 b n)
  then show ?case by (subst digits.simps) (auto simp: number_append)
qed

lemma digits_not_Nil [simp]: "digits b n \<noteq> []"
  by (subst digits.simps) simp

lemma digits_of_print: "2 \<le> b \<Longrightarrow> b \<le> 36 \<Longrightarrow> digits_of b (print_radix b n) = Some (digits b n)"
proof -
  assume b: "2 \<le> b" "b \<le> 36"
  have "\<forall>d\<in>set ds. d < b \<Longrightarrow> those (map (to_digit b) (map digit_char ds)) = Some ds" for ds
    using b by (induction ds) (simp_all add: to_digit_char)
  from this [OF digits_less [OF b(1)]] show ?thesis
    by (simp add: digits_of_def print_radix_def)
qed

lemma print_radix_not_Nil [simp]: "print_radix b n \<noteq> []"
  by (simp add: print_radix_def)

text \<open>Printed numbers contain digits only.\<close>

definition alnum :: "char \<Rightarrow> bool" where
  "alnum c \<longleftrightarrow> to_digit 36 c \<noteq> None"

lemma print_radix_alnum: "2 \<le> b \<Longrightarrow> b \<le> 36 \<Longrightarrow> c \<in> set (print_radix b n) \<Longrightarrow> alnum c"
  using digits_less [of b n] by (fastforce simp: alnum_def print_radix_def to_digit_char)

lemma alnum_not:
  "\<not> alnum CHR ''+''" "\<not> alnum CHR ''-''" "\<not> alnum CHR ''.''" "\<not> alnum CHR '':''"
  by (simp_all add: alnum_def to_digit_def)

lemma alnum_not_whitespace: "alnum c \<Longrightarrow> \<not> is_whitespace c"
  by (auto simp: alnum_def to_digit_def is_whitespace_def Let_def split: if_splits)

lemma accumulate_print:
  assumes "2 \<le> b" "b \<le> 36" "n < bound"
  shows "accumulate b bound 0 (print_radix b n) = Some n"
  using assms accumulate_exact [of b 0 bound "print_radix b n"] by (simp add: digits_of_print number_digits)

lemma from_str_radix_print:
  assumes "2 \<le> b" "b \<le> 36" "n < bound"
  shows "from_str_radix b bound (print_radix b n) = Some n"
proof -
  have "hd (print_radix b n) \<in> set (print_radix b n)" by (rule hd_in_set) simp
  then have h: "alnum (hd (print_radix b n))" by (rule print_radix_alnum [OF assms(1,2)])
  then have "print_radix b n \<noteq> ''+''" "print_radix b n \<noteq> ''-''" "hd (print_radix b n) \<noteq> CHR ''+''"
    using alnum_not by (metis list.sel(1))+
  then show ?thesis
    using accumulate_print [OF assms] by (simp add: from_str_radix_def)
qed

lemma parse_print_word [simp]: "parse_word (print_word w) = Some w"
  using from_str_radix_print [of 10 "unat w" "2 ^ LENGTH('a)" for w :: "'a::len word"]
  by (simp add: parse_word_def print_word_def)

lemma parse_print_hex: "parse_hex (print_radix 16 (unat w)) = Some w"
  using from_str_radix_print [of 16 "unat w" "2 ^ LENGTH('a)" for w :: "'a::len word"]
  by (simp add: parse_hex_def)

text \<open>
  \<^verbatim>\<open>from_str_radix\<close> is the number denoted by the digits after an optional plus sign, when there is a
  digit, all characters are digits and the number fits.
\<close>

lemma from_str_radix_exact:
  assumes "0 < b" "0 < bound"
  shows "from_str_radix b bound s =
    (let t = (if s \<noteq> [] \<and> hd s = CHR ''+'' then tl s else s)
     in if t = [] then None
        else case digits_of b t of None \<Rightarrow> None
             | Some ds \<Rightarrow> if number b 0 ds < bound then Some (number b 0 ds) else None)"
proof -
  consider "s = []" | "s \<noteq> []" "hd s = CHR ''+''" | "s \<noteq> []" "hd s \<noteq> CHR ''+''" by blast
  then show ?thesis
  proof cases
    case 1
    then show ?thesis by (simp add: from_str_radix_def)
  next
    case 2
    then obtain t where "s = CHR ''+'' # t" by (cases s) simp_all
    then show ?thesis
      using accumulate_exact [OF assms, of t] by (simp add: from_str_radix_def)
  next
    case 3
    have "digits_of b ''-'' = None" by (simp add: digits_of_def to_digit_def)
    moreover have "s \<noteq> ''+''" using 3(2) by auto
    ultimately show ?thesis
      using 3 accumulate_exact [OF assms, of s] by (simp add: from_str_radix_def)
  qed
qed

section \<open>Splitting\<close>

lemma split_char_not_Nil [simp]: "split_char d s \<noteq> []"
  by (cases s) (simp_all split: list.split)

lemma split_char_word [simp]: "d \<notin> set w \<Longrightarrow> split_char d w = [w]"
  by (induction w) auto

lemma split_char_append [simp]: "d \<notin> set w \<Longrightarrow> split_char d (w @ d # s) = w # split_char d s"
  by (induction w) auto

lemma split_whitespace_end: "\<forall>c\<in>set s. is_whitespace c \<Longrightarrow> split_whitespace s = []"
  by (subst split_whitespace.simps) (simp add: Let_def)

lemma split_whitespace_step:
  assumes "dropWhile is_whitespace s = r" "r \<noteq> []"
  shows "split_whitespace s =
    takeWhile (\<lambda>c. \<not> is_whitespace c) r # split_whitespace (dropWhile (\<lambda>c. \<not> is_whitespace c) r)"
  using assms by (subst split_whitespace.simps) (simp add: Let_def)

lemma split_whitespace_skip: "is_whitespace c \<Longrightarrow> split_whitespace (c # s) = split_whitespace s"
  by (subst (1 2) split_whitespace.simps) simp

lemma split_whitespace_word:
  assumes "w \<noteq> []" "\<forall>c\<in>set w. \<not> is_whitespace c" "s = [] \<or> is_whitespace (hd s)"
  shows "split_whitespace (w @ s) = w # split_whitespace s"
proof -
  have "dropWhile is_whitespace (w @ s) = w @ s"
    using assms(1,2) by (cases w) simp_all
  moreover have "takeWhile (\<lambda>c. \<not> is_whitespace c) (w @ s) = w" "dropWhile (\<lambda>c. \<not> is_whitespace c) (w @ s) = s"
    using assms(2,3) by (cases s; auto simp: takeWhile_append dropWhile_append)+
  ultimately show ?thesis
    using assms(1) by (subst split_whitespace.simps) (simp add: Let_def)
qed

lemma trim_text_split: "split_whitespace (trim_text s) = split_whitespace s"
proof -
  have lead: "split_whitespace (dropWhile is_whitespace t) = split_whitespace t" for t
    by (subst (1 2) split_whitespace.simps) (simp add: dropWhile_idem Let_def)
  have trail: "\<forall>c\<in>set ws. is_whitespace c \<Longrightarrow> split_whitespace (t @ ws) = split_whitespace t" for t ws
  proof (induction t rule: split_whitespace.induct)
    case (1 t)
    let ?r = "dropWhile is_whitespace t"
    show ?case
    proof (cases "?r = []")
      case True
      then have "\<forall>c\<in>set (t @ ws). is_whitespace c" "\<forall>c\<in>set t. is_whitespace c" using 1(2) by auto
      then show ?thesis by (simp add: split_whitespace_end)
    next
      case False
      have d: "dropWhile is_whitespace (t @ ws) = ?r @ ws" using False by (auto simp: dropWhile_append)
      let ?w = "takeWhile (\<lambda>c. \<not> is_whitespace c) ?r" and ?q = "dropWhile (\<lambda>c. \<not> is_whitespace c) ?r"
      have stop: "takeWhile (\<lambda>c. \<not> is_whitespace c) ws = []" "dropWhile (\<lambda>c. \<not> is_whitespace c) ws = ws"
        using 1(2) by (cases ws; simp)+
      have "takeWhile (\<lambda>c. \<not> is_whitespace c) (?r @ ws) = ?w" "dropWhile (\<lambda>c. \<not> is_whitespace c) (?r @ ws) = ?q @ ws"
        by (auto simp: takeWhile_append dropWhile_append stop takeWhile_eq_all_conv [THEN iffD2])
      with split_whitespace_step [OF d] split_whitespace_step [OF refl False] 1(1) [OF refl False 1(2)] False
      show ?thesis by simp
    qed
  qed
  let ?t = "dropWhile is_whitespace s"
  have "?t = trim_text s @ rev (takeWhile is_whitespace (rev ?t))"
    unfolding trim_text_def by (metis rev_append rev_rev_ident takeWhile_dropWhile_id)
  then have "split_whitespace ?t = split_whitespace (trim_text s)"
    using trail [of "rev (takeWhile is_whitespace (rev ?t))" "trim_text s"] by (metis set_rev set_takeWhileD)
  with lead show ?thesis by metis
qed

section \<open>Printed values\<close>

text \<open>A value printed without white space and not empty, and read back.\<close>

locale text_codec =
  fixes show_text :: "'a \<Rightarrow> string" and read_text :: "string \<Rightarrow> 'a option"
  assumes read_show: "read_text (show_text a) = Some a"
    and show_not_Nil: "show_text a \<noteq> []"
    and show_solid: "c \<in> set (show_text a) \<Longrightarrow> \<not> is_whitespace c"
begin

lemma show_inj: "show_text a = show_text b \<longleftrightarrow> a = b"
  using read_show by (metis option.inject)

lemma show_word: "split_whitespace (show_text a) = [show_text a]"
  using split_whitespace_word [of "show_text a" "[]"] show_not_Nil show_solid by (auto simp: split_whitespace_end)

lemma show_trimmed: "trim_text (show_text a) = show_text a"
proof -
  have "dropWhile is_whitespace t = t" if "\<forall>c\<in>set t. \<not> is_whitespace c" for t
    using that by (cases t) simp_all
  from this [of "show_text a"] this [of "rev (show_text a)"] show ?thesis
    using show_solid by (simp add: trim_text_def)
qed

end

lemma print_radix_solid: "2 \<le> b \<Longrightarrow> b \<le> 36 \<Longrightarrow> c \<in> set (print_radix b n) \<Longrightarrow> \<not> is_whitespace c"
  by (rule alnum_not_whitespace) (rule print_radix_alnum)

interpretation decimal: text_codec print_word parse_word
proof
  fix c and a :: "'a::len word"
  show "parse_word (print_word a) = Some a" by (rule parse_print_word)
  show "print_word a \<noteq> []" by (simp add: print_word_def)
  show "c \<in> set (print_word a) \<Longrightarrow> \<not> is_whitespace c"
    unfolding print_word_def by (rule print_radix_solid [of 10]) simp_all
qed

interpretation hexadecimal: text_codec "\<lambda>w. print_radix 16 (unat w)" parse_hex
proof
  fix c and a :: "'a::len word"
  show "parse_hex (print_radix 16 (unat a)) = Some a" by (rule parse_print_hex)
  show "print_radix 16 (unat a) \<noteq> []" by simp
  show "c \<in> set (print_radix 16 (unat a)) \<Longrightarrow> \<not> is_whitespace c" by (rule print_radix_solid [of 16]) simp_all
qed

lemma digits_length: "2 \<le> b \<Longrightarrow> n < b ^ k \<Longrightarrow> 0 < k \<Longrightarrow> length (digits b n) \<le> k"
proof (induction b n arbitrary: k rule: digits.induct)
  case (1 b n)
  show ?case
  proof (cases "n < b")
    case False
    with 1 obtain j where k: "k = Suc j" "0 < j" by (cases k) (auto, fastforce)
    have "n div b < b ^ j" using 1(3) k by (simp add: less_mult_imp_div_less mult.commute)
    with 1(1) [of j] 1(2) False k show ?thesis by (subst digits.simps) simp
  qed (use 1 in \<open>subst digits.simps, simp\<close>)
qed

lemma digits_head: "2 \<le> b \<Longrightarrow> 0 < n \<Longrightarrow> hd (digits b n) \<noteq> 0"
proof (induction b n rule: digits.induct)
  case (1 b n)
  show ?case
  proof (cases "n < b")
    case False
    then have "0 < n div b" using 1(2) by (simp add: div_greater_zero_iff)
    with 1 False show ?thesis by (subst digits.simps) simp
  qed (use 1 in \<open>subst digits.simps, simp\<close>)
qed

lemma digit_char_0_iff: "d < 10 \<Longrightarrow> digit_char d = CHR ''0'' \<longleftrightarrow> d = 0"
proof -
  assume d: "d < 10"
  have z: "to_digit 10 CHR ''0'' = Some 0" by (simp add: to_digit_def)
  have "char_of (48 :: nat) = CHR ''0''" using char_of_char [of "CHR ''0''", where 'a = nat] by simp
  then have "digit_char 0 = CHR ''0''" by (simp add: digit_char_def)
  with z to_digit_char [OF d] show ?thesis by auto
qed

lemma parse_octet_print: "parse_octet (print_word (a :: u8)) = Some a"
proof -
  have a: "unat a < 256" using unsigned_less [of a, where 'a = nat] by simp
  have l: "length (print_word a) \<le> 3"
    using digits_length [of 10 "unat a" 3] a by (simp add: print_word_def print_radix_def)
  have z: "hd (print_word a) \<noteq> CHR ''0'' \<or> length (print_word a) = 1"
  proof (cases "unat a = 0")
    case False
    then have "hd (digits 10 (unat a)) \<noteq> 0" by (intro digits_head) simp_all
    moreover have "hd (digits 10 (unat a)) < 10" using digits_less [of 10 "unat a"] hd_in_set [OF digits_not_Nil] by auto
    ultimately show ?thesis by (simp add: print_word_def print_radix_def hd_map digit_char_0_iff)
  qed (simp add: print_word_def print_radix_def digits.simps)
  show ?thesis
    using l z accumulate_print [of 10 "unat a" 256] a by (auto simp: parse_octet_def print_word_def)
qed

lemma print_word_no_dot: "c \<in> set (print_word w) \<Longrightarrow> c \<noteq> CHR ''.''"
  using print_radix_alnum [of 10] alnum_not by (auto simp: print_word_def)

lemma parse_print_ipv4: "parse_ipv4 (print_ipv4 ip) = Some ip"
proof (cases ip)
  case (Ipv4Addr a b c d)
  have "CHR ''.'' \<notin> set (print_word w)" for w :: u8 using print_word_no_dot by blast
  then show ?thesis
    by (simp add: Ipv4Addr parse_ipv4_def parse_octet_print)
qed

interpretation ipv4_text: text_codec print_ipv4 parse_ipv4
proof
  fix ip c
  show "parse_ipv4 (print_ipv4 ip) = Some ip" by (rule parse_print_ipv4)
  show "print_ipv4 ip \<noteq> []" by (cases ip) simp
  have "\<not> is_whitespace CHR ''.''" by (simp add: is_whitespace_def)
  then show "c \<in> set (print_ipv4 ip) \<Longrightarrow> \<not> is_whitespace c"
    by (cases ip) (auto dest: decimal.show_solid)
qed

end
