(* ===== verification/Tui_Common.thy ===== *)
theory Tui_Common
  imports Rust_Text
begin

text \<open>
  What the two terminal interfaces share: the keys they react to, the third-party text area as a
  parameter, the errors of command parsing, and the contract of their log buffers. A log line is a
  value that carries the arguments of its format string.
\<close>

section \<open>Keys and the text area\<close>

datatype key_code = KeyChar char | KeyEnter | KeyEsc | KeyOther nat

datatype key_modifiers = ModNone | ModControl | ModOther nat

text \<open>
  The text area is the crate \<^verbatim>\<open>tui_textarea\<close>: an empty one, its first line, and its reaction to a key.
\<close>

record 't textarea =
  ta_default :: 't
  ta_line0 :: "'t \<Rightarrow> string"
  ta_input :: "'t \<Rightarrow> key_code \<Rightarrow> key_modifiers \<Rightarrow> 't"

datatype parse_error = EmptyCommand | UnknownCommand string | WrongSeid string | NotAnInteger

section \<open>Typed SEIDs\<close>

lemma split_show_session:
  assumes "w \<noteq> []" "\<forall>c\<in>set w. \<not> is_whitespace c"
  shows "split_whitespace (''show session '' @ w) = [''show'', ''session'', w]"
proof -
  have ws: "is_whitespace CHR '' ''" by (simp add: is_whitespace_def)
  have solid: "\<forall>c\<in>set ''show''. \<not> is_whitespace c" "\<forall>c\<in>set ''session''. \<not> is_whitespace c"
    by (simp_all add: is_whitespace_def)
  have "split_whitespace w = [w]"
    using split_whitespace_word [OF assms, of "[]"] by (simp add: split_whitespace_end)
  then show ?thesis
    using split_whitespace_word [OF _ solid(1), of "'' session '' @ w"] split_whitespace_word [OF _ solid(2), of "CHR '' '' # w"]
    by (simp add: ws split_whitespace_skip)
qed

lemma hex_solid: "print_hex_word w \<noteq> []" "\<forall>c\<in>set (print_hex_word w). \<not> is_whitespace c"
  using hexadecimal.show_solid by (auto simp: print_hex_word_def is_whitespace_def)

section \<open>Log buffers\<close>

definition last_n :: "nat \<Rightarrow> 'a list \<Rightarrow> 'a list" where
  "last_n n xs = drop (length xs - n) xs"

lemma length_last_n [simp]: "length (last_n n xs) = min n (length xs)"
  by (simp add: last_n_def)

lemma last_n_short [simp]: "length xs \<le> n \<Longrightarrow> last_n n xs = xs"
  by (simp add: last_n_def)

lemma last_n_append: "last_n n (last_n n xs @ ys) = last_n n (xs @ ys)"
proof (cases "length xs \<le> n")
  case False
  have "drop (length ys + n - n) (drop (length xs - n) xs @ ys) = drop (length xs + length ys - n) (xs @ ys)"
    using False by (simp add: drop_append add.commute)
  then show ?thesis using False by (simp add: last_n_def)
qed simp

text \<open>A buffer that appends a line and drops the oldest one when it holds more than \<open>cap\<close>.\<close>

locale log_buffer =
  fixes entries :: "'s \<Rightarrow> 'e list" and add :: "'e \<Rightarrow> 's \<Rightarrow> 's" and cap :: nat
  assumes add_entries: "entries (add e s) =
      (let l = entries s @ [e] in if length l > cap then tl l else l)"
begin

lemma add_last: "length (entries s) \<le> cap \<Longrightarrow> entries (add e s) = last_n cap (entries s @ [e])"
proof -
  assume "length (entries s) \<le> cap"
  then consider "length (entries s) < cap" | "length (entries s) = cap" by linarith
  then show ?thesis
    by cases (cases "entries s"; auto simp: add_entries Let_def last_n_def drop_Suc)+
qed

lemma add_bounded: "length (entries s) \<le> cap \<Longrightarrow> length (entries (add e s)) \<le> cap"
  by (simp add: add_last)

lemma adds_last: "length (entries s) \<le> cap \<Longrightarrow> entries (fold add es s) = last_n cap (entries s @ es)"
proof (induction es arbitrary: s)
  case (Cons e es)
  then have "entries (fold add es (add e s)) = last_n cap (entries (add e s) @ es)"
    by (simp add: add_bounded)
  also have "\<dots> = last_n cap ((entries s @ [e]) @ es)"
    using Cons.prems by (simp add: add_last last_n_append del: append_assoc)
  finally show ?case by simp
qed simp

lemma adds_bounded: "length (entries s) \<le> cap \<Longrightarrow> length (entries (fold add es s)) \<le> cap"
  by (simp add: adds_last)

end

end
