(* ===== verification/Rust_F32.thy ===== *)
theory Rust_F32
  imports Prelude "HOL-Library.Log_Nat"
begin

text \<open>
  The type \<^verbatim>\<open>f32\<close> as far as the terminal interface uses it: IEEE 754 binary32 with rounding to the nearest
  even value over the rationals. The two zeros are one value, which no operation used here tells apart.
\<close>

datatype f32 = F32NaN | F32Inf bool | F32Fin rat

definition pow2 :: "int \<Rightarrow> rat" where
  "pow2 k = (if 0 \<le> k then 2 ^ nat k else 1 / 2 ^ nat (- k))"

definition round_even :: "rat \<Rightarrow> int" where
  "round_even q =
     (let n = \<lfloor>q\<rfloor>; d = q - of_int n
      in if d < 1 / 2 then n else if 1 / 2 < d then n + 1 else if even n then n else n + 1)"

text \<open>The exponent of the leading bit, and of the last of the 24 significant bits, at least that of a subnormal.\<close>

definition lead_exp :: "rat \<Rightarrow> int" where
  "lead_exp q = (let (a, b) = quotient_of q; k = bitlen a - bitlen b in if pow2 k \<le> q then k else k - 1)"

definition ulp_exp :: "rat \<Rightarrow> int" where
  "ulp_exp q = max (lead_exp \<bar>q\<bar> - 23) (- 149)"

definition f32_round :: "rat \<Rightarrow> f32" where
  "f32_round q =
     (let u = pow2 (ulp_exp q); r = of_int (round_even (q / u)) * u
      in if 2 ^ 128 \<le> \<bar>r\<bar> then F32Inf (r < 0) else F32Fin r)"

definition f32_of_u64 :: "u64 \<Rightarrow> f32" where
  "f32_of_u64 w = f32_round (of_nat (unat w))"

fun f32_div :: "f32 \<Rightarrow> f32 \<Rightarrow> f32" where
  "f32_div (F32Fin x) (F32Fin y) = (if y = 0 then (if x = 0 then F32NaN else F32Inf (x < 0)) else f32_round (x / y))"
| "f32_div (F32Fin x) (F32Inf s) = F32Fin 0"
| "f32_div (F32Inf s) (F32Fin y) = F32Inf (s \<noteq> (y < 0))"
| "f32_div _ _ = F32NaN"

fun f32_mul :: "f32 \<Rightarrow> f32 \<Rightarrow> f32" where
  "f32_mul (F32Fin x) (F32Fin y) = f32_round (x * y)"
| "f32_mul (F32Fin x) (F32Inf s) = (if x = 0 then F32NaN else F32Inf (s \<noteq> (x < 0)))"
| "f32_mul (F32Inf s) (F32Fin y) = (if y = 0 then F32NaN else F32Inf (s \<noteq> (y < 0)))"
| "f32_mul (F32Inf s) (F32Inf t) = F32Inf (s \<noteq> t)"
| "f32_mul _ _ = F32NaN"

text \<open>Comparisons with a NaN are false.\<close>

fun f32_le :: "f32 \<Rightarrow> f32 \<Rightarrow> bool" where
  "f32_le (F32Fin x) (F32Fin y) \<longleftrightarrow> x \<le> y"
| "f32_le (F32Fin x) (F32Inf s) \<longleftrightarrow> \<not> s"
| "f32_le (F32Inf s) (F32Fin y) \<longleftrightarrow> s"
| "f32_le (F32Inf s) (F32Inf t) \<longleftrightarrow> s \<or> \<not> t"
| "f32_le _ _ \<longleftrightarrow> False"

definition f32_min :: "f32 \<Rightarrow> f32 \<Rightarrow> f32" where
  "f32_min x y = (if x = F32NaN then y else if y = F32NaN then x else if f32_le x y then x else y)"

definition f32_clamp :: "f32 \<Rightarrow> f32 \<Rightarrow> f32 \<Rightarrow> f32" where
  "f32_clamp lo hi x = (if x = F32NaN then x else if f32_le x lo then lo else if f32_le hi x then hi else x)"

section \<open>Rounding\<close>

lemma pow2_pos [simp]: "0 < pow2 k" "pow2 k \<noteq> 0"
  by (simp_all add: pow2_def)

lemma f32_round_not_nan [simp]: "f32_round q \<noteq> F32NaN"
  by (simp add: f32_round_def Let_def)

lemma round_even_bounds: "of_int (round_even q) \<le> q + 1 / 2" "q - 1 / 2 \<le> of_int (round_even q)"
proof -
  have "of_int \<lfloor>q\<rfloor> \<le> q" "q < of_int \<lfloor>q\<rfloor> + 1" by linarith+
  then show "of_int (round_even q) \<le> q + 1 / 2" "q - 1 / 2 \<le> of_int (round_even q)"
    unfolding round_even_def Let_def by (auto split: if_splits; linarith)+
qed

lemma clamp_unit:
  assumes "x \<noteq> F32NaN"
  shows "\<exists>r. f32_clamp (F32Fin 0) (F32Fin 1) x = F32Fin r \<and> 0 \<le> r \<and> r \<le> 1"
  using assms by (cases x) (auto simp: f32_clamp_def)

lemma clamp_nan [simp]: "f32_clamp lo hi F32NaN = F32NaN"
  by (simp add: f32_clamp_def)

lemma pow2_powi: "pow2 k = 2 powi k"
  by (simp add: pow2_def power_int_def field_simps)

lemma lead_exp_le:
  assumes "0 < q"
  shows "pow2 (lead_exp q) \<le> q"
proof -
  obtain a b where ab: "quotient_of q = (a, b)" by force
  note q = quotient_of_div [OF ab] and b = quotient_of_denom_pos [OF ab]
  have a: "0 < a" using assms q b by (simp add: zero_less_divide_iff)
  have "1 \<le> bitlen a" "0 \<le> bitlen b" using a bitlen_eq_zero_iff [of a] bitlen_nonneg [of a] bitlen_nonneg [of b] by auto
  then have "(2 :: rat) powi (bitlen a - 1) = of_int (2 ^ nat (bitlen a - 1))" "(2 :: rat) powi bitlen b = of_int (2 ^ nat (bitlen b))"
    by (simp_all add: power_int_def)
  with bitlen_bounds [OF a] bitlen_bounds [OF b] have "(2 :: rat) powi (bitlen a - 1) \<le> of_int a" "of_int b \<le> (2 :: rat) powi bitlen b"
    by (simp_all only: of_int_le_iff less_imp_le)
  then have "(2 :: rat) powi (bitlen a - 1) / 2 powi bitlen b \<le> of_int a / of_int b"
    using b a by (intro frac_le) simp_all
  moreover have "(2 :: rat) powi (bitlen a - bitlen b - 1) = 2 powi (bitlen a - 1) / 2 powi bitlen b"
    by (simp flip: power_int_diff add: algebra_simps)
  ultimately have "pow2 (bitlen a - bitlen b - 1) \<le> q" by (simp add: pow2_powi q)
  then show ?thesis by (simp add: lead_exp_def ab Let_def)
qed

text \<open>A number of at least one and less than 2^64 rounds to a positive finite number.\<close>

lemma f32_round_pos:
  assumes "1 \<le> q" "q < 2 ^ 64"
  shows "\<exists>r. f32_round q = F32Fin r \<and> 0 < r"
proof -
  have p: "pow2 (lead_exp q) \<le> q" using assms(1) by (intro lead_exp_le) simp
  have mono: "pow2 i \<le> pow2 j" if "i \<le> j" for i j
    using that by (simp add: pow2_powi power_int_increasing)
  have one: "pow2 (- 149) \<le> 1" by (simp add: pow2_def)
  let ?u = "pow2 (ulp_exp q)" and ?n = "round_even (q / pow2 (ulp_exp q))"
  have u: "?u \<le> q"
    using p one assms(1) mono [of "lead_exp q - 23" "lead_exp q"] by (simp add: ulp_exp_def max_def)
  then have "1 \<le> q / ?u" by simp
  with round_even_bounds(2) [of "q / ?u"] have "0 < (of_int ?n :: rat)" by linarith
  then have n: "0 < of_int ?n * ?u" by simp
  have "of_int ?n * ?u \<le> (q / ?u + 1 / 2) * ?u"
    by (intro mult_right_mono round_even_bounds(1) less_imp_le) simp
  also have "\<dots> = q + ?u / 2" using pow2_pos(2) [of "ulp_exp q"] by (simp add: distrib_right)
  also have "\<dots> \<le> 2 * q" using u assms(1) by simp
  also have "\<dots> < 2 ^ 128" using assms(2) by simp
  finally show ?thesis using n by (simp add: f32_round_def Let_def)
qed

lemma f32_round_0 [simp]: "f32_round 0 = F32Fin 0"
  by (simp add: f32_round_def round_even_def Let_def)

lemma f32_of_u64_cases:
  obtains "w = 0" "f32_of_u64 w = F32Fin 0" | r where "w \<noteq> 0" "f32_of_u64 w = F32Fin r" "0 < r"
proof (cases "w = 0")
  case True
  then show ?thesis using that(1) by (simp add: f32_of_u64_def)
next
  case False
  have "1 \<le> unat w" using False by (simp add: Suc_leI unat_gt_0)
  then have "of_nat 1 \<le> (of_nat (unat w) :: rat)" by (simp only: of_nat_le_iff)
  then have "1 \<le> (of_nat (unat w) :: rat)" by (simp only: of_nat_1)
  have "unat w < 2 ^ 64" using unsigned_less [of w, where 'a = nat] by simp
  then have "of_nat (unat w) < (of_nat (2 ^ 64) :: rat)" by (simp only: of_nat_less_iff)
  then have "(of_nat (unat w) :: rat) < 2 ^ 64" by (simp only: of_nat_power of_nat_numeral)
  with \<open>1 \<le> (of_nat (unat w) :: rat)\<close> show ?thesis using that(2) False f32_round_pos unfolding f32_of_u64_def by blast
qed

end
