(* ===== verification/Pfcp_Types.thy ===== *)
theory Pfcp_Types
  imports Prelude
begin

text \<open>
  The numeric registry of \<^verbatim>\<open>pfcp-common/src/types.rs\<close> as far as the program uses it
  (message types, information element types, flags and causes), and the predicate that tells
  grouped information elements apart.
\<close>

subsection \<open>Interfaces and apply actions\<close>

abbreviation INTERFACE_ACCESS :: u8 where "INTERFACE_ACCESS \<equiv> 0"
abbreviation INTERFACE_CORE :: u8 where "INTERFACE_CORE \<equiv> 1"
abbreviation ACTION_DROP :: u8 where "ACTION_DROP \<equiv> 1"
abbreviation ACTION_FORW :: u8 where "ACTION_FORW \<equiv> 2"
abbreviation ACTION_BUFF :: u8 where "ACTION_BUFF \<equiv> 4"

subsection \<open>Usage reports\<close>

abbreviation REPORT_TYPE_USAR :: u8 where "REPORT_TYPE_USAR \<equiv> 2"
abbreviation USAGE_REPORT_TRIGGER_PERIO :: u8 where "USAGE_REPORT_TRIGGER_PERIO \<equiv> 1"
abbreviation USAGE_REPORT_TRIGGER_VOLTH :: u8 where "USAGE_REPORT_TRIGGER_VOLTH \<equiv> 2"
abbreviation VOLUME_MEASUREMENT_TOVOL :: u8 where "VOLUME_MEASUREMENT_TOVOL \<equiv> 1"
abbreviation VOLUME_MEASUREMENT_ULVOL :: u8 where "VOLUME_MEASUREMENT_ULVOL \<equiv> 2"
abbreviation VOLUME_MEASUREMENT_DLVOL :: u8 where "VOLUME_MEASUREMENT_DLVOL \<equiv> 4"
abbreviation REPORTING_TRIGGER_PERIO :: u8 where "REPORTING_TRIGGER_PERIO \<equiv> 1"
abbreviation REPORTING_TRIGGER_VOLTH :: u8 where "REPORTING_TRIGGER_VOLTH \<equiv> 2"
abbreviation MEASUREMENT_METHOD_VOLUM :: u8 where "MEASUREMENT_METHOD_VOLUM \<equiv> 2"
abbreviation VOLUME_THRESHOLD_TOVOL :: u8 where "VOLUME_THRESHOLD_TOVOL \<equiv> 1"

subsection \<open>Message types\<close>

abbreviation PFCP_HEARTBEAT_REQ :: u8 where "PFCP_HEARTBEAT_REQ \<equiv> 1"
abbreviation PFCP_HEARTBEAT_RSP :: u8 where "PFCP_HEARTBEAT_RSP \<equiv> 2"
abbreviation PFCP_ASSOCIATION_SETUP_REQ :: u8 where "PFCP_ASSOCIATION_SETUP_REQ \<equiv> 5"
abbreviation PFCP_ASSOCIATION_SETUP_RSP :: u8 where "PFCP_ASSOCIATION_SETUP_RSP \<equiv> 6"
abbreviation PFCP_SESSION_ESTABLISHMENT_REQ :: u8 where "PFCP_SESSION_ESTABLISHMENT_REQ \<equiv> 50"
abbreviation PFCP_SESSION_ESTABLISHMENT_RSP :: u8 where "PFCP_SESSION_ESTABLISHMENT_RSP \<equiv> 51"
abbreviation PFCP_SESSION_MODIFICATION_REQ :: u8 where "PFCP_SESSION_MODIFICATION_REQ \<equiv> 52"
abbreviation PFCP_SESSION_MODIFICATION_RSP :: u8 where "PFCP_SESSION_MODIFICATION_RSP \<equiv> 53"
abbreviation PFCP_SESSION_DELETION_REQ :: u8 where "PFCP_SESSION_DELETION_REQ \<equiv> 54"
abbreviation PFCP_SESSION_DELETION_RSP :: u8 where "PFCP_SESSION_DELETION_RSP \<equiv> 55"
abbreviation PFCP_SESSION_REPORT_REQ :: u8 where "PFCP_SESSION_REPORT_REQ \<equiv> 56"
abbreviation PFCP_SESSION_REPORT_RSP :: u8 where "PFCP_SESSION_REPORT_RSP \<equiv> 57"

subsection \<open>Information elements\<close>

abbreviation PFCP_IE_CREATE_PDR :: u16 where "PFCP_IE_CREATE_PDR \<equiv> 1"
abbreviation PFCP_IE_PDI :: u16 where "PFCP_IE_PDI \<equiv> 2"
abbreviation PFCP_IE_CREATE_FAR :: u16 where "PFCP_IE_CREATE_FAR \<equiv> 3"
abbreviation PFCP_IE_FORWARDING_PARAMETERS :: u16 where "PFCP_IE_FORWARDING_PARAMETERS \<equiv> 4"
abbreviation PFCP_IE_CREATE_URR :: u16 where "PFCP_IE_CREATE_URR \<equiv> 6"
abbreviation PFCP_IE_CREATE_QER :: u16 where "PFCP_IE_CREATE_QER \<equiv> 7"
abbreviation PFCP_IE_CREATED_PDR :: u16 where "PFCP_IE_CREATED_PDR \<equiv> 8"
abbreviation PFCP_IE_UPDATE_PDR :: u16 where "PFCP_IE_UPDATE_PDR \<equiv> 9"
abbreviation PFCP_IE_UPDATE_FAR :: u16 where "PFCP_IE_UPDATE_FAR \<equiv> 10"
abbreviation PFCP_IE_UPDATE_FORWARDING_PARAMETERS :: u16 where "PFCP_IE_UPDATE_FORWARDING_PARAMETERS \<equiv> 11"
abbreviation PFCP_IE_UPDATE_URR :: u16 where "PFCP_IE_UPDATE_URR \<equiv> 13"
abbreviation PFCP_IE_REMOVE_PDR :: u16 where "PFCP_IE_REMOVE_PDR \<equiv> 15"
abbreviation PFCP_IE_REMOVE_FAR :: u16 where "PFCP_IE_REMOVE_FAR \<equiv> 16"
abbreviation PFCP_IE_CAUSE :: u16 where "PFCP_IE_CAUSE \<equiv> 19"
abbreviation PFCP_IE_SOURCE_INTERFACE :: u16 where "PFCP_IE_SOURCE_INTERFACE \<equiv> 20"
abbreviation PFCP_IE_FTEID :: u16 where "PFCP_IE_FTEID \<equiv> 21"
abbreviation PFCP_IE_SDF_FILTER :: u16 where "PFCP_IE_SDF_FILTER \<equiv> 23"
abbreviation PFCP_IE_PRECEDENCE :: u16 where "PFCP_IE_PRECEDENCE \<equiv> 29"
abbreviation PFCP_IE_VOLUME_THRESHOLD :: u16 where "PFCP_IE_VOLUME_THRESHOLD \<equiv> 31"
abbreviation PFCP_IE_REPORTING_TRIGGERS :: u16 where "PFCP_IE_REPORTING_TRIGGERS \<equiv> 37"
abbreviation PFCP_IE_REPORT_TYPE :: u16 where "PFCP_IE_REPORT_TYPE \<equiv> 39"
abbreviation PFCP_IE_DESTINATION_INTERFACE :: u16 where "PFCP_IE_DESTINATION_INTERFACE \<equiv> 42"
abbreviation PFCP_IE_UP_FUNCTION_FEATURES :: u16 where "PFCP_IE_UP_FUNCTION_FEATURES \<equiv> 43"
abbreviation PFCP_IE_APPLY_ACTION :: u16 where "PFCP_IE_APPLY_ACTION \<equiv> 44"
abbreviation PFCP_IE_PDR_ID :: u16 where "PFCP_IE_PDR_ID \<equiv> 56"
abbreviation PFCP_IE_FSEID :: u16 where "PFCP_IE_FSEID \<equiv> 57"
abbreviation PFCP_IE_NODE_ID :: u16 where "PFCP_IE_NODE_ID \<equiv> 60"
abbreviation PFCP_IE_MEASUREMENT_METHOD :: u16 where "PFCP_IE_MEASUREMENT_METHOD \<equiv> 62"
abbreviation PFCP_IE_USAGE_REPORT_TRIGGER :: u16 where "PFCP_IE_USAGE_REPORT_TRIGGER \<equiv> 63"
abbreviation PFCP_IE_MEASUREMENT_PERIOD :: u16 where "PFCP_IE_MEASUREMENT_PERIOD \<equiv> 64"
abbreviation PFCP_IE_VOLUME_MEASUREMENT :: u16 where "PFCP_IE_VOLUME_MEASUREMENT \<equiv> 66"
abbreviation PFCP_IE_USAGE_REPORT_IN_SESS_MEL_RSP :: u16 where "PFCP_IE_USAGE_REPORT_IN_SESS_MEL_RSP \<equiv> 79"
abbreviation PFCP_IE_USAGE_REPORT_IN_SESS_RPT_REQ :: u16 where "PFCP_IE_USAGE_REPORT_IN_SESS_RPT_REQ \<equiv> 80"
abbreviation PFCP_IE_URR_ID :: u16 where "PFCP_IE_URR_ID \<equiv> 81"
abbreviation PFCP_IE_OUTER_HEADER_CREATION :: u16 where "PFCP_IE_OUTER_HEADER_CREATION \<equiv> 84"
abbreviation PFCP_IE_CREATE_BAR :: u16 where "PFCP_IE_CREATE_BAR \<equiv> 85"
abbreviation PFCP_IE_CP_FUNCTION_FEATURES :: u16 where "PFCP_IE_CP_FUNCTION_FEATURES \<equiv> 89"
abbreviation PFCP_IE_UE_IP_ADDRESS :: u16 where "PFCP_IE_UE_IP_ADDRESS \<equiv> 93"
abbreviation PFCP_IE_OUTER_HEADER_REMOVAL :: u16 where "PFCP_IE_OUTER_HEADER_REMOVAL \<equiv> 95"
abbreviation PFCP_IE_RECOVERY_TIME_STAMP :: u16 where "PFCP_IE_RECOVERY_TIME_STAMP \<equiv> 96"
abbreviation PFCP_IE_UR_SEQN :: u16 where "PFCP_IE_UR_SEQN \<equiv> 104"
abbreviation PFCP_IE_FAR_ID :: u16 where "PFCP_IE_FAR_ID \<equiv> 108"

subsection \<open>Causes\<close>

abbreviation CAUSE_REQUEST_ACCEPTED :: u8 where "CAUSE_REQUEST_ACCEPTED \<equiv> 1"
subsection \<open>Grouped information elements\<close>

definition is_grouped_ie :: "u16 \<Rightarrow> bool" where
  "is_grouped_ie ie_type \<longleftrightarrow> ie_type \<in>
     {PFCP_IE_CREATE_PDR, PFCP_IE_CREATE_FAR, PFCP_IE_CREATED_PDR, PFCP_IE_UPDATE_PDR,
      PFCP_IE_UPDATE_FAR, PFCP_IE_REMOVE_PDR, PFCP_IE_REMOVE_FAR, PFCP_IE_CREATE_URR,
      PFCP_IE_CREATE_QER, PFCP_IE_CREATE_BAR, PFCP_IE_PDI}"

end
