(* ===== verification/Pfcp_Header.thy ===== *)
theory Pfcp_Header
  imports Pfcp_Types
begin

text \<open>
  The PFCP header of \<^verbatim>\<open>pfcp-common/src/header.rs\<close>: \<open>pfcp_header_encode\<close> and
  \<open>pfcp_header_decode\<close> with the error values of \<^verbatim>\<open>PfcpError\<close>. The lemmas show that the decoder
  inverts the encoder on every representable header and which inputs it refuses.
  The reason text of an \<^verbatim>\<open>IeParseError\<close> is a constructor per format string.
\<close>

abbreviation PFCP_S_FLAG :: u8 where "PFCP_S_FLAG \<equiv> 1"
abbreviation PFCP_MP_FLAG :: u8 where "PFCP_MP_FLAG \<equiv> 2"
abbreviation PFCP_FO_FLAG :: u8 where "PFCP_FO_FLAG \<equiv> 4"
abbreviation PFCP_VERSION :: u8 where "PFCP_VERSION \<equiv> 1"

record pfcp_header =
  version :: u8
  s_flag :: bool
  mp_flag :: bool
  fo_flag :: bool
  msg_type :: u8
  hdr_length :: u16
  seid :: "u64 option"
  seq_num :: u32
  priority :: u8

datatype ie_reason = TooShort | UnsupportedNodeType u8 | NoIpv4Address | NoIpv4 | EmptyValue

datatype pfcp_error =
    BufferTooShort (need: nat) (have_len: nat)
  | UnsupportedVersion u8
  | IeParseError u16 ie_reason
  | SessionNotFound u64

definition new_node_msg :: "u8 \<Rightarrow> u32 \<Rightarrow> pfcp_header" where
  "new_node_msg mt seq =
     \<lparr>version = PFCP_VERSION, s_flag = False, mp_flag = False, fo_flag = False, msg_type = mt,
      hdr_length = 0, seid = None, seq_num = seq, priority = 0\<rparr>"

definition new_session_msg :: "u8 \<Rightarrow> u64 \<Rightarrow> u32 \<Rightarrow> pfcp_header" where
  "new_session_msg mt sd seq =
     \<lparr>version = PFCP_VERSION, s_flag = True, mp_flag = False, fo_flag = False, msg_type = mt,
      hdr_length = 0, seid = Some sd, seq_num = seq, priority = 0\<rparr>"

definition header_len :: "pfcp_header \<Rightarrow> nat" where
  "header_len h = (if s_flag h then 16 else 8)"

definition header_flags :: "pfcp_header \<Rightarrow> u8" where
  "header_flags h =
     push_bit 5 (version h AND 7)
       OR (if fo_flag h then PFCP_FO_FLAG else 0)
       OR (if mp_flag h then PFCP_MP_FLAG else 0)
       OR (if s_flag h then PFCP_S_FLAG else 0)"

definition pfcp_header_encode :: "pfcp_header \<Rightarrow> bytes" where
  "pfcp_header_encode h =
     [header_flags h, msg_type h] @ to_be_bytes (hdr_length h)
     @ (if s_flag h then to_be_bytes (case seid h of Some s \<Rightarrow> s | None \<Rightarrow> 0) else [])
     @ [ucast (drop_bit 16 (seq_num h)), ucast (drop_bit 8 (seq_num h)), ucast (seq_num h),
        if mp_flag h then push_bit 4 (priority h) else 0]"

definition pfcp_header_decode :: "bytes \<Rightarrow> pfcp_error + pfcp_header \<times> bytes" where
  "pfcp_header_decode buf =
     (if length buf < 8 then Inl (BufferTooShort 8 (length buf))
      else let flags = buf ! 0; ver = drop_bit 5 flags in
      if ver \<noteq> PFCP_VERSION then Inl (UnsupportedVersion ver)
      else let s = (flags AND PFCP_S_FLAG \<noteq> 0); mp = (flags AND PFCP_MP_FLAG \<noteq> 0);
               fo = (flags AND PFCP_FO_FLAG \<noteq> 0) in
      if s \<and> length buf < 16 then Inl (BufferTooShort 16 (length buf))
      else let sd = (if s then Some (from_be_bytes
                        [buf ! 4, buf ! 5, buf ! 6, buf ! 7, buf ! 8, buf ! 9, buf ! 10, buf ! 11])
                     else None);
               pos = (if s then 12 else 4) in
      Inr (\<lparr>version = ver, s_flag = s, mp_flag = mp, fo_flag = fo, msg_type = buf ! 1,
            hdr_length = from_be_bytes [buf ! 2, buf ! 3], seid = sd,
            seq_num = from_be_bytes [0, buf ! pos, buf ! (pos + 1), buf ! (pos + 2)],
            priority = (if mp then drop_bit 4 (buf ! (pos + 3)) else 0)\<rparr>,
           drop (pos + 4) buf))"

text \<open>
  A header is representable when its fields fit the wire: version 1, a SEID exactly when the S
  flag says so, a 24-bit sequence number, and a 4-bit priority that is zero without the MP flag.
\<close>

definition wf_header :: "pfcp_header \<Rightarrow> bool" where
  "wf_header h \<longleftrightarrow> version h = PFCP_VERSION \<and> (s_flag h \<longleftrightarrow> seid h \<noteq> None)
     \<and> unat (seq_num h) < 2 ^ 24 \<and> unat (priority h) < 16 \<and> (\<not> mp_flag h \<longrightarrow> priority h = 0)"

lemma length_pfcp_header_encode: "length (pfcp_header_encode h) = header_len h"
  by (simp add: pfcp_header_encode_def header_len_def)

lemma header_flags_bits:
  assumes "version h = 1"
  shows "drop_bit 5 (header_flags h) = 1"
    and "header_flags h AND 1 \<noteq> 0 \<longleftrightarrow> s_flag h"
    and "header_flags h AND 2 \<noteq> 0 \<longleftrightarrow> mp_flag h"
    and "header_flags h AND 4 \<noteq> 0 \<longleftrightarrow> fo_flag h"
  using assms by (auto simp: header_flags_def)

lemma from_be_bytes_seq24:
  assumes "unat (w :: u32) < 2 ^ 24"
  shows "from_be_bytes [0, ucast (drop_bit 16 w), ucast (drop_bit 8 w), ucast w] = w"
proof -
  have "drop_bit 24 w = 0"
    using assms by (simp add: word_unat_eq_iff drop_bit_eq_div unat_div)
  then have "ucast (drop_bit 24 w) = (0 :: u8)" by simp
  then show ?thesis using from_be_bytes_u32 [of w] by simp
qed

lemma drop_push_priority: "unat (p :: u8) < 16 \<Longrightarrow> drop_bit 4 (push_bit 4 p) = p"
  by (simp add: word_unat_eq_iff drop_bit_eq_div push_bit_eq_mult unat_div unat_word_ariths)

text \<open>Splitting a header off a buffer: the encoder followed by the decoder.\<close>

lemma decode_encode:
  assumes "wf_header h"
  shows "pfcp_header_decode (pfcp_header_encode h @ body) = Inr (h, body)"
proof -
  from assms have v: "version h = 1" by (simp add: wf_header_def)
  note bits = header_flags_bits [OF v]
  from assms have seq: "unat (seq_num h) < 2 ^ 24" and pr: "unat (priority h) < 16"
    and pz: "\<not> mp_flag h \<Longrightarrow> priority h = 0" by (auto simp: wf_header_def)
  show ?thesis
  proof (cases "seid h")
    case None
    with assms have s: "\<not> s_flag h" by (simp add: wf_header_def)
    show ?thesis
      using s None v pz
      by (simp add: pfcp_header_decode_def pfcp_header_encode_def bits wire Let_def
          from_be_bytes_seq24 [OF seq] drop_push_priority [OF pr] pfcp_header.equality)
  next
    case (Some sd)
    with assms have s: "s_flag h" by (simp add: wf_header_def)
    show ?thesis
      using s Some v pz
      by (simp add: pfcp_header_decode_def pfcp_header_encode_def bits wire Let_def
          from_be_bytes_seq24 [OF seq] drop_push_priority [OF pr] pfcp_header.equality)
  qed
qed

subsection \<open>What the decoder accepts\<close>

text \<open>
  Octets the decoder skips: bits 4 and 5 of the flags octet, and of the last octet the low nibble
  (with the MP flag) or all of it (without).
\<close>

definition spare_bits_zero :: "bytes \<Rightarrow> bool" where
  "spare_bits_zero buf \<longleftrightarrow> buf ! 0 AND 24 = 0 \<and>
     (let last = buf ! (if buf ! 0 AND PFCP_S_FLAG \<noteq> 0 then 15 else 7)
      in if buf ! 0 AND PFCP_MP_FLAG \<noteq> 0 then last AND 15 = 0 else last = 0)"

lemma bits_u8_eqI: "(\<And>n. n < 8 \<Longrightarrow> bit (a :: u8) n = bit b n) \<Longrightarrow> a = b"
  by (rule bit_word_eqI) simp

lemma flags_rebuild:
  assumes "drop_bit 5 (f :: u8) = 1" and "f AND 24 = 0"
  shows "32 OR (if f AND 4 \<noteq> 0 then 4 else 0) OR (if f AND 2 \<noteq> 0 then 2 else 0)
           OR (if f AND 1 \<noteq> 0 then 1 else 0) = f" (is "?l = f")
proof -
  have hi: "bit f (5 + n) = (n = 0)" if "n < 3" for n
    using arg_cong [OF assms(1), of "\<lambda>w. bit w n"] that by (simp add: bit_simps)
  have lo: "\<not> bit f 3" "\<not> bit f 4"
    using arg_cong [OF assms(2), of "\<lambda>w. bit w 3"] arg_cong [OF assms(2), of "\<lambda>w. bit w 4"]
    by (simp_all add: bit_simps)
  have m: "(f AND 4 \<noteq> 0) = bit f 2" "(f AND 2 \<noteq> 0) = bit f 1" "(f AND 1 \<noteq> 0) = bit f 0"
    using and_exp_eq_0_iff_not_bit [of f 2] and_exp_eq_0_iff_not_bit [of f 1]
      and_exp_eq_0_iff_not_bit [of f 0] by simp_all
  show ?thesis
  proof (rule bits_u8_eqI)
    fix n :: nat
    assume "n < 8"
    then consider "n = 0" | "n = 1" | "n = 2" | "n = 3" | "n = 4" | "n = 5" | "n = 6" | "n = 7"
      by linarith
    then show "bit ?l n = bit f n"
      unfolding m by cases (use hi [of 0] hi [of 1] hi [of 2] lo in \<open>auto simp: bit_simps\<close>)
  qed
qed

lemma priority_rebuild: "(p :: u8) AND 15 = 0 \<Longrightarrow> push_bit 4 (drop_bit 4 p) = p"
proof (rule bits_u8_eqI)
  fix n :: nat
  assume z: "p AND 15 = 0" and "n < 8"
  have "\<not> bit p n" if "n < 4"
    using arg_cong [OF z, of "\<lambda>w. bit w n"] that mask_eq_exp_minus_1 [of 4, where 'a = u8]
      bit_mask_iff [of 4 n, where 'a = u8] by (simp add: bit_simps)
  with \<open>n < 8\<close> show "bit (push_bit 4 (drop_bit 4 p)) n = bit p n"
    by (cases "n < 4") (auto simp: bit_simps not_less)
qed

lemma seq_rebuild:
  fixes b c d :: u8
  defines "w \<equiv> from_be_bytes [0, b, c, d] :: u32"
  shows "unat w < 2 ^ 24" and "[ucast (drop_bit 16 w), ucast (drop_bit 8 w), ucast w] = [b, c, d]"
proof -
  have w: "to_be_bytes w = [0, b, c, d]" by (simp add: w_def)
  then show "[ucast (drop_bit 16 w), ucast (drop_bit 8 w), ucast w] = [b, c, d]"
    by (simp add: to_be_bytes_u32)
  have "w = from_be_bytes [b, c, d]"
    by (simp add: w_def from_be_bytes_def)
  then have "take_bit 24 w = w"
    using from_be_bytes_bound [of "[b, c, d]", where 'a = 32] by simp
  then have "unat (take_bit 24 w) = unat w" by simp
  then show "unat w < 2 ^ 24"
    by (metis unsigned_take_bit_eq take_bit_nat_less_exp)
qed

lemma take_8_nth:
  "8 \<le> length xs \<Longrightarrow> take 8 xs = [xs ! 0, xs ! 1, xs ! 2, xs ! 3, xs ! 4, xs ! 5, xs ! 6, xs ! 7]"
  by (auto simp: Suc_le_length_iff numeral_eq_Suc)

lemma take_16_nth:
  "16 \<le> length xs \<Longrightarrow> take 16 xs = [xs ! 0, xs ! 1, xs ! 2, xs ! 3, xs ! 4, xs ! 5, xs ! 6, xs ! 7,
     xs ! 8, xs ! 9, xs ! 10, xs ! 11, xs ! 12, xs ! 13, xs ! 14, xs ! 15]"
  by (auto simp: Suc_le_length_iff numeral_eq_Suc)

lemma decode_ok_iff:
  "(\<exists>h body. pfcp_header_decode buf = Inr (h, body)) \<longleftrightarrow>
     8 \<le> length buf \<and> drop_bit 5 (buf ! 0) = 1 \<and> (buf ! 0 AND PFCP_S_FLAG \<noteq> 0 \<longrightarrow> 16 \<le> length buf)"
  by (auto simp: pfcp_header_decode_def Let_def not_less)

lemma drop_bit_4_u8_bound: "unat (drop_bit 4 (p :: u8)) < 16"
proof -
  have "unat p < 256" using unsigned_less [of p, where 'a = nat] by simp
  then show ?thesis by (simp add: drop_bit_eq_div unat_div)
qed

lemma decoded_wf:
  assumes "pfcp_header_decode buf = Inr (h, body)"
  shows "wf_header h" and "body = drop (header_len h) buf" and "header_len h \<le> length buf"
  using assms seq_rebuild(1) drop_bit_4_u8_bound
  by (auto simp: pfcp_header_decode_def wf_header_def header_len_def Let_def split: if_splits)

lemma decoded_reencode:
  assumes d: "pfcp_header_decode buf = Inr (h, body)" and z: "spare_bits_zero buf"
  shows "pfcp_header_encode h = take (header_len h) buf"
proof -
  have v: "drop_bit 5 (buf ! 0) = 1" using d decode_ok_iff by blast
  have f: "header_flags h = buf ! 0"
    using d z flags_rebuild [OF v] by (auto simp: pfcp_header_decode_def header_flags_def
        spare_bits_zero_def Let_def v split: if_splits)
  show ?thesis
  proof (cases "buf ! 0 AND 1 = 0")
    case True
    with d have "8 \<le> length buf" and s: "\<not> s_flag h"
      by (auto simp: pfcp_header_decode_def Let_def split: if_splits)
    with True d z f show ?thesis
      by (auto simp: pfcp_header_decode_def pfcp_header_encode_def header_len_def take_8_nth Let_def
          spare_bits_zero_def seq_rebuild(2) [simplified] priority_rebuild split: if_splits)
  next
    case False
    with d have "16 \<le> length buf" and s: "s_flag h"
      by (auto simp: pfcp_header_decode_def Let_def split: if_splits)
    with False d z f show ?thesis
      by (auto simp: pfcp_header_decode_def pfcp_header_encode_def header_len_def take_16_nth Let_def
          spare_bits_zero_def seq_rebuild(2) [simplified] priority_rebuild split: if_splits)
  qed
qed

section \<open>Properties\<close>

text \<open>
  C22: Header round trip. Decoding an encoded header followed by any body gives back every field of
  the header and exactly that body, for node messages (8 octets) and session messages (16 octets),
  as long as the header is representable on the wire.
\<close>

theorem header_roundtrip:
  assumes "wf_header h"
  shows "pfcp_header_decode (pfcp_header_encode h @ body) = Inr (h, body)
       \<and> length (pfcp_header_encode h) = (if s_flag h then 16 else 8)"
  using decode_encode [OF assms] by (simp add: length_pfcp_header_encode header_len_def)

theorem header_roundtrip_witness:
  "pfcp_header_decode (pfcp_header_encode (new_session_msg 50 0xDEADBEEF 99) @ [1, 2])
     = Inr (new_session_msg 50 0xDEADBEEF 99, [1, 2])"
  using header_roundtrip [of "new_session_msg 50 0xDEADBEEF 99" "[1, 2]"]
  by (simp add: wf_header_def new_session_msg_def)

text \<open>
  The decoder never invents or loses octets. A header it accepts is representable, the returned
  body is exactly what follows the 8 or 16 header octets, and when the octets the decoder skips
  (spare bits) are zero, encoding the header again gives the octets it was read from.
\<close>

theorem header_decode_sound:
  assumes "pfcp_header_decode buf = Inr (h, body)"
  shows "wf_header h \<and> buf = take (header_len h) buf @ body
       \<and> (spare_bits_zero buf \<longrightarrow> take (header_len h) buf = pfcp_header_encode h)"
  using decoded_wf [OF assms] decoded_reencode [OF assms] by auto

theorem header_decode_sound_witness:
  "pfcp_header_decode [0x20, 1, 0, 4, 0, 0, 42, 0, 7] = Inr ((new_node_msg 1 42)\<lparr>hdr_length := 4\<rparr>, [7])
   \<and> take 8 [0x20, 1, 0, 4, 0, 0, 42, 0, 7] = pfcp_header_encode ((new_node_msg 1 42)\<lparr>hdr_length := 4\<rparr>)"
proof -
  have d: "pfcp_header_decode [0x20, 1, 0, 4, 0, 0, 42, 0, 7]
             = Inr ((new_node_msg 1 42)\<lparr>hdr_length := 4\<rparr>, [7])"
    by (simp add: pfcp_header_decode_def new_node_msg_def from_be_bytes_def Let_def)
  have "spare_bits_zero [0x20, 1, 0, 4, 0, 0, 42, 0, 7]"
    by (simp add: spare_bits_zero_def)
  with header_decode_sound [OF d] d show ?thesis
    by (simp add: header_len_def new_node_msg_def)
qed

end
