(* ===== verification/Pfcp_Ie.thy ===== *)
theory Pfcp_Ie
  imports Pfcp_Header
begin

text \<open>
  Parsing of information elements, \<^verbatim>\<open>pfcp-common/src/ie.rs\<close>: the TLV iterator \<open>iter_ies\<close>, the
  parsers of single elements and the parsers of the grouped elements Create PDR, Create FAR,
  Update FAR and Create URR, each a loop over the contained elements in which the first malformed
  element ends the loop with its error. The lemmas at the end say that the iterator always
  returns, partitions the buffer it walks, and stops only at a truncated element.
\<close>

section \<open>The TLV iterator\<close>

datatype raw_ie = RawIE (ie_type: u16) (ie_length: u16) (ie_value: bytes) (sub_ie: "raw_ie list")

definition tlv_type :: "bytes \<Rightarrow> u16" where
  "tlv_type buf = from_be_bytes [buf ! 0, buf ! 1]"

definition tlv_length :: "bytes \<Rightarrow> u16" where
  "tlv_length buf = from_be_bytes [buf ! 2, buf ! 3]"

function iter_ies :: "bytes \<Rightarrow> raw_ie list" where
  "iter_ies buf =
     (if length buf < 4 then []
      else let len = unat (tlv_length buf) in
      if length buf < 4 + len then []
      else let value = take len (drop 4 buf) in
      RawIE (tlv_type buf) (of_nat len) value
        (if is_grouped_ie (tlv_type buf) then iter_ies value else [])
      # iter_ies (drop (4 + len) buf))"
  by pat_completeness auto
termination
  by (relation "measure length") auto

declare iter_ies.simps [simp del]

section \<open>Parsed structures\<close>

record sdf_filter =
  sdf_proto :: u8
  sdf_src_ip :: ipv4
  sdf_dst_ip :: ipv4
  sdf_src_port :: u16
  sdf_dst_port :: u16

record outer_header_creation =
  ohc_teid :: u32
  ohc_peer_addr :: ipv4
  ohc_port :: u16

record parsed_pdr =
  pdr_id :: u16
  pdr_precedence :: u32
  pdr_source_interface :: u8
  pdr_local_fteid :: "(u32 \<times> ipv4) option"
  pdr_ue_ip :: "ipv4 option"
  pdr_far_id :: "u32 option"
  pdr_urr_id :: "u32 option"
  pdr_outer_header_removal :: bool
  pdr_sdf_filter :: "sdf_filter option"

record parsed_far =
  far_id :: u32
  far_apply_action :: u8
  far_dest_interface :: "u8 option"
  far_outer_header_creation :: "outer_header_creation option"

record parsed_urr =
  urr_id :: u32
  urr_measurement_method :: u8
  urr_reporting_triggers :: u8
  urr_volume_threshold_total :: "u64 option"
  urr_measurement_period :: "u32 option"

section \<open>Single elements\<close>

definition ip_at :: "bytes \<Rightarrow> nat \<Rightarrow> ipv4" where
  "ip_at v i = Ipv4Addr (v ! i) (v ! (i + 1)) (v ! (i + 2)) (v ! (i + 3))"

definition u16_at :: "bytes \<Rightarrow> nat \<Rightarrow> u16" where
  "u16_at v i = from_be_bytes [v ! i, v ! (i + 1)]"

definition u32_at :: "bytes \<Rightarrow> nat \<Rightarrow> u32" where
  "u32_at v i = from_be_bytes [v ! i, v ! (i + 1), v ! (i + 2), v ! (i + 3)]"

definition u64_at :: "bytes \<Rightarrow> nat \<Rightarrow> u64" where
  "u64_at v i = from_be_bytes [v ! i, v ! (i + 1), v ! (i + 2), v ! (i + 3),
                               v ! (i + 4), v ! (i + 5), v ! (i + 6), v ! (i + 7)]"

definition parse_node_id :: "bytes \<Rightarrow> pfcp_error + ipv4" where
  "parse_node_id v =
     (if length v < 5 then Inl (IeParseError PFCP_IE_NODE_ID TooShort)
      else if v ! 0 AND 0x0F \<noteq> 0
        then Inl (IeParseError PFCP_IE_NODE_ID (UnsupportedNodeType (v ! 0 AND 0x0F)))
      else Inr (ip_at v 1))"

definition parse_recovery_timestamp :: "bytes \<Rightarrow> pfcp_error + u32" where
  "parse_recovery_timestamp v =
     (if length v < 4 then Inl (IeParseError PFCP_IE_RECOVERY_TIME_STAMP TooShort)
      else Inr (u32_at v 0))"

definition parse_fseid :: "bytes \<Rightarrow> pfcp_error + u64 \<times> ipv4" where
  "parse_fseid v =
     (if length v < 13 then Inl (IeParseError PFCP_IE_FSEID TooShort)
      else Inr (u64_at v 1, ip_at v 9))"

definition parse_fteid :: "bytes \<Rightarrow> pfcp_error + u32 \<times> ipv4" where
  "parse_fteid v =
     (if length v < 5 then Inl (IeParseError PFCP_IE_FTEID TooShort)
      else if v ! 0 AND 0x04 \<noteq> 0 then Inr (0, UNSPECIFIED)
      else if length v \<ge> 9 then Inr (u32_at v 1, ip_at v 5)
      else Inl (IeParseError PFCP_IE_FTEID NoIpv4Address))"

definition parse_ue_ip_address :: "bytes \<Rightarrow> pfcp_error + ipv4" where
  "parse_ue_ip_address v =
     (if length v < 5 then Inl (IeParseError PFCP_IE_UE_IP_ADDRESS TooShort)
      else if v ! 0 AND 0x02 \<noteq> 0 then Inr (ip_at v 1)
      else Inl (IeParseError PFCP_IE_UE_IP_ADDRESS NoIpv4))"

definition parse_outer_header_creation :: "bytes \<Rightarrow> pfcp_error + outer_header_creation" where
  "parse_outer_header_creation v =
     (if length v < 10 then Inl (IeParseError PFCP_IE_OUTER_HEADER_CREATION TooShort)
      else Inr \<lparr>ohc_teid = u32_at v 2, ohc_peer_addr = ip_at v 6, ohc_port = 2152\<rparr>)"

definition parse_apply_action :: "bytes \<Rightarrow> pfcp_error + u8" where
  "parse_apply_action v =
     (if v = [] then Inl (IeParseError PFCP_IE_APPLY_ACTION EmptyValue) else Inr (v ! 0))"

definition parse_sdf_filter :: "bytes \<Rightarrow> pfcp_error + sdf_filter" where
  "parse_sdf_filter v =
     (if length v < 13 then Inl (IeParseError PFCP_IE_SDF_FILTER TooShort)
      else Inr \<lparr>sdf_proto = v ! 0, sdf_src_ip = ip_at v 1, sdf_dst_ip = ip_at v 5,
                sdf_src_port = u16_at v 9, sdf_dst_port = u16_at v 11\<rparr>)"

definition parse_volume_threshold :: "bytes \<Rightarrow> pfcp_error + u64 option" where
  "parse_volume_threshold v =
     (if v = [] then Inr None
      else if v ! 0 AND VOLUME_THRESHOLD_TOVOL \<noteq> 0
        then (if length v < 9 then Inl (BufferTooShort 9 (length v)) else Inr (Some (u64_at v 1)))
      else Inr None)"

section \<open>Grouped elements\<close>

definition pdi_step :: "raw_ie \<Rightarrow> parsed_pdr \<Rightarrow> pfcp_error + parsed_pdr" where
  "pdi_step ie pdr = (let v = ie_value ie; t = ie_type ie in
     if t = PFCP_IE_SOURCE_INTERFACE then
       Inr (if v \<noteq> [] then pdr\<lparr>pdr_source_interface := v ! 0 AND 0x0F\<rparr> else pdr)
     else if t = PFCP_IE_FTEID then
       map_sum id (\<lambda>x. pdr\<lparr>pdr_local_fteid := Some x\<rparr>) (parse_fteid v)
     else if t = PFCP_IE_UE_IP_ADDRESS then
       map_sum id (\<lambda>x. pdr\<lparr>pdr_ue_ip := Some x\<rparr>) (parse_ue_ip_address v)
     else if t = PFCP_IE_SDF_FILTER then
       map_sum id (\<lambda>x. pdr\<lparr>pdr_sdf_filter := Some x\<rparr>) (parse_sdf_filter v)
     else Inr pdr)"

definition parse_pdi :: "bytes \<Rightarrow> parsed_pdr \<Rightarrow> pfcp_error + parsed_pdr" where
  "parse_pdi v pdr = try_fold pdi_step (iter_ies v) pdr"

definition create_pdr_step :: "raw_ie \<Rightarrow> parsed_pdr \<Rightarrow> pfcp_error + parsed_pdr" where
  "create_pdr_step ie pdr = (let v = ie_value ie; t = ie_type ie in
     if t = PFCP_IE_PDR_ID then
       Inr (if length v \<ge> 2 then pdr\<lparr>pdr_id := u16_at v 0\<rparr> else pdr)
     else if t = PFCP_IE_PRECEDENCE then
       Inr (if length v \<ge> 4 then pdr\<lparr>pdr_precedence := u32_at v 0\<rparr> else pdr)
     else if t = PFCP_IE_PDI then parse_pdi v pdr
     else if t = PFCP_IE_FAR_ID then
       Inr (if length v \<ge> 4 then pdr\<lparr>pdr_far_id := Some (u32_at v 0)\<rparr> else pdr)
     else if t = PFCP_IE_URR_ID then
       Inr (if length v \<ge> 4 then pdr\<lparr>pdr_urr_id := Some (u32_at v 0)\<rparr> else pdr)
     else if t = PFCP_IE_OUTER_HEADER_REMOVAL then Inr (pdr\<lparr>pdr_outer_header_removal := True\<rparr>)
     else if t = PFCP_IE_SDF_FILTER then
       map_sum id (\<lambda>x. pdr\<lparr>pdr_sdf_filter := Some x\<rparr>) (parse_sdf_filter v)
     else Inr pdr)"

definition empty_pdr :: parsed_pdr where
  "empty_pdr = \<lparr>pdr_id = 0, pdr_precedence = 0, pdr_source_interface = 0, pdr_local_fteid = None,
     pdr_ue_ip = None, pdr_far_id = None, pdr_urr_id = None, pdr_outer_header_removal = False,
     pdr_sdf_filter = None\<rparr>"

definition parse_create_pdr :: "bytes \<Rightarrow> pfcp_error + parsed_pdr" where
  "parse_create_pdr v = try_fold create_pdr_step (iter_ies v) empty_pdr"

definition create_urr_step :: "raw_ie \<Rightarrow> parsed_urr \<Rightarrow> pfcp_error + parsed_urr" where
  "create_urr_step ie urr = (let v = ie_value ie; t = ie_type ie in
     if t = PFCP_IE_URR_ID then
       Inr (if length v \<ge> 4 then urr\<lparr>urr_id := u32_at v 0\<rparr> else urr)
     else if t = PFCP_IE_MEASUREMENT_METHOD then
       Inr (if v \<noteq> [] then urr\<lparr>urr_measurement_method := v ! 0\<rparr> else urr)
     else if t = PFCP_IE_REPORTING_TRIGGERS then
       Inr (if v \<noteq> [] then urr\<lparr>urr_reporting_triggers := v ! 0\<rparr> else urr)
     else if t = PFCP_IE_VOLUME_THRESHOLD then
       map_sum id (\<lambda>x. urr\<lparr>urr_volume_threshold_total := x\<rparr>) (parse_volume_threshold v)
     else if t = PFCP_IE_MEASUREMENT_PERIOD then
       Inr (if length v \<ge> 4 then urr\<lparr>urr_measurement_period := Some (u32_at v 0)\<rparr> else urr)
     else Inr urr)"

definition empty_urr :: parsed_urr where
  "empty_urr = \<lparr>urr_id = 0, urr_measurement_method = 0, urr_reporting_triggers = 0,
     urr_volume_threshold_total = None, urr_measurement_period = None\<rparr>"

definition parse_create_urr :: "bytes \<Rightarrow> pfcp_error + parsed_urr" where
  "parse_create_urr v = try_fold create_urr_step (iter_ies v) empty_urr"

definition fwd_step :: "raw_ie \<Rightarrow> parsed_far \<Rightarrow> pfcp_error + parsed_far" where
  "fwd_step ie far = (let v = ie_value ie; t = ie_type ie in
     if t = PFCP_IE_DESTINATION_INTERFACE then
       Inr (if v \<noteq> [] then far\<lparr>far_dest_interface := Some (v ! 0 AND 0x0F)\<rparr> else far)
     else if t = PFCP_IE_OUTER_HEADER_CREATION then
       map_sum id (\<lambda>x. far\<lparr>far_outer_header_creation := Some x\<rparr>) (parse_outer_header_creation v)
     else Inr far)"

definition parse_forwarding_params :: "bytes \<Rightarrow> parsed_far \<Rightarrow> pfcp_error + parsed_far" where
  "parse_forwarding_params v far = try_fold fwd_step (iter_ies v) far"

definition empty_far :: parsed_far where
  "empty_far = \<lparr>far_id = 0, far_apply_action = 0, far_dest_interface = None,
     far_outer_header_creation = None\<rparr>"

definition create_far_step :: "raw_ie \<Rightarrow> parsed_far \<Rightarrow> pfcp_error + parsed_far" where
  "create_far_step ie far = (let v = ie_value ie; t = ie_type ie in
     if t = PFCP_IE_FAR_ID then
       Inr (if length v \<ge> 4 then far\<lparr>far_id := u32_at v 0\<rparr> else far)
     else if t = PFCP_IE_APPLY_ACTION then
       map_sum id (\<lambda>x. far\<lparr>far_apply_action := x\<rparr>) (parse_apply_action v)
     else if t = PFCP_IE_FORWARDING_PARAMETERS then parse_forwarding_params v far
     else Inr far)"

definition parse_create_far :: "bytes \<Rightarrow> pfcp_error + parsed_far" where
  "parse_create_far v = try_fold create_far_step (iter_ies v) empty_far"

definition update_far_step :: "raw_ie \<Rightarrow> parsed_far \<Rightarrow> pfcp_error + parsed_far" where
  "update_far_step ie far = (let v = ie_value ie; t = ie_type ie in
     if t = PFCP_IE_FAR_ID then
       Inr (if length v \<ge> 4 then far\<lparr>far_id := u32_at v 0\<rparr> else far)
     else if t = PFCP_IE_APPLY_ACTION then
       map_sum id (\<lambda>x. far\<lparr>far_apply_action := x\<rparr>) (parse_apply_action v)
     else if t = PFCP_IE_UPDATE_FORWARDING_PARAMETERS then parse_forwarding_params v far
     else Inr far)"

definition parse_update_far :: "bytes \<Rightarrow> pfcp_error + parsed_far" where
  "parse_update_far v = try_fold update_far_step (iter_ies v) empty_far"

section \<open>What the iterator sees\<close>

text \<open>
  \<open>raw_bytes\<close> are the octets an element was read from; \<open>truncated\<close> says a buffer has no further
  complete element at its front.
\<close>

definition raw_bytes :: "raw_ie \<Rightarrow> bytes" where
  "raw_bytes ie = to_be_bytes (ie_type ie) @ to_be_bytes (ie_length ie) @ ie_value ie"

definition truncated :: "bytes \<Rightarrow> bool" where
  "truncated buf \<longleftrightarrow> length buf < 4 \<or> length buf < 4 + unat (tlv_length buf)"

lemma iter_ies_truncated [simp]: "truncated buf \<Longrightarrow> iter_ies buf = []"
  by (subst iter_ies.simps) (auto simp: truncated_def Let_def)

lemma iter_ies_step:
  "\<not> truncated buf \<Longrightarrow> iter_ies buf =
     (let len = unat (tlv_length buf); value = take len (drop 4 buf) in
      RawIE (tlv_type buf) (tlv_length buf) value
        (if is_grouped_ie (tlv_type buf) then iter_ies value else [])
      # iter_ies (drop (4 + len) buf))"
  by (subst iter_ies.simps) (auto simp: truncated_def Let_def)

lemma iter_ies_Nil [simp]: "iter_ies [] = []"
  by (simp add: truncated_def)

lemma take_4_nth: "4 \<le> length xs \<Longrightarrow> take 4 xs = [xs ! 0, xs ! 1, xs ! 2, xs ! 3]"
  by (auto simp: Suc_le_length_iff numeral_eq_Suc)

lemma split_tlv:
  assumes "\<not> truncated buf"
  shows "buf = to_be_bytes (tlv_type buf) @ to_be_bytes (tlv_length buf)
           @ take (unat (tlv_length buf)) (drop 4 buf) @ drop (4 + unat (tlv_length buf)) buf"
proof -
  have "to_be_bytes (tlv_type buf) @ to_be_bytes (tlv_length buf) = take 4 buf"
    using assms by (simp add: truncated_def tlv_type_def tlv_length_def take_4_nth)
  moreover have "take (unat (tlv_length buf)) (drop 4 buf) @ drop (4 + unat (tlv_length buf)) buf = drop 4 buf"
    by (metis append_take_drop_id drop_drop add.commute)
  ultimately show ?thesis by (metis append.assoc append_take_drop_id)
qed

lemma iter_ies_rest:
  "\<exists>rest. buf = concat (map raw_bytes (iter_ies buf)) @ rest \<and> truncated rest"
proof (induction buf rule: iter_ies.induct)
  case (1 buf)
  show ?case
  proof (cases "truncated buf")
    case True
    then show ?thesis by simp
  next
    case False
    let ?next = "drop (4 + unat (tlv_length buf)) buf"
    from False "1.IH"(2) obtain rest where
      r: "?next = concat (map raw_bytes (iter_ies ?next)) @ rest" "truncated rest"
      by (auto simp: truncated_def)
    have "buf = concat (map raw_bytes (iter_ies buf)) @ rest"
      using split_tlv [OF False] r(1) by (simp add: iter_ies_step [OF False] raw_bytes_def Let_def)
    with r(2) show ?thesis by blast
  qed
qed

lemma iter_ies_elements:
  "ie \<in> set (iter_ies buf) \<Longrightarrow> unat (ie_length ie) = length (ie_value ie)
     \<and> sub_ie ie = (if is_grouped_ie (ie_type ie) then iter_ies (ie_value ie) else [])"
proof (induction buf rule: iter_ies.induct)
  case (1 buf)
  show ?case
  proof (cases "truncated buf")
    case True
    with "1.prems" show ?thesis by simp
  next
    case False
    let ?next = "drop (4 + unat (tlv_length buf)) buf"
    from "1.prems" False consider "ie \<in> set (iter_ies ?next)"
      | "ie = RawIE (tlv_type buf) (tlv_length buf) (take (unat (tlv_length buf)) (drop 4 buf))
           (if is_grouped_ie (tlv_type buf) then iter_ies (take (unat (tlv_length buf)) (drop 4 buf)) else [])"
      by (auto simp: iter_ies_step Let_def)
    then show ?thesis
    proof cases
      case 1
      with False "1.IH"(2) show ?thesis by (auto simp: truncated_def)
    next
      case 2
      with False show ?thesis by (auto simp: truncated_def)
    qed
  qed
qed

text \<open>
  C19: The TLV iterator partitions every buffer: the elements it yields, written
  back to back, are a prefix of the buffer, what is left over holds no further complete element
  (fewer than four octets, or a declared length that runs past the end), every element carries
  exactly as many octets as its length field declares, and a grouped element carries the elements
  of its own value.
\<close>

theorem iter_ies_partition:
  "\<exists>rest. buf = concat (map raw_bytes (iter_ies buf)) @ rest \<and> truncated rest
     \<and> (\<forall>ie. ie \<in> set (iter_ies buf) \<longrightarrow> unat (ie_length ie) = length (ie_value ie)
          \<and> sub_ie ie = (if is_grouped_ie (ie_type ie) then iter_ies (ie_value ie) else []))"
  using iter_ies_rest [of buf] iter_ies_elements [of _ buf] by blast

theorem iter_ies_partition_witness:
  "iter_ies [0x00, 0x38, 0x00, 0x02, 0x00, 0x01, 0x00, 0x60] = [RawIE PFCP_IE_PDR_ID 2 [0, 1] []]
   \<and> (\<exists>rest. [0x00, 0x38, 0x00, 0x02, 0x00, 0x01, 0x00, 0x60]
        = concat (map raw_bytes (iter_ies [0x00, 0x38, 0x00, 0x02, 0x00, 0x01, 0x00, 0x60])) @ rest)"
proof -
  have "iter_ies [0x00, 0x38, 0x00, 0x02, 0x00, 0x01, 0x00, 0x60] = [RawIE PFCP_IE_PDR_ID 2 [0, 1] []]"
    by (simp add: iter_ies.simps tlv_length_def tlv_type_def from_be_bytes_def is_grouped_ie_def Let_def)
  then show ?thesis
    using iter_ies_partition [of "[0x00, 0x38, 0x00, 0x02, 0x00, 0x01, 0x00, 0x60]"] by blast
qed

end
