(* ===== verification/Pfcp_Builder.thy ===== *)
theory Pfcp_Builder
  imports Pfcp_Ie
begin

text \<open>
  Message construction, \<^verbatim>\<open>pfcp-common/src/builder.rs\<close>: \<^verbatim>\<open>MsgBuilder\<close> with one definition per
  \<^verbatim>\<open>add_*\<close> method, the parameter structures, and the complete messages \<^verbatim>\<open>build_*\<close>.
  The locale \<open>ie_codec\<close> states the contract between an element's builder and its parser; its
  interpretations show that every element this crate can build is read back by the parser the
  peer runs on it.
\<close>

section \<open>The builder\<close>

record msg_builder =
  mb_buf :: bytes

definition mb_new :: "pfcp_header \<Rightarrow> msg_builder" where
  "mb_new hdr = \<lparr>mb_buf = pfcp_header_encode hdr\<rparr>"

definition mb_finish :: "msg_builder \<Rightarrow> bytes" where
  "mb_finish mb = (let len = of_nat (length (mb_buf mb) - 4) :: u16
     in (mb_buf mb)[2 := to_be_bytes len ! 0, 3 := to_be_bytes len ! 1])"

definition append_ie :: "bytes \<Rightarrow> u16 \<Rightarrow> bytes \<Rightarrow> bytes" where
  "append_ie buf t v = buf @ to_be_bytes t @ to_be_bytes (of_nat (length v) :: u16) @ v"

definition add_ie :: "u16 \<Rightarrow> bytes \<Rightarrow> msg_builder \<Rightarrow> msg_builder" where
  "add_ie t v mb = mb\<lparr>mb_buf := mb_buf mb @ to_be_bytes t @ to_be_bytes (of_nat (length v) :: u16) @ v\<rparr>"

definition node_id_value :: "ipv4 \<Rightarrow> bytes" where
  "node_id_value addr = [0x00] @ octets addr"

definition add_node_id_v4 :: "ipv4 \<Rightarrow> msg_builder \<Rightarrow> msg_builder" where
  "add_node_id_v4 addr = add_ie PFCP_IE_NODE_ID (node_id_value addr)"

definition add_cause :: "u8 \<Rightarrow> msg_builder \<Rightarrow> msg_builder" where
  "add_cause cause = add_ie PFCP_IE_CAUSE [cause]"

definition add_recovery_timestamp :: "u32 \<Rightarrow> msg_builder \<Rightarrow> msg_builder" where
  "add_recovery_timestamp ts = add_ie PFCP_IE_RECOVERY_TIME_STAMP (to_be_bytes ts)"

definition fseid_value :: "u64 \<times> ipv4 \<Rightarrow> bytes" where
  "fseid_value = (\<lambda>(sd, addr). [0x02] @ to_be_bytes sd @ octets addr)"

definition add_fseid :: "u64 \<Rightarrow> ipv4 \<Rightarrow> msg_builder \<Rightarrow> msg_builder" where
  "add_fseid sd addr = add_ie PFCP_IE_FSEID (fseid_value (sd, addr))"

definition add_up_function_features :: "msg_builder \<Rightarrow> msg_builder" where
  "add_up_function_features = add_ie PFCP_IE_UP_FUNCTION_FEATURES [0x04, 0x00]"

definition fteid_value :: "u32 \<times> ipv4 \<Rightarrow> bytes" where
  "fteid_value = (\<lambda>(teid, addr). [0x02] @ to_be_bytes teid @ octets addr)"

definition created_pdr_value :: "u16 \<Rightarrow> u32 \<Rightarrow> ipv4 \<Rightarrow> bytes" where
  "created_pdr_value pid teid addr =
     append_ie (append_ie [] PFCP_IE_PDR_ID (to_be_bytes pid)) PFCP_IE_FTEID (fteid_value (teid, addr))"

definition add_created_pdr :: "u16 \<Rightarrow> u32 \<Rightarrow> ipv4 \<Rightarrow> msg_builder \<Rightarrow> msg_builder" where
  "add_created_pdr pid teid addr = add_ie PFCP_IE_CREATED_PDR (created_pdr_value pid teid addr)"

section \<open>Grouped elements of requests\<close>

record pdr_params =
  pp_pdr_id :: u16
  pp_precedence :: u32
  pp_source_interface :: u8
  pp_fteid_choose :: bool
  pp_ue_ip :: "ipv4 option"
  pp_far_id :: u32
  pp_urr_id :: "u32 option"
  pp_outer_header_removal :: bool
  pp_sdf_filter :: "sdf_filter option"

record far_params =
  fp_far_id :: u32
  fp_apply_action :: u8
  fp_dest_interface :: u8
  fp_outer_header_creation :: "outer_header_creation option"

record urr_params =
  up_urr_id :: u32
  up_measurement_method :: u8
  up_reporting_triggers :: u8
  up_volume_threshold_total :: "u64 option"
  up_measurement_period :: "u32 option"

definition ue_ip_value :: "ipv4 \<Rightarrow> bytes" where
  "ue_ip_value ip = [0x02] @ octets ip"

definition sdf_value :: "sdf_filter \<Rightarrow> bytes" where
  "sdf_value sdf = [sdf_proto sdf] @ octets (sdf_src_ip sdf) @ octets (sdf_dst_ip sdf)
     @ to_be_bytes (sdf_src_port sdf) @ to_be_bytes (sdf_dst_port sdf)"

definition pdi_value :: "pdr_params \<Rightarrow> bytes" where
  "pdi_value p =
     (let pdi = append_ie [] PFCP_IE_SOURCE_INTERFACE [pp_source_interface p];
          pdi = (if pp_fteid_choose p then append_ie pdi PFCP_IE_FTEID [0x04, 0, 0, 0, 0] else pdi);
          pdi = (case pp_ue_ip p of Some ip \<Rightarrow> append_ie pdi PFCP_IE_UE_IP_ADDRESS (ue_ip_value ip)
                 | None \<Rightarrow> pdi)
      in (case pp_sdf_filter p of Some sdf \<Rightarrow> append_ie pdi PFCP_IE_SDF_FILTER (sdf_value sdf)
          | None \<Rightarrow> pdi))"

definition create_pdr_value :: "pdr_params \<Rightarrow> bytes" where
  "create_pdr_value p =
     (let inner = append_ie [] PFCP_IE_PDR_ID (to_be_bytes (pp_pdr_id p));
          inner = append_ie inner PFCP_IE_PRECEDENCE (to_be_bytes (pp_precedence p));
          inner = append_ie inner PFCP_IE_PDI (pdi_value p);
          inner = append_ie inner PFCP_IE_FAR_ID (to_be_bytes (pp_far_id p));
          inner = (case pp_urr_id p of Some u \<Rightarrow> append_ie inner PFCP_IE_URR_ID (to_be_bytes u)
                   | None \<Rightarrow> inner)
      in (if pp_outer_header_removal p then append_ie inner PFCP_IE_OUTER_HEADER_REMOVAL [0] else inner))"

definition add_create_pdr :: "pdr_params \<Rightarrow> msg_builder \<Rightarrow> msg_builder" where
  "add_create_pdr p = add_ie PFCP_IE_CREATE_PDR (create_pdr_value p)"

definition urr_value :: "urr_params \<Rightarrow> bytes" where
  "urr_value u =
     (let inner = append_ie [] PFCP_IE_URR_ID (to_be_bytes (up_urr_id u));
          inner = append_ie inner PFCP_IE_MEASUREMENT_METHOD [up_measurement_method u];
          inner = append_ie inner PFCP_IE_REPORTING_TRIGGERS [up_reporting_triggers u, 0x00];
          inner = (case up_volume_threshold_total u of
                     Some tot \<Rightarrow> append_ie inner PFCP_IE_VOLUME_THRESHOLD
                       ([VOLUME_THRESHOLD_TOVOL] @ to_be_bytes tot)
                   | None \<Rightarrow> inner)
      in (case up_measurement_period u of
            Some period \<Rightarrow> append_ie inner PFCP_IE_MEASUREMENT_PERIOD (to_be_bytes period)
          | None \<Rightarrow> inner))"

definition add_update_urr :: "urr_params \<Rightarrow> msg_builder \<Rightarrow> msg_builder" where
  "add_update_urr u = add_ie PFCP_IE_UPDATE_URR (urr_value u)"

definition add_create_urr :: "urr_params \<Rightarrow> msg_builder \<Rightarrow> msg_builder" where
  "add_create_urr u = add_ie PFCP_IE_CREATE_URR (urr_value u)"

definition ohc_value :: "outer_header_creation \<Rightarrow> bytes" where
  "ohc_value ohc = [0x01, 0x00] @ to_be_bytes (ohc_teid ohc) @ octets (ohc_peer_addr ohc)"

definition fwd_value :: "far_params \<Rightarrow> bytes" where
  "fwd_value f =
     (let fwd = append_ie [] PFCP_IE_DESTINATION_INTERFACE [fp_dest_interface f]
      in (case fp_outer_header_creation f of
            Some ohc \<Rightarrow> append_ie fwd PFCP_IE_OUTER_HEADER_CREATION (ohc_value ohc)
          | None \<Rightarrow> fwd))"

definition create_far_value :: "far_params \<Rightarrow> bytes" where
  "create_far_value f =
     append_ie (append_ie (append_ie [] PFCP_IE_FAR_ID (to_be_bytes (fp_far_id f)))
                  PFCP_IE_APPLY_ACTION [fp_apply_action f])
       PFCP_IE_FORWARDING_PARAMETERS (fwd_value f)"

definition add_create_far :: "far_params \<Rightarrow> msg_builder \<Rightarrow> msg_builder" where
  "add_create_far f = add_ie PFCP_IE_CREATE_FAR (create_far_value f)"

definition update_far_value :: "far_params \<Rightarrow> bytes" where
  "update_far_value f =
     append_ie (append_ie (append_ie [] PFCP_IE_FAR_ID (to_be_bytes (fp_far_id f)))
                  PFCP_IE_APPLY_ACTION [fp_apply_action f])
       PFCP_IE_UPDATE_FORWARDING_PARAMETERS (fwd_value f)"

definition add_update_far :: "far_params \<Rightarrow> msg_builder \<Rightarrow> msg_builder" where
  "add_update_far f = add_ie PFCP_IE_UPDATE_FAR (update_far_value f)"

section \<open>Complete messages\<close>

definition build_heartbeat_response :: "u32 \<Rightarrow> u32 \<Rightarrow> bytes" where
  "build_heartbeat_response seq recovery_ts =
     mb_finish (add_recovery_timestamp recovery_ts (mb_new (new_node_msg PFCP_HEARTBEAT_RSP seq)))"

definition build_association_setup_response :: "u32 \<Rightarrow> ipv4 \<Rightarrow> u32 \<Rightarrow> bytes" where
  "build_association_setup_response seq our_addr recovery_ts =
     (let msg = mb_new (new_node_msg PFCP_ASSOCIATION_SETUP_RSP seq);
          msg = add_node_id_v4 our_addr msg;
          msg = add_cause CAUSE_REQUEST_ACCEPTED msg;
          msg = add_recovery_timestamp recovery_ts msg;
          msg = add_up_function_features msg
      in mb_finish msg)"

definition build_session_establishment_request ::
  "u32 \<Rightarrow> ipv4 \<Rightarrow> u64 \<Rightarrow> ipv4 \<Rightarrow> ipv4 \<Rightarrow> u32 \<Rightarrow> bytes" where
  "build_session_establishment_request seq smf_addr cp_seid ue_ip gnb_addr gnb_teid =
     (let msg = mb_new (new_session_msg PFCP_SESSION_ESTABLISHMENT_REQ 0 seq);
          msg = add_node_id_v4 smf_addr msg;
          msg = add_fseid cp_seid smf_addr msg;
          msg = add_create_pdr \<lparr>pp_pdr_id = 1, pp_precedence = 100,
                  pp_source_interface = INTERFACE_ACCESS, pp_fteid_choose = True, pp_ue_ip = Some ue_ip,
                  pp_far_id = 1, pp_urr_id = None, pp_outer_header_removal = True,
                  pp_sdf_filter = None\<rparr> msg;
          msg = add_create_pdr \<lparr>pp_pdr_id = 2, pp_precedence = 100,
                  pp_source_interface = INTERFACE_CORE, pp_fteid_choose = False, pp_ue_ip = Some ue_ip,
                  pp_far_id = 2, pp_urr_id = None, pp_outer_header_removal = False,
                  pp_sdf_filter = None\<rparr> msg;
          msg = add_create_far \<lparr>fp_far_id = 1, fp_apply_action = ACTION_FORW,
                  fp_dest_interface = INTERFACE_CORE, fp_outer_header_creation = None\<rparr> msg;
          msg = add_create_far \<lparr>fp_far_id = 2, fp_apply_action = ACTION_FORW,
                  fp_dest_interface = INTERFACE_ACCESS, fp_outer_header_creation =
                    Some \<lparr>ohc_teid = gnb_teid, ohc_peer_addr = gnb_addr, ohc_port = 2152\<rparr>\<rparr> msg
      in mb_finish msg)"

fun add_created_pdrs :: "(u16 \<times> u32 \<times> ipv4) list \<Rightarrow> msg_builder \<Rightarrow> msg_builder" where
  "add_created_pdrs [] mb = mb"
| "add_created_pdrs ((pid, teid, addr) # rest) mb = add_created_pdrs rest (add_created_pdr pid teid addr mb)"

definition build_session_establishment_response ::
  "u32 \<Rightarrow> u64 \<Rightarrow> u64 \<Rightarrow> ipv4 \<Rightarrow> (u16 \<times> u32 \<times> ipv4) list \<Rightarrow> bytes" where
  "build_session_establishment_response seq cp_seid our_seid our_addr created_pdrs =
     (let msg = mb_new (new_session_msg PFCP_SESSION_ESTABLISHMENT_RSP cp_seid seq);
          msg = add_node_id_v4 our_addr msg;
          msg = add_cause CAUSE_REQUEST_ACCEPTED msg;
          msg = add_fseid our_seid our_addr msg;
          msg = add_created_pdrs created_pdrs msg
      in mb_finish msg)"

definition build_session_modification_response :: "u32 \<Rightarrow> u64 \<Rightarrow> bytes" where
  "build_session_modification_response seq sd =
     mb_finish (add_cause CAUSE_REQUEST_ACCEPTED
       (mb_new (new_session_msg PFCP_SESSION_MODIFICATION_RSP sd seq)))"

definition build_session_deletion_response :: "u32 \<Rightarrow> u64 \<Rightarrow> bytes" where
  "build_session_deletion_response seq sd =
     mb_finish (add_cause CAUSE_REQUEST_ACCEPTED
       (mb_new (new_session_msg PFCP_SESSION_DELETION_RSP sd seq)))"

definition usage_report_value :: "u32 \<Rightarrow> u32 \<Rightarrow> u8 \<Rightarrow> u64 \<Rightarrow> u64 \<Rightarrow> u64 \<Rightarrow> bytes" where
  "usage_report_value urr ur_seqn trigger tot ul dl =
     (let ur = append_ie [] PFCP_IE_URR_ID (to_be_bytes urr);
          ur = append_ie ur PFCP_IE_UR_SEQN (to_be_bytes ur_seqn);
          ur = append_ie ur PFCP_IE_USAGE_REPORT_TRIGGER [trigger, 0x00];
          vm = [VOLUME_MEASUREMENT_TOVOL OR VOLUME_MEASUREMENT_ULVOL OR VOLUME_MEASUREMENT_DLVOL]
               @ to_be_bytes tot @ to_be_bytes ul @ to_be_bytes dl
      in append_ie ur PFCP_IE_VOLUME_MEASUREMENT vm)"

definition build_session_report_request ::
  "u32 \<Rightarrow> u64 \<Rightarrow> u32 \<Rightarrow> u32 \<Rightarrow> u8 \<Rightarrow> u64 \<Rightarrow> u64 \<Rightarrow> u64 \<Rightarrow> bytes" where
  "build_session_report_request seq cp_seid urr ur_seqn trigger tot ul dl =
     (let msg = mb_new (new_session_msg PFCP_SESSION_REPORT_REQ cp_seid seq);
          msg = add_ie PFCP_IE_REPORT_TYPE [REPORT_TYPE_USAR] msg;
          msg = add_ie PFCP_IE_USAGE_REPORT_IN_SESS_RPT_REQ
                  (usage_report_value urr ur_seqn trigger tot ul dl) msg
      in mb_finish msg)"

definition build_session_report_response :: "u32 \<Rightarrow> u64 \<Rightarrow> bytes" where
  "build_session_report_response seq sd =
     mb_finish (add_cause CAUSE_REQUEST_ACCEPTED
       (mb_new (new_session_msg PFCP_SESSION_REPORT_RSP sd seq)))"

section \<open>Building and iterating\<close>

definition tlv :: "u16 \<Rightarrow> bytes \<Rightarrow> bytes" where
  "tlv t v = to_be_bytes t @ to_be_bytes (of_nat (length v) :: u16) @ v"

definition raw_of :: "u16 \<Rightarrow> bytes \<Rightarrow> raw_ie" where
  "raw_of t v = RawIE t (of_nat (length v)) v (if is_grouped_ie t then iter_ies v else [])"

lemma raw_of_sel [simp]: "ie_type (raw_of t v) = t" "ie_value (raw_of t v) = v"
  by (simp_all add: raw_of_def)

lemma append_ie_tlv: "append_ie buf t v = buf @ tlv t v"
  by (simp add: append_ie_def tlv_def)

lemma length_tlv [simp]: "length (tlv t v) = 4 + length v"
  by (simp add: tlv_def)

lemma drop_4_tlv [simp]: "drop 4 (tlv t v) = v"
  by (simp add: tlv_def wire)

lemma mb_buf_add_ie [simp]: "mb_buf (add_ie t v mb) = mb_buf mb @ tlv t v"
  by (simp add: add_ie_def tlv_def)

lemma mb_buf_new [simp]: "mb_buf (mb_new h) = pfcp_header_encode h"
  by (simp add: mb_new_def)

lemma mb_buf_add_created_pdrs [simp]:
  "mb_buf (add_created_pdrs cs mb) =
     mb_buf mb @ concat (map (\<lambda>(pid, teid, addr). tlv PFCP_IE_CREATED_PDR (created_pdr_value pid teid addr)) cs)"
  by (induction cs mb rule: add_created_pdrs.induct) (auto simp: add_created_pdr_def)

lemma unat_of_nat_u16: "n < 65536 \<Longrightarrow> unat (of_nat n :: u16) = n"
  by (simp add: unat_of_nat)

lemma iter_ies_tlv [simp]:
  assumes "length v < 65536"
  shows "iter_ies (tlv t v @ rest) = raw_of t v # iter_ies rest"
proof -
  let ?b = "tlv t v @ rest"
  have ty: "tlv_type ?b = t" and le: "tlv_length ?b = of_nat (length v)"
    by (simp_all add: tlv_type_def tlv_length_def tlv_def wire)
  have nt: "\<not> truncated ?b" using assms by (simp add: truncated_def le unat_of_nat_u16)
  have v: "take (length v) (drop 4 ?b) = v"
    by (simp add: tlv_def wire)
  have r: "drop (4 + length v) ?b = rest"
    by (metis append_eq_conv_conj length_tlv)
  show ?thesis
    unfolding iter_ies_step [OF nt] by (simp add: ty le unat_of_nat_u16 [OF assms] v r Let_def raw_of_def)
qed

lemma iter_ies_single [simp]:
  "length v < 65536 \<Longrightarrow> iter_ies (tlv t v) = [raw_of t v]"
  using iter_ies_tlv [of v t "[]"] by simp

lemma iter_ies_concat_tlv:
  assumes "\<forall>x \<in> set ies. length (snd x) < 65536"
  shows "iter_ies (concat (map (\<lambda>(t, v). tlv t v) ies) @ rest) =
     map (\<lambda>(t, v). raw_of t v) ies @ iter_ies rest"
  using assms by (induction ies) auto

lemma wf_node_msg: "unat seq < 2 ^ 24 \<Longrightarrow> wf_header (new_node_msg mt seq)"
  and wf_session_msg: "unat seq < 2 ^ 24 \<Longrightarrow> wf_header (new_session_msg mt sd seq)"
  by (simp_all add: wf_header_def new_node_msg_def new_session_msg_def)

lemma encode_set_length:
  "(pfcp_header_encode h @ body)[2 := to_be_bytes len ! 0, 3 := to_be_bytes len ! 1]
     = pfcp_header_encode (h\<lparr>hdr_length := len\<rparr>) @ body"
  by (simp add: pfcp_header_encode_def header_flags_def wire)

lemma finish_split:
  assumes "mb_buf mb = pfcp_header_encode h @ body"
  shows "mb_finish mb = pfcp_header_encode (h\<lparr>hdr_length := of_nat (header_len h + length body - 4)\<rparr>) @ body"
  unfolding mb_finish_def assms Let_def length_append length_pfcp_header_encode
  by (rule encode_set_length)

lemma decode_finish:
  assumes "wf_header h" and "mb_buf mb = pfcp_header_encode h @ body"
  shows "pfcp_header_decode (mb_finish mb) =
     Inr (h\<lparr>hdr_length := of_nat (header_len h + length body - 4)\<rparr>, body)"
  unfolding finish_split [OF assms(2)]
  by (rule decode_encode) (use assms(1) in \<open>simp add: wf_header_def\<close>)

lemma node_message:
  assumes "unat sq < 2 ^ 24" "mb_buf mb = pfcp_header_encode (new_node_msg mt sq) @ body"
  shows "\<exists>h. pfcp_header_decode (mb_finish mb) = Inr (h, body) \<and> msg_type h = mt \<and> seq_num h = sq \<and> seid h = None"
  using decode_finish [OF wf_node_msg [OF assms(1)] assms(2)] by (simp add: new_node_msg_def)

lemma session_message:
  assumes "unat sq < 2 ^ 24" "mb_buf mb = pfcp_header_encode (new_session_msg mt sd sq) @ body"
  shows "\<exists>h. pfcp_header_decode (mb_finish mb) = Inr (h, body) \<and> msg_type h = mt \<and> seq_num h = sq \<and> seid h = Some sd"
  using decode_finish [OF wf_session_msg [OF assms(1)] assms(2)] by (simp add: new_session_msg_def)

section \<open>The contract between builders and parsers\<close>

text \<open>
  An element codec: \<open>enc\<close> is the value a builder writes for parameters \<open>p\<close>, \<open>dec\<close> the parser of the
  receiving side, \<open>view p\<close> what the parser is expected to deliver, and \<open>ok p\<close> the parameters the
  element can carry. Consequences: a message body made of any number of such elements is
  iterated and parsed back in order, whatever follows it.
\<close>

locale ie_codec =
  fixes t :: u16
    and enc :: "'p \<Rightarrow> bytes"
    and dec :: "bytes \<Rightarrow> pfcp_error + 'a"
    and view :: "'p \<Rightarrow> 'a"
    and ok :: "'p \<Rightarrow> bool"
  assumes dec_enc: "ok p \<Longrightarrow> dec (enc p) = Inr (view p)"
    and enc_short: "length (enc p) < 65536"
begin

lemma iter_enc: "iter_ies (tlv t (enc p) @ rest) = raw_of t (enc p) # iter_ies rest"
  by (simp add: enc_short)

lemma iter_all:
  "iter_ies (concat (map (\<lambda>p. tlv t (enc p)) ps) @ rest) = map (\<lambda>p. raw_of t (enc p)) ps @ iter_ies rest"
  by (induction ps) (auto simp: iter_enc)

lemma filter_all: "filter (\<lambda>ie. ie_type ie = t) (map (\<lambda>p. raw_of t (enc p)) ps) = map (\<lambda>p. raw_of t (enc p)) ps"
  by (induction ps) auto

lemma filter_none: "t' \<noteq> t \<Longrightarrow> filter (\<lambda>ie. ie_type ie = t') (map (\<lambda>p. raw_of t (enc p)) ps) = []"
  by (induction ps) auto

lemma find_none: "t' \<noteq> t \<Longrightarrow> find (\<lambda>ie. ie_type ie = t') (map (\<lambda>p. raw_of t (enc p)) ps) = None"
  by (induction ps) auto

lemma collect_all:
  assumes "\<forall>p \<in> set ps. ok p"
  shows "collect_results (map (\<lambda>ie. dec (ie_value ie)) (map (\<lambda>p. raw_of t (enc p)) ps)) = Inr (map view ps)"
  using assms by (induction ps) (auto simp: dec_enc)

end

lemmas at_defs = ip_at_def u16_at_def u32_at_def u64_at_def

interpretation node_id: ie_codec PFCP_IE_NODE_ID node_id_value parse_node_id "\<lambda>a. a" "\<lambda>_. True"
proof
  fix p show "parse_node_id (node_id_value p) = Inr p" and "length (node_id_value p) < 65536"
    by (cases p; simp add: parse_node_id_def node_id_value_def at_defs)+
qed

interpretation recovery_ts: ie_codec PFCP_IE_RECOVERY_TIME_STAMP to_be_bytes parse_recovery_timestamp
  "\<lambda>a. a" "\<lambda>_. True"
  by unfold_locales (simp_all add: parse_recovery_timestamp_def at_defs wire)

interpretation fseid: ie_codec PFCP_IE_FSEID fseid_value parse_fseid "\<lambda>a. a" "\<lambda>_. True"
proof
  fix p show "parse_fseid (fseid_value p) = Inr p" and "length (fseid_value p) < 65536"
    by (cases p; cases "snd p"; simp add: parse_fseid_def fseid_value_def at_defs wire)+
qed

interpretation fteid: ie_codec PFCP_IE_FTEID fteid_value parse_fteid "\<lambda>a. a" "\<lambda>_. True"
proof
  fix p show "parse_fteid (fteid_value p) = Inr p" and "length (fteid_value p) < 65536"
    by (cases p; cases "snd p"; simp add: parse_fteid_def fteid_value_def at_defs wire)+
qed

interpretation ue_ip: ie_codec PFCP_IE_UE_IP_ADDRESS ue_ip_value parse_ue_ip_address "\<lambda>a. a" "\<lambda>_. True"
proof
  fix p show "parse_ue_ip_address (ue_ip_value p) = Inr p" and "length (ue_ip_value p) < 65536"
    by (cases p; simp add: parse_ue_ip_address_def ue_ip_value_def at_defs)+
qed

interpretation sdf: ie_codec PFCP_IE_SDF_FILTER sdf_value parse_sdf_filter "\<lambda>a. a" "\<lambda>_. True"
proof
  fix p :: sdf_filter
  show "parse_sdf_filter (sdf_value p) = Inr p" and "length (sdf_value p) < 65536"
    by (cases "sdf_src_ip p"; cases "sdf_dst_ip p"; simp add: parse_sdf_filter_def sdf_value_def at_defs wire)+
qed

text \<open>The port of an outer header creation is not on the wire: the parser always delivers 2152.\<close>

interpretation ohc: ie_codec PFCP_IE_OUTER_HEADER_CREATION ohc_value parse_outer_header_creation
  "\<lambda>c. c\<lparr>ohc_port := 2152\<rparr>" "\<lambda>_. True"
proof
  fix p :: outer_header_creation
  show "parse_outer_header_creation (ohc_value p) = Inr (p\<lparr>ohc_port := 2152\<rparr>)" and "length (ohc_value p) < 65536"
    by (cases "ohc_peer_addr p"; simp add: parse_outer_header_creation_def ohc_value_def at_defs wire)+
qed

subsection \<open>Grouped codecs\<close>

lemma length_values [simp]:
  "length (ue_ip_value ip) = 5" "length (sdf_value f) = 13" "length (ohc_value c) = 10"
  "length (fseid_value x) = 13" "length (fteid_value y) = 9" "length (node_id_value ip) = 5"
  by (simp_all add: ue_ip_value_def sdf_value_def ohc_value_def fseid_value_def fteid_value_def
      node_id_value_def split: prod.splits)

lemma length_pdi_value: "length (pdi_value p) \<le> 40"
  by (simp add: pdi_value_def append_ie_tlv Let_def split: option.splits)

lemma length_fwd_value: "length (fwd_value f) \<le> 19"
  by (simp add: fwd_value_def append_ie_tlv Let_def split: option.splits)

lemma length_pdi_short [simp]: "length (pdi_value p) < 65536"
  using length_pdi_value [of p] by simp

lemma length_fwd_short [simp]: "length (fwd_value f) < 65536"
  using length_fwd_value [of f] by simp

definition parsed_of_pdr_params :: "pdr_params \<Rightarrow> parsed_pdr" where
  "parsed_of_pdr_params p = \<lparr>pdr_id = pp_pdr_id p, pdr_precedence = pp_precedence p,
     pdr_source_interface = pp_source_interface p,
     pdr_local_fteid = (if pp_fteid_choose p then Some (0, UNSPECIFIED) else None),
     pdr_ue_ip = pp_ue_ip p, pdr_far_id = Some (pp_far_id p), pdr_urr_id = pp_urr_id p,
     pdr_outer_header_removal = pp_outer_header_removal p, pdr_sdf_filter = pp_sdf_filter p\<rparr>"

definition parsed_of_far_params :: "far_params \<Rightarrow> parsed_far" where
  "parsed_of_far_params f = \<lparr>far_id = fp_far_id f, far_apply_action = fp_apply_action f,
     far_dest_interface = Some (fp_dest_interface f),
     far_outer_header_creation = map_option (\<lambda>c. c\<lparr>ohc_port := 2152\<rparr>) (fp_outer_header_creation f)\<rparr>"

definition parsed_of_urr_params :: "urr_params \<Rightarrow> parsed_urr" where
  "parsed_of_urr_params u = \<lparr>urr_id = up_urr_id u, urr_measurement_method = up_measurement_method u,
     urr_reporting_triggers = up_reporting_triggers u,
     urr_volume_threshold_total = up_volume_threshold_total u,
     urr_measurement_period = up_measurement_period u\<rparr>"

text \<open>Interface numbers are four bits wide on the wire.\<close>

definition nibble :: "u8 \<Rightarrow> bool" where
  "nibble x \<longleftrightarrow> x AND 0x0F = x"

lemma parse_fteid_choose: "parse_fteid [4, 0, 0, 0, 0] = Inr (0, UNSPECIFIED)"
  by (simp add: parse_fteid_def)

lemma parse_pdi_value:
  assumes "nibble (pp_source_interface p)"
  shows "parse_pdi (pdi_value p) pdr = Inr (pdr\<lparr>pdr_source_interface := pp_source_interface p,
     pdr_local_fteid := (if pp_fteid_choose p then Some (0, UNSPECIFIED) else pdr_local_fteid pdr),
     pdr_ue_ip := (case pp_ue_ip p of Some ip \<Rightarrow> Some ip | None \<Rightarrow> pdr_ue_ip pdr),
     pdr_sdf_filter := (case pp_sdf_filter p of Some f \<Rightarrow> Some f | None \<Rightarrow> pdr_sdf_filter pdr)\<rparr>)"
  using assms
  by (simp add: parse_pdi_def pdi_value_def append_ie_tlv Let_def pdi_step_def nibble_def
      parse_fteid_choose ue_ip.dec_enc sdf.dec_enc split: option.splits)

lemma parse_create_pdr_value:
  assumes "nibble (pp_source_interface p)"
  shows "parse_create_pdr (create_pdr_value p) = Inr (parsed_of_pdr_params p)"
  using assms
  by (simp add: parse_create_pdr_def create_pdr_value_def append_ie_tlv Let_def create_pdr_step_def
      parse_pdi_value empty_pdr_def parsed_of_pdr_params_def at_defs wire split: option.splits)

lemma parse_forwarding_params_value:
  assumes "nibble (fp_dest_interface f)"
  shows "parse_forwarding_params (fwd_value f) far = Inr (far\<lparr>far_dest_interface := Some (fp_dest_interface f),
     far_outer_header_creation := (case fp_outer_header_creation f of
        Some c \<Rightarrow> Some (c\<lparr>ohc_port := 2152\<rparr>) | None \<Rightarrow> far_outer_header_creation far)\<rparr>)"
  using assms
  by (simp add: parse_forwarding_params_def fwd_value_def append_ie_tlv Let_def fwd_step_def nibble_def
      ohc.dec_enc split: option.splits)

lemma parse_create_far_value:
  assumes "nibble (fp_dest_interface f)"
  shows "parse_create_far (create_far_value f) = Inr (parsed_of_far_params f)"
  using assms
  by (simp add: parse_create_far_def create_far_value_def append_ie_tlv Let_def create_far_step_def
      parse_forwarding_params_value empty_far_def parsed_of_far_params_def parse_apply_action_def
      at_defs wire split: option.splits)

lemma parse_update_far_value:
  assumes "nibble (fp_dest_interface f)"
  shows "parse_update_far (update_far_value f) = Inr (parsed_of_far_params f)"
  using assms
  by (simp add: parse_update_far_def update_far_value_def append_ie_tlv Let_def update_far_step_def
      parse_forwarding_params_value empty_far_def parsed_of_far_params_def parse_apply_action_def
      at_defs wire split: option.splits)

lemma parse_create_urr_value: "parse_create_urr (urr_value u) = Inr (parsed_of_urr_params u)"
  by (simp add: parse_create_urr_def urr_value_def append_ie_tlv Let_def create_urr_step_def
      parse_volume_threshold_def empty_urr_def parsed_of_urr_params_def at_defs wire split: option.splits)

lemma length_grouped_values:
  "length (create_pdr_value p) \<le> 80" "length (create_far_value f) \<le> 40"
  "length (update_far_value f) \<le> 40" "length (urr_value u) \<le> 60"
  using length_pdi_value [of p] length_fwd_value [of f]
  by (auto simp: create_pdr_value_def create_far_value_def update_far_value_def urr_value_def
      append_ie_tlv Let_def split: option.splits)

interpretation create_pdr: ie_codec PFCP_IE_CREATE_PDR create_pdr_value parse_create_pdr
  parsed_of_pdr_params "\<lambda>p. nibble (pp_source_interface p)"
  by unfold_locales (auto simp: parse_create_pdr_value intro: order.strict_trans1 [OF length_grouped_values(1)])

interpretation create_far: ie_codec PFCP_IE_CREATE_FAR create_far_value parse_create_far
  parsed_of_far_params "\<lambda>f. nibble (fp_dest_interface f)"
  by unfold_locales (auto simp: parse_create_far_value intro: order.strict_trans1 [OF length_grouped_values(2)])

interpretation update_far: ie_codec PFCP_IE_UPDATE_FAR update_far_value parse_update_far
  parsed_of_far_params "\<lambda>f. nibble (fp_dest_interface f)"
  by unfold_locales (auto simp: parse_update_far_value intro: order.strict_trans1 [OF length_grouped_values(3)])

interpretation create_urr: ie_codec PFCP_IE_CREATE_URR urr_value parse_create_urr
  parsed_of_urr_params "\<lambda>_. True"
  by unfold_locales (auto simp: parse_create_urr_value intro: order.strict_trans1 [OF length_grouped_values(4)])

interpretation update_urr: ie_codec PFCP_IE_UPDATE_URR urr_value parse_create_urr
  parsed_of_urr_params "\<lambda>_. True"
  by unfold_locales (auto simp: parse_create_urr_value intro: order.strict_trans1 [OF length_grouped_values(4)])

end
