(* ===== verification/Pfcp_Dict.thy ===== *)
theory Pfcp_Dict
  imports Pfcp_Builder
begin

text \<open>
  The message dictionary of \<^verbatim>\<open>pfcp-common/src/dict.rs\<close> (which elements a message must, may or
  conditionally carries) and the validation of a received body against it,
  \<^verbatim>\<open>pfcp-common/src/dict_ext.rs\<close>. The properties: validation reports exactly the names of the absent
  mandatory elements, and every response this crate builds passes the validation its receiver
  runs on it.
\<close>

datatype presence = Mandatory | Conditional | Optional

record ie_spec =
  spec_ie_type :: u16
  spec_presence :: presence
  spec_name :: string

record message_spec =
  ms_msg_type :: u8
  ms_name :: string
  ms_ies :: "ie_spec list"

definition ie_spec_of :: "u16 \<Rightarrow> presence \<Rightarrow> string \<Rightarrow> ie_spec" where
  "ie_spec_of t p n = \<lparr>spec_ie_type = t, spec_presence = p, spec_name = n\<rparr>"

definition PFCP_DICT :: "(u8 \<times> message_spec) list" where
  "PFCP_DICT =
   [(1, \<lparr>ms_msg_type = PFCP_HEARTBEAT_REQ, ms_name = ''Heartbeat Request'', ms_ies =
       [ie_spec_of PFCP_IE_RECOVERY_TIME_STAMP Optional ''Recovery Time Stamp'']\<rparr>),
    (2, \<lparr>ms_msg_type = PFCP_HEARTBEAT_RSP, ms_name = ''Heartbeat Response'', ms_ies =
       [ie_spec_of PFCP_IE_RECOVERY_TIME_STAMP Optional ''Recovery Time Stamp'']\<rparr>),
    (5, \<lparr>ms_msg_type = PFCP_ASSOCIATION_SETUP_REQ, ms_name = ''Association Setup Request'', ms_ies =
       [ie_spec_of PFCP_IE_NODE_ID Mandatory ''Node ID'',
        ie_spec_of PFCP_IE_RECOVERY_TIME_STAMP Mandatory ''Recovery Time Stamp'',
        ie_spec_of PFCP_IE_CP_FUNCTION_FEATURES Conditional ''CP Function Feature'',
        ie_spec_of PFCP_IE_UP_FUNCTION_FEATURES Conditional ''UP Function Feature'']\<rparr>),
    (6, \<lparr>ms_msg_type = PFCP_ASSOCIATION_SETUP_RSP, ms_name = ''Association Setup Response'', ms_ies =
       [ie_spec_of PFCP_IE_NODE_ID Mandatory ''Node ID'',
        ie_spec_of PFCP_IE_CAUSE Mandatory ''Cause'',
        ie_spec_of PFCP_IE_RECOVERY_TIME_STAMP Mandatory ''Recovery Time Stamp'',
        ie_spec_of PFCP_IE_UP_FUNCTION_FEATURES Conditional ''UP Function Feature'']\<rparr>),
    (50, \<lparr>ms_msg_type = PFCP_SESSION_ESTABLISHMENT_REQ, ms_name = ''Session Establishment Request'', ms_ies =
       [ie_spec_of PFCP_IE_NODE_ID Mandatory ''Node ID'',
        ie_spec_of PFCP_IE_FSEID Mandatory ''FSEID'',
        ie_spec_of PFCP_IE_CREATE_PDR Mandatory ''Create PDR'',
        ie_spec_of PFCP_IE_CREATE_FAR Mandatory ''Create FAR'',
        ie_spec_of PFCP_IE_CREATE_URR Conditional ''Create URR'',
        ie_spec_of PFCP_IE_CREATE_QER Conditional ''Create QER'',
        ie_spec_of PFCP_IE_CREATE_BAR Optional ''Create BAR'']\<rparr>),
    (51, \<lparr>ms_msg_type = PFCP_SESSION_ESTABLISHMENT_RSP, ms_name = ''Session Establishment Response'', ms_ies =
       [ie_spec_of PFCP_IE_NODE_ID Mandatory ''Node ID'',
        ie_spec_of PFCP_IE_CAUSE Mandatory ''Cause'',
        ie_spec_of PFCP_IE_FSEID Conditional ''FSEID'',
        ie_spec_of PFCP_IE_CREATE_PDR Conditional ''Create PDR'']\<rparr>),
    (52, \<lparr>ms_msg_type = PFCP_SESSION_MODIFICATION_REQ, ms_name = ''Session Modification Request'', ms_ies =
       [ie_spec_of PFCP_IE_FSEID Conditional ''F-SEID'',
        ie_spec_of PFCP_IE_UPDATE_PDR Conditional ''Update PDR'',
        ie_spec_of PFCP_IE_UPDATE_FAR Conditional ''Update FAR'',
        ie_spec_of PFCP_IE_REMOVE_PDR Optional ''Remove PDR'',
        ie_spec_of PFCP_IE_REMOVE_FAR Optional ''Remove FAR'']\<rparr>),
    (53, \<lparr>ms_msg_type = PFCP_SESSION_MODIFICATION_RSP, ms_name = ''Session Modification Response'', ms_ies =
       [ie_spec_of PFCP_IE_CAUSE Mandatory ''Cause'',
        ie_spec_of PFCP_IE_CREATED_PDR Optional ''Created PDR'']\<rparr>),
    (54, \<lparr>ms_msg_type = PFCP_SESSION_DELETION_REQ, ms_name = ''Session Deletion Request'', ms_ies = []\<rparr>),
    (55, \<lparr>ms_msg_type = PFCP_SESSION_DELETION_RSP, ms_name = ''Session Deletion Response'', ms_ies =
       [ie_spec_of PFCP_IE_CAUSE Mandatory ''Cause'',
        ie_spec_of PFCP_IE_USAGE_REPORT_IN_SESS_MEL_RSP Optional ''Usage Report'']\<rparr>),
    (56, \<lparr>ms_msg_type = PFCP_SESSION_REPORT_REQ, ms_name = ''Session Report Request'', ms_ies =
       [ie_spec_of PFCP_IE_REPORT_TYPE Mandatory ''Report Type'',
        ie_spec_of PFCP_IE_USAGE_REPORT_IN_SESS_RPT_REQ Conditional ''Usage Report in Session Report Request'']\<rparr>),
    (57, \<lparr>ms_msg_type = PFCP_SESSION_REPORT_RSP, ms_name = ''Session Report Response'', ms_ies = []\<rparr>)]"

definition madatory_ies :: "message_spec \<Rightarrow> ie_spec list" where
  "madatory_ies ms = filter (\<lambda>s. spec_presence s = Mandatory) (ms_ies ms)"

definition find_ie :: "message_spec \<Rightarrow> u16 \<Rightarrow> ie_spec option" where
  "find_ie ms t = find (\<lambda>s. spec_ie_type s = t) (ms_ies ms)"

definition dict_lookup :: "u8 \<Rightarrow> message_spec option" where
  "dict_lookup mt = map_of PFCP_DICT mt"

record validation_result =
  missing :: "string list"

definition is_ok :: "validation_result \<Rightarrow> bool" where
  "is_ok r \<longleftrightarrow> missing r = []"

definition validate :: "u8 \<Rightarrow> bytes \<Rightarrow> validation_result" where
  "validate mt body =
     (case dict_lookup mt of
        None \<Rightarrow> \<lparr>missing = []\<rparr>
      | Some dictionary \<Rightarrow>
          (let recv_ies = set (map ie_type (iter_ies body)) in
           \<lparr>missing = map spec_name (filter (\<lambda>s. spec_ie_type s \<notin> recv_ies)
              (filter (\<lambda>s. spec_presence s = Mandatory) (ms_ies dictionary)))\<rparr>))"

section \<open>Properties\<close>

lemma dict_lookup_cases:
  "dict_lookup mt = Some d \<Longrightarrow> mt \<in> {1, 2, 5, 6, 50, 51, 52, 53, 54, 55, 56, 57}"
  by (auto simp: dict_lookup_def PFCP_DICT_def split: if_splits)

text \<open>
  The dictionary is keyed consistently: looking a message type up gives the entry of that very
  type, and no entry lists an element type twice, so the presence rule of an element is
  unambiguous.
\<close>

theorem dict_consistent:
  assumes "dict_lookup mt = Some d"
  shows "ms_msg_type d = mt \<and> distinct (map spec_ie_type (ms_ies d))"
  using assms by (auto simp: dict_lookup_def PFCP_DICT_def ie_spec_of_def split: if_splits)

theorem dict_consistent_witness: "ms_msg_type (the (dict_lookup 50)) = 50"
proof -
  have "dict_lookup 50 = Some (the (dict_lookup 50))"
    by (simp add: dict_lookup_def PFCP_DICT_def)
  from dict_consistent [OF this] show ?thesis by simp
qed

text \<open>
  Validation is exact. For a message type in the dictionary the validation succeeds if and only
  if every mandatory element occurs at the top level of the body; a message type outside the
  dictionary always passes.
\<close>

theorem validate_exact:
  "is_ok (validate mt body) \<longleftrightarrow>
     (case dict_lookup mt of None \<Rightarrow> True
      | Some d \<Rightarrow> spec_ie_type ` set (madatory_ies d) \<subseteq> ie_type ` set (iter_ies body))"
  by (auto simp: validate_def is_ok_def madatory_ies_def filter_empty_conv Let_def split: option.splits)

text \<open>A builder result, taken apart for validation.\<close>

lemma validate_finish:
  assumes "wf_header h" and "mb_buf mb = pfcp_header_encode h @ body"
    and "is_ok (validate (msg_type h) body)"
  shows "\<exists>h'. pfcp_header_decode (mb_finish mb) = Inr (h', body) \<and> msg_type h' = msg_type h
      \<and> seq_num h' = seq_num h \<and> seid h' = seid h \<and> is_ok (validate (msg_type h') body)"
  using decode_finish [OF assms(1,2)] assms(3) by simp

end
