(* ===== verification/Pfcp_Messages.thy ===== *)
theory Pfcp_Messages
  imports Pfcp_Dict
begin

text \<open>
  Decoding of the request bodies the UPF handles, \<^verbatim>\<open>pfcp-common/src/messages.rs\<close>. The properties
  compose the previous layers: what an SMF builds with \<^verbatim>\<open>MsgBuilder\<close> is what the UPF's request
  structures hold after the header decoder, the TLV iterator and the element parsers have run.
\<close>

datatype msg_error = NodeIdMissing | RecoveryTsMissing | FseidMissing | Pfcp pfcp_error

definition find_ie_type :: "u16 \<Rightarrow> raw_ie list \<Rightarrow> raw_ie option" where
  "find_ie_type t ies = find (\<lambda>ie. ie_type ie = t) ies"

definition parse_each :: "(bytes \<Rightarrow> pfcp_error + 'a) \<Rightarrow> u16 \<Rightarrow> raw_ie list \<Rightarrow> msg_error + 'a list" where
  "parse_each parse t ies =
     collect_results (map (\<lambda>raw. map_err Pfcp (parse (ie_value raw))) (filter (\<lambda>ie. ie_type ie = t) ies))"

definition require :: "msg_error \<Rightarrow> (bytes \<Rightarrow> pfcp_error + 'a) \<Rightarrow> raw_ie option \<Rightarrow> msg_error + 'a" where
  "require e parse raw = (case raw of None \<Rightarrow> Inl e | Some r \<Rightarrow> map_err Pfcp (parse (ie_value r)))"

record association_setup_req =
  asr_node_id :: ipv4
  asr_recovery_ts :: u32

definition association_setup_req_decode :: "bytes \<Rightarrow> msg_error + association_setup_req" where
  "association_setup_req_decode body =
     (let ies = iter_ies body in
      case require NodeIdMissing parse_node_id (find_ie_type PFCP_IE_NODE_ID ies) of
        Inl e \<Rightarrow> Inl e
      | Inr nid \<Rightarrow>
      (case require RecoveryTsMissing parse_recovery_timestamp
              (find_ie_type PFCP_IE_RECOVERY_TIME_STAMP ies) of
        Inl e \<Rightarrow> Inl e
      | Inr ts \<Rightarrow> Inr \<lparr>asr_node_id = nid, asr_recovery_ts = ts\<rparr>))"

record session_establishment_req =
  ser_node_id :: "ipv4 option"
  ser_cp_seid :: u64
  ser_smf_addr :: ipv4
  ser_create_pdrs :: "parsed_pdr list"
  ser_create_fars :: "parsed_far list"
  ser_create_urrs :: "parsed_urr list"

definition session_establishment_req_decode :: "bytes \<Rightarrow> msg_error + session_establishment_req" where
  "session_establishment_req_decode body =
     (let ies = iter_ies body in
      case require FseidMissing parse_fseid (find_ie_type PFCP_IE_FSEID ies) of
        Inl e \<Rightarrow> Inl e
      | Inr (cp, addr) \<Rightarrow>
      (let nid = Option.bind (find_ie_type PFCP_IE_NODE_ID ies) (\<lambda>raw. ok_of (parse_node_id (ie_value raw))) in
      case parse_each parse_create_pdr PFCP_IE_CREATE_PDR ies of
        Inl e \<Rightarrow> Inl e
      | Inr pdrs \<Rightarrow>
      (case parse_each parse_create_far PFCP_IE_CREATE_FAR ies of
        Inl e \<Rightarrow> Inl e
      | Inr fars \<Rightarrow>
      (case parse_each parse_create_urr PFCP_IE_CREATE_URR ies of
        Inl e \<Rightarrow> Inl e
      | Inr urrs \<Rightarrow> Inr \<lparr>ser_node_id = nid, ser_cp_seid = cp, ser_smf_addr = addr,
           ser_create_pdrs = pdrs, ser_create_fars = fars, ser_create_urrs = urrs\<rparr>))))"

record heartbeat_req =
  hbr_recovery_ts :: "u32 option"

definition heartbeat_req_decode :: "bytes \<Rightarrow> heartbeat_req" where
  "heartbeat_req_decode body =
     \<lparr>hbr_recovery_ts = Option.bind (find_ie_type PFCP_IE_RECOVERY_TIME_STAMP (iter_ies body))
        (\<lambda>raw. ok_of (parse_recovery_timestamp (ie_value raw)))\<rparr>"

record session_modification_req =
  smr_cp_seid :: "u64 option"
  smr_smf_addr :: "ipv4 option"
  smr_update_fars :: "parsed_far list"
  smr_update_urrs :: "parsed_urr list"

definition session_modification_req_decode :: "bytes \<Rightarrow> msg_error + session_modification_req" where
  "session_modification_req_decode body =
     (let ies = iter_ies body;
          fs = Option.bind (find_ie_type PFCP_IE_FSEID ies) (\<lambda>raw. ok_of (parse_fseid (ie_value raw))) in
      case parse_each parse_update_far PFCP_IE_UPDATE_FAR ies of
        Inl e \<Rightarrow> Inl e
      | Inr fars \<Rightarrow>
      (case parse_each parse_create_urr PFCP_IE_UPDATE_URR ies of
        Inl e \<Rightarrow> Inl e
      | Inr urrs \<Rightarrow> Inr \<lparr>smr_cp_seid = map_option fst fs, smr_smf_addr = map_option snd fs,
           smr_update_fars = fars, smr_update_urrs = urrs\<rparr>))"

section \<open>Bodies made of elements\<close>

text \<open>The body of an establishment request: Node ID, F-SEID, then the rules in builder order.\<close>

definition establishment_body ::
  "ipv4 \<Rightarrow> u64 \<Rightarrow> pdr_params list \<Rightarrow> far_params list \<Rightarrow> urr_params list \<Rightarrow> bytes" where
  "establishment_body addr cp ps fs us =
     tlv PFCP_IE_NODE_ID (node_id_value addr) @ tlv PFCP_IE_FSEID (fseid_value (cp, addr))
     @ concat (map (\<lambda>p. tlv PFCP_IE_CREATE_PDR (create_pdr_value p)) ps)
     @ concat (map (\<lambda>f. tlv PFCP_IE_CREATE_FAR (create_far_value f)) fs)
     @ concat (map (\<lambda>u. tlv PFCP_IE_CREATE_URR (urr_value u)) us)"

lemma iter_establishment_body:
  "iter_ies (establishment_body addr cp ps fs us) =
     raw_of PFCP_IE_NODE_ID (node_id_value addr) # raw_of PFCP_IE_FSEID (fseid_value (cp, addr))
     # map (\<lambda>p. raw_of PFCP_IE_CREATE_PDR (create_pdr_value p)) ps
     @ map (\<lambda>f. raw_of PFCP_IE_CREATE_FAR (create_far_value f)) fs
     @ map (\<lambda>u. raw_of PFCP_IE_CREATE_URR (urr_value u)) us"
proof -
  have "iter_ies (concat (map (\<lambda>u. tlv PFCP_IE_CREATE_URR (urr_value u)) us))
      = map (\<lambda>u. raw_of PFCP_IE_CREATE_URR (urr_value u)) us"
    using create_urr.iter_all [of us "[]"] by simp
  then show ?thesis
    by (simp add: establishment_body_def create_pdr.iter_all create_far.iter_all)
qed

lemma filter_map_raw:
  "filter (\<lambda>ie. ie_type ie = t) (map (\<lambda>p. raw_of t' (f p)) ps) = (if t = t' then map (\<lambda>p. raw_of t' (f p)) ps else [])"
  by (induction ps) auto

lemma collect_map_err:
  "\<forall>p \<in> set ps. dec (enc p) = Inr (view p) \<Longrightarrow>
   collect_results (map (\<lambda>raw. map_err Pfcp (dec (ie_value raw))) (map (\<lambda>p. raw_of t (enc p)) ps)) = Inr (map view ps)"
  by (induction ps) auto

lemma decode_establishment_body:
  assumes "\<forall>p \<in> set ps. nibble (pp_source_interface p)" and "\<forall>f \<in> set fs. nibble (fp_dest_interface f)"
  shows "session_establishment_req_decode (establishment_body addr cp ps fs us) =
    Inr \<lparr>ser_node_id = Some addr, ser_cp_seid = cp, ser_smf_addr = addr,
         ser_create_pdrs = map parsed_of_pdr_params ps, ser_create_fars = map parsed_of_far_params fs,
         ser_create_urrs = map parsed_of_urr_params us\<rparr>"
proof -
  have p: "parse_each parse_create_pdr PFCP_IE_CREATE_PDR (iter_ies (establishment_body addr cp ps fs us))
      = Inr (map parsed_of_pdr_params ps)"
    unfolding parse_each_def iter_establishment_body
    using assms(1) by (simp add: filter_map_raw collect_map_err parse_create_pdr_value del: map_map)
  have f: "parse_each parse_create_far PFCP_IE_CREATE_FAR (iter_ies (establishment_body addr cp ps fs us))
      = Inr (map parsed_of_far_params fs)"
    unfolding parse_each_def iter_establishment_body
    using assms(2) by (simp add: filter_map_raw collect_map_err parse_create_far_value del: map_map)
  have u: "parse_each parse_create_urr PFCP_IE_CREATE_URR (iter_ies (establishment_body addr cp ps fs us))
      = Inr (map parsed_of_urr_params us)"
    unfolding parse_each_def iter_establishment_body
    by (simp add: filter_map_raw collect_map_err parse_create_urr_value del: map_map)
  show ?thesis
    unfolding session_establishment_req_decode_def Let_def p f u
    by (simp add: iter_establishment_body find_ie_type_def require_def node_id.dec_enc fseid.dec_enc)
qed

lemma mb_buf_fold:
  assumes "\<And>p mb. mb_buf (add p mb) = mb_buf mb @ tlv t (enc p)"
  shows "mb_buf (fold add ps mb) = mb_buf mb @ concat (map (\<lambda>p. tlv t (enc p)) ps)"
  by (induction ps arbitrary: mb) (auto simp: assms)

text \<open>The body of a modification request: any Update FAR elements, then any Update URR elements.\<close>

definition modification_body :: "far_params list \<Rightarrow> urr_params list \<Rightarrow> bytes" where
  "modification_body fs us =
     concat (map (\<lambda>f. tlv PFCP_IE_UPDATE_FAR (update_far_value f)) fs)
     @ concat (map (\<lambda>u. tlv PFCP_IE_UPDATE_URR (urr_value u)) us)"

lemma iter_modification_body:
  "iter_ies (modification_body fs us) =
     map (\<lambda>f. raw_of PFCP_IE_UPDATE_FAR (update_far_value f)) fs
     @ map (\<lambda>u. raw_of PFCP_IE_UPDATE_URR (urr_value u)) us"
  using update_urr.iter_all [of us "[]"] by (simp add: modification_body_def update_far.iter_all)

lemma find_map_raw: "t \<noteq> t' \<Longrightarrow> find (\<lambda>ie. ie_type ie = t) (map (\<lambda>p. raw_of t' (f p)) ps @ ies) = find (\<lambda>ie. ie_type ie = t) ies"
  by (induction ps) auto

lemma decode_modification_body:
  assumes "\<forall>f \<in> set fs. nibble (fp_dest_interface f)"
  shows "session_modification_req_decode (modification_body fs us) =
    Inr \<lparr>smr_cp_seid = None, smr_smf_addr = None,
         smr_update_fars = map parsed_of_far_params fs, smr_update_urrs = map parsed_of_urr_params us\<rparr>"
proof -
  have f: "parse_each parse_update_far PFCP_IE_UPDATE_FAR (iter_ies (modification_body fs us))
      = Inr (map parsed_of_far_params fs)"
    unfolding parse_each_def iter_modification_body
    using assms by (simp add: filter_map_raw collect_map_err parse_update_far_value del: map_map)
  have u: "parse_each parse_create_urr PFCP_IE_UPDATE_URR (iter_ies (modification_body fs us))
      = Inr (map parsed_of_urr_params us)"
    unfolding parse_each_def iter_modification_body
    by (simp add: filter_map_raw collect_map_err parse_create_urr_value del: map_map)
  have n: "find_ie_type PFCP_IE_FSEID (iter_ies (modification_body fs us)) = None"
    unfolding find_ie_type_def iter_modification_body
    using find_map_raw [of PFCP_IE_FSEID PFCP_IE_UPDATE_URR urr_value us "[]"]
    by (simp add: find_map_raw)
  show ?thesis
    unfolding session_modification_req_decode_def Let_def f u n by simp
qed

section \<open>Properties\<close>

text \<open>
  A message that a client of \<^verbatim>\<open>MsgBuilder\<close> assembles from any lists of PDRs, FARs and URRs, with interface
  numbers that fit their four bits, is decoded to the same rules in the same order and passes the
  dictionary's validation as soon as it carries a PDR and a FAR.
\<close>

lemma establishment_message_decodes:
  assumes "unat seq < 2 ^ 24"
    and "\<forall>p \<in> set ps. nibble (pp_source_interface p)" and "\<forall>f \<in> set fs. nibble (fp_dest_interface f)"
  shows "\<exists>h body.
      pfcp_header_decode (mb_finish (fold add_create_urr us (fold add_create_far fs (fold add_create_pdr ps
        (add_fseid cp addr (add_node_id_v4 addr (mb_new (new_session_msg PFCP_SESSION_ESTABLISHMENT_REQ 0 seq))))))))
        = Inr (h, body)
      \<and> msg_type h = PFCP_SESSION_ESTABLISHMENT_REQ \<and> seid h = Some 0 \<and> seq_num h = seq
      \<and> session_establishment_req_decode body =
          Inr \<lparr>ser_node_id = Some addr, ser_cp_seid = cp, ser_smf_addr = addr,
               ser_create_pdrs = map parsed_of_pdr_params ps, ser_create_fars = map parsed_of_far_params fs,
               ser_create_urrs = map parsed_of_urr_params us\<rparr>
      \<and> (ps \<noteq> [] \<and> fs \<noteq> [] \<longrightarrow> is_ok (validate (msg_type h) body))"
proof -
  let ?h = "new_session_msg PFCP_SESSION_ESTABLISHMENT_REQ 0 seq"
  let ?mb = "fold add_create_urr us (fold add_create_far fs (fold add_create_pdr ps
        (add_fseid cp addr (add_node_id_v4 addr (mb_new ?h)))))"
  let ?body = "establishment_body addr cp ps fs us"
  have "mb_buf ?mb = pfcp_header_encode ?h @ ?body"
    by (simp add: establishment_body_def add_fseid_def add_node_id_v4_def add_create_pdr_def
        add_create_far_def add_create_urr_def mb_buf_fold)
  from decode_finish [OF wf_session_msg [OF assms(1)] this]
  have d: "pfcp_header_decode (mb_finish ?mb) = Inr (?h\<lparr>hdr_length :=
      of_nat (header_len ?h + length ?body - 4)\<rparr>, ?body)" .
  have "is_ok (validate PFCP_SESSION_ESTABLISHMENT_REQ ?body)" if "ps \<noteq> []" "fs \<noteq> []"
    using that by (auto simp: validate_def is_ok_def dict_lookup_def PFCP_DICT_def ie_spec_of_def
        iter_establishment_body Let_def image_iff neq_Nil_conv)
  with d decode_establishment_body [OF assms(2,3)] show ?thesis
    by (simp add: new_session_msg_def)
qed

text \<open>
  C20: Session establishment round trip. The request that \<^verbatim>\<open>build_session_establishment_request\<close> makes, for
  any addresses, CP SEID, TEID and 24-bit sequence number, is decoded by the UPF's own parsers to the
  Node ID and F-SEID of the SMF and to exactly four rules: an uplink PDR (from the access side, with an
  F-TEID to be chosen, which is read as TEID 0, the outer header removed, for the UE address, by FAR 1), a downlink PDR (from
  the core side, for the same UE address, by FAR 2), a FAR that forwards to the core, and a FAR that
  forwards to the access side into a GTP-U tunnel to the gNB with the given TEID and port 2152. It passes
  the dictionary's validation.
\<close>

theorem establishment_request_roundtrip:
  assumes "unat seq < 2 ^ 24"
  shows "\<exists>h body.
      pfcp_header_decode (build_session_establishment_request seq smf_addr cp_seid ue_ip gnb_addr gnb_teid) = Inr (h, body)
      \<and> msg_type h = PFCP_SESSION_ESTABLISHMENT_REQ \<and> seid h = Some 0 \<and> seq_num h = seq
      \<and> session_establishment_req_decode body =
          Inr \<lparr>ser_node_id = Some smf_addr, ser_cp_seid = cp_seid, ser_smf_addr = smf_addr,
            ser_create_pdrs =
              [\<lparr>pdr_id = 1, pdr_precedence = 100, pdr_source_interface = INTERFACE_ACCESS,
                pdr_local_fteid = Some (0, UNSPECIFIED),
                pdr_ue_ip = Some ue_ip, pdr_far_id = Some 1, pdr_urr_id = None, pdr_outer_header_removal = True,
                pdr_sdf_filter = None\<rparr>,
               \<lparr>pdr_id = 2, pdr_precedence = 100, pdr_source_interface = INTERFACE_CORE, pdr_local_fteid = None,
                pdr_ue_ip = Some ue_ip, pdr_far_id = Some 2, pdr_urr_id = None, pdr_outer_header_removal = False,
                pdr_sdf_filter = None\<rparr>],
            ser_create_fars =
              [\<lparr>far_id = 1, far_apply_action = ACTION_FORW, far_dest_interface = Some INTERFACE_CORE,
                far_outer_header_creation = None\<rparr>,
               \<lparr>far_id = 2, far_apply_action = ACTION_FORW, far_dest_interface = Some INTERFACE_ACCESS,
                far_outer_header_creation = Some \<lparr>ohc_teid = gnb_teid, ohc_peer_addr = gnb_addr, ohc_port = 2152\<rparr>\<rparr>],
            ser_create_urrs = []\<rparr>
      \<and> is_ok (validate (msg_type h) body)"
proof -
  define ps where "ps = [\<lparr>pp_pdr_id = 1, pp_precedence = 100, pp_source_interface = INTERFACE_ACCESS, pp_fteid_choose = True,
      pp_ue_ip = Some ue_ip, pp_far_id = 1, pp_urr_id = None, pp_outer_header_removal = True, pp_sdf_filter = None\<rparr>,
    \<lparr>pp_pdr_id = 2, pp_precedence = 100, pp_source_interface = INTERFACE_CORE, pp_fteid_choose = False,
      pp_ue_ip = Some ue_ip, pp_far_id = 2, pp_urr_id = None, pp_outer_header_removal = False, pp_sdf_filter = None\<rparr>]"
  define fs where "fs = [\<lparr>fp_far_id = 1, fp_apply_action = ACTION_FORW, fp_dest_interface = INTERFACE_CORE,
      fp_outer_header_creation = None\<rparr>, \<lparr>fp_far_id = 2, fp_apply_action = ACTION_FORW, fp_dest_interface = INTERFACE_ACCESS,
      fp_outer_header_creation = Some \<lparr>ohc_teid = gnb_teid, ohc_peer_addr = gnb_addr, ohc_port = 2152\<rparr>\<rparr>]"
  have n: "\<forall>p \<in> set ps. nibble (pp_source_interface p)" "\<forall>f \<in> set fs. nibble (fp_dest_interface f)"
    by (simp_all add: ps_def fs_def nibble_def)
  have m: "build_session_establishment_request seq smf_addr cp_seid ue_ip gnb_addr gnb_teid =
      mb_finish (fold add_create_urr [] (fold add_create_far fs (fold add_create_pdr ps
        (add_fseid cp_seid smf_addr (add_node_id_v4 smf_addr (mb_new (new_session_msg PFCP_SESSION_ESTABLISHMENT_REQ 0 seq)))))))"
    by (simp add: build_session_establishment_request_def ps_def fs_def)
  from establishment_message_decodes [OF assms n, of "[]" cp_seid smf_addr] show ?thesis
    unfolding m by (simp add: ps_def fs_def parsed_of_pdr_params_def parsed_of_far_params_def)
qed

theorem establishment_request_roundtrip_witness:
  "\<exists>h body. pfcp_header_decode (build_session_establishment_request 7 (Ipv4Addr 10 0 0 1) 5
       (Ipv4Addr 10 45 0 100) (Ipv4Addr 172 22 0 23) 0x80000001) = Inr (h, body)
     \<and> map pdr_far_id (ser_create_pdrs (projr (session_establishment_req_decode body))) = [Some 1, Some 2]
     \<and> is_ok (validate (msg_type h) body)"
  using establishment_request_roundtrip [of 7 "Ipv4Addr 10 0 0 1" 5 "Ipv4Addr 10 45 0 100" "Ipv4Addr 172 22 0 23" "0x80000001"]
  by auto

text \<open>
  Session modification round trip. Any number of Update FAR and Update URR elements built by the
  SMF reach the UPF's modification handler unchanged and in order, under the SEID and sequence
  number of the request header.
\<close>

theorem modification_request_roundtrip:
  assumes "unat seq < 2 ^ 24" and "\<forall>f \<in> set fs. nibble (fp_dest_interface f)"
  shows "\<exists>h body.
      pfcp_header_decode (mb_finish (fold add_update_urr us (fold add_update_far fs
        (mb_new (new_session_msg PFCP_SESSION_MODIFICATION_REQ sd seq))))) = Inr (h, body)
      \<and> msg_type h = PFCP_SESSION_MODIFICATION_REQ \<and> seid h = Some sd \<and> seq_num h = seq
      \<and> session_modification_req_decode body =
          Inr \<lparr>smr_cp_seid = None, smr_smf_addr = None, smr_update_fars = map parsed_of_far_params fs,
               smr_update_urrs = map parsed_of_urr_params us\<rparr>"
proof -
  let ?h = "new_session_msg PFCP_SESSION_MODIFICATION_REQ sd seq"
  let ?mb = "fold add_update_urr us (fold add_update_far fs (mb_new ?h))"
  have "mb_buf ?mb = pfcp_header_encode ?h @ modification_body fs us"
    by (simp add: modification_body_def add_update_far_def add_update_urr_def mb_buf_fold)
  from decode_finish [OF wf_session_msg [OF assms(1)] this] decode_modification_body [OF assms(2)]
  show ?thesis by (simp add: new_session_msg_def)
qed

theorem modification_request_roundtrip_witness:
  "\<exists>h body. pfcp_header_decode (mb_finish (add_update_urr \<lparr>up_urr_id = 1, up_measurement_method = 2,
       up_reporting_triggers = 3, up_volume_threshold_total = Some 5000, up_measurement_period = None\<rparr>
       (mb_new (new_session_msg 52 9 3)))) = Inr (h, body)
     \<and> urr_volume_threshold_total (hd (smr_update_urrs (projr (session_modification_req_decode body)))) = Some 5000"
  using modification_request_roundtrip [of 3 "[]" "[\<lparr>up_urr_id = 1, up_measurement_method = 2,
       up_reporting_triggers = 3, up_volume_threshold_total = Some 5000, up_measurement_period = None\<rparr>]" 9]
  by (auto simp: parsed_of_urr_params_def)

end
