(* ===== verification/Upf_Common.thy ===== *)
theory Upf_Common
  imports Pfcp_Messages
begin

text \<open>
  The types the XDP program and the user-space daemon share (src/upf-edge-common/src/lib.rs)
  and the BPF maps through which they communicate (declared in src/upf-edge-ebpf/src/main.rs).

  A map is modelled by its observable content, the partial function that its \<open>get\<close> computes;
  a per-CPU map holds one value per CPU under each key. Insertion and removal are code of the
  kernel, hence parameters (\<open>hash_ops\<close>) with the hypotheses \<open>hash_laws\<close>: a successful insertion
  or removal changes the key it names and nothing else. The composed 64-bit keys of the rule maps
  are a shared contract, the locale \<open>rule_key\<close>, interpreted for PDR, FAR and URR keys.
\<close>

subsection \<open>Constants\<close>

abbreviation IFACE_ACCESS :: u8 where "IFACE_ACCESS \<equiv> 0"
abbreviation IFACE_CORE :: u8 where "IFACE_CORE \<equiv> 1"
abbreviation ACTION_DROP_bpf :: u8 where "ACTION_DROP_bpf \<equiv> 0x01"
abbreviation ACTION_FORW_bpf :: u8 where "ACTION_FORW_bpf \<equiv> 0x02"
abbreviation GTP_UDP_PORT :: u16 where "GTP_UDP_PORT \<equiv> 2152"
abbreviation MAX_PDR_PER_SESSION :: nat where "MAX_PDR_PER_SESSION \<equiv> 8"

subsection \<open>Keys and values of the maps\<close>

datatype session_key = SessionKey (sk_ue_ip: u32)
datatype pdr_key = PdrKey (pdr_key: u64)
datatype far_key = FarKey (far_key: u64)
datatype urr_key = UrrKey (urr_key: u64)

definition PdrKey_new :: "u64 \<Rightarrow> u32 \<Rightarrow> pdr_key" where
  "PdrKey_new s i = PdrKey (push_bit 16 s OR (ucast i AND 0xFFFF))"

definition FarKey_new :: "u64 \<Rightarrow> u32 \<Rightarrow> far_key" where
  "FarKey_new s i = FarKey (push_bit 16 s OR (ucast i AND 0xFFFF))"

definition UrrKey_new :: "u64 \<Rightarrow> u32 \<Rightarrow> urr_key" where
  "UrrKey_new s i = UrrKey (push_bit 16 s OR (ucast i AND 0xFFFF))"

record pdr_value =
  pv_precedence :: u32
  pv_source_interface :: u8
  pv_ue_ip :: u32
  pv_qfi :: u8
  pv_far_id :: u32
  pv_qer_id :: u32
  pv_urr_id :: u32
  pv_outer_header_removal :: u8
  pv_sdf_proto :: u8
  pv_sdf_src_ip :: u32
  pv_sdf_dst_ip :: u32
  pv_sdf_src_port :: u16
  pv_sdf_dst_port :: u16

record session_info =
  si_seid :: u64
  si_teid :: u32
  si_gnb_ip :: u32
  si_upf_ip :: u32
  si_pdr_ids :: "u32 list"
  si_pdr_count :: u8

record far_value =
  fv_apply_action :: u8
  fv_dst_interface :: u8
  fv_gnb_ip :: u32
  fv_teid :: u32
  fv_upf_n3_ip :: u32

record urr_stats =
  ul_bytes :: u64
  ul_packets :: u64
  dl_bytes :: u64
  dl_packets :: u64

record session_stats =
  rx_bytes :: u64
  rx_packets :: u64
  tx_bytes :: u64
  tx_packets :: u64

datatype mac_addr = MacAddr u8 u8 u8 u8 u8 u8

fun mac_bytes :: "mac_addr \<Rightarrow> bytes" where
  "mac_bytes (MacAddr a b c d e f) = [a, b, c, d, e, f]"

lemma length_mac_bytes [simp]: "length (mac_bytes m) = 6"
  by (cases m) simp

subsection \<open>The BPF maps and the kernel operations on them\<close>

record bpf_maps =
  SESSION_MAP :: "session_key \<rightharpoonup> session_info"
  PDR_MAP :: "pdr_key \<rightharpoonup> pdr_value"
  FAR_MAP :: "far_key \<rightharpoonup> far_value"
  IF_INDEX :: "nat \<rightharpoonup> u32"
  GW_MAC :: "nat \<rightharpoonup> mac_addr"
  STATS_MAP :: "session_key \<rightharpoonup> session_stats list"
  URR_MAP :: "urr_key \<rightharpoonup> urr_stats list"

record ('k, 'v) hash_ops =
  h_insert :: "('k \<rightharpoonup> 'v) \<Rightarrow> 'k \<Rightarrow> 'v \<Rightarrow> ('k \<rightharpoonup> 'v) option"
  h_remove :: "('k \<rightharpoonup> 'v) \<Rightarrow> 'k \<Rightarrow> ('k \<rightharpoonup> 'v) option"

definition hash_laws :: "('k, 'v) hash_ops \<Rightarrow> bool" where
  "hash_laws h \<longleftrightarrow>
     (\<forall>m k v m'. h_insert h m k v = Some m' \<longrightarrow> m' = m(k \<mapsto> v)) \<and>
     (\<forall>m k v. m k \<noteq> None \<longrightarrow> h_insert h m k v \<noteq> None) \<and>
     (\<forall>m k m'. h_remove h m k = Some m' \<longrightarrow> m' = m(k := None)) \<and>
     (\<forall>m k. m k \<noteq> None \<longrightarrow> h_remove h m k \<noteq> None)"

text \<open>A kernel whose maps never fill up: the instance the witnesses use.\<close>

definition roomy_ops :: "('k, 'v) hash_ops" where
  "roomy_ops = \<lparr>h_insert = (\<lambda>m k v. Some (m(k \<mapsto> v))),
     h_remove = (\<lambda>m k. if m k = None then None else Some (m(k := None)))\<rparr>"

lemma roomy_laws [simp]: "hash_laws roomy_ops"
  by (auto simp: hash_laws_def roomy_ops_def)

lemma hash_insertD: "hash_laws h \<Longrightarrow> h_insert h m k v = Some m' \<Longrightarrow> m' = m(k \<mapsto> v)"
  by (simp add: hash_laws_def)

lemma hash_insert_present:
  "hash_laws h \<Longrightarrow> m k = Some w \<Longrightarrow> h_insert h m k v = Some (m(k \<mapsto> v))"
  unfolding hash_laws_def by (metis option.distinct(1) option.exhaust)

lemma hash_removeD: "hash_laws h \<Longrightarrow> h_remove h m k = Some m' \<Longrightarrow> m' = m(k := None)"
  by (simp add: hash_laws_def)

lemma hash_remove_present:
  "hash_laws h \<Longrightarrow> m k = Some w \<Longrightarrow> h_remove h m k = Some (m(k := None))"
  unfolding hash_laws_def by (metis option.distinct(1) option.exhaust)

text \<open>\<open>let _ = map.remove(&k)\<close>: the caller ignores the result, the map keeps its content on error.\<close>

definition try_remove :: "('k, 'v) hash_ops \<Rightarrow> ('k \<rightharpoonup> 'v) \<Rightarrow> 'k \<Rightarrow> ('k \<rightharpoonup> 'v)" where
  "try_remove h m k = (case h_remove h m k of None \<Rightarrow> m | Some m' \<Rightarrow> m')"

lemma try_remove_eq [simp]: "hash_laws h \<Longrightarrow> try_remove h m k = m(k := None)"
  unfolding try_remove_def
  by (cases "m k"; cases "h_remove h m k") (auto dest: hash_removeD simp: hash_remove_present)

subsection \<open>Composed keys\<close>

definition local_seid :: "u64 \<Rightarrow> bool" where
  "local_seid s \<longleftrightarrow> unat s < 2 ^ 48"

definition rule_id :: "u32 \<Rightarrow> bool" where
  "rule_id i \<longleftrightarrow> unat i < 2 ^ 16"

lemma bit_composed_key:
  fixes s :: u64 and i :: u32
  shows "n < 16 \<Longrightarrow> bit (push_bit 16 s OR (ucast i AND 0xFFFF)) n \<longleftrightarrow> bit i n"
    and "n < 48 \<Longrightarrow> bit (push_bit 16 s OR (ucast i AND 0xFFFF)) (n + 16) \<longleftrightarrow> bit s n"
proof -
  have m: "(0xFFFF :: u64) = mask 16"
    by (simp add: mask_eq_exp_minus_1)
  show "n < 16 \<Longrightarrow> bit (push_bit 16 s OR (ucast i AND 0xFFFF)) n \<longleftrightarrow> bit i n"
    by (auto simp: m bit_simps)
  show "n < 48 \<Longrightarrow> bit (push_bit 16 s OR (ucast i AND 0xFFFF)) (n + 16) \<longleftrightarrow> bit s n"
    by (auto simp: m bit_simps)
qed

lemma word_bit_bound:
  fixes w :: "'a::len word"
  assumes "unat w < 2 ^ k" "bit w n"
  shows "n < k"
proof (rule ccontr)
  assume "\<not> n < k"
  then have "unat w < 2 ^ n"
    using assms(1) by (meson leI less_le_trans one_le_numeral power_increasing)
  then have "\<not> bit (unat w) n"
    by (simp add: bit_iff_odd)
  moreover have "bit (unat w) n"
    using assms(2) by (simp add: bit_unsigned_iff bit_imp_le_length)
  ultimately show False ..
qed

lemma composed_key_session:
  fixes s s' :: u64 and i i' :: u32
  assumes k: "push_bit 16 s OR (ucast i AND 0xFFFF) = push_bit 16 s' OR (ucast i' AND 0xFFFF)"
    and b: "local_seid s" "local_seid s'"
  shows "s = s'"
proof (rule bit_word_eqI)
  fix n
  show "bit s n = bit s' n"
    using b k bit_composed_key(2) [of n] word_bit_bound [of _ 48 n]
    unfolding local_seid_def by metis
qed

lemma composed_key_inj:
  fixes s s' :: u64 and i i' :: u32
  assumes k: "push_bit 16 s OR (ucast i AND 0xFFFF) = push_bit 16 s' OR (ucast i' AND 0xFFFF)"
    and b: "local_seid s" "local_seid s'" "rule_id i" "rule_id i'"
  shows "s = s' \<and> i = i'"
proof
  show "s = s'"
    using composed_key_session [OF k b(1,2)] .
  show "i = i'"
  proof (rule bit_word_eqI)
    fix n
    show "bit i n = bit i' n"
      using b(3,4) k bit_composed_key(1) [of n] word_bit_bound [of _ 16 n]
      unfolding rule_id_def by metis
  qed
qed

text \<open>
  What the rule maps rely on: within the SEID and rule-id ranges the composed key determines the
  session and the rule.
\<close>

locale rule_key =
  fixes mk :: "u64 \<Rightarrow> u32 \<Rightarrow> 'k"
  assumes mk_inj: "\<lbrakk>mk s i = mk s' i'; local_seid s; local_seid s'; rule_id i; rule_id i'\<rbrakk>
    \<Longrightarrow> s = s' \<and> i = i'"
    and mk_session: "\<lbrakk>mk s i = mk s' i'; local_seid s; local_seid s'\<rbrakk> \<Longrightarrow> s = s'"
begin

lemma mk_eq_iff:
  "\<lbrakk>local_seid s; local_seid s'; rule_id i; rule_id i'\<rbrakk>
    \<Longrightarrow> mk s i = mk s' i' \<longleftrightarrow> s = s' \<and> i = i'"
  using mk_inj by blast

lemma upd_other_session:
  "\<lbrakk>s \<noteq> s'; local_seid s; local_seid s'\<rbrakk> \<Longrightarrow> (m(mk s i := v)) (mk s' i') = m (mk s' i')"
  using mk_session [of s i s' i'] by auto

lemma entries_other_session:
  "\<lbrakk>s \<noteq> s'; local_seid s; local_seid s'\<rbrakk> \<Longrightarrow>
    (m ++ map_of (rev (map (\<lambda>x. (mk s (f x), g x)) xs))) (mk s' i') = m (mk s' i')"
proof -
  assume "s \<noteq> s'" "local_seid s" "local_seid s'"
  then have "mk s' i' \<noteq> mk s j" for j
    using mk_session by metis
  then have "map_of (rev (map (\<lambda>x. (mk s (f x), g x)) xs)) (mk s' i') = None"
    unfolding map_of_eq_None_iff by (simp add: image_image image_iff)
  then show ?thesis
    by (simp add: map_add_def)
qed

lemma removed_other_session:
  "\<lbrakk>s \<noteq> s'; local_seid s; local_seid s'\<rbrakk> \<Longrightarrow> (m |` (- (mk s ` A))) (mk s' i') = m (mk s' i')"
  by (simp add: restrict_map_def image_iff) (metis mk_session)

lemma distinct_keys:
  "\<lbrakk>local_seid s; \<forall>i \<in> set is. rule_id i\<rbrakk> \<Longrightarrow> distinct (map (mk s) is) = distinct is"
  by (induction "is") (auto dest: mk_inj)

end

interpretation pdr: rule_key PdrKey_new
  by (unfold_locales; unfold PdrKey_new_def pdr_key.inject) (rule composed_key_inj composed_key_session; assumption)+

interpretation far: rule_key FarKey_new
  by (unfold_locales; unfold FarKey_new_def far_key.inject) (rule composed_key_inj composed_key_session; assumption)+

interpretation urr: rule_key UrrKey_new
  by (unfold_locales; unfold UrrKey_new_def urr_key.inject) (rule composed_key_inj composed_key_session; assumption)+

lemma composed_key_truncates:
  fixes s :: u64 and i :: u32
  shows "push_bit 16 s OR (ucast (i AND 0xFFFF) AND 0xFFFF) = push_bit 16 s OR (ucast i AND 0xFFFF)"
proof -
  have m: "(0xFFFF :: u64) = mask 16" "(0xFFFF :: u32) = mask 16"
    by (simp_all add: mask_eq_exp_minus_1)
  show ?thesis
    by (rule bit_word_eqI) (auto simp: m bit_simps)
qed

text \<open>
  C27: The keys of the PDR, FAR and URR maps identify session and rule: for session identifiers
  below 2^48 and rule identifiers below 2^16 two keys are equal only for the same session and the
  same rule.
\<close>

theorem rule_keys_injective:
  assumes "local_seid s" "local_seid s'" "rule_id i" "rule_id i'"
  shows "(PdrKey_new s i = PdrKey_new s' i' \<longleftrightarrow> s = s' \<and> i = i') \<and>
    (FarKey_new s i = FarKey_new s' i' \<longleftrightarrow> s = s' \<and> i = i') \<and>
    (UrrKey_new s i = UrrKey_new s' i' \<longleftrightarrow> s = s' \<and> i = i')"
  using assms by (simp_all add: pdr.mk_eq_iff far.mk_eq_iff urr.mk_eq_iff)

theorem rule_keys_injective_witness:
  "PdrKey_new 1 2 \<noteq> PdrKey_new 2 1 \<and> FarKey_new 1 2 \<noteq> FarKey_new 1 3 \<and> UrrKey_new 5 1 \<noteq> UrrKey_new 6 1"
  using rule_keys_injective [of 1 2 2 1] rule_keys_injective [of 1 1 2 3]
    rule_keys_injective [of 5 6 1 1]
  by (simp add: local_seid_def rule_id_def)

text \<open>
  Rule identifiers are 32 bits wide on the wire, but only their low 16 bits enter the key: two
  rules of one session whose identifiers agree modulo 2^16 share one map entry.
\<close>

theorem rule_keys_truncate:
  "FarKey_new s (i AND 0xFFFF) = FarKey_new s i \<and> UrrKey_new s (i AND 0xFFFF) = UrrKey_new s i \<and>
   PdrKey_new s (i AND 0xFFFF) = PdrKey_new s i"
  by (simp add: FarKey_new_def UrrKey_new_def PdrKey_new_def composed_key_truncates)

end
