(* ===== verification/Gtpu.thy ===== *)
theory Gtpu
  imports Upf_Common
begin

text \<open>
  The packet headers of the data plane (src/upf-edge-ebpf/src/gtpu.rs): the \<open>repr(C)\<close> structs that
  the XDP program writes over packet memory, their memory images on a little-endian host, and the
  IPv4 header checksum. The main results relate \<open>ip_checksum\<close> to the Internet checksum: it is
  the complement of the one's-complement sum, two carry folds suffice, and a receiver that sums
  a header carrying it in network order gets all ones.
\<close>

abbreviation GTPU_FLAG_S :: u8 where "GTPU_FLAG_S \<equiv> 0x02"
abbreviation GTPU_FLAG_PN :: u8 where "GTPU_FLAG_PN \<equiv> 0x01"
abbreviation GTPU_FLAG_E :: u8 where "GTPU_FLAG_E \<equiv> 0x04"
abbreviation GTPU_GPDU :: u8 where "GTPU_GPDU \<equiv> 0xFF"

abbreviation ETH_HDR_LEN :: nat where "ETH_HDR_LEN \<equiv> 14"
abbreviation IP_HDR_LEN :: nat where "IP_HDR_LEN \<equiv> 20"
abbreviation UDP_HDR_LEN :: nat where "UDP_HDR_LEN \<equiv> 8"
abbreviation GTPU_HDR_LEN :: nat where "GTPU_HDR_LEN \<equiv> 8"
abbreviation GTPU_OPT_LEN :: nat where "GTPU_OPT_LEN \<equiv> 4"
abbreviation GTPU_EXT_HDR_LEN :: nat where "GTPU_EXT_HDR_LEN \<equiv> 8"

record gtpu_hdr =
  gt_flags :: u8
  gt_msg_type :: u8
  gt_length :: u16
  gt_teid :: u32

record eth_hdr =
  eth_dst :: bytes
  eth_src :: bytes
  eth_type :: u16

record ip_hdr =
  ip_version_ihl :: u8
  ip_tos :: u8
  ip_tot_len :: u16
  ip_id :: u16
  ip_frag_off :: u16
  ip_ttl :: u8
  ip_protocol :: u8
  ip_check :: u16
  ip_saddr :: u32
  ip_daddr :: u32

record udp_hdr =
  udp_source :: u16
  udp_dest :: u16
  udp_len :: u16
  udp_check :: u16

text \<open>The memory images of the structs: fields in order, each in host byte order.\<close>

definition gtpu_image :: "gtpu_hdr \<Rightarrow> bytes" where
  "gtpu_image h = [gt_flags h, gt_msg_type h] @ ne_bytes (gt_length h) @ ne_bytes (gt_teid h)"

definition eth_image :: "eth_hdr \<Rightarrow> bytes" where
  "eth_image h = eth_dst h @ eth_src h @ ne_bytes (eth_type h)"

definition ip_image :: "ip_hdr \<Rightarrow> bytes" where
  "ip_image h = [ip_version_ihl h, ip_tos h] @ ne_bytes (ip_tot_len h) @ ne_bytes (ip_id h) @
     ne_bytes (ip_frag_off h) @ [ip_ttl h, ip_protocol h] @ ne_bytes (ip_check h) @
     ne_bytes (ip_saddr h) @ ne_bytes (ip_daddr h)"

definition udp_image :: "udp_hdr \<Rightarrow> bytes" where
  "udp_image h = ne_bytes (udp_source h) @ ne_bytes (udp_dest h) @ ne_bytes (udp_len h) @
     ne_bytes (udp_check h)"

definition gtpu_of_image :: "bytes \<Rightarrow> gtpu_hdr" where
  "gtpu_of_image b = \<lparr>gt_flags = b ! 0, gt_msg_type = b ! 1,
     gt_length = from_ne_bytes (take 2 (drop 2 b)), gt_teid = from_ne_bytes (take 4 (drop 4 b))\<rparr>"

text \<open>\<open>u16::from_be(*p.add(i))\<close> for the i-th half-word of the struct.\<close>

definition half_be :: "bytes \<Rightarrow> nat \<Rightarrow> u32" where
  "half_be b i = ucast (to_be (from_ne_bytes (take 2 (drop (2 * i) b)) :: u16))"

definition fold_carry :: "u32 \<Rightarrow> u32" where
  "fold_carry s = (s AND 0xFFFF) + drop_bit 16 s"

definition ip_checksum :: "ip_hdr \<Rightarrow> u16" where
  "ip_checksum hdr =
     (let p = ip_image hdr;
          sum = 0 + half_be p 0 + half_be p 1 + half_be p 2 + half_be p 3 + half_be p 4 +
            half_be p 5 + half_be p 6 + half_be p 7 + half_be p 8 + half_be p 9;
          sum = fold_carry sum;
          sum = fold_carry sum
      in NOT (ucast sum))"

subsection \<open>Images\<close>

lemma image_length [simp]:
  "length (gtpu_image g) = 8" "length (ip_image h) = 20" "length (udp_image u) = 8"
  by (simp_all add: gtpu_image_def ip_image_def udp_image_def)

lemma eth_image_length [simp]:
  "length (eth_dst e) = 6 \<Longrightarrow> length (eth_src e) = 6 \<Longrightarrow> length (eth_image e) = 14"
  by (simp add: eth_image_def)

lemma gtpu_image_inverse: "gtpu_of_image (gtpu_image h) = h"
  by (cases h) (simp add: gtpu_of_image_def gtpu_image_def from_ne_ne_bytes)

subsection \<open>The checksum\<close>

definition fold_nat :: "nat \<Rightarrow> nat" where
  "fold_nat n = n mod 65536 + n div 65536"

definition halves_sum :: "ip_hdr \<Rightarrow> nat" where
  "halves_sum h = (\<Sum>i\<leftarrow>[0..<10]. unat (half_be (ip_image h) i))"

lemma fold_nat_mod: "fold_nat n mod 65535 = n mod 65535"
proof -
  have "n = fold_nat n + 65535 * (n div 65536)"
    using div_mult_mod_eq [of n 65536] unfolding fold_nat_def by linarith
  then show ?thesis
    by (metis mod_mult_self2)
qed

lemma fold_nat_pos: "0 < n \<Longrightarrow> 0 < fold_nat n"
  unfolding fold_nat_def by (metis add_gr_0 div_mult_mod_eq gr0I mult_is_0 add_is_0)

lemma fold_nat_twice_le: "n < 2 ^ 20 \<Longrightarrow> fold_nat (fold_nat n) \<le> 65535"
proof -
  assume n: "n < 2 ^ 20"
  define m where "m = fold_nat n"
  have "n div 65536 < 16"
    using n by (simp add: less_mult_imp_div_less)
  moreover have "n mod 65536 < 65536"
    by simp
  ultimately have "m < 65552"
    unfolding m_def fold_nat_def by linarith
  then have "fold_nat m \<le> 65535"
    by (cases "m < 65536") (simp_all add: fold_nat_def le_div_geq le_mod_geq)
  then show ?thesis
    by (simp add: m_def)
qed

lemma unat_fold_carry: "unat (fold_carry s) = fold_nat (unat s)"
proof -
  have a: "unat (s AND 0xFFFF) = unat s mod 65536"
  proof -
    have "s AND 0xFFFF = take_bit 16 s"
      by (simp add: take_bit_eq_mask mask_eq_exp_minus_1)
    then show ?thesis
      by (simp add: take_bit_eq_mod unat_mod)
  qed
  have d: "unat (drop_bit 16 s) = unat s div 65536"
    by (simp add: unsigned_drop_bit_eq drop_bit_eq_div unat_div)
  have "unat s < 65536 * 65536"
    using unsigned_less [of s] by simp
  then have "unat s div 65536 < 65536"
    by (simp add: less_mult_imp_div_less)
  then show ?thesis
    by (simp add: fold_carry_def unat_word_ariths fold_nat_def a d)
qed

lemma unat_ucast_u16: "unat (ucast (w :: u16) :: u32) = unat w"
proof -
  have "unat w < 2 ^ LENGTH(16)"
    by (rule unsigned_less)
  then show ?thesis
    by (simp add: unsigned_ucast_eq take_bit_nat_eq_self)
qed

lemma unat_half_be: "unat (half_be b i) < 65536"
proof -
  have "unat (to_be (from_ne_bytes (take 2 (drop (2 * i) b)) :: u16)) < 2 ^ LENGTH(16)"
    by (rule unsigned_less)
  then show ?thesis
    by (simp add: half_be_def unat_ucast_u16)
qed

lemma unat_sum_halves:
  fixes a b c d e f g h i j :: u32
  assumes "unat a < 65536" "unat b < 65536" "unat c < 65536" "unat d < 65536" "unat e < 65536"
    "unat f < 65536" "unat g < 65536" "unat h < 65536" "unat i < 65536" "unat j < 65536"
  shows "unat (0 + a + b + c + d + e + f + g + h + i + j) =
    unat a + unat b + unat c + unat d + unat e + unat f + unat g + unat h + unat i + unat j"
  using assms by (simp add: unat_word_ariths)

lemma halves_sum_unfold:
  "halves_sum h = (let p = ip_image h in unat (half_be p 0) + unat (half_be p 1) + unat (half_be p 2) +
     unat (half_be p 3) + unat (half_be p 4) + unat (half_be p 5) + unat (half_be p 6) +
     unat (half_be p 7) + unat (half_be p 8) + unat (half_be p 9))"
proof -
  have "[0..<10] = [0, 1, 2, 3, 4, 5, 6, 7, 8, 9 :: nat]"
    by code_simp
  then show ?thesis
    by (simp add: halves_sum_def Let_def)
qed

lemma halves_sum_bound: "halves_sum h < 2 ^ 20"
proof -
  have "unat (half_be (ip_image h) i) \<le> 65535" for i
    using unat_half_be [of "ip_image h" i] by simp
  from this [of 0] this [of 1] this [of 2] this [of 3] this [of 4] this [of 5] this [of 6] this [of 7]
    this [of 8] this [of 9] show ?thesis
    by (simp add: halves_sum_unfold Let_def)
qed

lemma unat_not_u16: "unat (NOT (w :: u16)) = 65535 - unat w"
proof -
  have "NOT w = - 1 - w"
    by (simp add: not_eq_complement)
  moreover have "unat (- 1 - w) = unat (- 1 :: u16) - unat w"
    by (rule unat_sub) simp
  ultimately show ?thesis
    by (simp add: unsigned_minus_1_eq_mask mask_eq_exp_minus_1)
qed

text \<open>The routine computes the complement of the folded sum of the ten half-words.\<close>

lemma unat_ip_checksum: "unat (ip_checksum h) = 65535 - fold_nat (fold_nat (halves_sum h))"
proof -
  let ?p = "ip_image h"
  let ?s = "0 + half_be ?p 0 + half_be ?p 1 + half_be ?p 2 + half_be ?p 3 + half_be ?p 4 +
    half_be ?p 5 + half_be ?p 6 + half_be ?p 7 + half_be ?p 8 + half_be ?p 9"
  have s: "unat ?s = halves_sum h"
    by (subst unat_sum_halves) (simp_all add: unat_half_be halves_sum_unfold Let_def)
  have f: "unat (fold_carry (fold_carry ?s)) = fold_nat (fold_nat (halves_sum h))"
    by (simp only: unat_fold_carry s)
  have "unat (ucast (fold_carry (fold_carry ?s)) :: u16) = fold_nat (fold_nat (halves_sum h))"
    using fold_nat_twice_le [OF halves_sum_bound [of h]]
    by (simp only: unsigned_ucast_eq f) (simp add: take_bit_nat_eq_self)
  then show ?thesis
    by (simp only: ip_checksum_def Let_def unat_not_u16)
qed

lemma to_be_0: "to_be (0 :: u16) = 0"
  by code_simp

lemma half_be_check: "half_be (ip_image (h\<lparr>ip_check := to_be c\<rparr>)) 5 = ucast c"
  by (simp add: half_be_def ip_image_def from_ne_ne_bytes to_be_to_be)

lemma half_be_other:
  "i < 10 \<Longrightarrow> i \<noteq> 5 \<Longrightarrow> half_be (ip_image (h\<lparr>ip_check := c\<rparr>)) i = half_be (ip_image h) i"
  by (cases "i < 5") (auto simp: half_be_def ip_image_def take_Cons' drop_Cons')

lemma halves_sum_pos:
  assumes "ip_version_ihl h \<noteq> 0"
  shows "0 < halves_sum h"
proof -
  have "to_be (from_ne_bytes (take 2 (drop (2 * 0) (ip_image h))) :: u16) =
    from_be_bytes [ip_version_ihl h, ip_tos h]"
    by (simp add: ip_image_def to_be_from_ne_bytes)
  moreover have "from_be_bytes [ip_version_ihl h, ip_tos h] \<noteq> (0 :: u16)"
  proof
    assume "from_be_bytes [ip_version_ihl h, ip_tos h] = (0 :: u16)"
    then have "[ip_version_ihl h, ip_tos h] = to_be_bytes (0 :: u16)"
      by (metis to_be_bytes_from_be_bytes_u16)
    then show False
      using assms by (simp add: wire)
  qed
  ultimately show ?thesis
    by (simp add: halves_sum_unfold Let_def half_be_def unat_ucast_u16 unat_gt_0)
qed

lemma halves_sum_check:
  assumes "ip_check h = 0"
  shows "halves_sum (h\<lparr>ip_check := to_be c\<rparr>) = halves_sum h + unat c"
proof -
  have z: "half_be (ip_image h) 5 = 0"
    using half_be_check [of 0 h] assms by (cases h) (simp add: to_be_0)
  show ?thesis
    by (simp add: halves_sum_unfold Let_def z half_be_check half_be_other unat_ucast_u16)
qed


text \<open>
  The checksum routine is a correct Internet checksum: a header whose check field holds, in
  network byte order, the value computed over the header with a zero check field passes the
  receiver's test, that is the routine computes 0 over it.
\<close>

theorem ip_checksum_verifies:
  assumes "ip_check h = 0" "ip_version_ihl h \<noteq> 0"
  shows "ip_checksum (h\<lparr>ip_check := to_be (ip_checksum h)\<rparr>) = 0"
proof -
  let ?n = "halves_sum h" and ?h' = "h\<lparr>ip_check := to_be (ip_checksum h)\<rparr>"
  let ?f = "fold_nat (fold_nat ?n)" and ?f' = "fold_nat (fold_nat (halves_sum ?h'))"
  have n': "halves_sum ?h' = ?n + (65535 - ?f)"
    using assms(1) by (simp add: halves_sum_check unat_ip_checksum)
  have le: "?f \<le> 65535" "?f' \<le> 65535"
    by (rule fold_nat_twice_le, rule halves_sum_bound)+
  have "(?n + (65535 - ?f)) mod 65535 = (?f + (65535 - ?f)) mod 65535"
    by (metis fold_nat_mod mod_add_cong)
  then have "?f' mod 65535 = 0"
    using le by (simp add: fold_nat_mod n')
  moreover have "0 < halves_sum ?h'"
    using halves_sum_pos [of ?h'] assms(2) by simp
  then have "0 < ?f'"
    by (simp add: fold_nat_pos)
  ultimately have "?f' = 65535"
    using le(2) by (metis dvd_imp_le le_antisym mod_eq_0_iff_dvd)
  then have "unat (ip_checksum ?h') = 0"
    by (simp add: unat_ip_checksum)
  then show ?thesis
    by (simp add: unat_eq_0)
qed

theorem ip_checksum_verifies_witness:
  "(let h = \<lparr>ip_version_ihl = 0x45, ip_tos = 0, ip_tot_len = to_be 120, ip_id = 0, ip_frag_off = 0,
     ip_ttl = 64, ip_protocol = 17, ip_check = 0, ip_saddr = 0x0100000A, ip_daddr = 0x0200000A\<rparr>
    in ip_checksum (h\<lparr>ip_check := to_be (ip_checksum h)\<rparr>) = 0)"
  unfolding Let_def by (rule ip_checksum_verifies) simp_all

text \<open>
  Stored in host byte order, as the encapsulation stores it, the checksum does not verify:
  for the outer header of a 120-byte packet from 10.0.0.1 to 10.0.0.2 the receiver's test fails.
\<close>

theorem ip_checksum_native_store_fails:
  "(let h = \<lparr>ip_version_ihl = 0x45, ip_tos = 0, ip_tot_len = to_be 120, ip_id = 0, ip_frag_off = 0,
     ip_ttl = 64, ip_protocol = 17, ip_check = 0, ip_saddr = 0x0100000A, ip_daddr = 0x0200000A\<rparr>
    in ip_checksum (h\<lparr>ip_check := ip_checksum h\<rparr>) \<noteq> 0)"
  by code_simp

end
