(* ===== verification/Xdp.thy ===== *)
theory Xdp
  imports Gtpu "HOL-Library.Monad_Syntax"
begin

text \<open>
  The XDP programs \<open>upf_edge_n3\<close> (uplink) and \<open>upf_edge_n6\<close> (downlink) of
  src/upf-edge-ebpf/src/main.rs. A program run maps the BPF maps and the packet to new maps, a
  new packet and a verdict. The kernel's \<open>bpf_xdp_adjust_head\<close>, \<open>bpf_redirect\<close> and the insertion
  into per-CPU maps are the fields of \<open>xdp_env\<close>, with their documented behaviour as \<open>env_laws\<close>.
  A raw read \<open>ptr_at\<close> yields \<open>None\<close> when it would leave the packet.

  Shown: the rule scan refines "the first candidate of least precedence"; decapsulation and
  encapsulation are byte-exact; encapsulation followed by the uplink parser recovers the inner
  packet; traffic of unknown users is passed untouched; statistics are exact.
\<close>

abbreviation XDP_ABORTED :: u32 where "XDP_ABORTED \<equiv> 0"
abbreviation XDP_DROP :: u32 where "XDP_DROP \<equiv> 1"
abbreviation XDP_PASS :: u32 where "XDP_PASS \<equiv> 2"

record xdp_env =
  adjust_head :: "bytes \<Rightarrow> int \<Rightarrow> bytes option"
  bpf_redirect :: "u32 \<Rightarrow> u64 \<Rightarrow> u64"
  cpu :: nat
  stats_insert :: "(session_key \<rightharpoonup> session_stats list) \<Rightarrow> session_key \<Rightarrow> session_stats
    \<Rightarrow> (session_key \<rightharpoonup> session_stats list) option"
  urr_insert :: "(urr_key \<rightharpoonup> urr_stats list) \<Rightarrow> urr_key \<Rightarrow> urr_stats
    \<Rightarrow> (urr_key \<rightharpoonup> urr_stats list) option"

subsection \<open>Packet access\<close>

definition ptr_at :: "bytes \<Rightarrow> nat \<Rightarrow> nat \<Rightarrow> bytes option" where
  "ptr_at p offset len = (if offset + len > length p then None else Some (take len (drop offset p)))"

definition ptr_u8 :: "bytes \<Rightarrow> nat \<Rightarrow> u8 option" where
  "ptr_u8 p offset = map_option hd (ptr_at p offset 1)"

definition ptr_u16 :: "bytes \<Rightarrow> nat \<Rightarrow> u16 option" where
  "ptr_u16 p offset = map_option from_ne_bytes (ptr_at p offset 2)"

definition ptr_u32 :: "bytes \<Rightarrow> nat \<Rightarrow> u32 option" where
  "ptr_u32 p offset = map_option from_ne_bytes (ptr_at p offset 4)"

definition write_unaligned :: "nat \<Rightarrow> bytes \<Rightarrow> bytes \<Rightarrow> bytes" where
  "write_unaligned offset bs p = take offset p @ bs @ drop (offset + length bs) p"

definition require_that :: "bool \<Rightarrow> unit option" where
  "require_that b = (if b then Some () else None)"

subsection \<open>Rule selection\<close>

definition sdf_matches :: "pdr_value \<Rightarrow> u8 \<Rightarrow> u32 \<Rightarrow> u32 \<Rightarrow> u16 \<Rightarrow> u16 \<Rightarrow> bool" where
  "sdf_matches pdr proto src_ip dst_ip src_port dst_port =
     (if pv_sdf_proto pdr \<noteq> 0 \<and> pv_sdf_proto pdr \<noteq> proto then False
      else if pv_sdf_src_ip pdr \<noteq> 0 \<and> pv_sdf_src_ip pdr \<noteq> src_ip then False
      else if pv_sdf_dst_ip pdr \<noteq> 0 \<and> pv_sdf_dst_ip pdr \<noteq> dst_ip then False
      else if pv_sdf_src_port pdr \<noteq> 0 \<and> pv_sdf_src_port pdr \<noteq> src_port then False
      else if pv_sdf_dst_port pdr \<noteq> 0 \<and> pv_sdf_dst_port pdr \<noteq> dst_port then False
      else True)"

text \<open>The PDR ids the scan loops visit: \<open>i\<close> runs while below both bounds.\<close>

definition session_pdrs :: "session_info \<Rightarrow> u32 list" where
  "session_pdrs s = map (\<lambda>i. si_pdr_ids s ! i) [0..<min MAX_PDR_PER_SESSION (unat (si_pdr_count s))]"

fun select_far_loop ::
  "bpf_maps \<Rightarrow> u64 \<Rightarrow> u8 \<Rightarrow> (pdr_value \<Rightarrow> bool) \<Rightarrow> u32 list \<Rightarrow> (far_value \<times> u32) option \<Rightarrow> u32
   \<Rightarrow> (far_value \<times> u32) option" where
  "select_far_loop M sid iface sdf [] best_far best_precedence = best_far"
| "select_far_loop M sid iface sdf (pid # ids) best_far best_precedence =
    (case PDR_MAP M (PdrKey_new sid pid) of
       None \<Rightarrow> select_far_loop M sid iface sdf ids best_far best_precedence
     | Some pdr \<Rightarrow>
        if pv_source_interface pdr \<noteq> iface then
          select_far_loop M sid iface sdf ids best_far best_precedence
        else if \<not> sdf pdr then
          select_far_loop M sid iface sdf ids best_far best_precedence
        else if pv_precedence pdr \<ge> best_precedence then
          select_far_loop M sid iface sdf ids best_far best_precedence
        else
          (case FAR_MAP M (FarKey_new sid (pv_far_id pdr)) of
             None \<Rightarrow> select_far_loop M sid iface sdf ids best_far best_precedence
           | Some far \<Rightarrow>
              select_far_loop M sid iface sdf ids (Some (far, pv_urr_id pdr)) (pv_precedence pdr)))"

definition select_far ::
  "bpf_maps \<Rightarrow> session_info \<Rightarrow> u8 \<Rightarrow> u8 \<Rightarrow> u32 \<Rightarrow> u32 \<Rightarrow> u16 \<Rightarrow> u16 \<Rightarrow> (far_value \<times> u32) option" where
  "select_far M session iface_filter proto src_ip dst_ip src_port dst_port =
     select_far_loop M (si_seid session) iface_filter
       (\<lambda>pdr. sdf_matches pdr proto src_ip dst_ip src_port dst_port)
       (session_pdrs session) None (- 1)"

fun uplink_check_far_loop :: "bpf_maps \<Rightarrow> u64 \<Rightarrow> u32 list \<Rightarrow> bool" where
  "uplink_check_far_loop M sid [] = False"
| "uplink_check_far_loop M sid (pid # ids) =
    (case PDR_MAP M (PdrKey_new sid pid) of
       None \<Rightarrow> uplink_check_far_loop M sid ids
     | Some pdr \<Rightarrow>
        if pv_source_interface pdr \<noteq> IFACE_ACCESS then uplink_check_far_loop M sid ids
        else
          (case FAR_MAP M (FarKey_new sid (pv_far_id pdr)) of
             None \<Rightarrow> uplink_check_far_loop M sid ids
           | Some far \<Rightarrow>
              if fv_apply_action far AND ACTION_DROP_bpf \<noteq> 0 then True
              else if fv_apply_action far AND ACTION_FORW_bpf \<noteq> 0 then False
              else True))"

definition uplink_check_far :: "bpf_maps \<Rightarrow> session_info \<Rightarrow> bool" where
  "uplink_check_far M session = uplink_check_far_loop M (si_seid session) (session_pdrs session)"

fun downlink_get_far_loop :: "bpf_maps \<Rightarrow> u64 \<Rightarrow> u32 list \<Rightarrow> far_value option" where
  "downlink_get_far_loop M sid [] = None"
| "downlink_get_far_loop M sid (pid # ids) =
    (case PDR_MAP M (PdrKey_new sid pid) of
       None \<Rightarrow> downlink_get_far_loop M sid ids
     | Some pdr \<Rightarrow>
        if pv_source_interface pdr \<noteq> IFACE_CORE then downlink_get_far_loop M sid ids
        else
          (case FAR_MAP M (FarKey_new sid (pv_far_id pdr)) of
             None \<Rightarrow> downlink_get_far_loop M sid ids
           | Some far \<Rightarrow> Some far))"

definition downlink_get_far :: "bpf_maps \<Rightarrow> session_info \<Rightarrow> far_value option" where
  "downlink_get_far M session = downlink_get_far_loop M (si_seid session) (session_pdrs session)"

subsection \<open>Counters\<close>

text \<open>\<open>get_ptr_mut\<close> and the update through the pointer: the current CPU's slot changes.\<close>

definition at_cpu :: "nat \<Rightarrow> ('v \<Rightarrow> 'v) \<Rightarrow> 'v list \<Rightarrow> 'v list" where
  "at_cpu c f vs = vs[c := f (vs ! c)]"

definition urr_add :: "bool \<Rightarrow> u64 \<Rightarrow> urr_stats \<Rightarrow> urr_stats" where
  "urr_add uplink pkt_len st =
     (if uplink then st\<lparr>ul_packets := ul_packets st + 1, ul_bytes := ul_bytes st + pkt_len\<rparr>
      else st\<lparr>dl_packets := dl_packets st + 1, dl_bytes := dl_bytes st + pkt_len\<rparr>)"

definition urr_count :: "xdp_env \<Rightarrow> u64 \<Rightarrow> u32 \<Rightarrow> u64 \<Rightarrow> bool \<Rightarrow> bpf_maps \<Rightarrow> bpf_maps" where
  "urr_count E sid uid pkt_len uplink M =
     (if uid = 0 then M
      else
        (let key = UrrKey_new sid uid in
         case URR_MAP M key of
           Some vs \<Rightarrow> M\<lparr>URR_MAP := (URR_MAP M)(key \<mapsto> at_cpu (cpu E) (urr_add uplink pkt_len) vs)\<rparr>
         | None \<Rightarrow>
            (let init = (if uplink then \<lparr>ul_bytes = pkt_len, ul_packets = 1, dl_bytes = 0, dl_packets = 0\<rparr>
                         else \<lparr>ul_bytes = 0, ul_packets = 0, dl_bytes = pkt_len, dl_packets = 1\<rparr>)
             in case urr_insert E (URR_MAP M) key init of
                  None \<Rightarrow> M
                | Some m \<Rightarrow> M\<lparr>URR_MAP := m\<rparr>)))"

definition stats_count :: "xdp_env \<Rightarrow> session_key \<Rightarrow> (session_stats \<Rightarrow> session_stats) \<Rightarrow> session_stats
    \<Rightarrow> bpf_maps \<Rightarrow> bpf_maps" where
  "stats_count E key upd init M =
     (case STATS_MAP M key of
        Some vs \<Rightarrow> M\<lparr>STATS_MAP := (STATS_MAP M)(key \<mapsto> at_cpu (cpu E) upd vs)\<rparr>
      | None \<Rightarrow>
         (case stats_insert E (STATS_MAP M) key init of
            None \<Rightarrow> M
          | Some m \<Rightarrow> M\<lparr>STATS_MAP := m\<rparr>))"

subsection \<open>Uplink\<close>

record packet_flow =
  pf_outer_total :: nat
  pf_ue_ip :: u32
  pf_proto :: u8
  pf_src_ip :: u32
  pf_dst_ip :: u32
  pf_src_port :: u16
  pf_dst_port :: u16

definition gtpu_opt_len :: "gtpu_hdr \<Rightarrow> nat" where
  "gtpu_opt_len g =
     (if gt_flags g AND GTPU_FLAG_E \<noteq> 0 then GTPU_EXT_HDR_LEN
      else if gt_flags g AND (GTPU_FLAG_S OR GTPU_FLAG_PN) \<noteq> 0 then GTPU_OPT_LEN
      else 0)"

text \<open>Steps 1 to 6 of \<open>try_n3_uplink\<close>; \<open>None\<close> stands for the early returns with \<open>XDP_PASS\<close>.\<close>

definition uplink_parse :: "bytes \<Rightarrow> packet_flow option" where
  "uplink_parse p = do {
     et \<leftarrow> ptr_u16 p 12;
     require_that (to_be et = 0x0800);
     ip_proto \<leftarrow> ptr_u8 p (ETH_HDR_LEN + 9);
     require_that (ip_proto = 17);
     udp_dst \<leftarrow> ptr_u16 p (ETH_HDR_LEN + IP_HDR_LEN + 2);
     require_that (to_be udp_dst = GTP_UDP_PORT);
     gtpu \<leftarrow> map_option gtpu_of_image (ptr_at p (ETH_HDR_LEN + IP_HDR_LEN + UDP_HDR_LEN) 8);
     require_that (gt_msg_type gtpu = GTPU_GPDU);
     let outer_total = ETH_HDR_LEN + IP_HDR_LEN + UDP_HDR_LEN + GTPU_HDR_LEN + gtpu_opt_len gtpu;
     ue_ip_be \<leftarrow> ptr_u32 p (outer_total + 12);
     inner_proto \<leftarrow> ptr_u8 p (outer_total + 9);
     inner_dst_ip_be \<leftarrow> ptr_u32 p (outer_total + 16);
     (sp, dp) \<leftarrow> (if inner_proto = 6 \<or> inner_proto = 17 then do {
                   sp \<leftarrow> ptr_u16 p (outer_total + 20);
                   dp \<leftarrow> ptr_u16 p (outer_total + 22);
                   Some (sp, dp) }
                 else Some (0, 0));
     Some \<lparr>pf_outer_total = outer_total, pf_ue_ip = ue_ip_be, pf_proto = inner_proto,
       pf_src_ip = ue_ip_be, pf_dst_ip = inner_dst_ip_be, pf_src_port = sp, pf_dst_port = dp\<rparr> }"

text \<open>Step 9: the matched FAR's verdict and the URR it is charged to.\<close>

definition flow_action :: "bpf_maps \<Rightarrow> session_info \<Rightarrow> u8 \<Rightarrow> packet_flow \<Rightarrow> bool \<times> u32" where
  "flow_action M session iface f =
     (if si_pdr_count session > 0 then
        (case select_far M session iface (pf_proto f) (pf_src_ip f) (pf_dst_ip f) (pf_src_port f)
           (pf_dst_port f) of
           Some (far, uid) \<Rightarrow> (fv_apply_action far AND ACTION_DROP_bpf \<noteq> 0, uid)
         | None \<Rightarrow> (False, 0))
      else (False, 0))"

text \<open>Step 9 to the end: strip the outer headers, write a new Ethernet header, redirect to N6.\<close>

definition uplink_decap :: "xdp_env \<Rightarrow> bpf_maps \<Rightarrow> nat \<Rightarrow> bytes \<Rightarrow> bytes \<times> u32" where
  "uplink_decap E M strip p =
     (case ptr_at p 6 6 of None \<Rightarrow> (p, XDP_PASS) | Some src \<Rightarrow>
      case adjust_head E p (int strip) of None \<Rightarrow> (p, XDP_PASS) | Some p1 \<Rightarrow>
      case adjust_head E p1 (- int ETH_HDR_LEN) of None \<Rightarrow> (p1, XDP_PASS) | Some p2 \<Rightarrow>
      if ETH_HDR_LEN > length p2 then (p2, XDP_PASS)
      else case GW_MAC M 0 of None \<Rightarrow> (p2, XDP_PASS) | Some br_mac \<Rightarrow>
       (let p3 = write_unaligned 12 (ne_bytes (0x0008 :: u16))
                   (write_unaligned 6 src (write_unaligned 0 (mac_bytes br_mac) p2))
        in case IF_INDEX M 1 of
             None \<Rightarrow> (p3, XDP_PASS)
           | Some idx \<Rightarrow> (p3, ucast (bpf_redirect E idx 0))))"

definition uplink_stats :: "xdp_env \<Rightarrow> session_key \<Rightarrow> u64 \<Rightarrow> bpf_maps \<Rightarrow> bpf_maps" where
  "uplink_stats E key pkt_len =
     stats_count E key (\<lambda>st. st\<lparr>rx_packets := rx_packets st + 1, rx_bytes := rx_bytes st + pkt_len\<rparr>)
       \<lparr>rx_bytes = pkt_len, rx_packets = 1, tx_bytes = 0, tx_packets = 0\<rparr>"

definition try_n3_uplink :: "xdp_env \<Rightarrow> bpf_maps \<Rightarrow> bytes \<Rightarrow> bpf_maps \<times> bytes \<times> u32" where
  "try_n3_uplink E M p =
     (case uplink_parse p of None \<Rightarrow> (M, p, XDP_PASS) | Some f \<Rightarrow>
      let key = SessionKey (pf_ue_ip f) in
      case SESSION_MAP M key of None \<Rightarrow> (M, p, XDP_PASS) | Some session \<Rightarrow>
      let (should_drop, matched_urr_id) = flow_action M session IFACE_ACCESS f in
      if should_drop then (M, p, XDP_DROP)
      else
        let pkt_len = of_nat (length p);
            M1 = uplink_stats E key pkt_len M;
            M2 = urr_count E (si_seid session) matched_urr_id pkt_len False M1;
            (p', ret) = uplink_decap E M2 (pf_outer_total f) p
        in (M2, p', ret))"

subsection \<open>Downlink\<close>

definition downlink_parse :: "bytes \<Rightarrow> packet_flow option" where
  "downlink_parse p = do {
     et \<leftarrow> ptr_u16 p 12;
     require_that (to_be et = 0x0800);
     protocol \<leftarrow> ptr_u8 p (ETH_HDR_LEN + 9);
     src_ip_be \<leftarrow> ptr_u32 p (ETH_HDR_LEN + 12);
     dst_ip_be \<leftarrow> ptr_u32 p (ETH_HDR_LEN + 16);
     src_port_be \<leftarrow> ptr_u16 p (ETH_HDR_LEN + IP_HDR_LEN);
     dst_port_be \<leftarrow> ptr_u16 p (ETH_HDR_LEN + IP_HDR_LEN + 2);
     Some \<lparr>pf_outer_total = ETH_HDR_LEN, pf_ue_ip = dst_ip_be, pf_proto = protocol,
       pf_src_ip = src_ip_be, pf_dst_ip = dst_ip_be, pf_src_port = src_port_be,
       pf_dst_port = dst_port_be\<rparr> }"

definition downlink_stats :: "xdp_env \<Rightarrow> session_key \<Rightarrow> u64 \<Rightarrow> bpf_maps \<Rightarrow> bpf_maps" where
  "downlink_stats E key pkt_len =
     stats_count E key (\<lambda>st. st\<lparr>tx_packets := tx_packets st + 1, tx_bytes := tx_bytes st + pkt_len\<rparr>)
       \<lparr>rx_bytes = 0, rx_packets = 0, tx_bytes = pkt_len, tx_packets = 1\<rparr>"

text \<open>Second step 4: the tunnel end point, or \<open>None\<close> when the FAR found drops the packet.\<close>

definition downlink_endpoint :: "bpf_maps \<Rightarrow> session_info \<Rightarrow> (u32 \<times> u32) option" where
  "downlink_endpoint M session =
     (if si_pdr_count session > 0 then
        (case downlink_get_far M session of
           Some far \<Rightarrow>
             if fv_apply_action far AND ACTION_DROP_bpf \<noteq> 0 then None
             else if fv_apply_action far AND ACTION_FORW_bpf \<noteq> 0 then Some (fv_gnb_ip far, fv_teid far)
             else Some (si_gnb_ip session, si_teid session)
         | None \<Rightarrow> Some (si_gnb_ip session, si_teid session))
      else Some (si_gnb_ip session, si_teid session))"

definition ext_bytes :: bytes where
  "ext_bytes = [0x00, 0x00, 0x00, 0x85, 0x01, 0x00, 0x01, 0x00]"

definition outer_ip :: "u16 \<Rightarrow> u32 \<Rightarrow> u32 \<Rightarrow> ip_hdr" where
  "outer_ip inner_ip_tot_len upf_ip gnb_ip_be =
     (let outer_ip_len = of_nat (IP_HDR_LEN + UDP_HDR_LEN + GTPU_HDR_LEN + GTPU_EXT_HDR_LEN) + inner_ip_tot_len;
          ip = \<lparr>ip_version_ihl = 0x45, ip_tos = 0, ip_tot_len = to_be outer_ip_len, ip_id = 0,
            ip_frag_off = 0, ip_ttl = 64, ip_protocol = 17, ip_check = 0, ip_saddr = upf_ip,
            ip_daddr = gnb_ip_be\<rparr>
      in ip\<lparr>ip_check := ip_checksum ip\<rparr>)"

definition outer_udp :: "u16 \<Rightarrow> udp_hdr" where
  "outer_udp inner_ip_tot_len =
     (let len = of_nat (UDP_HDR_LEN + GTPU_HDR_LEN + GTPU_EXT_HDR_LEN) + inner_ip_tot_len
      in \<lparr>udp_source = to_be GTP_UDP_PORT, udp_dest = to_be GTP_UDP_PORT, udp_len = to_be len,
        udp_check = 0\<rparr>)"

definition outer_gtpu :: "u16 \<Rightarrow> u32 \<Rightarrow> gtpu_hdr" where
  "outer_gtpu inner_ip_tot_len teid_be =
     (let gtp_len = inner_ip_tot_len + of_nat GTPU_EXT_HDR_LEN
      in \<lparr>gt_flags = 0x34, gt_msg_type = GTPU_GPDU, gt_length = to_be gtp_len, gt_teid = teid_be\<rparr>)"

text \<open>Steps 5 to the end: make room, write the outer headers, redirect to N3.\<close>

definition downlink_encap ::
  "xdp_env \<Rightarrow> bpf_maps \<Rightarrow> session_info \<Rightarrow> u32 \<times> u32 \<Rightarrow> bytes \<Rightarrow> bytes \<times> u32" where
  "downlink_encap E M session endpoint p =
     (let (gnb_ip_be, teid_be) = endpoint in
      case map_option to_be (ptr_u16 p (ETH_HDR_LEN + 2)) of None \<Rightarrow> (p, XDP_PASS) | Some inner_ip_tot_len \<Rightarrow>
      case ptr_at p 0 6 of None \<Rightarrow> (p, XDP_PASS) | Some src \<Rightarrow>
      let add_len = IP_HDR_LEN + UDP_HDR_LEN + GTPU_HDR_LEN + GTPU_EXT_HDR_LEN in
      case adjust_head E p (- int add_len) of None \<Rightarrow> (p, XDP_PASS) | Some p1 \<Rightarrow>
      if ETH_HDR_LEN + add_len > length p1 then (p1, XDP_PASS)
      else case GW_MAC M 1 of None \<Rightarrow> (p1, XDP_PASS) | Some gnb_mac \<Rightarrow>
       (let eth = \<lparr>eth_dst = mac_bytes gnb_mac, eth_src = src, eth_type = 0x0008\<rparr>;
            p2 = write_unaligned 0 (eth_image eth) p1;
            p3 = write_unaligned ETH_HDR_LEN
                   (ip_image (outer_ip inner_ip_tot_len (si_upf_ip session) gnb_ip_be)) p2;
            p4 = write_unaligned (ETH_HDR_LEN + IP_HDR_LEN) (udp_image (outer_udp inner_ip_tot_len)) p3;
            p5 = write_unaligned (ETH_HDR_LEN + IP_HDR_LEN + UDP_HDR_LEN)
                   (gtpu_image (outer_gtpu inner_ip_tot_len teid_be)) p4;
            p6 = write_unaligned (ETH_HDR_LEN + IP_HDR_LEN + UDP_HDR_LEN + GTPU_HDR_LEN) ext_bytes p5
        in case IF_INDEX M 0 of
             None \<Rightarrow> (p6, XDP_PASS)
           | Some idx \<Rightarrow> (p6, ucast (bpf_redirect E idx 0))))"

definition try_n6_downlink :: "xdp_env \<Rightarrow> bpf_maps \<Rightarrow> bytes \<Rightarrow> bpf_maps \<times> bytes \<times> u32" where
  "try_n6_downlink E M p =
     (case downlink_parse p of None \<Rightarrow> (M, p, XDP_PASS) | Some f \<Rightarrow>
      let key = SessionKey (pf_dst_ip f) in
      case SESSION_MAP M key of None \<Rightarrow> (M, p, XDP_PASS) | Some session \<Rightarrow>
      let (should_drop, matched_urr_id) = flow_action M session IFACE_CORE f in
      if should_drop then (M, p, XDP_DROP)
      else
        let pkt_len = of_nat (length p);
            M1 = downlink_stats E key pkt_len M
        in case downlink_endpoint M1 session of
             None \<Rightarrow> (M1, p, XDP_DROP)
           | Some endpoint \<Rightarrow>
               let (p', ret) = downlink_encap E M1 session endpoint p
               in (M1, p', ret))"

text \<open>The program entry points; neither program has an error return.\<close>

definition upf_edge_n3 :: "xdp_env \<Rightarrow> bpf_maps \<Rightarrow> bytes \<Rightarrow> bpf_maps \<times> bytes \<times> u32" where
  "upf_edge_n3 E M p = try_n3_uplink E M p"

definition upf_edge_n6 :: "xdp_env \<Rightarrow> bpf_maps \<Rightarrow> bytes \<Rightarrow> bpf_maps \<times> bytes \<times> u32" where
  "upf_edge_n6 E M p = try_n6_downlink E M p"

subsection \<open>The environment's documented behaviour\<close>

definition adjust_head_laws :: "xdp_env \<Rightarrow> bool" where
  "adjust_head_laws E \<longleftrightarrow>
     (\<forall>p n. n + 14 \<le> length p \<longrightarrow> adjust_head E p (int n) = Some (drop n p)) \<and>
     (\<forall>p n. 0 < n \<and> n \<le> 64 \<longrightarrow> (\<exists>j. length j = n \<and> adjust_head E p (- int n) = Some (j @ p)))"

definition stats_insert_laws :: "xdp_env \<Rightarrow> bool" where
  "stats_insert_laws E \<longleftrightarrow>
     (\<forall>m k v m'. stats_insert E m k v = Some m' \<longrightarrow>
        (\<exists>n > cpu E. m' = m(k \<mapsto> (replicate n \<lparr>rx_bytes = 0, rx_packets = 0, tx_bytes = 0, tx_packets = 0\<rparr>)[cpu E := v])))"

definition demo_env :: xdp_env where
  "demo_env = \<lparr>adjust_head = (\<lambda>p d. if d \<ge> 0 then (if nat d + 14 \<le> length p then Some (drop (nat d) p) else None)
       else Some (replicate (nat (- d)) 0 @ p)),
     bpf_redirect = (\<lambda>_ _. 4), cpu = 1,
     stats_insert = (\<lambda>m k v. Some (m(k \<mapsto> (replicate 2 \<lparr>rx_bytes = 0, rx_packets = 0, tx_bytes = 0, tx_packets = 0\<rparr>)[1 := v]))),
     urr_insert = (\<lambda>m k v. Some (m(k \<mapsto> (replicate 2 \<lparr>ul_bytes = 0, ul_packets = 0, dl_bytes = 0, dl_packets = 0\<rparr>)[1 := v])))\<rparr>"

lemma demo_env_laws [simp]: "adjust_head_laws demo_env" "stats_insert_laws demo_env"
  by (auto simp: adjust_head_laws_def stats_insert_laws_def demo_env_def intro!: exI [of _ "2 :: nat"])

subsection \<open>Rule selection refines first-of-least-precedence\<close>

definition pdr_candidate :: "bpf_maps \<Rightarrow> u64 \<Rightarrow> u8 \<Rightarrow> (pdr_value \<Rightarrow> bool) \<Rightarrow> u32
    \<Rightarrow> (u32 \<times> far_value \<times> u32) option" where
  "pdr_candidate M sid iface sdf pid = do {
     pdr \<leftarrow> PDR_MAP M (PdrKey_new sid pid);
     require_that (pv_source_interface pdr = iface \<and> sdf pdr \<and> pv_precedence pdr \<noteq> - 1);
     far \<leftarrow> FAR_MAP M (FarKey_new sid (pv_far_id pdr));
     Some (pv_precedence pdr, far, pv_urr_id pdr) }"

definition candidates :: "bpf_maps \<Rightarrow> u64 \<Rightarrow> u8 \<Rightarrow> (pdr_value \<Rightarrow> bool) \<Rightarrow> u32 list
    \<Rightarrow> (u32 \<times> far_value \<times> u32) list" where
  "candidates M sid iface sdf ids = List.map_filter (pdr_candidate M sid iface sdf) ids"

definition first_least :: "('p::linorder \<times> 'v) list \<Rightarrow> ('p \<times> 'v) option" where
  "first_least cs = find (\<lambda>c. list_all (\<lambda>c'. fst c \<le> fst c') cs) cs"

fun scan_least :: "('p::linorder \<times> 'v) list \<Rightarrow> 'v option \<Rightarrow> 'p \<Rightarrow> 'v option" where
  "scan_least [] best b = best"
| "scan_least ((p, v) # cs) best b = (if p \<ge> b then scan_least cs best b else scan_least cs (Some v) p)"

lemma find_filter_eq:
  "(\<And>x. x \<in> set xs \<Longrightarrow> P x \<longleftrightarrow> Q x \<and> R x) \<Longrightarrow> find P xs = find R (filter Q xs)"
  by (induction xs) auto

lemma least_exists:
  fixes cs :: "('p::linorder \<times> 'v) list"
  shows "cs \<noteq> [] \<Longrightarrow> \<exists>c \<in> set cs. \<forall>c' \<in> set cs. fst c \<le> fst c'"
proof (induction cs)
  case (Cons a cs)
  show ?case
  proof (cases "cs = []")
    case False
    with Cons.IH obtain c where c: "c \<in> set cs" "\<forall>c' \<in> set cs. fst c \<le> fst c'"
      by blast
    show ?thesis
    proof (cases "fst a \<le> fst c")
      case True
      with c show ?thesis by (intro bexI [of _ a]) (auto intro: order_trans)
    next
      case False
      with c show ?thesis by (intro bexI [of _ c]) auto
    qed
  qed simp
qed simp

lemma first_least_None: "first_least cs = None \<longleftrightarrow> cs = []"
  using least_exists [of cs] unfolding first_least_def find_None_iff list_all_iff by fastforce

lemma first_least_Cons:
  "first_least ((p, v) # xs) =
     (case first_least (filter (\<lambda>c. fst c < p) xs) of None \<Rightarrow> Some (p, v) | Some c \<Rightarrow> Some c)"
proof (cases "list_all (\<lambda>c. p \<le> fst c) xs")
  case True
  then have "filter (\<lambda>c. fst c < p) xs = []"
    by (auto simp: list_all_iff filter_empty_conv)
  with True show ?thesis
    by (simp add: first_least_def)
next
  case False
  then obtain a0 b0 where c0: "(a0, b0) \<in> set xs" "a0 < p"
    by (auto simp: list_all_iff not_le)
  have n: "first_least (filter (\<lambda>c. fst c < p) xs) \<noteq> None"
    using c0 unfolding first_least_None filter_empty_conv by (auto intro!: bexI [of _ "(a0, b0)"])
  have "first_least ((p, v) # xs) = find (\<lambda>c. list_all (\<lambda>c'. fst c \<le> fst c') ((p, v) # xs)) xs"
    using False by (simp add: first_least_def)
  also have "\<dots> = first_least (filter (\<lambda>c. fst c < p) xs)"
    unfolding first_least_def using c0
    by (intro find_filter_eq) (fastforce simp: list_all_iff)
  finally show ?thesis
    using n by auto
qed

lemma scan_least_first:
  "scan_least cs best b =
     (case first_least (filter (\<lambda>c. fst c < b) cs) of None \<Rightarrow> best | Some c \<Rightarrow> Some (snd c))"
proof (induction cs best b rule: scan_least.induct)
  case (2 p v cs best b)
  have "p < b \<Longrightarrow> filter (\<lambda>c. fst c < p) (filter (\<lambda>c. fst c < b) cs) = filter (\<lambda>c. fst c < p) cs"
    by (auto intro: filter_cong)
  with 2 show ?case
    by (auto simp: first_least_Cons split: option.splits)
qed (simp add: first_least_def)

lemma select_far_loop_scan:
  "select_far_loop M sid iface sdf ids best b = scan_least (candidates M sid iface sdf ids) best b"
  by (induction M sid iface sdf ids best b rule: select_far_loop.induct)
    (auto simp: candidates_def pdr_candidate_def require_that_def List.map_filter_def
      split: option.splits bind_splits)

lemma candidates_below_max:
  "c \<in> set (candidates M sid iface sdf ids) \<Longrightarrow> fst c < - 1"
  by (auto simp: candidates_def pdr_candidate_def require_that_def List.map_filter_def
      word_order.not_eq_extremum split: bind_splits if_splits)

text \<open>
  C12: Rule selection: among the session's PDRs that exist, belong to the interface, match the
  packet's five-tuple, have an installed FAR and a precedence below the maximum, \<open>select_far\<close>
  returns the FAR and URR of the first one of least precedence value, and nothing if there is none.
\<close>

theorem select_far_first_least:
  "select_far M session iface proto src_ip dst_ip sp dp =
     map_option snd (first_least (candidates M (si_seid session) iface
       (\<lambda>pdr. sdf_matches pdr proto src_ip dst_ip sp dp) (session_pdrs session)))"
proof -
  have "filter (\<lambda>c. fst c < - 1) (candidates M (si_seid session) iface
      (\<lambda>pdr. sdf_matches pdr proto src_ip dst_ip sp dp) (session_pdrs session)) =
    candidates M (si_seid session) iface
      (\<lambda>pdr. sdf_matches pdr proto src_ip dst_ip sp dp) (session_pdrs session)"
    by (auto simp: filter_id_conv dest: candidates_below_max)
  then show ?thesis
    by (simp add: select_far_def select_far_loop_scan scan_least_first split: option.splits)
qed

lemma sdf_matches_iff:
  "sdf_matches pdr proto src_ip dst_ip sp dp \<longleftrightarrow>
     (pv_sdf_proto pdr = 0 \<or> pv_sdf_proto pdr = proto) \<and>
     (pv_sdf_src_ip pdr = 0 \<or> pv_sdf_src_ip pdr = src_ip) \<and>
     (pv_sdf_dst_ip pdr = 0 \<or> pv_sdf_dst_ip pdr = dst_ip) \<and>
     (pv_sdf_src_port pdr = 0 \<or> pv_sdf_src_port pdr = sp) \<and>
     (pv_sdf_dst_port pdr = 0 \<or> pv_sdf_dst_port pdr = dp)"
  by (auto simp: sdf_matches_def)

subsection \<open>The maps the programs leave alone\<close>

lemma stats_count_frame [simp]:
  "SESSION_MAP (stats_count E k u i M) = SESSION_MAP M" "PDR_MAP (stats_count E k u i M) = PDR_MAP M"
  "FAR_MAP (stats_count E k u i M) = FAR_MAP M" "IF_INDEX (stats_count E k u i M) = IF_INDEX M"
  "GW_MAC (stats_count E k u i M) = GW_MAC M" "URR_MAP (stats_count E k u i M) = URR_MAP M"
  by (auto simp: stats_count_def split: option.splits)

lemma urr_count_frame [simp]:
  "SESSION_MAP (urr_count E s i l u M) = SESSION_MAP M" "PDR_MAP (urr_count E s i l u M) = PDR_MAP M"
  "FAR_MAP (urr_count E s i l u M) = FAR_MAP M" "IF_INDEX (urr_count E s i l u M) = IF_INDEX M"
  "GW_MAC (urr_count E s i l u M) = GW_MAC M" "STATS_MAP (urr_count E s i l u M) = STATS_MAP M"
  by (auto simp: urr_count_def Let_def split: option.splits)

lemma far_loops_frame:
  "PDR_MAP M' = PDR_MAP M \<Longrightarrow> FAR_MAP M' = FAR_MAP M \<Longrightarrow>
    downlink_get_far_loop M' sid ids = downlink_get_far_loop M sid ids"
  by (induction ids) (auto split: option.splits)

lemma downlink_endpoint_stats [simp]:
  "downlink_endpoint (stats_count E k u i M) session = downlink_endpoint M session"
  by (simp add: downlink_endpoint_def downlink_get_far_def
      far_loops_frame [of "stats_count E k u i M" M])

subsection \<open>Packet rewriting\<close>

lemma ptr_at_Some: "ptr_at p i n = Some b \<longleftrightarrow> i + n \<le> length p \<and> b = take n (drop i p)"
  by (auto simp: ptr_at_def)

lemma ptr_bounds:
  "ptr_u8 p i = Some b \<Longrightarrow> i < length p" "ptr_u16 p i = Some h \<Longrightarrow> i + 2 \<le> length p"
  "ptr_u32 p i = Some w \<Longrightarrow> i + 4 \<le> length p"
  by (auto simp: ptr_u8_def ptr_u16_def ptr_u32_def ptr_at_def split: if_splits)

lemma require_that_Some [simp]: "require_that b = Some u \<longleftrightarrow> b"
  by (simp add: require_that_def)

lemma uplink_parse_bounds:
  "uplink_parse p = Some f \<Longrightarrow> 50 \<le> pf_outer_total f \<and> pf_outer_total f + 20 \<le> length p"
  unfolding uplink_parse_def
  by (auto simp: Let_def bind_eq_Some_conv dest!: ptr_bounds(3) split: if_splits)

lemma downlink_parse_bounds:
  "downlink_parse p = Some f \<Longrightarrow> 38 \<le> length p \<and> pf_ue_ip f = pf_dst_ip f"
  unfolding downlink_parse_def
  by (auto simp: bind_eq_Some_conv dest!: ptr_bounds)

lemma adjust_shrink: "adjust_head_laws E \<Longrightarrow> n + 14 \<le> length p \<Longrightarrow> adjust_head E p (int n) = Some (drop n p)"
  by (simp add: adjust_head_laws_def)

lemma adjust_grow:
  assumes "adjust_head_laws E" "0 < n" "n \<le> 64"
  obtains j where "length j = n" "adjust_head E p (- int n) = Some (j @ p)"
  using assms unfolding adjust_head_laws_def by meson

lemma write_eth:
  "length j = 14 \<Longrightarrow> length a = 6 \<Longrightarrow> length b = 6 \<Longrightarrow> length c = 2 \<Longrightarrow>
    write_unaligned 12 c (write_unaligned 6 b (write_unaligned 0 a (j @ r))) = a @ b @ c @ r"
  by (simp add: write_unaligned_def)

lemma ipv4_ethertype: "ne_bytes (0x0008 :: u16) = [0x08, 0x00]"
  by code_simp

lemma uplink_decap_eq:
  assumes l: "adjust_head_laws E" and n: "n + 20 \<le> length p"
    and c: "GW_MAC M 0 = Some mac" "IF_INDEX M 1 = Some idx"
  shows "uplink_decap E M n p =
    (mac_bytes mac @ take 6 (drop 6 p) @ [0x08, 0x00] @ drop n p, ucast (bpf_redirect E idx 0))"
proof (cases "12 \<le> length p")
  case True
  obtain j where j: "length j = 14" "adjust_head E (drop n p) (- int 14) = Some (j @ drop n p)"
    using adjust_grow [OF l, of 14] by auto
  have "adjust_head E p (int n) = Some (drop n p)"
    using n by (intro adjust_shrink [OF l]) simp
  then show ?thesis
    using j c True by (simp add: uplink_decap_def ptr_at_def write_eth ipv4_ethertype)
next
  case False
  with n show ?thesis by simp
qed

text \<open>
  C13: Uplink decapsulation is byte-exact: for a well-formed G-PDU of a known UE whose matched rule
  does not drop it, the frame handed to N6 is the bridge's MAC address, the source MAC of the
  received frame, the IPv4 EtherType and the inner packet, unchanged, and the verdict is the
  redirect to the N6 interface.
\<close>

theorem uplink_forwards_inner_packet:
  assumes "adjust_head_laws E" "uplink_parse p = Some f"
    and "SESSION_MAP M (SessionKey (pf_ue_ip f)) = Some session"
    and "\<not> fst (flow_action M session IFACE_ACCESS f)"
    and "GW_MAC M 0 = Some mac" "IF_INDEX M 1 = Some idx"
  shows "snd (upf_edge_n3 E M p) =
    (mac_bytes mac @ take 6 (drop 6 p) @ [0x08, 0x00] @ drop (pf_outer_total f) p,
     ucast (bpf_redirect E idx 0))"
  using assms uplink_parse_bounds [OF assms(2)]
  by (cases "flow_action M session IFACE_ACCESS f")
    (simp add: upf_edge_n3_def try_n3_uplink_def Let_def uplink_decap_eq uplink_stats_def)

text \<open>A G-PDU of the UE 10.45.0.2 with TEID 0x1001, and maps that hold its session.\<close>

definition demo_inner :: bytes where
  "demo_inner = [0x45, 0, 0, 20, 0, 0, 0, 0, 64, 1, 0, 0, 10, 45, 0, 2, 8, 8, 8, 8, 1, 2, 3, 4]"

definition demo_uplink :: bytes where
  "demo_uplink = [1, 1, 1, 1, 1, 1, 2, 2, 2, 2, 2, 2, 0x08, 0x00] @
     [0x45, 0, 0, 68, 0, 0, 0, 0, 64, 17, 0, 0, 10, 0, 0, 9, 10, 0, 0, 1] @
     [0x08, 0x68, 0x08, 0x68, 0, 48, 0, 0] @ [0x30, 0xFF, 0, 40, 0, 0, 0x10, 0x01] @ demo_inner"

definition demo_session :: session_info where
  "demo_session = \<lparr>si_seid = 1, si_teid = to_be 0x2001, si_gnb_ip = 0x0900000A, si_upf_ip = 0x0100000A,
     si_pdr_ids = replicate 8 0, si_pdr_count = 0\<rparr>"

definition demo_maps :: bpf_maps where
  "demo_maps = \<lparr>SESSION_MAP = [SessionKey 0x02002D0A \<mapsto> demo_session], PDR_MAP = Map.empty,
     FAR_MAP = Map.empty, IF_INDEX = [0 \<mapsto> 3, 1 \<mapsto> 4],
     GW_MAC = [0 \<mapsto> MacAddr 6 6 6 6 6 6, 1 \<mapsto> MacAddr 7 7 7 7 7 7],
     STATS_MAP = Map.empty, URR_MAP = Map.empty\<rparr>"

lemma demo_uplink_parse:
  "uplink_parse demo_uplink = Some \<lparr>pf_outer_total = 50, pf_ue_ip = 0x02002D0A, pf_proto = 1,
     pf_src_ip = 0x02002D0A, pf_dst_ip = 0x08080808, pf_src_port = 0, pf_dst_port = 0\<rparr>"
  by code_simp

lemma demo_flow_action: "flow_action demo_maps demo_session iface f = (False, 0)"
  by (simp add: flow_action_def demo_session_def)

theorem uplink_forwards_inner_packet_witness:
  "snd (upf_edge_n3 demo_env demo_maps demo_uplink) =
     ([6, 6, 6, 6, 6, 6, 2, 2, 2, 2, 2, 2, 0x08, 0x00] @ demo_inner, 4)"
proof -
  have m: "SESSION_MAP demo_maps (SessionKey 0x02002D0A) = Some demo_session"
    "GW_MAC demo_maps 0 = Some (MacAddr 6 6 6 6 6 6)" "IF_INDEX demo_maps 1 = Some 4"
    by (simp_all add: demo_maps_def)
  show ?thesis
    using uplink_forwards_inner_packet [OF demo_env_laws(1) demo_uplink_parse _ _ m(2,3)] m(1)
    by (simp add: demo_flow_action demo_uplink_def demo_env_def)
qed

text \<open>The frame the encapsulation builds around the IP packet \<open>ip\<close>.\<close>

definition encapsulated :: "mac_addr \<Rightarrow> bytes \<Rightarrow> u32 \<Rightarrow> u32 \<Rightarrow> u32 \<Rightarrow> bytes \<Rightarrow> bytes" where
  "encapsulated mac src upf_ip gnb_ip teid ip =
     (let len = from_be_bytes (take 2 (drop 2 ip))
      in mac_bytes mac @ src @ [0x08, 0x00] @ ip_image (outer_ip len upf_ip gnb_ip) @
        udp_image (outer_udp len) @ gtpu_image (outer_gtpu len teid) @ ext_bytes @ ip)"

lemma length_ext_bytes [simp]: "length ext_bytes = 8"
  by (simp add: ext_bytes_def)

lemma write_outer:
  assumes "length j = 58" "length e = 14" "length i = 20" "length u = 8" "length g = 8" "length x = 8"
  shows "write_unaligned 50 x (write_unaligned 42 g (write_unaligned 34 u
    (write_unaligned 14 i (write_unaligned 0 e (j @ r))))) = e @ i @ u @ g @ x @ r"
  using assms by (simp add: write_unaligned_def)

lemma downlink_encap_eq:
  assumes l: "adjust_head_laws E" and n: "38 \<le> length p"
    and c: "GW_MAC M 1 = Some mac" "IF_INDEX M 0 = Some idx"
  shows "downlink_encap E M session (gnb, td) p =
    (encapsulated mac (take 6 p) (si_upf_ip session) gnb td (drop 14 p), ucast (bpf_redirect E idx 0))"
proof -
  obtain j where j: "length j = 44" "adjust_head E p (- int 44) = Some (j @ p)"
    using adjust_grow [OF l, of 44] by auto
  have len: "ptr_u16 p 16 = Some (from_ne_bytes (take 2 (drop 16 p)))"
    using n by (simp add: ptr_u16_def ptr_at_def)
  have t: "to_be (from_ne_bytes (take 2 (drop 16 p)) :: u16) = from_be_bytes (take 2 (drop 16 p))"
    using n by (intro to_be_from_ne_bytes) simp
  have jp: "j @ p = (j @ take 14 p) @ drop 14 p"
    by simp
  have w: "write_unaligned 50 x (write_unaligned 42 g (write_unaligned 34 u
      (write_unaligned 14 i (write_unaligned 0 e (j @ p))))) = e @ i @ u @ g @ x @ drop 14 p"
    if "length e = 14" "length i = 20" "length u = 8" "length g = 8" "length x = 8" for x g u i e
    by (subst jp, rule write_outer) (use that n j(1) in simp_all)
  show ?thesis
    using j n c by (simp add: downlink_encap_def len t ptr_at_def w encapsulated_def Let_def eth_image_def
        ipv4_ethertype)
qed

text \<open>
  C14: Downlink encapsulation is byte-exact: for an IPv4 packet to a known UE that no rule drops,
  the frame handed to N3 is the gNB's MAC address, the destination MAC of the received frame, the
  IPv4 EtherType, the outer IPv4, UDP and GTP-U headers for the selected tunnel end point, the PDU
  session container and the received IP packet, unchanged, and the verdict is the redirect to N3.
\<close>

theorem downlink_encapsulates_packet:
  assumes "adjust_head_laws E" "downlink_parse p = Some f"
    and "SESSION_MAP M (SessionKey (pf_dst_ip f)) = Some session"
    and "\<not> fst (flow_action M session IFACE_CORE f)"
    and "downlink_endpoint M session = Some (gnb_ip, td)"
    and "GW_MAC M 1 = Some mac" "IF_INDEX M 0 = Some idx"
  shows "snd (upf_edge_n6 E M p) =
    (encapsulated mac (take 6 p) (si_upf_ip session) gnb_ip td (drop 14 p),
     ucast (bpf_redirect E idx 0))"
  using assms downlink_parse_bounds [OF assms(2)]
  by (cases "flow_action M session IFACE_CORE f")
    (simp add: upf_edge_n6_def try_n6_downlink_def Let_def downlink_encap_eq downlink_stats_def)

definition demo_downlink :: bytes where
  "demo_downlink = [1, 1, 1, 1, 1, 1, 2, 2, 2, 2, 2, 2, 0x08, 0x00] @
     [0x45, 0, 0, 24, 0, 0, 0, 0, 64, 1, 0, 0, 8, 8, 8, 8, 10, 45, 0, 2, 1, 2, 3, 4]"

lemma demo_downlink_parse:
  "downlink_parse demo_downlink = Some \<lparr>pf_outer_total = 14, pf_ue_ip = 0x02002D0A, pf_proto = 1,
     pf_src_ip = 0x08080808, pf_dst_ip = 0x02002D0A, pf_src_port = 0x0201, pf_dst_port = 0x0403\<rparr>"
  by code_simp

lemma demo_maps_lookup:
  "SESSION_MAP demo_maps (SessionKey 0x02002D0A) = Some demo_session"
  "GW_MAC demo_maps 0 = Some (MacAddr 6 6 6 6 6 6)" "IF_INDEX demo_maps 1 = Some 4"
  "GW_MAC demo_maps 1 = Some (MacAddr 7 7 7 7 7 7)" "IF_INDEX demo_maps 0 = Some 3"
  "downlink_endpoint demo_maps demo_session = Some (0x0900000A, to_be 0x2001)"
  by (simp_all add: demo_maps_def downlink_endpoint_def demo_session_def)

theorem downlink_encapsulates_packet_witness:
  "take 50 (fst (snd (upf_edge_n6 demo_env demo_maps demo_downlink))) =
     [7, 7, 7, 7, 7, 7, 1, 1, 1, 1, 1, 1, 0x08, 0x00] @
     [0x45, 0, 0, 68, 0, 0, 0, 0, 64, 17, 0xA0, 0x66, 10, 0, 0, 1, 10, 0, 0, 9] @
     [0x08, 0x68, 0x08, 0x68, 0, 48, 0, 0] @ [0x34, 0xFF, 0, 32, 0, 0, 0x20, 0x01]"
proof -
  have e: "snd (upf_edge_n6 demo_env demo_maps demo_downlink) =
    (encapsulated (MacAddr 7 7 7 7 7 7) (take 6 demo_downlink) (si_upf_ip demo_session) 0x0900000A
      (to_be 0x2001) (drop 14 demo_downlink), ucast (bpf_redirect demo_env 3 0))"
    using downlink_encapsulates_packet [OF demo_env_laws(1) demo_downlink_parse _ _
        demo_maps_lookup(6,4,5)] demo_maps_lookup(1)
    by (simp add: demo_flow_action)
  have "take 50 (encapsulated (MacAddr 7 7 7 7 7 7) (take 6 demo_downlink) (si_upf_ip demo_session)
      0x0900000A (to_be 0x2001) (drop 14 demo_downlink)) =
     [7, 7, 7, 7, 7, 7, 1, 1, 1, 1, 1, 1, 0x08, 0x00] @
     [0x45, 0, 0, 68, 0, 0, 0, 0, 64, 17, 0xA0, 0x66, 10, 0, 0, 1, 10, 0, 0, 9] @
     [0x08, 0x68, 0x08, 0x68, 0, 48, 0, 0] @ [0x34, 0xFF, 0, 32, 0, 0, 0x20, 0x01]"
    by code_simp
  with e show ?thesis
    by simp
qed

subsection \<open>Encapsulation and decapsulation are inverse\<close>

lemma ptr_at_append:
  "length a \<le> i \<Longrightarrow> ptr_at (a @ b) i n = ptr_at b (i - length a) n"
  "i + n \<le> length a \<Longrightarrow> ptr_at (a @ b) i n = ptr_at a i n"
  by (auto simp: ptr_at_def)

lemma encap_reads:
  assumes "length src = 6"
  shows "ptr_at (encapsulated mac src u g t ip) 12 2 = Some [0x08, 0x00]"
    and "ptr_at (encapsulated mac src u g t ip) 23 1 = Some [17]"
    and "ptr_at (encapsulated mac src u g t ip) 36 2 = Some [0x08, 0x68]"
    and "ptr_at (encapsulated mac src u g t ip) 42 8 =
      Some (gtpu_image (outer_gtpu (from_be_bytes (take 2 (drop 2 ip))) t))"
proof -
  have port: "ne_bytes (to_be (2152 :: u16)) = [0x08, 0x68]"
    by code_simp
  show "ptr_at (encapsulated mac src u g t ip) 12 2 = Some [0x08, 0x00]"
    "ptr_at (encapsulated mac src u g t ip) 23 1 = Some [17]"
    "ptr_at (encapsulated mac src u g t ip) 36 2 = Some [0x08, 0x68]"
    "ptr_at (encapsulated mac src u g t ip) 42 8 =
      Some (gtpu_image (outer_gtpu (from_be_bytes (take 2 (drop 2 ip))) t))"
    using assms
    by (simp_all add: encapsulated_def Let_def ptr_at_def ip_image_def outer_ip_def udp_image_def
        outer_udp_def port)
qed

lemma encap_inner:
  assumes "length src = 6"
  shows "58 \<le> i \<Longrightarrow> ptr_at (encapsulated mac src u g t ip) i n = ptr_at ip (i - 58) n"
    and "drop 58 (encapsulated mac src u g t ip) = ip"
proof -
  let ?l = "from_be_bytes (take 2 (drop 2 ip))"
  let ?h = "mac_bytes mac @ src @ [0x08, 0x00] @ ip_image (outer_ip ?l u g) @ udp_image (outer_udp ?l) @
    gtpu_image (outer_gtpu ?l t) @ ext_bytes"
  have e: "encapsulated mac src u g t ip = ?h @ ip"
    by (simp add: encapsulated_def Let_def)
  show "58 \<le> i \<Longrightarrow> ptr_at (encapsulated mac src u g t ip) i n = ptr_at ip (i - 58) n"
    unfolding e by (subst ptr_at_append(1)) (use assms in simp_all)
  show "drop 58 (encapsulated mac src u g t ip) = ip"
    unfolding e using assms by simp
qed

lemma encap_uplink_parse:
  assumes "length src = 6" "24 \<le> length ip"
  obtains f where "uplink_parse (encapsulated mac src u g t ip) = Some f" "pf_outer_total f = 58"
    "pf_ue_ip f = from_ne_bytes (take 4 (drop 12 ip))" "pf_proto f = ip ! 9"
proof -
  let ?q = "encapsulated mac src u g t ip"
  have et: "ptr_u16 ?q 12 = Some (from_ne_bytes [0x08, 0x00])" and pr: "ptr_u8 ?q 23 = Some 17"
    and dp: "ptr_u16 ?q 36 = Some (from_ne_bytes [0x08, 0x68])"
    using encap_reads [OF assms(1)] by (simp_all add: ptr_u16_def ptr_u8_def)
  have c: "to_be (from_ne_bytes [0x08, 0x00] :: u16) = 0x0800"
    "to_be (from_ne_bytes [0x08, 0x68] :: u16) = 2152"
    by code_simp+
  have g: "gtpu_opt_len (outer_gtpu l t) = 8" "gt_msg_type (outer_gtpu l t) = 0xFF" for l
    by (simp_all add: gtpu_opt_len_def outer_gtpu_def Let_def)
  have r: "ptr_u32 ?q 70 = Some (from_ne_bytes (take 4 (drop 12 ip)))" "ptr_u8 ?q 67 = Some (ip ! 9)"
    "ptr_u32 ?q 74 = Some (from_ne_bytes (take 4 (drop 16 ip)))"
    "ptr_u16 ?q 78 = Some (from_ne_bytes (take 2 (drop 20 ip)))"
    "ptr_u16 ?q 80 = Some (from_ne_bytes (take 2 (drop 22 ip)))"
    using assms(2)
    by (simp_all add: ptr_u32_def ptr_u16_def ptr_u8_def encap_inner(1) [OF assms(1)])
      (simp_all add: ptr_at_def hd_drop_conv_nth)
  have "\<exists>f. uplink_parse ?q = Some f \<and> pf_outer_total f = 58 \<and>
      pf_ue_ip f = from_ne_bytes (take 4 (drop 12 ip)) \<and> pf_proto f = ip ! 9"
    by (simp add: uplink_parse_def et pr dp c encap_reads(4) [OF assms(1)] gtpu_image_inverse g r
        require_that_def Let_def)
  then show thesis
    using that by blast
qed

text \<open>
  C15: Encapsulation and decapsulation are inverse: the frame the downlink program builds is a
  G-PDU that the uplink parser accepts, and what lies behind the outer length it computes is
  exactly the IP packet that was encapsulated.
\<close>

theorem encap_decap_roundtrip:
  assumes "adjust_head_laws E" "downlink_parse p = Some f"
    and "SESSION_MAP M (SessionKey (pf_dst_ip f)) = Some session"
    and "\<not> fst (flow_action M session IFACE_CORE f)"
    and "downlink_endpoint M session = Some (gnb_ip, td)"
    and "GW_MAC M 1 = Some mac" "IF_INDEX M 0 = Some idx"
  shows "(let q = fst (snd (upf_edge_n6 E M p))
    in map_option (\<lambda>f. drop (pf_outer_total f) q) (uplink_parse q)) = Some (drop 14 p)"
proof -
  have n: "38 \<le> length p"
    using downlink_parse_bounds [OF assms(2)] by simp
  then have six: "length (take 6 p) = 6"
    by simp
  have q: "fst (snd (upf_edge_n6 E M p)) =
    encapsulated mac (take 6 p) (si_upf_ip session) gnb_ip td (drop 14 p)"
    using assms n
    by (cases "flow_action M session IFACE_CORE f")
      (simp add: upf_edge_n6_def try_n6_downlink_def Let_def downlink_encap_eq downlink_stats_def)
  have "24 \<le> length (drop 14 p)"
    using n by simp
  from encap_uplink_parse [OF six this, of mac "si_upf_ip session" gnb_ip td] obtain f'
    where "uplink_parse (fst (snd (upf_edge_n6 E M p))) = Some f'" "pf_outer_total f' = 58"
    unfolding q by blast
  then show ?thesis
    by (simp add: Let_def) (simp add: q encap_inner(2) [OF six])
qed

theorem encap_decap_roundtrip_witness:
  "(let q = fst (snd (upf_edge_n6 demo_env demo_maps demo_downlink))
    in map_option (\<lambda>f. drop (pf_outer_total f) q) (uplink_parse q)) = Some (drop 14 demo_downlink)"
  by (rule encap_decap_roundtrip [OF demo_env_laws(1) demo_downlink_parse _ _ demo_maps_lookup(6,4,5)])
    (simp_all add: demo_flow_action demo_maps_lookup(1))

subsection \<open>Traffic that is not forwarded\<close>

text \<open>
  Traffic that is not the UPF's is left alone: a frame that is not a G-PDU, or whose inner
  source (uplink) or destination (downlink) address has no session, is passed to the network
  stack with packet and maps unchanged.
\<close>

theorem foreign_traffic_passes:
  "(Option.bind (uplink_parse p) (\<lambda>f. SESSION_MAP M (SessionKey (pf_ue_ip f))) = None \<longrightarrow>
     upf_edge_n3 E M p = (M, p, XDP_PASS)) \<and>
   (Option.bind (downlink_parse p) (\<lambda>f. SESSION_MAP M (SessionKey (pf_dst_ip f))) = None \<longrightarrow>
     upf_edge_n6 E M p = (M, p, XDP_PASS))"
  by (auto simp: upf_edge_n3_def try_n3_uplink_def upf_edge_n6_def try_n6_downlink_def Let_def
      split: option.splits)

theorem foreign_traffic_passes_witness:
  "upf_edge_n3 demo_env demo_maps demo_downlink = (demo_maps, demo_downlink, 2)"
proof -
  have "uplink_parse demo_downlink = None"
    by code_simp
  then show ?thesis
    using foreign_traffic_passes [of demo_downlink demo_maps demo_env] by simp
qed

text \<open>
  C21: A packet whose selected FAR has the DROP bit is dropped on both paths, is not counted, and
  neither the packet nor a map changes.
\<close>

theorem drop_action_enforced:
  assumes "uplink_parse p = Some f \<and> iface = IFACE_ACCESS \<and> prog = upf_edge_n3 \<or>
      downlink_parse p = Some f \<and> iface = IFACE_CORE \<and> prog = upf_edge_n6"
    and "SESSION_MAP M (SessionKey (pf_ue_ip f)) = Some session" "0 < si_pdr_count session"
    and "select_far M session iface (pf_proto f) (pf_src_ip f) (pf_dst_ip f) (pf_src_port f)
      (pf_dst_port f) = Some (far, uid)"
    and "fv_apply_action far AND ACTION_DROP_bpf \<noteq> 0"
  shows "prog E M p = (M, p, XDP_DROP)"
  using assms downlink_parse_bounds [of p f]
  by (auto simp: upf_edge_n3_def try_n3_uplink_def upf_edge_n6_def try_n6_downlink_def Let_def
      flow_action_def)

theorem drop_action_enforced_witness:
  "(let pdr = \<lparr>pv_precedence = 10, pv_source_interface = 0, pv_ue_ip = 0, pv_qfi = 0, pv_far_id = 5,
       pv_qer_id = 0, pv_urr_id = 0, pv_outer_header_removal = 0, pv_sdf_proto = 0, pv_sdf_src_ip = 0,
       pv_sdf_dst_ip = 0, pv_sdf_src_port = 0, pv_sdf_dst_port = 0\<rparr>;
     far = \<lparr>fv_apply_action = 1, fv_dst_interface = 0, fv_gnb_ip = 0, fv_teid = 0, fv_upf_n3_ip = 0\<rparr>;
     M = demo_maps\<lparr>SESSION_MAP := [SessionKey 0x02002D0A \<mapsto> demo_session\<lparr>si_pdr_count := 1\<rparr>],
       PDR_MAP := [PdrKey_new 1 0 \<mapsto> pdr], FAR_MAP := [FarKey_new 1 5 \<mapsto> far]\<rparr>
    in upf_edge_n3 demo_env M demo_uplink = (M, demo_uplink, 1))"
proof -
  have max: "\<not> (- 1 :: u32) \<le> 10"
    by code_simp
  show ?thesis
    unfolding Let_def
    by (rule drop_action_enforced [OF disjI1, where uid = 0 and far = "\<lparr>fv_apply_action = 1,
          fv_dst_interface = 0, fv_gnb_ip = 0, fv_teid = 0, fv_upf_n3_ip = 0\<rparr>"])
      (auto simp: demo_uplink_parse demo_maps_def demo_session_def select_far_def session_pdrs_def
        sdf_matches_def max)
qed

subsection \<open>Per-CPU counters\<close>

definition percpu_total :: "('v \<Rightarrow> u64) \<Rightarrow> 'v list option \<Rightarrow> u64" where
  "percpu_total read slot = (case slot of None \<Rightarrow> 0 | Some vs \<Rightarrow> sum_list (map read vs))"

text \<open>
  What a counter relies on: one update of the current CPU's slot adds a fixed amount, and the
  value a fresh entry starts with is that amount over an all-zero value.
\<close>

locale percpu_counter =
  fixes read :: "'v \<Rightarrow> u64" and bump :: "'v \<Rightarrow> 'v" and amount :: u64 and zero init :: 'v
  assumes bump: "read (bump v) = read v + amount"
    and zero: "read zero = 0"
    and init: "read init = amount"
begin

lemma total_at_cpu:
  "c < length vs \<Longrightarrow>
    percpu_total read (Some (at_cpu c bump vs)) = percpu_total read (Some vs) + amount"
  by (simp add: percpu_total_def at_cpu_def map_update sum_list_update_group bump algebra_simps)

lemma total_fresh:
  "c < n \<Longrightarrow> percpu_total read (Some ((replicate n zero)[c := init])) = amount"
  by (simp add: percpu_total_def map_update sum_list_update_group zero init sum_list_replicate_zero)

end

abbreviation zero_stats :: session_stats where
  "zero_stats \<equiv> \<lparr>rx_bytes = 0, rx_packets = 0, tx_bytes = 0, tx_packets = 0\<rparr>"

abbreviation bump_rx :: "u64 \<Rightarrow> session_stats \<Rightarrow> session_stats" where
  "bump_rx len st \<equiv> st\<lparr>rx_packets := rx_packets st + 1, rx_bytes := rx_bytes st + len\<rparr>"

abbreviation bump_tx :: "u64 \<Rightarrow> session_stats \<Rightarrow> session_stats" where
  "bump_tx len st \<equiv> st\<lparr>tx_packets := tx_packets st + 1, tx_bytes := tx_bytes st + len\<rparr>"

interpretation rx_packets: percpu_counter rx_packets "bump_rx len" 1 zero_stats
  "\<lparr>rx_bytes = len, rx_packets = 1, tx_bytes = 0, tx_packets = 0\<rparr>" for len
  by unfold_locales simp_all

interpretation rx_bytes: percpu_counter rx_bytes "bump_rx len" len zero_stats
  "\<lparr>rx_bytes = len, rx_packets = 1, tx_bytes = 0, tx_packets = 0\<rparr>" for len
  by unfold_locales simp_all

interpretation rx_tx_packets: percpu_counter tx_packets "bump_rx len" 0 zero_stats
  "\<lparr>rx_bytes = len, rx_packets = 1, tx_bytes = 0, tx_packets = 0\<rparr>" for len
  by unfold_locales simp_all

interpretation rx_tx_bytes: percpu_counter tx_bytes "bump_rx len" 0 zero_stats
  "\<lparr>rx_bytes = len, rx_packets = 1, tx_bytes = 0, tx_packets = 0\<rparr>" for len
  by unfold_locales simp_all

interpretation tx_packets: percpu_counter tx_packets "bump_tx len" 1 zero_stats
  "\<lparr>rx_bytes = 0, rx_packets = 0, tx_bytes = len, tx_packets = 1\<rparr>" for len
  by unfold_locales simp_all

interpretation tx_bytes: percpu_counter tx_bytes "bump_tx len" len zero_stats
  "\<lparr>rx_bytes = 0, rx_packets = 0, tx_bytes = len, tx_packets = 1\<rparr>" for len
  by unfold_locales simp_all

interpretation tx_rx_packets: percpu_counter rx_packets "bump_tx len" 0 zero_stats
  "\<lparr>rx_bytes = 0, rx_packets = 0, tx_bytes = len, tx_packets = 1\<rparr>" for len
  by unfold_locales simp_all

interpretation tx_rx_bytes: percpu_counter rx_bytes "bump_tx len" 0 zero_stats
  "\<lparr>rx_bytes = 0, rx_packets = 0, tx_bytes = len, tx_packets = 1\<rparr>" for len
  by unfold_locales simp_all

text \<open>The slot of a key can be counted: this CPU has one, or a fresh entry can be made.\<close>

definition countable_slot :: "xdp_env \<Rightarrow> bpf_maps \<Rightarrow> session_key \<Rightarrow> bool" where
  "countable_slot E M key \<longleftrightarrow>
     (case STATS_MAP M key of Some vs \<Rightarrow> cpu E < length vs | None \<Rightarrow> \<forall>v. stats_insert E (STATS_MAP M) key v \<noteq> None)"

lemma stats_count_total:
  assumes "percpu_counter read bump amount zero_stats ini" "stats_insert_laws E" "countable_slot E M key"
  shows "percpu_total read (STATS_MAP (stats_count E key bump ini M) key) =
    percpu_total read (STATS_MAP M key) + amount"
proof (cases "STATS_MAP M key")
  case (Some vs)
  then show ?thesis
    using assms percpu_counter.total_at_cpu [OF assms(1), of "cpu E" vs]
    by (simp add: stats_count_def countable_slot_def)
next
  case None
  then obtain m' where m': "stats_insert E (STATS_MAP M) key ini = Some m'"
    using assms(3) by (auto simp: countable_slot_def)
  then obtain n where "cpu E < n" "m' = (STATS_MAP M)(key \<mapsto> (replicate n zero_stats)[cpu E := ini])"
    using assms(2) unfolding stats_insert_laws_def by blast
  then show ?thesis
    using None m' percpu_counter.total_fresh [OF assms(1), of "cpu E" n]
    by (simp add: stats_count_def percpu_total_def)
qed

lemma stats_count_other:
  assumes "stats_insert_laws E" "k \<noteq> key"
  shows "STATS_MAP (stats_count E key u i M) k = STATS_MAP M k"
proof (cases "STATS_MAP M key")
  case None
  show ?thesis
  proof (cases "stats_insert E (STATS_MAP M) key i")
    case (Some m')
    then obtain n where "m' = (STATS_MAP M)(key \<mapsto> (replicate n zero_stats)[cpu E := i])"
      using assms(1) unfolding stats_insert_laws_def by blast
    then show ?thesis
      using None Some assms(2) by (simp add: stats_count_def)
  qed (simp add: stats_count_def None)
qed (use assms(2) in \<open>simp add: stats_count_def\<close>)

lemma uplink_maps:
  assumes "uplink_parse p = Some f" "SESSION_MAP M (SessionKey (pf_ue_ip f)) = Some session"
    and "\<not> fst (flow_action M session IFACE_ACCESS f)"
  shows "fst (upf_edge_n3 E M p) = urr_count E (si_seid session) (snd (flow_action M session IFACE_ACCESS f))
    (of_nat (length p)) False (uplink_stats E (SessionKey (pf_ue_ip f)) (of_nat (length p)) M)"
  using assms
  by (cases "flow_action M session IFACE_ACCESS f")
    (simp add: upf_edge_n3_def try_n3_uplink_def Let_def split: prod.splits)

lemma downlink_maps:
  assumes "downlink_parse p = Some f" "SESSION_MAP M (SessionKey (pf_dst_ip f)) = Some session"
    and "\<not> fst (flow_action M session IFACE_CORE f)"
  shows "fst (upf_edge_n6 E M p) = downlink_stats E (SessionKey (pf_dst_ip f)) (of_nat (length p)) M"
  using assms
  by (cases "flow_action M session IFACE_CORE f")
    (simp add: upf_edge_n6_def try_n6_downlink_def Let_def split: prod.splits option.splits)

text \<open>
  Session accounting is exact: every uplink packet of a session that the rules do not drop adds
  one packet and its frame length to the session's received counters, summed over all CPUs, leaves
  its transmitted counters as they are, and changes the counters of no other session.
\<close>

theorem uplink_accounting:
  assumes "stats_insert_laws E" "uplink_parse p = Some f"
    and "SESSION_MAP M (SessionKey (pf_ue_ip f)) = Some session"
    and "\<not> fst (flow_action M session IFACE_ACCESS f)"
    and "countable_slot E M (SessionKey (pf_ue_ip f))" and "k \<noteq> SessionKey (pf_ue_ip f)"
  shows "(let S = STATS_MAP M; S' = STATS_MAP (fst (upf_edge_n3 E M p)); key = SessionKey (pf_ue_ip f) in
    percpu_total rx_packets (S' key) = percpu_total rx_packets (S key) + 1 \<and>
    percpu_total rx_bytes (S' key) = percpu_total rx_bytes (S key) + of_nat (length p) \<and>
    percpu_total tx_packets (S' key) = percpu_total tx_packets (S key) \<and>
    percpu_total tx_bytes (S' key) = percpu_total tx_bytes (S key) \<and> S' k = S k)"
  using stats_count_total [OF rx_packets.percpu_counter_axioms assms(1,5)]
    stats_count_total [OF rx_bytes.percpu_counter_axioms assms(1,5)]
    stats_count_total [OF rx_tx_packets.percpu_counter_axioms assms(1,5)]
    stats_count_total [OF rx_tx_bytes.percpu_counter_axioms assms(1,5)]
    stats_count_other [OF assms(1,6)]
  by (simp add: uplink_maps [OF assms(2-4)] uplink_stats_def Let_def)

lemma demo_uplink_facts:
  "SESSION_MAP demo_maps (SessionKey 0x02002D0A) = Some demo_session"
  "countable_slot demo_env demo_maps k" "STATS_MAP demo_maps k = None"
  by (simp_all add: demo_maps_lookup(1) countable_slot_def demo_maps_def demo_env_def)

theorem uplink_accounting_witness:
  "(let S' = STATS_MAP (fst (upf_edge_n3 demo_env demo_maps demo_uplink)) in
    percpu_total rx_packets (S' (SessionKey 0x02002D0A)) = 1 \<and>
    percpu_total rx_bytes (S' (SessionKey 0x02002D0A)) = 74 \<and> S' (SessionKey 0) = None)"
  using uplink_accounting [OF demo_env_laws(2) demo_uplink_parse, of demo_maps demo_session "SessionKey 0"]
  by (simp add: demo_uplink_facts demo_flow_action Let_def percpu_total_def demo_uplink_def demo_inner_def)

text \<open>
  Downlink accounting is exact in the same way: a downlink packet that rule selection does not
  drop adds one packet and its frame length to the session's transmitted counters and nothing else.
\<close>

theorem downlink_accounting:
  assumes "stats_insert_laws E" "downlink_parse p = Some f"
    and "SESSION_MAP M (SessionKey (pf_dst_ip f)) = Some session"
    and "\<not> fst (flow_action M session IFACE_CORE f)"
    and "countable_slot E M (SessionKey (pf_dst_ip f))" and "k \<noteq> SessionKey (pf_dst_ip f)"
  shows "(let S = STATS_MAP M; S' = STATS_MAP (fst (upf_edge_n6 E M p)); key = SessionKey (pf_dst_ip f) in
    percpu_total tx_packets (S' key) = percpu_total tx_packets (S key) + 1 \<and>
    percpu_total tx_bytes (S' key) = percpu_total tx_bytes (S key) + of_nat (length p) \<and>
    percpu_total rx_packets (S' key) = percpu_total rx_packets (S key) \<and>
    percpu_total rx_bytes (S' key) = percpu_total rx_bytes (S key) \<and> S' k = S k)"
  using stats_count_total [OF tx_packets.percpu_counter_axioms assms(1,5)]
    stats_count_total [OF tx_bytes.percpu_counter_axioms assms(1,5)]
    stats_count_total [OF tx_rx_packets.percpu_counter_axioms assms(1,5)]
    stats_count_total [OF tx_rx_bytes.percpu_counter_axioms assms(1,5)]
    stats_count_other [OF assms(1,6)]
  by (simp add: downlink_maps [OF assms(2-4)] downlink_stats_def Let_def)

theorem downlink_accounting_witness:
  "percpu_total tx_bytes (STATS_MAP (fst (upf_edge_n6 demo_env demo_maps demo_downlink))
     (SessionKey 0x02002D0A)) = 38"
  using downlink_accounting [OF demo_env_laws(2) demo_downlink_parse, of demo_maps demo_session "SessionKey 0"]
  by (simp add: demo_uplink_facts demo_flow_action Let_def percpu_total_def demo_downlink_def)

interpretation urr_dl: percpu_counter dl_bytes "urr_add False len" len
  "\<lparr>ul_bytes = 0, ul_packets = 0, dl_bytes = 0, dl_packets = 0\<rparr>"
  "\<lparr>ul_bytes = 0, ul_packets = 0, dl_bytes = len, dl_packets = 1\<rparr>" for len
  by unfold_locales (simp_all add: urr_add_def)

interpretation urr_dl_ul: percpu_counter ul_bytes "urr_add False len" 0
  "\<lparr>ul_bytes = 0, ul_packets = 0, dl_bytes = 0, dl_packets = 0\<rparr>"
  "\<lparr>ul_bytes = 0, ul_packets = 0, dl_bytes = len, dl_packets = 1\<rparr>" for len
  by unfold_locales (simp_all add: urr_add_def)

lemma downlink_urr_unchanged: "URR_MAP (fst (upf_edge_n6 E M p)) = URR_MAP M"
  by (auto simp: upf_edge_n6_def try_n6_downlink_def Let_def downlink_stats_def
      split: option.splits prod.splits)

text \<open>
  C38: Usage accounting as the code performs it: an uplink packet charged to a URR that has an entry adds
  its length to the downlink volume of that URR and nothing to its uplink volume; without an entry the
  kernel is asked to insert one that has the length as its downlink volume and no uplink volume.
  Downlink packets are not charged to any URR.
\<close>

theorem urr_uplink_charged_as_downlink:
  assumes "uplink_parse p = Some f" "SESSION_MAP M (SessionKey (pf_ue_ip f)) = Some session"
    and "flow_action M session IFACE_ACCESS f = (False, uid)" "uid \<noteq> 0"
  shows "(let key = UrrKey_new (si_seid session) uid; U' = URR_MAP (fst (upf_edge_n3 E M p)) in
    case URR_MAP M key of
      Some vs \<Rightarrow> cpu E < length vs \<longrightarrow>
        percpu_total dl_bytes (U' key) = percpu_total dl_bytes (Some vs) + of_nat (length p) \<and>
        percpu_total ul_bytes (U' key) = percpu_total ul_bytes (Some vs)
    | None \<Rightarrow> U' = (case urr_insert E (URR_MAP M) key
          \<lparr>ul_bytes = 0, ul_packets = 0, dl_bytes = of_nat (length p), dl_packets = 1\<rparr> of
          None \<Rightarrow> URR_MAP M | Some m \<Rightarrow> m)) \<and>
    URR_MAP (fst (upf_edge_n6 E M q)) = URR_MAP M"
proof -
  have n: "\<not> fst (flow_action M session IFACE_ACCESS f)"
    using assms(3) by simp
  show ?thesis
    using assms(3,4) urr_dl.total_at_cpu [of "cpu E"] urr_dl_ul.total_at_cpu [of "cpu E"]
    by (auto simp: uplink_maps [OF assms(1,2) n] downlink_urr_unchanged urr_count_def Let_def
        uplink_stats_def split: option.split)
qed

theorem urr_uplink_charged_as_downlink_witness:
  "(let pdr = \<lparr>pv_precedence = 10, pv_source_interface = 0, pv_ue_ip = 0, pv_qfi = 0, pv_far_id = 5,
       pv_qer_id = 0, pv_urr_id = 7, pv_outer_header_removal = 0, pv_sdf_proto = 0, pv_sdf_src_ip = 0,
       pv_sdf_dst_ip = 0, pv_sdf_src_port = 0, pv_sdf_dst_port = 0\<rparr>;
     far = \<lparr>fv_apply_action = 2, fv_dst_interface = 1, fv_gnb_ip = 0, fv_teid = 0, fv_upf_n3_ip = 0\<rparr>;
     z = \<lparr>ul_bytes = 0, ul_packets = 0, dl_bytes = 0, dl_packets = 0\<rparr>;
     M = demo_maps\<lparr>SESSION_MAP := [SessionKey 0x02002D0A \<mapsto> demo_session\<lparr>si_pdr_count := 1\<rparr>],
       PDR_MAP := [PdrKey_new 1 0 \<mapsto> pdr], FAR_MAP := [FarKey_new 1 5 \<mapsto> far],
       URR_MAP := [UrrKey_new 1 7 \<mapsto> [z, z]]\<rparr>;
     U = URR_MAP (fst (upf_edge_n3 demo_env M demo_uplink))
    in percpu_total dl_bytes (U (UrrKey_new 1 7)) = 74 \<and> percpu_total ul_bytes (U (UrrKey_new 1 7)) = 0)"
proof -
  define z :: urr_stats where "z = \<lparr>ul_bytes = 0, ul_packets = 0, dl_bytes = 0, dl_packets = 0\<rparr>"
  define M where "M = demo_maps\<lparr>SESSION_MAP := [SessionKey 0x02002D0A \<mapsto> demo_session\<lparr>si_pdr_count := 1\<rparr>],
     PDR_MAP := [PdrKey_new 1 0 \<mapsto> \<lparr>pv_precedence = 10, pv_source_interface = 0, pv_ue_ip = 0, pv_qfi = 0,
       pv_far_id = 5, pv_qer_id = 0, pv_urr_id = 7, pv_outer_header_removal = 0, pv_sdf_proto = 0,
       pv_sdf_src_ip = 0, pv_sdf_dst_ip = 0, pv_sdf_src_port = 0, pv_sdf_dst_port = 0\<rparr>],
     FAR_MAP := [FarKey_new 1 5 \<mapsto> \<lparr>fv_apply_action = 2, fv_dst_interface = 1, fv_gnb_ip = 0,
       fv_teid = 0, fv_upf_n3_ip = 0\<rparr>],
     URR_MAP := [UrrKey_new 1 7 \<mapsto> [z, z]]\<rparr>"
  have max: "\<not> (- 1 :: u32) \<le> 10" "(2 :: u8) AND 1 = 0"
    by code_simp+
  have "flow_action M (demo_session\<lparr>si_pdr_count := 1\<rparr>) 0 f = (False, 7)" for f
    using max by (simp add: flow_action_def select_far_def session_pdrs_def M_def demo_session_def
        sdf_matches_def)
  from urr_uplink_charged_as_downlink [OF demo_uplink_parse _ this, where E = demo_env and q = "[]"]
  show ?thesis
    by (simp add: M_def [symmetric] z_def [symmetric] Let_def)
      (simp add: M_def z_def demo_session_def demo_env_def percpu_total_def demo_uplink_def demo_inner_def)
qed

end
