(* ===== verification/Upf_Server.thy ===== *)
theory Upf_Server
  imports Xdp
begin

text \<open>
  The state of the PFCP server of the UPF (src/upf-edge/src/pfcp_server.rs and association.rs):
  associations with their sessions, the identifier allocators, the keep-alive logic and the
  restoration of sessions at start-up.

  A hash map of the standard library is the partial function of its \<open>get\<close>; where the code depends on
  its iteration order, that order is a parameter. Time is a natural number of nanoseconds. Messages
  to the terminal interface, the session store, the gauge and the routing commands are values of
  \<open>effect\<close>, collected in order. The allocators share the contract \<open>allocator\<close>.
\<close>

type_synonym instant = nat

abbreviation secs :: "nat \<Rightarrow> nat" where "secs n \<equiv> n * 1000000000"
abbreviation millis :: "nat \<Rightarrow> nat" where "millis n \<equiv> n * 1000000"

definition elapsed :: "instant \<Rightarrow> instant \<Rightarrow> nat" where
  "elapsed now since = now - since"

datatype socket_addr = SocketV4 ipv4 u16 | SocketV6 bytes u16

subsection \<open>Sessions and associations\<close>

record session_data =
  sd_ue_ip :: ipv4
  sd_teid :: u32
  sd_gnb_ip :: ipv4
  sd_cp_seid :: u64

record urr_config =
  uc_urr_id :: u32
  uc_seid :: u64
  uc_cp_seid :: u64
  uc_measurement_method :: u8
  uc_reporting_triggers :: u8
  uc_volume_threshold_total :: "u64 option"
  uc_measurement_period :: "u32 option"
  uc_last_report :: instant
  uc_threshold_reported :: bool
  uc_ur_seqn :: u32

datatype association_state = Active | HeartbeatTimeOut

record heartbeat_tracker =
  hb_next_seq :: u32
  hb_last_sent :: "instant option"
  hb_last_response :: "instant option"
  hb_consecutive_failures :: u32

definition heartbeat_tracker_new :: heartbeat_tracker where
  "heartbeat_tracker_new = \<lparr>hb_next_seq = 200, hb_last_sent = None, hb_last_response = None,
     hb_consecutive_failures = 0\<rparr>"

record smf_association =
  as_node_id :: ipv4
  as_peer_addr :: socket_addr
  as_recovery_ts :: u32
  as_state :: association_state
  as_sessions :: "u64 \<rightharpoonup> session_data"
  as_last_activity :: instant
  as_heartbeat :: heartbeat_tracker

definition smf_association_new :: "instant \<Rightarrow> ipv4 \<Rightarrow> socket_addr \<Rightarrow> u32 \<Rightarrow> smf_association" where
  "smf_association_new now node peer ts = \<lparr>as_node_id = node, as_peer_addr = peer, as_recovery_ts = ts,
     as_state = Active, as_sessions = Map.empty, as_last_activity = now,
     as_heartbeat = heartbeat_tracker_new\<rparr>"

subsection \<open>The server\<close>

record pfcp_server =
  n4_addr :: ipv4
  n3_addr :: ipv4
  srv_recovery_ts :: u32
  associations :: "ipv4 \<rightharpoonup> smf_association"
  next_seid :: u64
  next_teid :: u32
  sessions :: "u64 \<rightharpoonup> session_data"
  urr_configs :: "u64 \<times> u32 \<rightharpoonup> urr_config"
  srv_peer_addr :: "socket_addr option"
  srv_last_activity :: instant
  tx_tui :: bool
  session_store :: bool
  next_report_seq :: u32

definition pfcp_server_new :: "instant \<Rightarrow> u64 \<Rightarrow> ipv4 \<Rightarrow> ipv4 \<Rightarrow> pfcp_server" where
  "pfcp_server_new now unix_secs n4 n3 = \<lparr>n4_addr = n4, n3_addr = n3,
     srv_recovery_ts = ucast unix_secs + 2208980800, associations = Map.empty, next_seid = 1,
     next_teid = 1000, sessions = Map.empty, urr_configs = Map.empty, srv_peer_addr = None,
     srv_last_activity = now, tx_tui = False, session_store = False, next_report_seq = 1000\<rparr>"

definition alloc_seid :: "pfcp_server \<Rightarrow> pfcp_server \<times> u64" where
  "alloc_seid srv = (srv\<lparr>next_seid := next_seid srv + 1\<rparr>, next_seid srv)"

definition alloc_teid :: "pfcp_server \<Rightarrow> pfcp_server \<times> u32" where
  "alloc_teid srv = (srv\<lparr>next_teid := next_teid srv + 1\<rparr>, next_teid srv)"

definition alloc_report_seq :: "pfcp_server \<Rightarrow> pfcp_server \<times> u32" where
  "alloc_report_seq srv = (srv\<lparr>next_report_seq := next_report_seq srv + 1\<rparr>, next_report_seq srv)"

definition set_tui_sender :: "pfcp_server \<Rightarrow> pfcp_server" where
  "set_tui_sender srv = srv\<lparr>tx_tui := True\<rparr>"

definition set_session_store :: "pfcp_server \<Rightarrow> pfcp_server" where
  "set_session_store srv = srv\<lparr>session_store := True\<rparr>"

definition get_association :: "ipv4 \<Rightarrow> pfcp_server \<Rightarrow> smf_association option" where
  "get_association node srv = associations srv node"

subsection \<open>Effects\<close>

datatype log_line =
  LogHbResponse u32
| LogAssociationEstablished
| LogSessionAdded ipv4 u64
| LogSessionDeleted u64
| LogSessionReport u32 u64 u64

datatype effect =
  TuiLog log_line
| TuiSessionsUpdated "u64 \<rightharpoonup> session_data"
| TuiHeartbeatUpdated
| TuiAssociationChanged bool
| StoreSave u64 session_data
| StoreDelete u64
| GaugeIncrement
| GaugeDecrement
| SetupUeRoute ipv4
| TeardownUeRoute ipv4

text \<open>
  The terminal's events are offered to its channel (\<open>try_send\<close> below), not delivered: what becomes of an
  offer is the channel's matter. Likewise a store effect is a task that is spawned, not one that has run.
\<close>

definition tui_send :: "pfcp_server \<Rightarrow> effect \<Rightarrow> effect list" where
  "tui_send srv ev = (if tx_tui srv then [ev] else [])"

definition tui_log :: "pfcp_server \<Rightarrow> log_line \<Rightarrow> effect list" where
  "tui_log srv l = tui_send srv (TuiLog l)"

definition tui_sessions_updated :: "pfcp_server \<Rightarrow> effect list" where
  "tui_sessions_updated srv = tui_send srv (TuiSessionsUpdated (sessions srv))"

definition store_effect :: "pfcp_server \<Rightarrow> effect \<Rightarrow> effect list" where
  "store_effect srv ev = (if session_store srv then [ev] else [])"

text \<open>
  The channel of the terminal, made with room for 100 events: \<^verbatim>\<open>try_send\<close> appends an event when there is
  room and otherwise drops it, the error being ignored by every sender; \<^verbatim>\<open>recv\<close> takes the oldest.
\<close>

definition TUI_CHANNEL :: nat where
  "TUI_CHANNEL = 100"

definition try_send :: "'e \<Rightarrow> 'e list \<Rightarrow> 'e list" where
  "try_send ev ch = (if length ch < TUI_CHANNEL then ch @ [ev] else ch)"

subsection \<open>Keep-alive\<close>

definition touch_activity :: "instant \<Rightarrow> pfcp_server \<Rightarrow> pfcp_server" where
  "touch_activity now srv = srv\<lparr>srv_last_activity := now\<rparr>"

definition check_keepalive ::
  "instant \<Rightarrow> u64 \<Rightarrow> pfcp_server \<Rightarrow> nat \<Rightarrow> u32 \<Rightarrow> (bytes \<times> socket_addr) option \<times> u32" where
  "check_keepalive now unix_secs srv interval sq =
     (case srv_peer_addr srv of
        None \<Rightarrow> (None, sq)
      | Some peer \<Rightarrow>
         if elapsed now (srv_last_activity srv) < interval then (None, sq)
         else
           (let msg = add_recovery_timestamp (ucast unix_secs + 2208988800)
                  (mb_new (new_node_msg PFCP_HEARTBEAT_REQ sq))
            in (Some (mb_finish msg, peer), sq + 1)))"

text \<open>The sleep of \<open>keepalive_task\<close> is computed once, before its loop.\<close>

definition keepalive_sleep :: "instant \<Rightarrow> pfcp_server \<Rightarrow> nat" where
  "keepalive_sleep now srv =
     (if elapsed now (srv_last_activity srv) \<ge> secs 15 then millis 1
      else secs 15 - elapsed now (srv_last_activity srv))"

text \<open>One round of the loop; \<open>sent\<close> says whether \<open>send_to\<close> succeeded.\<close>

definition keepalive_round ::
  "instant \<Rightarrow> u64 \<Rightarrow> bool \<Rightarrow> pfcp_server \<Rightarrow> u32 \<Rightarrow> pfcp_server \<times> u32 \<times> (bytes \<times> socket_addr) option" where
  "keepalive_round now unix_secs sent srv sq =
     (case check_keepalive now unix_secs srv (secs 15) sq of
        (None, sq') \<Rightarrow> (srv, sq', None)
      | (Some m, sq') \<Rightarrow> (if sent then touch_activity now srv else srv, sq', Some m))"

subsection \<open>Start-up: sessions loaded from the store\<close>

fun restore_sessions :: "(u64 \<times> session_data) list \<Rightarrow> pfcp_server \<Rightarrow> pfcp_server" where
  "restore_sessions [] srv = srv"
| "restore_sessions ((sid, d) # rest) srv =
     restore_sessions rest (srv\<lparr>sessions := (sessions srv)(sid \<mapsto> d)\<rparr>)"

definition startup_load :: "(u64 \<times> session_data) list option \<Rightarrow> pfcp_server \<Rightarrow> pfcp_server \<times> effect list" where
  "startup_load loaded srv =
     (if \<not> session_store srv then (srv, [])
      else case loaded of
        None \<Rightarrow> (srv, [])
      | Some ss \<Rightarrow>
          if ss = [] then (srv, [])
          else (let srv' = restore_sessions ss srv in (srv', tui_sessions_updated srv')))"

section \<open>Allocators\<close>

fun repeat_alloc :: "('s \<Rightarrow> 's \<times> 'v) \<Rightarrow> nat \<Rightarrow> 's \<Rightarrow> 's \<times> 'v list" where
  "repeat_alloc alloc 0 s = (s, [])"
| "repeat_alloc alloc (Suc n) s =
     (let (s1, v) = alloc s; (s2, vs) = repeat_alloc alloc n s1 in (s2, v # vs))"

text \<open>An allocator hands out the value of a counter and increments it, wrapping at its width.\<close>

locale allocator =
  fixes alloc :: "'s \<Rightarrow> 's \<times> 'w::len word" and next_id :: "'s \<Rightarrow> 'w word"
  assumes alloc_value: "snd (alloc s) = next_id s"
    and alloc_next: "next_id (fst (alloc s)) = next_id s + 1"
begin

lemma repeat_values:
  "snd (repeat_alloc alloc n s) = map (\<lambda>i. next_id s + of_nat i) [0..<n]"
proof (induction n arbitrary: s)
  case (Suc n)
  have "map (\<lambda>i. next_id s + of_nat i) [0..<Suc n] =
    next_id s # map (\<lambda>i. next_id (fst (alloc s)) + of_nat i) [0..<n]"
    by (simp add: alloc_next upt_conv_Cons map_Suc_upt [symmetric] add.assoc del: upt_Suc)
  with Suc [of "fst (alloc s)"] alloc_value [of s] show ?case
    by (simp add: case_prod_beta Let_def)
qed simp

lemma of_nat_inj_below:
  "i < 2 ^ LENGTH('w) \<Longrightarrow> j < 2 ^ LENGTH('w) \<Longrightarrow> (of_nat i :: 'w word) = of_nat j \<Longrightarrow> i = j"
  by (metis unat_of_nat mod_less)

lemma repeat_distinct:
  assumes "n \<le> 2 ^ LENGTH('w)"
  shows "distinct (snd (repeat_alloc alloc n s))"
proof -
  have "inj_on (\<lambda>i. next_id s + of_nat i) {0..<n}"
    using assms by (intro inj_onI) (auto intro: of_nat_inj_below)
  then show ?thesis
    by (simp add: repeat_values distinct_map)
qed

end

interpretation seid_alloc: allocator alloc_seid next_seid
  by unfold_locales (simp_all add: alloc_seid_def)

interpretation teid_alloc: allocator alloc_teid next_teid
  by unfold_locales (simp_all add: alloc_teid_def)

interpretation report_seq_alloc: allocator alloc_report_seq next_report_seq
  by unfold_locales (simp_all add: alloc_report_seq_def)

text \<open>
  Identifiers are not reused before the counter wraps: up to 2^64 consecutive SEIDs, 2^32
  consecutive TEIDs and 2^32 consecutive report sequence numbers are pairwise distinct.
\<close>

theorem allocations_distinct:
  assumes "n \<le> 2 ^ 32"
  shows "distinct (snd (repeat_alloc alloc_seid n srv)) \<and> distinct (snd (repeat_alloc alloc_teid n srv)) \<and>
    distinct (snd (repeat_alloc alloc_report_seq n srv))"
  using assms seid_alloc.repeat_distinct [of n srv] teid_alloc.repeat_distinct [of n srv]
    report_seq_alloc.repeat_distinct [of n srv] by simp

theorem allocations_distinct_witness:
  "distinct (snd (repeat_alloc alloc_teid 3 (pfcp_server_new 0 0 UNSPECIFIED UNSPECIFIED)))"
  using allocations_distinct [of 3 "pfcp_server_new 0 0 UNSPECIFIED UNSPECIFIED"] by simp

section \<open>Keep-alive and start-up\<close>

lemma heartbeat_request_decodes:
  assumes "unat sq < 2 ^ 24"
  shows "\<exists>h body. pfcp_header_decode (mb_finish (add_recovery_timestamp ts
      (mb_new (new_node_msg PFCP_HEARTBEAT_REQ sq)))) = Inr (h, body) \<and>
    msg_type h = PFCP_HEARTBEAT_REQ \<and> seq_num h = sq \<and> hbr_recovery_ts (heartbeat_req_decode body) = Some ts"
proof -
  let ?h = "new_node_msg PFCP_HEARTBEAT_REQ sq"
  have b: "mb_buf (add_recovery_timestamp ts (mb_new ?h)) =
      pfcp_header_encode ?h @ tlv PFCP_IE_RECOVERY_TIME_STAMP (to_be_bytes ts) @ []"
    by (simp add: add_recovery_timestamp_def mb_new_def add_ie_def tlv_def)
  have "hbr_recovery_ts (heartbeat_req_decode (tlv PFCP_IE_RECOVERY_TIME_STAMP (to_be_bytes ts) @ [])) = Some ts"
    using recovery_ts.dec_enc [of ts]
    by (simp add: heartbeat_req_decode_def find_ie_type_def recovery_ts.iter_enc raw_of_def)
  with decode_finish [OF wf_node_msg [OF assms] b] show ?thesis
    by (simp add: new_node_msg_def)
qed

text \<open>
  The keep-alive fires exactly when a peer is known and nothing was received for the interval;
  it then sends the peer a well-formed Heartbeat Request with the current sequence number, advances
  the sequence number, and a successful transmission restarts the interval. The recovery time stamp
  it carries is the time of transmission.
\<close>

theorem keepalive_exact:
  assumes "unat sq < 2 ^ 24"
  shows "(case keepalive_round now t sent srv sq of (srv', sq', out) \<Rightarrow>
    (out \<noteq> None \<longleftrightarrow> (\<exists>peer. srv_peer_addr srv = Some peer \<and> secs 15 \<le> elapsed now (srv_last_activity srv))) \<and>
    sq' = (if out = None then sq else sq + 1) \<and>
    (out \<noteq> None \<and> sent \<longrightarrow> fst (snd (keepalive_round now t sent srv' sq')) = sq') \<and>
    (\<forall>m peer. out = Some (m, peer) \<longrightarrow> srv_peer_addr srv = Some peer \<and>
      (\<exists>h body. pfcp_header_decode m = Inr (h, body) \<and> msg_type h = PFCP_HEARTBEAT_REQ \<and>
        seq_num h = sq \<and> hbr_recovery_ts (heartbeat_req_decode body) = Some (ucast t + 2208988800))))"
  using heartbeat_request_decodes [OF assms, of "ucast t + 2208988800"]
  by (auto simp: keepalive_round_def check_keepalive_def touch_activity_def elapsed_def Let_def
      split: option.splits)

theorem keepalive_exact_witness:
  "snd (snd (keepalive_round (secs 20) 0 True
     ((pfcp_server_new 0 0 UNSPECIFIED UNSPECIFIED)\<lparr>srv_peer_addr := Some (SocketV4 UNSPECIFIED 8805)\<rparr>) 200)) \<noteq> None"
  using keepalive_exact [where sq = 200 and now = "secs 20" and t = 0 and sent = True and
      srv = "(pfcp_server_new 0 0 UNSPECIFIED UNSPECIFIED)\<lparr>srv_peer_addr := Some (SocketV4 UNSPECIFIED 8805)\<rparr>"]
  by (auto simp: pfcp_server_new_def elapsed_def)

lemma restore_sessions_map: "sessions (restore_sessions ss srv) = sessions srv ++ map_of (rev ss)"
proof (induction ss srv rule: restore_sessions.induct)
  case (2 sid d rest srv)
  have "sessions (restore_sessions ((sid, d) # rest) srv) = (sessions srv)(sid \<mapsto> d) ++ map_of (rev rest)"
    using 2 by (simp add: fun_upd_def)
  also have "\<dots> = sessions srv ++ map_of (rev ((sid, d) # rest))"
    by (rule ext) (simp add: map_add_def split: option.split)
  finally show ?case .
qed simp

lemma restore_sessions_next: "next_seid (restore_sessions ss srv) = next_seid srv"
  by (induction ss srv rule: restore_sessions.induct) simp_all

text \<open>
  Sessions restored from the store do not advance the SEID counter: after a restart a restored
  session whose SEID is the counter's start value shares its SEID with the next session established.
\<close>

theorem restored_seid_reused:
  "(let srv = set_session_store (pfcp_server_new now t n4 n3);
        srv' = fst (startup_load (Some [(1, d)]) srv)
    in sessions srv' 1 = Some d \<and> snd (alloc_seid srv') = 1)"
  by (simp add: startup_load_def set_session_store_def pfcp_server_new_def alloc_seid_def Let_def
      restore_sessions_map restore_sessions_next)

end
