(* ===== verification/Upf_Tui.thy ===== *)
theory Upf_Tui
  imports Tui_Common Rust_F32 Upf_Server
begin

text \<open>
  The UPF's terminal interface (src/upf-edge/src/tui): commands, the application state with its log
  of at most 200 lines, and the event loop of \<^verbatim>\<open>run_loop\<close> as a step on one event. The clock text of
  a log entry is an argument, read once per event, and so are the CPU and memory figures that a tick
  takes from the operating system. \<open>Tui_Draw\<close> draws the state.
\<close>

section \<open>Commands\<close>

datatype upf_command = UpfShowSessions | UpfShowSession u64 | UpfClear | UpfHelp | UpfQuit

definition upf_parse_seid :: "string \<Rightarrow> parse_error + u64" where
  "upf_parse_seid s =
     (case (case strip_prefix ''0x'' s of Some h \<Rightarrow> Some h | None \<Rightarrow> strip_prefix ''0X'' s) of
        Some hex \<Rightarrow> (case parse_hex hex of None \<Rightarrow> Inl (WrongSeid s) | Some v \<Rightarrow> Inr v)
      | None \<Rightarrow> (case parse_word s of None \<Rightarrow> Inl (WrongSeid s) | Some v \<Rightarrow> Inr v))"

definition upf_from_input :: "string \<Rightarrow> parse_error + upf_command" where
  "upf_from_input input =
     (let parts = split_whitespace (trim_text input) in
      if parts = [''show'', ''sessions''] \<or> parts = [''session'', ''list''] then Inr UpfShowSessions
      else if length parts = 3 \<and> take 2 parts = [''show'', ''session'']
      then map_sum id UpfShowSession (upf_parse_seid (parts ! 2))
      else if parts = [''clear''] then Inr UpfClear
      else if parts = [''help''] \<or> parts = [''?''] then Inr UpfHelp
      else if parts = [''quit''] \<or> parts = [''exit''] \<or> parts = [''q''] then Inr UpfQuit
      else if parts = [] then Inl EmptyCommand
      else Inl (UnknownCommand (trim_text input)))"

section \<open>Application state\<close>

record session_entry =
  se_seid :: u64
  se_ue_ip :: ipv4
  se_teid :: u32
  se_gnb_ip :: ipv4
  se_duration :: instant

datatype upf_line =
  ULine string
| UStart
| UPrompt string
| UAssociated
| UDisassociated
| UNoSession
| UTotal nat
| URow u64 ipv4 u32 ipv4
| USeid u64
| UUeIp ipv4
| UTeid u32
| UGnbIp ipv4
| UMissing u64
| UHelpLine nat
| UParseFailed parse_error

datatype upf_app_event =
  UEvLog upf_line
| UEvAssociationChanged bool
| UEvSessionsUpdated "session_entry list"
| UEvHeartbeatUpdated

type_synonym upf_log_entry = "string \<times> upf_line"

record upf_app =
  ua_logs :: "upf_log_entry list"
  ua_sessions :: "session_entry list"
  ua_associated :: bool
  ua_last_hb_secs :: u64
  ua_cpu_pct :: f32
  ua_mem_pct :: f32
  ua_should_quit :: bool

definition upf_app_new :: upf_app where
  "upf_app_new = \<lparr>ua_logs = [], ua_sessions = [], ua_associated = False, ua_last_hb_secs = 0,
     ua_cpu_pct = F32Fin 0, ua_mem_pct = F32Fin 0, ua_should_quit = False\<rparr>"

definition upf_app_add :: "upf_log_entry \<Rightarrow> upf_app \<Rightarrow> upf_app" where
  "upf_app_add e app =
     (let l = ua_logs app @ [e]
      in app\<lparr>ua_logs := (if length l > 200 then tl l else l)\<rparr>)"

definition upf_app_log :: "string \<Rightarrow> upf_line \<Rightarrow> upf_app \<Rightarrow> upf_app" where
  "upf_app_log now msg app = upf_app_add (now, msg) app"

definition upf_session_count :: "upf_app \<Rightarrow> nat" where
  "upf_session_count app = length (ua_sessions app)"

section \<open>Commands and events\<close>

definition upf_row :: "session_entry \<Rightarrow> upf_line" where
  "upf_row s = URow (se_seid s) (se_ue_ip s) (se_teid s) (se_gnb_ip s)"

definition upf_execute_command :: "string \<Rightarrow> string \<Rightarrow> upf_app \<Rightarrow> upf_app" where
  "upf_execute_command now input app0 =
     (let app = upf_app_log now (UPrompt input) app0 in
      case upf_from_input input of
        Inl e \<Rightarrow> upf_app_log now (UParseFailed e) app
      | Inr cmd \<Rightarrow>
         (case cmd of
            UpfShowSessions \<Rightarrow>
              if ua_sessions app = [] then upf_app_log now UNoSession app
              else fold (upf_app_log now) (map upf_row (ua_sessions app))
                     (upf_app_log now (UTotal (length (ua_sessions app))) app)
          | UpfShowSession sid \<Rightarrow>
              (case find (\<lambda>s. se_seid s = sid) (ua_sessions app) of
                 Some s \<Rightarrow> upf_app_log now (UGnbIp (se_gnb_ip s)) (upf_app_log now (UTeid (se_teid s))
                   (upf_app_log now (UUeIp (se_ue_ip s)) (upf_app_log now (USeid (se_seid s)) app)))
               | None \<Rightarrow> upf_app_log now (UMissing sid) app)
          | UpfClear \<Rightarrow> app\<lparr>ua_logs := []\<rparr>
          | UpfHelp \<Rightarrow> fold (upf_app_log now) (map UHelpLine [0..<7]) app
          | UpfQuit \<Rightarrow> app\<lparr>ua_should_quit := True\<rparr>))"

text \<open>What the crate \<^verbatim>\<open>sysinfo\<close> reports; a tick reads it when the last reading is a second old.\<close>

record sys_sample =
  global_cpu_usage :: f32
  used_memory :: u64
  total_memory :: u64

definition sample_system :: "sys_sample \<Rightarrow> upf_app \<Rightarrow> upf_app" where
  "sample_system sys app = app\<lparr>ua_cpu_pct := global_cpu_usage sys,
     ua_mem_pct := f32_mul (f32_div (f32_of_u64 (used_memory sys)) (f32_of_u64 (total_memory sys))) (F32Fin 100)\<rparr>"

datatype upf_input = UTick "sys_sample option" | UReceived upf_app_event | UClosed | UKey key_code key_modifiers | UOther

definition saturating_inc :: "u64 \<Rightarrow> u64" where
  "saturating_inc n = (if n = 0xFFFFFFFFFFFFFFFF then n else n + 1)"

text \<open>One round of \<^verbatim>\<open>run_loop\<close>; the flag says whether the loop ends.\<close>

definition upf_tui_step :: "'t textarea \<Rightarrow> string \<Rightarrow> upf_input \<Rightarrow> upf_app \<times> 't \<Rightarrow> (upf_app \<times> 't) \<times> bool" where
  "upf_tui_step T now inp s =
     (let (app, ta) = s;
          next = (\<lambda>app' ta'. ((app', ta'), ua_should_quit app'))
      in case inp of
           UTick sample \<Rightarrow>
             (let app1 = app\<lparr>ua_last_hb_secs := saturating_inc (ua_last_hb_secs app)\<rparr>
              in next (case sample of None \<Rightarrow> app1 | Some sys \<Rightarrow> sample_system sys app1) ta)
         | UReceived (UEvLog msg) \<Rightarrow> next (upf_app_log now msg app) ta
         | UReceived (UEvAssociationChanged v) \<Rightarrow>
             next (upf_app_log now (if v then UAssociated else UDisassociated) (app\<lparr>ua_associated := v\<rparr>)) ta
         | UReceived (UEvSessionsUpdated ss) \<Rightarrow> next (app\<lparr>ua_sessions := ss\<rparr>) ta
         | UReceived UEvHeartbeatUpdated \<Rightarrow> next (app\<lparr>ua_last_hb_secs := 0\<rparr>) ta
         | UClosed \<Rightarrow> (s, True)
         | UOther \<Rightarrow> next app ta
         | UKey code mods \<Rightarrow>
             if code = KeyChar CHR ''c'' \<and> mods = ModControl then next (app\<lparr>ua_should_quit := True\<rparr>) ta
             else if code = KeyEnter \<and> mods = ModNone then
               (let input = trim_text (ta_line0 T ta)
                in if input \<noteq> [] then next (upf_execute_command now input app) (ta_default T) else next app ta)
             else if code = KeyEsc \<and> mods = ModNone then next app (ta_default T)
             else next app (ta_input T ta code mods))"

fun upf_tui_loop :: "'t textarea \<Rightarrow> (string \<times> upf_input) list \<Rightarrow> upf_app \<times> 't \<Rightarrow> (upf_app \<times> 't) \<times> bool" where
  "upf_tui_loop T [] s = (s, False)"
| "upf_tui_loop T ((now, inp) # rest) s =
     (case upf_tui_step T now inp s of (s', stop) \<Rightarrow> if stop then (s', True) else upf_tui_loop T rest s')"

definition upf_tui_run :: "'t textarea \<Rightarrow> string \<Rightarrow> (string \<times> upf_input) list \<Rightarrow> (upf_app \<times> 't) \<times> bool" where
  "upf_tui_run T now inputs = upf_tui_loop T inputs (upf_app_log now UStart upf_app_new, ta_default T)"

section \<open>The log\<close>

interpretation upf_log: log_buffer ua_logs upf_app_add 200
  by unfold_locales (simp add: upf_app_add_def Let_def)

lemma upf_app_log_add: "upf_app_log now = (\<lambda>msg. upf_app_add (now, msg))"
  by (simp add: upf_app_log_def fun_eq_iff)

lemma fold_upf_log: "fold (upf_app_log now) msgs app = fold upf_app_add (map (Pair now) msgs) app"
  by (simp add: upf_app_log_add fold_map o_def)

lemma upf_log_frame [simp]:
  "ua_sessions (upf_app_log now msg app) = ua_sessions app" "ua_should_quit (upf_app_log now msg app) = ua_should_quit app"
  by (simp_all add: upf_app_log_def upf_app_add_def Let_def)

lemma upf_log_last:
  "length (ua_logs app) \<le> 200 \<Longrightarrow>
    ua_logs (fold (upf_app_log now) msgs app) = last_n 200 (ua_logs app @ map (Pair now) msgs)"
  by (simp add: fold_upf_log upf_log.adds_last)

lemma upf_log_bounded: "length (ua_logs app) \<le> 200 \<Longrightarrow> length (ua_logs (upf_app_log now msg app)) \<le> 200"
  unfolding upf_app_log_def by (rule upf_log.add_bounded)

lemma upf_logs_bounded: "length (ua_logs app) \<le> 200 \<Longrightarrow> length (ua_logs (fold (upf_app_log now) msgs app)) \<le> 200"
  by (simp add: upf_log_last)

lemma upf_execute_bounded: "length (ua_logs app) \<le> 200 \<Longrightarrow> length (ua_logs (upf_execute_command now input app)) \<le> 200"
  by (simp add: upf_execute_command_def Let_def upf_log_bounded upf_logs_bounded split: sum.split upf_command.split option.split)

lemma upf_step_bounded:
  "length (ua_logs (fst s)) \<le> 200 \<Longrightarrow> length (ua_logs (fst (fst (upf_tui_step T now inp s)))) \<le> 200"
  by (simp add: upf_tui_step_def Let_def split_beta upf_log_bounded upf_execute_bounded sample_system_def
      split: upf_input.split upf_app_event.split option.split)

lemma upf_loop_bounded:
  "length (ua_logs (fst s)) \<le> 200 \<Longrightarrow> length (ua_logs (fst (fst (upf_tui_loop T inputs s)))) \<le> 200"
proof (induction T inputs s rule: upf_tui_loop.induct)
  case (2 T now inp rest s)
  then show ?case
    using upf_step_bounded [of s T now inp] by (cases "upf_tui_step T now inp s") simp
qed simp

section \<open>Properties\<close>

lemma parse_hex_exact:
  "parse_hex s = (let t = (if s \<noteq> [] \<and> hd s = CHR ''+'' then tl s else s)
     in case digits_of 16 t of None \<Rightarrow> None
        | Some ds \<Rightarrow> if t \<noteq> [] \<and> number 16 0 ds < 2 ^ LENGTH('a) then Some (of_nat (number 16 0 ds) :: 'a::len word) else None)"
  by (simp add: parse_hex_def from_str_radix_exact Let_def digits_of_def split: option.split)

lemma parse_word_exact:
  "parse_word s = (let t = (if s \<noteq> [] \<and> hd s = CHR ''+'' then tl s else s)
     in case digits_of 10 t of None \<Rightarrow> None
        | Some ds \<Rightarrow> if t \<noteq> [] \<and> number 10 0 ds < 2 ^ LENGTH('a) then Some (of_nat (number 10 0 ds) :: 'a::len word) else None)"
  by (simp add: parse_word_def from_str_radix_exact Let_def digits_of_def split: option.split)

text \<open>
  The digits of a SEID as the user types them: after \<^verbatim>\<open>0x\<close> or \<^verbatim>\<open>0X\<close> in base 16, otherwise in base 10. In both
  cases one plus sign may precede the digits, also after the prefix (\<^verbatim>\<open>0x+1f\<close>): Rust's integer parsers take it.
\<close>

definition seid_numeral :: "string \<Rightarrow> nat \<times> string" where
  "seid_numeral s =
     (let (b, t) = (if take 2 s = ''0x'' \<or> take 2 s = ''0X'' then (16, drop 2 s) else (10, s))
      in (b, if t \<noteq> [] \<and> hd t = CHR ''+'' then tl t else t))"

text \<open>
  C39: The SEID parser, with its digit-by-digit overflow checks, is equivalent to its specification:
  it accepts exactly the non-empty numerals, decimal or hexadecimal after a prefix, with or without one plus
  sign before the digits, whose characters are digits of their base and whose value is below 2^64, and
  returns that value.
\<close>

theorem upf_parse_seid_exact:
  "upf_parse_seid s =
     (case seid_numeral s of (b, t) \<Rightarrow>
        (case digits_of b t of None \<Rightarrow> Inl (WrongSeid s)
         | Some ds \<Rightarrow> if t \<noteq> [] \<and> number b 0 ds < 2 ^ 64 then Inr (of_nat (number b 0 ds)) else Inl (WrongSeid s)))"
proof (cases "take 2 s = ''0x'' \<or> take 2 s = ''0X''")
  case True
  have h: "(case strip_prefix ''0x'' s of Some h \<Rightarrow> Some h | None \<Rightarrow> strip_prefix ''0X'' s) = Some (drop 2 s)"
    using True by (auto simp: strip_prefix_def numeral_2_eq_2)
  define t where "t = (if drop 2 s \<noteq> [] \<and> hd (drop 2 s) = CHR ''+'' then tl (drop 2 s) else drop 2 s)"
  have n: "seid_numeral s = (16, t)" unfolding seid_numeral_def t_def using True by simp
  have p: "parse_hex (drop 2 s) = (case digits_of 16 t of None \<Rightarrow> None
      | Some ds \<Rightarrow> if t \<noteq> [] \<and> number 16 0 ds < 2 ^ 64 then Some (of_nat (number 16 0 ds) :: u64) else None)"
    unfolding parse_hex_exact t_def [symmetric] Let_def by (simp split: option.split)
  show ?thesis
    unfolding upf_parse_seid_def h option.case p n by (simp split: option.split)
next
  case False
  have h: "(case strip_prefix ''0x'' s of Some h \<Rightarrow> Some h | None \<Rightarrow> strip_prefix ''0X'' s) = None"
    using False by (simp add: strip_prefix_def numeral_2_eq_2)
  define t where "t = (if s \<noteq> [] \<and> hd s = CHR ''+'' then tl s else s)"
  have n: "seid_numeral s = (10, t)" unfolding seid_numeral_def t_def using False by simp
  have p: "parse_word s = (case digits_of 10 t of None \<Rightarrow> None
      | Some ds \<Rightarrow> if t \<noteq> [] \<and> number 10 0 ds < 2 ^ 64 then Some (of_nat (number 10 0 ds) :: u64) else None)"
    unfolding parse_word_exact t_def [symmetric] Let_def by (simp split: option.split)
  show ?thesis
    unfolding upf_parse_seid_def h option.case p n by (simp split: option.split)
qed

lemma upf_parse_seid_hex: "upf_parse_seid (print_hex_word sid) = Inr sid"
  by (simp add: upf_parse_seid_def print_hex_word_def parse_print_hex strip_prefix_def)

text \<open>
  What the interface prints can be typed back: for the first listed session with a SEID, the
  command \<^verbatim>\<open>show session\<close> with that SEID in the printed form \<^verbatim>\<open>0x...\<close> appends the prompt and the
  session's SEID, UE address, TEID and gNB address to the log, of which the latest 200 lines are kept.
\<close>

theorem typed_seid_shows_session:
  fixes app :: upf_app
  assumes "find (\<lambda>s. se_seid s = sid) (ua_sessions app) = Some s" "length (ua_logs app) \<le> 200"
  defines "input \<equiv> ''show session '' @ print_hex_word sid"
  shows "ua_logs (upf_execute_command now input app) =
    last_n 200 (ua_logs app @ map (Pair now) [UPrompt input, USeid sid, UUeIp (se_ue_ip s), UTeid (se_teid s), UGnbIp (se_gnb_ip s)])"
proof -
  have parts: "split_whitespace (trim_text input) = [''show'', ''session'', print_hex_word sid]"
    unfolding input_def trim_text_split by (rule split_show_session [OF hex_solid])
  have "upf_from_input input = Inr (UpfShowSession sid)"
    unfolding upf_from_input_def parts by (simp add: upf_parse_seid_hex)
  moreover have "se_seid s = sid" using assms(1) by (auto simp: find_Some_iff)
  ultimately have "upf_execute_command now input app =
      fold (upf_app_log now) [UPrompt input, USeid sid, UUeIp (se_ue_ip s), UTeid (se_teid s), UGnbIp (se_gnb_ip s)] app"
    using assms(1) by (simp add: upf_execute_command_def Let_def)
  then show ?thesis
    by (simp only: upf_log_last [OF assms(2)])
qed

definition demo_entry :: session_entry where
  "demo_entry = \<lparr>se_seid = 26, se_ue_ip = Ipv4Addr 10 45 0 2, se_teid = 1000, se_gnb_ip = Ipv4Addr 172 22 0 23, se_duration = 0\<rparr>"

theorem typed_seid_shows_session_witness:
  "map snd (ua_logs (upf_execute_command ''12:00:00'' ''show session 0x1a'' (upf_app_new\<lparr>ua_sessions := [demo_entry]\<rparr>))) =
     [UPrompt ''show session 0x1a'', USeid 26, UUeIp (Ipv4Addr 10 45 0 2), UTeid 1000, UGnbIp (Ipv4Addr 172 22 0 23)]"
proof -
  have hex: "print_hex_word (26 :: u64) = ''0x1a''"
  proof -
    have "char_of (49 :: nat) = CHR ''1''" "char_of (97 :: nat) = CHR ''a''"
      using char_of_char [of "CHR ''1''", where 'a = nat] char_of_char [of "CHR ''a''", where 'a = nat] by simp_all
    then show ?thesis by (simp add: print_hex_word_def print_radix_def digits.simps digit_char_def)
  qed
  show ?thesis
    using typed_seid_shows_session [of 26 "upf_app_new\<lparr>ua_sessions := [demo_entry]\<rparr>" demo_entry "''12:00:00''"]
    by (simp add: hex demo_entry_def upf_app_new_def)
qed

text \<open>
  Whatever events and keys the interface receives, at every point of its run the log holds at
  most 200 lines.
\<close>

theorem upf_tui_log_bounded: "length (ua_logs (fst (fst (upf_tui_run T now inputs)))) \<le> 200"
  unfolding upf_tui_run_def by (rule upf_loop_bounded) (simp add: upf_app_log_def upf_app_add_def upf_app_new_def)

end
