(* ===== verification/Upf_Handlers.thy ===== *)
theory Upf_Handlers
  imports Upf_Server
begin

text \<open>
  The PFCP message handlers of the UPF (src/upf-edge/src/handle_msg.rs). A handler maps the state
  (server, BPF maps, effects so far) to a new state and either an error or the response; the state
  also changes on the error paths that the code leaves after its first update. Kernel map
  operations and the iteration orders of hash maps and hash sets are fields of \<open>upf_env\<close>.

  Session deletion takes the server lock only for its first part; the two parts are separate
  definitions so that other work may be placed between them.
\<close>

datatype handler_error =
  HeaderError pfcp_error
| BodyError msg_error
| NonIpv4Source
| NoAssociation socket_addr
| NoUeIp
| NoOuterHeaderCreation
| MapInsertFailed
| MissingSeid
| UnknownSeid u64
| OwnershipViolation u64 ipv4
| UnhandledType u8

record upf_env =
  env_now :: instant
  assoc_order :: "(ipv4 \<rightharpoonup> smf_association) \<Rightarrow> ipv4 list"
  set_order :: "u32 list \<Rightarrow> u32 list"
  session_ops :: "(session_key, session_info) hash_ops"
  pdr_ops :: "(pdr_key, pdr_value) hash_ops"
  far_ops :: "(far_key, far_value) hash_ops"
  urr_ops :: "(urr_key, urr_stats list) hash_ops"
  nr_cpus :: "nat option"
  percpu_values :: "urr_stats list \<Rightarrow> urr_stats list option"

record upf_state =
  st_server :: pfcp_server
  st_maps :: bpf_maps
  st_effects :: "effect list"

definition emit :: "effect list \<Rightarrow> upf_state \<Rightarrow> upf_state" where
  "emit es st = st\<lparr>st_effects := st_effects st @ es\<rparr>"

fun is_v4 :: "socket_addr \<Rightarrow> bool" where
  "is_v4 (SocketV4 _ _) = True"
| "is_v4 (SocketV6 _ _) = False"

text \<open>\<open>associations.values_mut().find(|a| a.peer_addr == src)\<close>, with the key of the entry found.\<close>

definition find_association :: "upf_env \<Rightarrow> pfcp_server \<Rightarrow> socket_addr \<Rightarrow> (ipv4 \<times> smf_association) option" where
  "find_association E srv src =
     find_map (\<lambda>k. case associations srv k of
         None \<Rightarrow> None
       | Some a \<Rightarrow> if as_peer_addr a = src then Some (k, a) else None)
       (assoc_order E (associations srv))"

definition ip_be :: "ipv4 \<Rightarrow> u32" where
  "ip_be ip = to_be (u32_from_ip ip)"

subsection \<open>Heartbeat\<close>

definition handle_heartbeat ::
  "upf_env \<Rightarrow> pfcp_header \<Rightarrow> bytes \<Rightarrow> socket_addr \<Rightarrow> upf_state \<Rightarrow> upf_state \<times> (handler_error + bytes)" where
  "handle_heartbeat E hdr body src st =
     (let recv_ts = hbr_recovery_ts (heartbeat_req_decode body);
          srv = st_server st;
          srv' =
            (if is_v4 src then
               (case (find_association E srv src, recv_ts) of
                  (Some (k, a), Some recv) \<Rightarrow>
                    (let a1 = (if as_recovery_ts a \<noteq> recv
                               then a\<lparr>as_sessions := Map.empty, as_recovery_ts := recv\<rparr> else a);
                         a2 = a1\<lparr>as_last_activity := env_now E,
                                as_heartbeat := (as_heartbeat a1)\<lparr>hb_last_response := Some (env_now E),
                                  hb_consecutive_failures := 0\<rparr>\<rparr>
                     in srv\<lparr>associations := (associations srv)(k \<mapsto> a2)\<rparr>)
                | _ \<Rightarrow> srv)
             else srv)
      in (emit (tui_send srv' TuiHeartbeatUpdated @ tui_log srv' (LogHbResponse (seq_num hdr)))
            (st\<lparr>st_server := srv'\<rparr>),
          Inr (build_heartbeat_response (seq_num hdr) (srv_recovery_ts srv'))))"

subsection \<open>Association setup\<close>

definition handle_session_association ::
  "upf_env \<Rightarrow> pfcp_header \<Rightarrow> bytes \<Rightarrow> socket_addr \<Rightarrow> upf_state \<Rightarrow> upf_state \<times> (handler_error + bytes)" where
  "handle_session_association E hdr body src st =
     (case association_setup_req_decode body of
        Inl e \<Rightarrow> (st, Inl (BodyError e))
      | Inr req \<Rightarrow>
         (let node = asr_node_id req; ts = asr_recovery_ts req; srv = st_server st;
              response = build_association_setup_response (seq_num hdr) (n3_addr srv) (srv_recovery_ts srv);
              duplicate = (case associations srv node of
                             None \<Rightarrow> False
                           | Some existing \<Rightarrow> ts = as_recovery_ts existing)
          in if duplicate then (st, Inr response)
             else
               (let srv1 = srv\<lparr>associations := (associations srv)(node \<mapsto> smf_association_new (env_now E) node src ts)\<rparr>;
                    es = tui_log srv1 LogAssociationEstablished @ tui_send srv1 (TuiAssociationChanged True);
                    srv2 = srv1\<lparr>srv_peer_addr := Some (SocketV4 node 8805)\<rparr>
                in (emit es (st\<lparr>st_server := srv2\<rparr>), Inr response))))"

subsection \<open>Session establishment\<close>

definition pdr_value_of :: "ipv4 \<Rightarrow> parsed_pdr \<Rightarrow> pdr_value" where
  "pdr_value_of ue_ip p = \<lparr>
     pv_precedence = pdr_precedence p,
     pv_source_interface = pdr_source_interface p,
     pv_ue_ip = ip_be ue_ip,
     pv_qfi = 0,
     pv_far_id = (case pdr_far_id p of None \<Rightarrow> 0 | Some i \<Rightarrow> i),
     pv_qer_id = 0,
     pv_urr_id = (case pdr_urr_id p of None \<Rightarrow> 0 | Some i \<Rightarrow> i),
     pv_outer_header_removal = (if pdr_outer_header_removal p then 1 else 0),
     pv_sdf_proto = (case pdr_sdf_filter p of None \<Rightarrow> 0 | Some f \<Rightarrow> sdf_proto f),
     pv_sdf_src_ip = (case pdr_sdf_filter p of None \<Rightarrow> 0 | Some f \<Rightarrow> ip_be (sdf_src_ip f)),
     pv_sdf_dst_ip = (case pdr_sdf_filter p of None \<Rightarrow> 0 | Some f \<Rightarrow> ip_be (sdf_dst_ip f)),
     pv_sdf_src_port = (case pdr_sdf_filter p of None \<Rightarrow> 0 | Some f \<Rightarrow> sdf_src_port f),
     pv_sdf_dst_port = (case pdr_sdf_filter p of None \<Rightarrow> 0 | Some f \<Rightarrow> sdf_dst_port f)\<rparr>"

definition far_value_of :: "ipv4 \<Rightarrow> parsed_far \<Rightarrow> far_value" where
  "far_value_of n3 f = \<lparr>
     fv_apply_action = far_apply_action f,
     fv_dst_interface = (case far_dest_interface f of None \<Rightarrow> 0 | Some i \<Rightarrow> i),
     fv_gnb_ip = (case far_outer_header_creation f of None \<Rightarrow> 0 | Some ohc \<Rightarrow> ip_be (ohc_peer_addr ohc)),
     fv_teid = (case far_outer_header_creation f of None \<Rightarrow> 0 | Some ohc \<Rightarrow> to_be (ohc_teid ohc)),
     fv_upf_n3_ip = ip_be n3\<rparr>"

text \<open>A loop of \<open>map.insert(key, value, 0)?\<close>: it stops at the first failure.\<close>

fun insert_each :: "('k, 'v) hash_ops \<Rightarrow> ('k \<times> 'v) list \<Rightarrow> ('k \<rightharpoonup> 'v) \<Rightarrow> ('k \<rightharpoonup> 'v) \<times> bool" where
  "insert_each h [] m = (m, True)"
| "insert_each h ((k, v) # kvs) m =
     (case h_insert h m k v of None \<Rightarrow> (m, False) | Some m' \<Rightarrow> insert_each h kvs m')"

definition default_urr_stats :: urr_stats where
  "default_urr_stats = \<lparr>ul_bytes = 0, ul_packets = 0, dl_bytes = 0, dl_packets = 0\<rparr>"

definition urr_config_of :: "instant \<Rightarrow> u64 \<Rightarrow> u64 \<Rightarrow> parsed_urr \<Rightarrow> urr_config" where
  "urr_config_of now sid cp u = \<lparr>uc_urr_id = urr_id u, uc_seid = sid, uc_cp_seid = cp,
     uc_measurement_method = urr_measurement_method u, uc_reporting_triggers = urr_reporting_triggers u,
     uc_volume_threshold_total = urr_volume_threshold_total u,
     uc_measurement_period = urr_measurement_period u, uc_last_report = now,
     uc_threshold_reported = False, uc_ur_seqn = 0\<rparr>"

fun install_urrs :: "upf_env \<Rightarrow> u64 \<Rightarrow> u64 \<Rightarrow> parsed_urr list \<Rightarrow> pfcp_server \<Rightarrow> bpf_maps
    \<Rightarrow> pfcp_server \<times> bpf_maps \<times> bool" where
  "install_urrs E sid cp [] srv M = (srv, M, True)"
| "install_urrs E sid cp (u # us) srv M =
     (let ncpus = (case nr_cpus E of None \<Rightarrow> 1 | Some n \<Rightarrow> n) in
      case percpu_values E (replicate ncpus default_urr_stats) of None \<Rightarrow> (srv, M, False) | Some zeros \<Rightarrow>
      case h_insert (urr_ops E) (URR_MAP M) (UrrKey_new sid (urr_id u)) zeros of
        None \<Rightarrow> (srv, M, False)
      | Some m \<Rightarrow>
          install_urrs E sid cp us
            (srv\<lparr>urr_configs := (urr_configs srv)((sid, urr_id u) \<mapsto> urr_config_of (env_now E) sid cp u)\<rparr>)
            (M\<lparr>URR_MAP := m\<rparr>))"

definition session_info_of :: "u64 \<Rightarrow> u32 \<Rightarrow> ipv4 \<Rightarrow> ipv4 \<Rightarrow> parsed_pdr list \<Rightarrow> session_info" where
  "session_info_of sid td gnb n3 pdrs =
     (let pdr_count = min (length pdrs) MAX_PDR_PER_SESSION;
          ids = map (\<lambda>p. ucast (pdr_id p)) (take pdr_count pdrs)
      in \<lparr>si_seid = sid, si_teid = to_be td, si_gnb_ip = ip_be gnb, si_upf_ip = ip_be n3,
          si_pdr_ids = ids @ replicate (MAX_PDR_PER_SESSION - pdr_count) 0,
          si_pdr_count = of_nat pdr_count\<rparr>)"

text \<open>The three insertion loops, in order; the boolean says whether all of them succeeded.\<close>

definition install_rules :: "upf_env \<Rightarrow> u64 \<Rightarrow> u64 \<Rightarrow> ipv4 \<Rightarrow> parsed_pdr list \<Rightarrow> parsed_far list
    \<Rightarrow> parsed_urr list \<Rightarrow> pfcp_server \<Rightarrow> bpf_maps \<Rightarrow> pfcp_server \<times> bpf_maps \<times> bool" where
  "install_rules E sid cp ue_ip pdrs fars urrs srv M =
     (let (pm, ok1) = insert_each (pdr_ops E)
            (map (\<lambda>p. (PdrKey_new sid (ucast (pdr_id p)), pdr_value_of ue_ip p)) pdrs) (PDR_MAP M);
          M1 = M\<lparr>PDR_MAP := pm\<rparr>
      in if \<not> ok1 then (srv, M1, False)
      else
        let (fm, ok2) = insert_each (far_ops E)
              (map (\<lambda>f. (FarKey_new sid (far_id f), far_value_of (n3_addr srv) f)) fars) (FAR_MAP M1);
            M2 = M1\<lparr>FAR_MAP := fm\<rparr>
        in if \<not> ok2 then (srv, M2, False)
        else install_urrs E sid cp urrs srv M2)"

definition register_session :: "ipv4 \<Rightarrow> u64 \<Rightarrow> session_data \<Rightarrow> pfcp_server \<Rightarrow> pfcp_server" where
  "register_session node sid d srv =
     (let srv1 = srv\<lparr>sessions := (sessions srv)(sid \<mapsto> d)\<rparr>
      in case associations srv1 node of
           None \<Rightarrow> srv1
         | Some a \<Rightarrow> srv1\<lparr>associations := (associations srv1)(node \<mapsto>
              a\<lparr>as_sessions := (as_sessions a)(sd_cp_seid d \<mapsto> d)\<rparr>)\<rparr>)"

definition establishment_effects :: "pfcp_server \<Rightarrow> u64 \<Rightarrow> session_data \<Rightarrow> effect list" where
  "establishment_effects srv sid d =
     store_effect srv (StoreSave sid d) @ tui_sessions_updated srv @
     tui_log srv (LogSessionAdded (sd_ue_ip d) sid) @ [GaugeIncrement, SetupUeRoute (sd_ue_ip d)]"

definition created_pdrs_of :: "u32 \<Rightarrow> ipv4 \<Rightarrow> parsed_pdr list \<Rightarrow> (u16 \<times> u32 \<times> ipv4) list" where
  "created_pdrs_of td n3 pdrs =
     map (\<lambda>p. (pdr_id p, td, n3)) (filter (\<lambda>p. pdr_source_interface p = INTERFACE_ACCESS) pdrs)"

definition handle_session_establishment ::
  "upf_env \<Rightarrow> pfcp_header \<Rightarrow> bytes \<Rightarrow> socket_addr \<Rightarrow> upf_state \<Rightarrow> upf_state \<times> (handler_error + bytes)" where
  "handle_session_establishment E hdr body src st =
     (case session_establishment_req_decode body of Inl e \<Rightarrow> (st, Inl (BodyError e)) | Inr req \<Rightarrow>
      if \<not> is_v4 src then (st, Inl NonIpv4Source)
      else case find_association E (st_server st) src of None \<Rightarrow> (st, Inl (NoAssociation src)) | Some (k, assoc) \<Rightarrow>
      let node = as_node_id assoc;
          cp = ser_cp_seid req; pdrs = ser_create_pdrs req; fars = ser_create_fars req;
          (srv1, sid) = alloc_seid (st_server st);
          (srv2, td) = alloc_teid srv1;
          st2 = st\<lparr>st_server := srv2\<rparr>
      in
      case find_map pdr_ue_ip pdrs of None \<Rightarrow> (st2, Inl NoUeIp) | Some ue_ip \<Rightarrow>
      case find_map far_outer_header_creation fars of None \<Rightarrow> (st2, Inl NoOuterHeaderCreation) | Some gnb \<Rightarrow>
      case h_insert (session_ops E) (SESSION_MAP (st_maps st2)) (SessionKey (ip_be ue_ip))
             (session_info_of sid td (ohc_peer_addr gnb) (n3_addr srv2) pdrs) of
        None \<Rightarrow> (st2, Inl MapInsertFailed)
      | Some sm \<Rightarrow>
      let (srv3, M3, ok) = install_rules E sid cp ue_ip pdrs fars (ser_create_urrs req) srv2
             ((st_maps st2)\<lparr>SESSION_MAP := sm\<rparr>)
      in
      if \<not> ok then (st2\<lparr>st_server := srv3, st_maps := M3\<rparr>, Inl MapInsertFailed)
      else
        let d = \<lparr>sd_ue_ip = ue_ip, sd_teid = td, sd_gnb_ip = ohc_peer_addr gnb, sd_cp_seid = cp\<rparr>;
            srv4 = register_session node sid d srv3
        in (emit (establishment_effects srv4 sid d) (st2\<lparr>st_server := srv4, st_maps := M3\<rparr>),
            Inr (build_session_establishment_response (seq_num hdr) cp sid (n3_addr srv4)
              (created_pdrs_of td (n3_addr srv4) pdrs))))"

subsection \<open>Session modification\<close>

definition update_far_entry :: "upf_env \<Rightarrow> u64 \<Rightarrow> parsed_far \<Rightarrow> outer_header_creation \<Rightarrow> bpf_maps \<Rightarrow> bpf_maps option" where
  "update_far_entry E sid f ohc M =
     (let key = FarKey_new sid (far_id f) in
      case FAR_MAP M key of
        None \<Rightarrow> Some M
      | Some fv \<Rightarrow>
          map_option (\<lambda>m. M\<lparr>FAR_MAP := m\<rparr>)
            (h_insert (far_ops E) (FAR_MAP M) key
              (fv\<lparr>fv_gnb_ip := ip_be (ohc_peer_addr ohc), fv_teid := to_be (ohc_teid ohc)\<rparr>)))"

definition update_session_entry :: "upf_env \<Rightarrow> session_key \<Rightarrow> outer_header_creation \<Rightarrow> bpf_maps \<Rightarrow> bpf_maps option" where
  "update_session_entry E key ohc M =
     (case SESSION_MAP M key of
        None \<Rightarrow> Some M
      | Some info \<Rightarrow>
          map_option (\<lambda>m. M\<lparr>SESSION_MAP := m\<rparr>)
            (h_insert (session_ops E) (SESSION_MAP M) key
              (info\<lparr>si_gnb_ip := ip_be (ohc_peer_addr ohc), si_teid := to_be (ohc_teid ohc)\<rparr>)))"

definition update_session_data :: "u64 \<Rightarrow> outer_header_creation \<Rightarrow> pfcp_server \<Rightarrow> pfcp_server" where
  "update_session_data sid ohc srv =
     (case sessions srv sid of
        None \<Rightarrow> srv
      | Some d \<Rightarrow> srv\<lparr>sessions := (sessions srv)(sid \<mapsto>
          d\<lparr>sd_gnb_ip := ohc_peer_addr ohc, sd_teid := ohc_teid ohc\<rparr>)\<rparr>)"

fun update_fars :: "upf_env \<Rightarrow> u64 \<Rightarrow> session_key \<Rightarrow> parsed_far list \<Rightarrow> pfcp_server \<Rightarrow> bpf_maps
    \<Rightarrow> pfcp_server \<times> bpf_maps \<times> bool" where
  "update_fars E sid key [] srv M = (srv, M, True)"
| "update_fars E sid key (f # fs) srv M =
     (case far_outer_header_creation f of
        None \<Rightarrow> update_fars E sid key fs srv M
      | Some ohc \<Rightarrow>
         (case update_far_entry E sid f ohc M of
            None \<Rightarrow> (srv, M, False)
          | Some M1 \<Rightarrow>
             if far_dest_interface f = Some IFACE_ACCESS then
               (case update_session_entry E key ohc M1 of
                  None \<Rightarrow> (srv, M1, False)
                | Some M2 \<Rightarrow> update_fars E sid key fs (update_session_data sid ohc srv) M2)
             else update_fars E sid key fs srv M1))"

definition update_urr_config :: "parsed_urr \<Rightarrow> urr_config \<Rightarrow> urr_config" where
  "update_urr_config u cfg = cfg\<lparr>uc_measurement_method := urr_measurement_method u,
     uc_reporting_triggers := urr_reporting_triggers u,
     uc_volume_threshold_total := urr_volume_threshold_total u,
     uc_measurement_period := urr_measurement_period u, uc_threshold_reported := False\<rparr>"

fun update_urrs :: "u64 \<Rightarrow> parsed_urr list \<Rightarrow> pfcp_server \<Rightarrow> pfcp_server" where
  "update_urrs sid [] srv = srv"
| "update_urrs sid (u # us) srv =
     (case urr_configs srv (sid, urr_id u) of
        None \<Rightarrow> update_urrs sid us srv
      | Some cfg \<Rightarrow> update_urrs sid us
          (srv\<lparr>urr_configs := (urr_configs srv)((sid, urr_id u) \<mapsto> update_urr_config u cfg)\<rparr>))"

text \<open>The ownership check shared by modification and deletion: the node id of the owner.\<close>

definition check_ownership :: "upf_env \<Rightarrow> pfcp_server \<Rightarrow> socket_addr \<Rightarrow> u64 \<Rightarrow> handler_error + ipv4" where
  "check_ownership E srv src cp =
     (if \<not> is_v4 src then Inl NonIpv4Source
      else case find_association E srv src of
        None \<Rightarrow> Inl (NoAssociation src)
      | Some (k, a) \<Rightarrow>
          if as_sessions a cp = None then Inl (OwnershipViolation cp (as_node_id a))
          else Inr (as_node_id a))"

definition handle_session_modification ::
  "upf_env \<Rightarrow> pfcp_header \<Rightarrow> bytes \<Rightarrow> socket_addr \<Rightarrow> upf_state \<Rightarrow> upf_state \<times> (handler_error + bytes)" where
  "handle_session_modification E hdr body src st =
     (case session_modification_req_decode body of Inl e \<Rightarrow> (st, Inl (BodyError e)) | Inr req \<Rightarrow>
      case seid hdr of None \<Rightarrow> (st, Inl MissingSeid) | Some sid \<Rightarrow>
      case sessions (st_server st) sid of None \<Rightarrow> (st, Inl (UnknownSeid sid)) | Some d \<Rightarrow>
      case check_ownership E (st_server st) src (sd_cp_seid d) of Inl e \<Rightarrow> (st, Inl e) | Inr owner \<Rightarrow>
      let (srv1, M1, ok) = update_fars E sid (SessionKey (ip_be (sd_ue_ip d))) (smr_update_fars req)
            (st_server st) (st_maps st)
      in
      if \<not> ok then (st\<lparr>st_server := srv1, st_maps := M1\<rparr>, Inl MapInsertFailed)
      else (st\<lparr>st_server := update_urrs sid (smr_update_urrs req) srv1, st_maps := M1\<rparr>,
            Inr (build_session_modification_response (seq_num hdr) (sd_cp_seid d))))"

subsection \<open>Session deletion\<close>

definition unregister_session :: "ipv4 \<Rightarrow> u64 \<Rightarrow> u64 \<Rightarrow> pfcp_server \<Rightarrow> pfcp_server" where
  "unregister_session owner sid cp srv =
     (let srv1 = srv\<lparr>sessions := (sessions srv)(sid := None)\<rparr>
      in case associations srv1 owner of
           None \<Rightarrow> srv1
         | Some a \<Rightarrow> srv1\<lparr>associations := (associations srv1)(owner \<mapsto>
              a\<lparr>as_sessions := (as_sessions a)(cp := None)\<rparr>)\<rparr>)"

text \<open>The part under the server lock: the session's data if the request is accepted.\<close>

definition deletion_critical ::
  "upf_env \<Rightarrow> u64 \<Rightarrow> socket_addr \<Rightarrow> upf_state \<Rightarrow> upf_state \<times> (handler_error + session_data)" where
  "deletion_critical E sid src st =
     (case sessions (st_server st) sid of None \<Rightarrow> (st, Inl (UnknownSeid sid)) | Some d \<Rightarrow>
      case check_ownership E (st_server st) src (sd_cp_seid d) of Inl e \<Rightarrow> (st, Inl e) | Inr owner \<Rightarrow>
      let srv1 = unregister_session owner sid (sd_cp_seid d) (st_server st)
      in (emit (tui_sessions_updated srv1 @ tui_log srv1 (LogSessionDeleted sid) @ [GaugeDecrement])
            (st\<lparr>st_server := srv1\<rparr>), Inr d))"

definition remove_each :: "('k, 'v) hash_ops \<Rightarrow> 'k list \<Rightarrow> ('k \<rightharpoonup> 'v) \<Rightarrow> ('k \<rightharpoonup> 'v)" where
  "remove_each h ks m = foldl (try_remove h) m ks"

definition installed_pdr_ids :: "bpf_maps \<Rightarrow> session_key \<Rightarrow> u32 list" where
  "installed_pdr_ids M key =
     (case SESSION_MAP M key of
        None \<Rightarrow> []
      | Some info \<Rightarrow> map (\<lambda>i. si_pdr_ids info ! i) [0..<min (unat (si_pdr_count info)) MAX_PDR_PER_SESSION])"

definition installed_pdrs :: "bpf_maps \<Rightarrow> u64 \<Rightarrow> u32 list \<Rightarrow> pdr_value list" where
  "installed_pdrs M sid ids = List.map_filter (\<lambda>i. PDR_MAP M (PdrKey_new sid i)) ids"

text \<open>The part outside the lock: remove the session's entries from the BPF maps, then the route.\<close>

definition deletion_cleanup :: "upf_env \<Rightarrow> u64 \<Rightarrow> session_data \<Rightarrow> upf_state \<Rightarrow> upf_state" where
  "deletion_cleanup E sid d st =
     (let M = st_maps st;
          key = SessionKey (ip_be (sd_ue_ip d));
          pdr_ids = installed_pdr_ids M key;
          pvs = installed_pdrs M sid pdr_ids;
          far_ids = set_order E (map pv_far_id pvs);
          urr_ids = set_order E (filter (\<lambda>u. u \<noteq> 0) (map pv_urr_id pvs));
          M1 = M\<lparr>PDR_MAP := remove_each (pdr_ops E) (map (PdrKey_new sid) pdr_ids) (PDR_MAP M)\<rparr>;
          M2 = M1\<lparr>FAR_MAP := remove_each (far_ops E) (map (FarKey_new sid) far_ids) (FAR_MAP M1)\<rparr>;
          M3 = M2\<lparr>URR_MAP := remove_each (urr_ops E) (map (UrrKey_new sid) urr_ids) (URR_MAP M2)\<rparr>;
          M4 = M3\<lparr>SESSION_MAP := try_remove (session_ops E) (SESSION_MAP M3) key\<rparr>
      in emit [TeardownUeRoute (sd_ue_ip d)] (st\<lparr>st_maps := M4\<rparr>))"

definition handle_session_deletion ::
  "upf_env \<Rightarrow> pfcp_header \<Rightarrow> bytes \<Rightarrow> socket_addr \<Rightarrow> upf_state \<Rightarrow> upf_state \<times> (handler_error + bytes)" where
  "handle_session_deletion E hdr body src st =
     (let sid = (case seid hdr of None \<Rightarrow> 0 | Some s \<Rightarrow> s) in
      case deletion_critical E sid src st of
        (st1, Inl e) \<Rightarrow> (st1, Inl e)
      | (st1, Inr d) \<Rightarrow>
          (emit (store_effect (st_server st1) (StoreDelete sid)) (deletion_cleanup E sid d st1),
           Inr (build_session_deletion_response (seq_num hdr) sid)))"

subsection \<open>Dispatch\<close>

definition handle_message ::
  "upf_env \<Rightarrow> bytes \<Rightarrow> socket_addr \<Rightarrow> upf_state \<Rightarrow> upf_state \<times> (handler_error + bytes)" where
  "handle_message E data src st =
     (case pfcp_header_decode data of Inl e \<Rightarrow> (st, Inl (HeaderError e)) | Inr (hdr, body) \<Rightarrow>
      if msg_type hdr = PFCP_HEARTBEAT_REQ then handle_heartbeat E hdr body src st
      else if msg_type hdr = PFCP_ASSOCIATION_SETUP_REQ then handle_session_association E hdr body src st
      else if msg_type hdr = PFCP_SESSION_ESTABLISHMENT_REQ then handle_session_establishment E hdr body src st
      else if msg_type hdr = PFCP_SESSION_MODIFICATION_REQ then handle_session_modification E hdr body src st
      else if msg_type hdr = PFCP_SESSION_DELETION_REQ then handle_session_deletion E hdr body src st
      else if msg_type hdr = PFCP_SESSION_REPORT_RSP then (st, Inr [])
      else if msg_type hdr mod 2 = 0 then (st, Inr [])
      else (st, Inl (UnhandledType (msg_type hdr))))"

text \<open>The task the receive loop spawns for a datagram: the state after it and the reply sent, if any.\<close>

definition serve_datagram :: "upf_env \<Rightarrow> bytes \<Rightarrow> socket_addr \<Rightarrow> upf_state \<Rightarrow> upf_state \<times> bytes option" where
  "serve_datagram E data src st =
     (case handle_message E data src (st\<lparr>st_server := touch_activity (env_now E) (st_server st)\<rparr>) of
        (st', Inr r) \<Rightarrow> (st', if r = [] then None else Some r)
      | (st', Inl e) \<Rightarrow> (st', None))"

end
