(* ===== verification/Upf_Invariant.thy ===== *)
theory Upf_Invariant
  imports Upf_Handlers
begin

text \<open>
  The invariant of the PFCP server and its preservation. Every handler keeps the invariant and
  advances the SEID counter by at most one (locale \<open>inv_handler\<close>, interpreted for each handler);
  the transition system of datagrams, keep-alives and interrupted deletions therefore keeps it in
  every reachable state, as long as fewer than 2^48 datagrams were served.
\<close>

section \<open>The invariant\<close>

text \<open>
  \<open>R\<close> holds the SEIDs that were restored from the store when the UPF started. The SEID counter is not
  restored with them, so they may lie above it.
\<close>

definition server_inv :: "u64 set \<Rightarrow> pfcp_server \<Rightarrow> bool" where
  "server_inv R srv \<longleftrightarrow>
     (\<forall>sid d. sessions srv sid = Some d \<longrightarrow> sid \<in> R \<or> sid < next_seid srv) \<and>
     (\<forall>node a. associations srv node = Some a \<longrightarrow> as_node_id a = node) \<and>
     (\<forall>node a cp d. associations srv node = Some a \<longrightarrow> as_sessions a cp = Some d \<longrightarrow> sd_cp_seid d = cp) \<and>
     (\<forall>sid uid c. urr_configs srv (sid, uid) = Some c \<longrightarrow>
        uc_seid c = sid \<and> uc_urr_id c = uid \<and> sid < next_seid srv)"

lemma server_invI:
  assumes "\<And>sid d. sessions srv sid = Some d \<Longrightarrow> sid \<in> R \<or> sid < next_seid srv"
    and "\<And>node a. associations srv node = Some a \<Longrightarrow> as_node_id a = node"
    and "\<And>node a cp d. associations srv node = Some a \<Longrightarrow> as_sessions a cp = Some d \<Longrightarrow> sd_cp_seid d = cp"
    and "\<And>sid uid c. urr_configs srv (sid, uid) = Some c \<Longrightarrow>
      uc_seid c = sid \<and> uc_urr_id c = uid \<and> sid < next_seid srv"
  shows "server_inv R srv"
  using assms unfolding server_inv_def by blast

lemma server_invD:
  assumes "server_inv R srv"
  shows "sessions srv sid = Some d \<Longrightarrow> sid \<in> R \<or> sid < next_seid srv"
    and "associations srv node = Some a \<Longrightarrow> as_node_id a = node"
    and "associations srv node = Some a \<Longrightarrow> as_sessions a cp = Some d \<Longrightarrow> sd_cp_seid d = cp"
    and "urr_configs srv (sid, uid) = Some c \<Longrightarrow> uc_seid c = sid \<and> uc_urr_id c = uid \<and> sid < next_seid srv"
  using assms unfolding server_inv_def by blast+

lemma server_inv_new: "server_inv R (pfcp_server_new now t n4 n3)"
  by (rule server_invI) (simp_all add: pfcp_server_new_def)

lemma find_association_Some:
  assumes "find_association E srv src = Some (k, a)"
  shows "associations srv k = Some a \<and> as_peer_addr a = src"
  using assms unfolding find_association_def
  by (auto dest!: find_map_SomeD split: option.splits if_splits)

section \<open>Each operation\<close>

lemma inv_touch [simp]: "server_inv R (touch_activity t srv) = server_inv R srv"
  by (simp add: server_inv_def touch_activity_def)

lemma touch_next [simp]: "next_seid (touch_activity t srv) = next_seid srv"
  by (simp add: touch_activity_def)

lemma inv_alloc_seid:
  assumes "server_inv R srv" "unat (next_seid srv) + 1 < 2 ^ 64"
  shows "server_inv R (fst (alloc_seid srv))"
proof -
  have "next_seid srv < next_seid srv + 1"
    using assms(2) by (simp add: word_less_nat_alt unat_word_ariths)
  then show ?thesis
    using assms(1) by (intro server_invI)
      (auto simp: alloc_seid_def dest: server_invD intro: less_trans)
qed

lemma inv_alloc_teid [simp]: "server_inv R (fst (alloc_teid srv)) = server_inv R srv"
  by (simp add: server_inv_def alloc_teid_def)

lemma inv_set_sessions:
  "server_inv R srv \<Longrightarrow> (\<And>sid d. m sid = Some d \<Longrightarrow> sid \<in> R \<or> sid < next_seid srv) \<Longrightarrow> server_inv R (srv\<lparr>sessions := m\<rparr>)"
  by (simp add: server_inv_def)

lemma inv_set_associations:
  "server_inv R srv \<Longrightarrow> (\<And>node a. m node = Some a \<Longrightarrow> as_node_id a = node) \<Longrightarrow>
    (\<And>node a cp d. m node = Some a \<Longrightarrow> as_sessions a cp = Some d \<Longrightarrow> sd_cp_seid d = cp) \<Longrightarrow>
    server_inv R (srv\<lparr>associations := m\<rparr>)"
  by (simp add: server_inv_def)

lemma inv_replace_association:
  assumes "server_inv R srv" "as_node_id a = k" "\<And>cp d. as_sessions a cp = Some d \<Longrightarrow> sd_cp_seid d = cp"
  shows "server_inv R (srv\<lparr>associations := (associations srv)(k \<mapsto> a)\<rparr>)"
  by (rule inv_set_associations [OF assms(1)])
    (use assms(2,3) server_invD(2,3) [OF assms(1)] in \<open>auto split: if_splits\<close>)

lemma inv_register:
  assumes "server_inv R srv" "sid < next_seid srv"
  shows "server_inv R (register_session node sid d srv)"
proof -
  let ?srv1 = "srv\<lparr>sessions := (sessions srv)(sid \<mapsto> d)\<rparr>"
  have i: "server_inv R ?srv1"
    by (rule inv_set_sessions [OF assms(1)]) (use assms(2) server_invD(1) [OF assms(1)] in \<open>auto split: if_splits\<close>)
  show ?thesis
  proof (cases "associations srv node")
    case None
    with i show ?thesis
      by (simp add: register_session_def)
  next
    case (Some a)
    have "server_inv R (?srv1\<lparr>associations := (associations ?srv1)(node \<mapsto>
        a\<lparr>as_sessions := (as_sessions a)(sd_cp_seid d \<mapsto> d)\<rparr>)\<rparr>)"
      by (rule inv_replace_association [OF i])
        (use server_invD(2,3) [OF assms(1) Some] in \<open>auto split: if_splits\<close>)
    with Some show ?thesis
      by (simp add: register_session_def)
  qed
qed

lemma inv_unregister:
  assumes "server_inv R srv"
  shows "server_inv R (unregister_session owner sid cp srv)"
proof -
  let ?srv1 = "srv\<lparr>sessions := (sessions srv)(sid := None)\<rparr>"
  have i: "server_inv R ?srv1"
    by (rule inv_set_sessions [OF assms]) (use server_invD(1) [OF assms] in \<open>auto split: if_splits\<close>)
  show ?thesis
  proof (cases "associations srv owner")
    case None
    with i show ?thesis
      by (simp add: unregister_session_def)
  next
    case (Some a)
    have "server_inv R (?srv1\<lparr>associations := (associations ?srv1)(owner \<mapsto>
        a\<lparr>as_sessions := (as_sessions a)(cp := None)\<rparr>)\<rparr>)"
      by (rule inv_replace_association [OF i])
        (use server_invD(2,3) [OF assms Some] in \<open>auto split: if_splits\<close>)
    with Some show ?thesis
      by (simp add: unregister_session_def)
  qed
qed

lemma inv_install_urrs:
  "server_inv R srv \<Longrightarrow> sid < next_seid srv \<Longrightarrow> server_inv R (fst (install_urrs E sid cp us srv M))"
proof (induction E sid cp us srv M rule: install_urrs.induct)
  case (2 E sid cp u us srv M)
  have "server_inv R (srv\<lparr>urr_configs := (urr_configs srv)((sid, urr_id u) \<mapsto> urr_config_of (env_now E) sid cp u)\<rparr>)"
    using 2(2,3) by (intro server_invI) (auto simp: urr_config_of_def dest: server_invD split: if_splits)
  with 2 show ?case
    by (auto simp: Let_def split: option.splits)
qed simp

lemma install_urrs_next [simp]: "next_seid (fst (install_urrs E sid cp us srv M)) = next_seid srv"
  by (induction E sid cp us srv M rule: install_urrs.induct) (auto simp: Let_def split: option.splits)

lemma install_rules_inv:
  assumes "server_inv R srv" "sid < next_seid srv"
  shows "server_inv R (fst (install_rules E sid cp ue pdrs fars urrs srv M)) \<and>
    next_seid (fst (install_rules E sid cp ue pdrs fars urrs srv M)) = next_seid srv"
  using assms by (auto simp: install_rules_def Let_def inv_install_urrs split: prod.splits)

lemma inv_update_session_data [simp]:
  "server_inv R srv \<Longrightarrow> server_inv R (update_session_data sid ohc srv)"
  by (intro server_invI) (auto simp: update_session_data_def dest: server_invD split: option.splits if_splits)

lemma update_session_data_next [simp]: "next_seid (update_session_data sid ohc srv) = next_seid srv"
  by (simp add: update_session_data_def split: option.splits)

lemma update_fars_inv:
  "server_inv R srv \<Longrightarrow> server_inv R (fst (update_fars E sid key fs srv M)) \<and>
    next_seid (fst (update_fars E sid key fs srv M)) = next_seid srv"
  by (induction E sid key fs srv M rule: update_fars.induct) (auto split: option.splits)

lemma update_urrs_inv:
  "server_inv R srv \<Longrightarrow> server_inv R (update_urrs sid us srv) \<and> next_seid (update_urrs sid us srv) = next_seid srv"
proof (induction sid us srv rule: update_urrs.induct)
  case (2 sid u us srv)
  have "server_inv R (srv\<lparr>urr_configs := (urr_configs srv)((sid, urr_id u) \<mapsto> update_urr_config u cfg)\<rparr>)"
    if "urr_configs srv (sid, urr_id u) = Some cfg" for cfg
    using 2(3) that
    by (intro server_invI) (auto simp: update_urr_config_def dest: server_invD split: if_splits)
  with 2 show ?case
    by (auto split: option.splits)
qed simp

section \<open>Each handler\<close>

text \<open>
  The contract every handler meets: with room in the SEID counter it keeps the invariant, and the
  counter grows by at most one.
\<close>

definition seid_room :: "pfcp_server \<Rightarrow> bool" where
  "seid_room srv \<longleftrightarrow> unat (next_seid srv) + 1 < 2 ^ 64"

locale inv_handler =
  fixes h :: "upf_env \<Rightarrow> pfcp_header \<Rightarrow> bytes \<Rightarrow> socket_addr \<Rightarrow> upf_state \<Rightarrow> upf_state \<times> (handler_error + bytes)"
  assumes keeps_inv: "server_inv R (st_server st) \<Longrightarrow> seid_room (st_server st) \<Longrightarrow>
      server_inv R (st_server (fst (h E hdr body src st)))"
    and seid_step: "server_inv R (st_server st) \<Longrightarrow> seid_room (st_server st) \<Longrightarrow>
      unat (next_seid (st_server (fst (h E hdr body src st))))
        \<in> {unat (next_seid (st_server st)), unat (next_seid (st_server st)) + 1}"
begin

lemma keeps_sessions_below:
  assumes "server_inv R (st_server st)" "seid_room (st_server st)"
    and "sessions (st_server (fst (h E hdr body src st))) sid = Some d"
  shows "sid \<in> R \<or> unat sid \<le> unat (next_seid (st_server st))"
proof -
  have "sid \<in> R \<or> unat sid < unat (next_seid (st_server (fst (h E hdr body src st))))"
    using server_invD(1) [OF keeps_inv [OF assms(1,2)] assms(3)] by (simp add: word_less_nat_alt)
  with seid_step [OF assms(1,2), of E hdr body src] show ?thesis
    by auto
qed

end

lemma emit_server [simp]: "st_server (emit es st) = st_server st" "st_maps (emit es st) = st_maps st"
  by (simp_all add: emit_def)

lemma inv_peer_addr [simp]: "server_inv R (srv\<lparr>srv_peer_addr := p\<rparr>) = server_inv R srv"
  by (simp add: server_inv_def)

lemma heartbeat_server_cases:
  obtains "st_server (fst (handle_heartbeat E hdr body src st)) = st_server st"
  | k a a' where "associations (st_server st) k = Some a" "as_node_id a' = as_node_id a"
      "as_sessions a' = as_sessions a \<or> as_sessions a' = Map.empty"
      "st_server (fst (handle_heartbeat E hdr body src st)) =
        (st_server st)\<lparr>associations := (associations (st_server st))(k \<mapsto> a')\<rparr>"
proof (cases "is_v4 src \<and> (\<exists>x. find_association E (st_server st) src = Some x) \<and>
    (\<exists>ts. hbr_recovery_ts (heartbeat_req_decode body) = Some ts)")
  case True
  then obtain k a ts where f: "find_association E (st_server st) src = Some (k, a)"
      "hbr_recovery_ts (heartbeat_req_decode body) = Some ts" "is_v4 src"
    by auto
  show thesis
    by (rule that(2) [OF find_association_Some [OF f(1), THEN conjunct1]])
      (auto simp: handle_heartbeat_def Let_def f)
next
  case False
  then show thesis
    by (intro that(1)) (auto simp: handle_heartbeat_def Let_def split: option.splits)
qed

interpretation heartbeat: inv_handler handle_heartbeat
proof
  fix R E hdr body src and st :: upf_state
  let ?r = "st_server (fst (handle_heartbeat E hdr body src st))"
  assume i: "server_inv R (st_server st)"
  show "server_inv R ?r"
  proof (cases rule: heartbeat_server_cases [of E hdr body src st])
    case (2 k a a')
    then show ?thesis
      using server_invD(2,3) [OF i 2(1)] by (auto intro!: inv_replace_association [OF i])
  qed (use i in simp)
  show "unat (next_seid ?r) \<in> {unat (next_seid (st_server st)), unat (next_seid (st_server st)) + 1}"
    by (cases rule: heartbeat_server_cases [of E hdr body src st]) simp_all
qed

lemma association_server_cases:
  "st_server (fst (handle_session_association E hdr body src st)) = st_server st \<or>
   (\<exists>node ts. st_server (fst (handle_session_association E hdr body src st)) =
      (st_server st)\<lparr>associations := (associations (st_server st))(node \<mapsto> smf_association_new (env_now E) node src ts),
        srv_peer_addr := Some (SocketV4 node 8805)\<rparr>)"
proof (cases "association_setup_req_decode body")
  case (Inr req)
  show ?thesis
    by (cases "case associations (st_server st) (asr_node_id req) of None \<Rightarrow> False
        | Some existing \<Rightarrow> asr_recovery_ts req = as_recovery_ts existing")
      (auto simp: handle_session_association_def Inr Let_def)
qed (simp add: handle_session_association_def)

interpretation association: inv_handler handle_session_association
proof
  fix R E hdr body src and st :: upf_state
  let ?r = "st_server (fst (handle_session_association E hdr body src st))"
  assume i: "server_inv R (st_server st)"
  have new: "server_inv R ((st_server st)\<lparr>associations := (associations (st_server st))(node \<mapsto>
      smf_association_new (env_now E) node src ts), srv_peer_addr := p\<rparr>)" for node ts p
    unfolding inv_peer_addr
    by (rule inv_replace_association [OF i]) (simp_all add: smf_association_new_def)
  show "server_inv R ?r"
    using association_server_cases [of E hdr body src st] i new by auto
  show "unat (next_seid ?r) \<in> {unat (next_seid (st_server st)), unat (next_seid (st_server st)) + 1}"
    using association_server_cases [of E hdr body src st] by auto
qed

text \<open>Establishment allocates, then installs, then registers under the SEID just allocated.\<close>

lemma establishment_server_cases:
  fixes st :: upf_state
  defines "srv2 \<equiv> fst (alloc_teid (fst (alloc_seid (st_server st))))" and "sid \<equiv> next_seid (st_server st)"
  shows "st_server (fst (handle_session_establishment E hdr body src st)) \<in> {st_server st, srv2} \<or>
    (\<exists>cp ue pdrs fars urrs M node d.
      let srv3 = fst (install_rules E sid cp ue pdrs fars urrs srv2 M)
      in st_server (fst (handle_session_establishment E hdr body src st))
        \<in> {srv3, register_session node sid d srv3})"
  unfolding handle_session_establishment_def srv2_def sid_def
  by (auto simp: Let_def alloc_seid_def alloc_teid_def split: sum.splits option.splits prod.splits)
    (metis fst_conv)+

lemma alloc_below:
  assumes "seid_room srv"
  shows "next_seid srv < next_seid (fst (alloc_teid (fst (alloc_seid srv))))"
    and "unat (next_seid (fst (alloc_teid (fst (alloc_seid srv))))) = unat (next_seid srv) + 1"
  using assms
  by (simp_all add: seid_room_def alloc_seid_def alloc_teid_def word_less_nat_alt unat_word_ariths)

lemma register_next [simp]: "next_seid (register_session node sid d srv) = next_seid srv"
  by (simp add: register_session_def Let_def split: option.splits)

lemma unregister_next [simp]: "next_seid (unregister_session owner sid cp srv) = next_seid srv"
  by (simp add: unregister_session_def Let_def split: option.splits)

interpretation establishment: inv_handler handle_session_establishment
proof
  fix R E hdr body src and st :: upf_state
  let ?srv2 = "fst (alloc_teid (fst (alloc_seid (st_server st))))"
  let ?r = "st_server (fst (handle_session_establishment E hdr body src st))"
  assume i: "server_inv R (st_server st)" and room: "seid_room (st_server st)"
  have i2: "server_inv R ?srv2"
    using inv_alloc_seid [OF i] room by (simp add: seid_room_def)
  note rules = install_rules_inv [OF i2 alloc_below(1) [OF room]]
  have reg: "server_inv R (register_session node (next_seid (st_server st)) d
      (fst (install_rules E (next_seid (st_server st)) cp ue pdrs fars urrs ?srv2 M)))"
    for cp ue pdrs fars urrs M node d
    using rules alloc_below(1) [OF room] by (intro inv_register) auto
  show "server_inv R ?r"
    using establishment_server_cases [of E hdr body src st] i i2 rules reg
    by (auto simp: Let_def)
  show "unat (next_seid ?r) \<in> {unat (next_seid (st_server st)), unat (next_seid (st_server st)) + 1}"
    using establishment_server_cases [of E hdr body src st] rules alloc_below(2) [OF room]
    by (auto simp: Let_def)
qed

interpretation modification: inv_handler handle_session_modification
proof
  fix R E hdr body src and st :: upf_state
  let ?r = "st_server (fst (handle_session_modification E hdr body src st))"
  assume i: "server_inv R (st_server st)"
  have "server_inv R ?r \<and> next_seid ?r = next_seid (st_server st)"
    using i update_fars_inv [OF i] update_urrs_inv
    by (auto simp: handle_session_modification_def split: sum.splits option.splits prod.splits)
      (metis fst_conv)+
  then show "server_inv R ?r" "unat (next_seid ?r) \<in> {unat (next_seid (st_server st)), unat (next_seid (st_server st)) + 1}"
    by auto
qed

lemma deletion_critical_server:
  "server_inv R (st_server st) \<Longrightarrow> server_inv R (st_server (fst (deletion_critical E sid src st))) \<and>
    next_seid (st_server (fst (deletion_critical E sid src st))) = next_seid (st_server st)"
  by (auto simp: deletion_critical_def Let_def inv_unregister split: sum.splits option.splits)

lemma deletion_cleanup_server [simp]: "st_server (deletion_cleanup E sid d st) = st_server st"
  by (simp add: deletion_cleanup_def Let_def)

interpretation deletion: inv_handler handle_session_deletion
proof
  fix R E hdr body src and st :: upf_state
  let ?r = "st_server (fst (handle_session_deletion E hdr body src st))"
  assume i: "server_inv R (st_server st)"
  have "server_inv R ?r \<and> next_seid ?r = next_seid (st_server st)"
    using deletion_critical_server [OF i]
    by (auto simp: handle_session_deletion_def Let_def split: sum.splits prod.splits) (metis fst_conv)+
  then show "server_inv R ?r" "unat (next_seid ?r) \<in> {unat (next_seid (st_server st)), unat (next_seid (st_server st)) + 1}"
    by auto
qed

end
