(* ===== verification/Urr_Reporter.thy ===== *)
theory Urr_Reporter
  imports Upf_Handlers
begin

text \<open>
  The usage reporter (src/upf-edge/src/urr_reporter.rs) and the statistics poller
  (src/upf-edge/src/metrics/session_stats.rs): once per second resp. five seconds they sum the
  per-CPU counters of a map. The reporter compares the sums with the URR configurations and sends
  Session Report Requests to the peer. What the iteration over a map yields is an argument of the
  definitions: a list of entries, \<open>None\<close> for an entry that could not be read.

  Shown: the sums are the totals over all CPUs; exactly when a configuration reports and what;
  a threshold is reported once until the URR is updated.
\<close>

section \<open>Sums over the CPUs\<close>

definition add_urr_stats :: "urr_stats \<Rightarrow> urr_stats \<Rightarrow> urr_stats" where
  "add_urr_stats acc v = acc\<lparr>ul_bytes := ul_bytes acc + ul_bytes v, dl_bytes := dl_bytes acc + dl_bytes v,
     ul_packets := ul_packets acc + ul_packets v, dl_packets := dl_packets acc + dl_packets v\<rparr>"

definition sum_urr_stats :: "urr_stats list \<Rightarrow> urr_stats" where
  "sum_urr_stats vs = foldl add_urr_stats default_urr_stats vs"

definition urr_totals :: "(urr_key \<times> urr_stats list) option list \<Rightarrow> (u64 \<times> urr_stats) list" where
  "urr_totals entries = List.map_filter (map_option (\<lambda>(k, per_cpu). (urr_key k, sum_urr_stats per_cpu))) entries"

definition add_session_stats :: "session_stats \<Rightarrow> session_stats \<Rightarrow> session_stats" where
  "add_session_stats acc v = acc\<lparr>rx_packets := rx_packets acc + rx_packets v,
     rx_bytes := rx_bytes acc + rx_bytes v, tx_packets := tx_packets acc + tx_packets v,
     tx_bytes := tx_bytes acc + tx_bytes v\<rparr>"

definition sum_session_stats :: "session_stats list \<Rightarrow> session_stats" where
  "sum_session_stats vs = foldl add_session_stats \<lparr>rx_bytes = 0, rx_packets = 0, tx_bytes = 0, tx_packets = 0\<rparr> vs"

text \<open>One poll: per readable entry the UE address (in octets) and the four counter values exported.\<close>

definition stats_poll :: "(session_key \<times> session_stats list) option list \<Rightarrow> (bytes \<times> session_stats) list" where
  "stats_poll entries = List.map_filter
     (map_option (\<lambda>(k, per_cpu). (to_be_bytes (to_be (sk_ue_ip k)), sum_session_stats per_cpu))) entries"

section \<open>The reporter\<close>

text \<open>The trigger of a configuration at a given volume, and the configuration with its marks set.\<close>

definition volume_trigger :: "u64 \<Rightarrow> urr_config \<Rightarrow> u8 \<times> urr_config" where
  "volume_trigger total_vol cfg =
     (if uc_reporting_triggers cfg * REPORTING_TRIGGER_VOLTH \<noteq> 0 then
        (case uc_volume_threshold_total cfg of
           Some th \<Rightarrow> if total_vol \<ge> th \<and> \<not> uc_threshold_reported cfg
             then (USAGE_REPORT_TRIGGER_VOLTH, cfg\<lparr>uc_threshold_reported := True\<rparr>) else (0, cfg)
         | None \<Rightarrow> (0, cfg))
      else (0, cfg))"

definition period_trigger :: "instant \<Rightarrow> urr_config \<Rightarrow> u8 \<times> urr_config" where
  "period_trigger now cfg =
     (if uc_reporting_triggers cfg AND REPORTING_TRIGGER_PERIO \<noteq> 0 then
        (case uc_measurement_period cfg of
           Some period \<Rightarrow> if elapsed now (uc_last_report cfg) \<ge> secs (unat period)
             then (USAGE_REPORT_TRIGGER_PERIO, cfg\<lparr>uc_last_report := now\<rparr>) else (0, cfg)
         | None \<Rightarrow> (0, cfg))
      else (0, cfg))"

definition report_trigger :: "instant \<Rightarrow> u64 \<Rightarrow> urr_config \<Rightarrow> u8 \<times> urr_config" where
  "report_trigger now total_vol cfg =
     (let (t1, cfg1) = volume_trigger total_vol cfg; (t2, cfg2) = period_trigger now cfg1
      in (t1 OR t2, cfg2))"

definition report_one :: "instant \<Rightarrow> u64 \<times> urr_stats \<Rightarrow> pfcp_server \<Rightarrow> pfcp_server \<times> bytes option" where
  "report_one now entry srv =
     (let (composed_key, acc) = entry; sid = drop_bit 16 composed_key; uid = ucast (composed_key AND 0xFFFF) in
      case urr_configs srv (sid, uid) of None \<Rightarrow> (srv, None) | Some cfg \<Rightarrow>
      let total_vol = ul_bytes acc + dl_bytes acc;
          (trigger, cfg1) = report_trigger now total_vol cfg
      in
      if trigger = 0 then (srv\<lparr>urr_configs := (urr_configs srv)((sid, uid) \<mapsto> cfg1)\<rparr>, None)
      else
        let cfg2 = cfg1\<lparr>uc_ur_seqn := uc_ur_seqn cfg1 + 1\<rparr>;
            (srv1, sq) = alloc_report_seq (srv\<lparr>urr_configs := (urr_configs srv)((sid, uid) \<mapsto> cfg2)\<rparr>)
        in (srv1, Some (build_session_report_request sq (uc_cp_seid cfg1) uid (uc_ur_seqn cfg1) trigger
              total_vol (ul_bytes acc) (dl_bytes acc))))"

fun report_all :: "instant \<Rightarrow> (u64 \<times> urr_stats) list \<Rightarrow> pfcp_server \<Rightarrow> pfcp_server \<times> bytes list" where
  "report_all now [] srv = (srv, [])"
| "report_all now (e # es) srv =
     (let (srv1, out) = report_one now e srv; (srv2, outs) = report_all now es srv1
      in (srv2, (case out of None \<Rightarrow> outs | Some m \<Rightarrow> m # outs)))"

definition urr_tick :: "instant \<Rightarrow> (urr_key \<times> urr_stats list) option list \<Rightarrow> pfcp_server
    \<Rightarrow> pfcp_server \<times> (socket_addr \<times> bytes) list" where
  "urr_tick now entries srv =
     (case srv_peer_addr srv of
        None \<Rightarrow> (srv, [])
      | Some peer \<Rightarrow>
         (let (srv', msgs) = report_all now (urr_totals entries) srv in (srv', map (Pair peer) msgs)))"

section \<open>Sums are totals\<close>

lemma foldl_urr_stats:
  "ul_bytes (foldl add_urr_stats a vs) = ul_bytes a + sum_list (map ul_bytes vs)"
  "dl_bytes (foldl add_urr_stats a vs) = dl_bytes a + sum_list (map dl_bytes vs)"
  "ul_packets (foldl add_urr_stats a vs) = ul_packets a + sum_list (map ul_packets vs)"
  "dl_packets (foldl add_urr_stats a vs) = dl_packets a + sum_list (map dl_packets vs)"
  by (induction vs arbitrary: a) (simp_all add: add_urr_stats_def)

lemma sum_urr_stats_total:
  "ul_bytes (sum_urr_stats vs) = percpu_total ul_bytes (Some vs)"
  "dl_bytes (sum_urr_stats vs) = percpu_total dl_bytes (Some vs)"
  by (simp_all add: sum_urr_stats_def foldl_urr_stats percpu_total_def default_urr_stats_def)

lemma foldl_session_stats:
  "rx_bytes (foldl add_session_stats a vs) = rx_bytes a + sum_list (map rx_bytes vs)"
  "rx_packets (foldl add_session_stats a vs) = rx_packets a + sum_list (map rx_packets vs)"
  "tx_bytes (foldl add_session_stats a vs) = tx_bytes a + sum_list (map tx_bytes vs)"
  "tx_packets (foldl add_session_stats a vs) = tx_packets a + sum_list (map tx_packets vs)"
  by (induction vs arbitrary: a) (simp_all add: add_session_stats_def)

lemma ip_be_octets: "to_be_bytes (to_be (ip_be ip)) = octets ip"
  by (cases ip) (simp add: ip_be_def to_be_to_be u32_from_ip_def)

text \<open>
  The statistics poller exports, for every readable map entry, under the UE's address the
  totals of the four counters over all CPUs.
\<close>

theorem stats_poll_totals:
  "stats_poll [Some (SessionKey (ip_be ue), vs), None] =
     [(octets ue, \<lparr>rx_bytes = percpu_total rx_bytes (Some vs), rx_packets = percpu_total rx_packets (Some vs),
        tx_bytes = percpu_total tx_bytes (Some vs), tx_packets = percpu_total tx_packets (Some vs)\<rparr>)] \<and>
   stats_poll (es @ es') = stats_poll es @ stats_poll es'"
  by (auto simp: stats_poll_def List.map_filter_def ip_be_octets sum_session_stats_def foldl_session_stats
      percpu_total_def intro!: session_stats.equality)

section \<open>When and what the reporter reports\<close>

text \<open>The triggers a configuration raises over a sequence of ticks, each with its time and volume.\<close>

fun tick_triggers :: "urr_config \<Rightarrow> (instant \<times> u64) list \<Rightarrow> u8 list" where
  "tick_triggers cfg [] = []"
| "tick_triggers cfg ((now, vol) # ts) =
     (let (t, cfg') = report_trigger now vol cfg in t # tick_triggers cfg' ts)"

definition volth :: "u8 \<Rightarrow> bool" where
  "volth t \<longleftrightarrow> t AND USAGE_REPORT_TRIGGER_VOLTH \<noteq> 0"

lemma trigger_bits [simp]:
  "volth 2" "volth 3" "\<not> volth 0" "\<not> volth 1" "(2 :: u8) OR 1 = 3"
  unfolding volth_def by code_simp+

lemma period_trigger_keeps:
  "uc_threshold_reported (snd (period_trigger now cfg)) = uc_threshold_reported cfg"
  "uc_volume_threshold_total (snd (period_trigger now cfg)) = uc_volume_threshold_total cfg"
  "uc_reporting_triggers (snd (period_trigger now cfg)) = uc_reporting_triggers cfg"
  by (auto simp: period_trigger_def split: option.splits)

lemma period_trigger_bits: "fst (period_trigger now cfg) = 0 \<or> fst (period_trigger now cfg) = 1"
  by (auto simp: period_trigger_def split: option.splits)

lemma report_trigger_volth:
  "volth (fst (report_trigger now vol cfg)) \<longleftrightarrow>
     uc_reporting_triggers cfg * 2 \<noteq> 0 \<and> \<not> uc_threshold_reported cfg \<and>
     (\<exists>th. uc_volume_threshold_total cfg = Some th \<and> th \<le> vol)"
  using period_trigger_bits [of now cfg] period_trigger_bits [of now "cfg\<lparr>uc_threshold_reported := True\<rparr>"]
  by (auto simp: report_trigger_def volume_trigger_def Let_def split: option.splits prod.splits)

lemma report_trigger_reported:
  "uc_threshold_reported (snd (report_trigger now vol cfg)) \<longleftrightarrow>
     uc_threshold_reported cfg \<or> volth (fst (report_trigger now vol cfg))"
  using period_trigger_keeps(1) [of now cfg] period_trigger_keeps(1) [of now "cfg\<lparr>uc_threshold_reported := True\<rparr>"]
  unfolding report_trigger_volth
  by (auto simp: report_trigger_def volume_trigger_def Let_def split: option.splits prod.splits)

lemma report_trigger_keeps:
  "uc_volume_threshold_total (snd (report_trigger now vol cfg)) = uc_volume_threshold_total cfg"
  "uc_reporting_triggers (snd (report_trigger now vol cfg)) = uc_reporting_triggers cfg"
  using period_trigger_keeps(2,3) [of now cfg]
    period_trigger_keeps(2,3) [of now "cfg\<lparr>uc_threshold_reported := True\<rparr>"]
  by (auto simp: report_trigger_def volume_trigger_def Let_def split: option.splits prod.splits)

lemma tick_triggers_Cons:
  "tick_triggers cfg ((now, vol) # ts) =
     fst (report_trigger now vol cfg) # tick_triggers (snd (report_trigger now vol cfg)) ts"
  by (simp add: case_prod_beta Let_def)

lemma volth_count_reported:
  "uc_threshold_reported cfg \<Longrightarrow> filter volth (tick_triggers cfg ts) = []"
proof (induction ts arbitrary: cfg)
  case (Cons x ts)
  obtain now vol where x: "x = (now, vol)"
    by force
  have "\<not> volth (fst (report_trigger now vol cfg))"
    using Cons.prems by (simp add: report_trigger_volth)
  moreover have "uc_threshold_reported (snd (report_trigger now vol cfg))"
    using Cons.prems by (simp add: report_trigger_reported)
  ultimately show ?case
    using Cons.IH by (simp add: x tick_triggers_Cons del: tick_triggers.simps)
qed simp

lemma volth_trigger_factor: "(r :: u8) AND REPORTING_TRIGGER_VOLTH \<noteq> 0 \<Longrightarrow> r * REPORTING_TRIGGER_VOLTH \<noteq> 0"
proof -
  assume "r AND 2 \<noteq> 0"
  then have "bit r 1"
    using and_exp_eq_0_iff_not_bit [of r 1] by simp
  then have "bit (push_bit 1 r) 2"
    unfolding bit_push_bit_iff by (simp add: possible_bit_word)
  moreover have "r * 2 = push_bit 1 r"
    by (simp add: push_bit_eq_mult)
  ultimately have "bit (r * 2) 2"
    by (simp only:)
  then show ?thesis
    by auto
qed

text \<open>
  C24: A volume threshold is reported once: over any sequence of ticks a URR raises the volume
  trigger at most once until it is updated, and if the threshold is configured and some tick sees
  at least the threshold volume, it raises it exactly once.
\<close>

theorem threshold_reported_once:
  "length (filter volth (tick_triggers cfg ts)) \<le> 1 \<and>
   (uc_reporting_triggers cfg AND REPORTING_TRIGGER_VOLTH \<noteq> 0 \<and> \<not> uc_threshold_reported cfg \<and>
      uc_volume_threshold_total cfg = Some th \<and> (\<exists>(now, vol) \<in> set ts. th \<le> vol) \<longrightarrow>
    length (filter volth (tick_triggers cfg ts)) = 1)"
proof (induction ts arbitrary: cfg)
  case (Cons x ts)
  obtain now vol where x: "x = (now, vol)"
    by force
  let ?t = "fst (report_trigger now vol cfg)" and ?c = "snd (report_trigger now vol cfg)"
  show ?case
  proof (cases "volth ?t")
    case True
    then have "uc_threshold_reported ?c"
      by (simp add: report_trigger_reported)
    with True show ?thesis
      by (simp add: x tick_triggers_Cons volth_count_reported del: tick_triggers.simps)
  next
    case False
    then show ?thesis
      using Cons.IH [of ?c] volth_trigger_factor [of "uc_reporting_triggers cfg"]
      by (auto simp: x tick_triggers_Cons report_trigger_keeps report_trigger_reported
          report_trigger_volth simp del: tick_triggers.simps)
  qed
qed simp

theorem threshold_reported_once_witness:
  "length (filter volth (tick_triggers \<lparr>uc_urr_id = 1, uc_seid = 1, uc_cp_seid = 1, uc_measurement_method = 2,
     uc_reporting_triggers = 2, uc_volume_threshold_total = Some 1000, uc_measurement_period = None,
     uc_last_report = 0, uc_threshold_reported = False, uc_ur_seqn = 0\<rparr> [(1, 500), (2, 1500), (3, 2500)])) = 1"
  by (rule threshold_reported_once [where th = 1000, THEN conjunct2, rule_format]) simp

text \<open>
  The volume condition multiplies the trigger mask where it should test a bit: a URR that asks
  for periodic reports only, but carries a threshold, raises the volume trigger too.
\<close>

theorem volume_trigger_without_volth_bit:
  assumes "uc_reporting_triggers cfg = REPORTING_TRIGGER_PERIO" "\<not> uc_threshold_reported cfg"
    and "uc_volume_threshold_total cfg = Some th" "th \<le> vol"
  shows "uc_reporting_triggers cfg AND REPORTING_TRIGGER_VOLTH = 0 \<and> volth (fst (report_trigger now vol cfg))"
  using assms by (simp add: report_trigger_volth)

theorem volume_trigger_without_volth_bit_witness:
  "volth (fst (report_trigger 0 1500 \<lparr>uc_urr_id = 1, uc_seid = 1, uc_cp_seid = 1, uc_measurement_method = 2,
     uc_reporting_triggers = 1, uc_volume_threshold_total = Some 1000, uc_measurement_period = Some 10,
     uc_last_report = 0, uc_threshold_reported = False, uc_ur_seqn = 0\<rparr>))"
  by (rule volume_trigger_without_volth_bit [where th = 1000, THEN conjunct2]) simp_all

section \<open>The reports of one tick\<close>

lemma urr_key_decompose:
  assumes "local_seid sid" "rule_id uid"
  shows "drop_bit 16 (urr_key (UrrKey_new sid uid)) = sid"
    and "ucast (urr_key (UrrKey_new sid uid) AND 0xFFFF) = uid"
proof -
  have m: "(0xFFFF :: u64) = mask 16"
    by (simp add: mask_eq_exp_minus_1)
  show "drop_bit 16 (urr_key (UrrKey_new sid uid)) = sid"
    using assms(1) word_bit_bound [of sid 48]
    by (intro bit_word_eqI) (auto simp: UrrKey_new_def local_seid_def m bit_simps)
  show "ucast (urr_key (UrrKey_new sid uid) AND 0xFFFF) = uid"
    using assms(2) word_bit_bound [of uid 16]
    by (intro bit_word_eqI) (auto simp: UrrKey_new_def rule_id_def m bit_simps)
qed

text \<open>
  When the code takes a report to be due. The volume condition has the product that the code has where it
  means to test a bit of the triggers, so it holds for every non-zero product, and not just when the bit is
  set.
\<close>

definition volume_due :: "u64 \<Rightarrow> urr_config \<Rightarrow> bool" where
  "volume_due vol cfg \<longleftrightarrow> uc_reporting_triggers cfg * REPORTING_TRIGGER_VOLTH \<noteq> 0 \<and>
     \<not> uc_threshold_reported cfg \<and> (case uc_volume_threshold_total cfg of None \<Rightarrow> False | Some th \<Rightarrow> th \<le> vol)"

definition period_due :: "instant \<Rightarrow> urr_config \<Rightarrow> bool" where
  "period_due now cfg \<longleftrightarrow> uc_reporting_triggers cfg AND REPORTING_TRIGGER_PERIO \<noteq> 0 \<and>
     (case uc_measurement_period cfg of None \<Rightarrow> False | Some p \<Rightarrow> secs (unat p) \<le> elapsed now (uc_last_report cfg))"

lemma report_trigger_cases:
  "report_trigger now vol cfg =
     ((if volume_due vol cfg then 2 else 0) OR (if period_due now cfg then 1 else 0),
      cfg\<lparr>uc_threshold_reported := uc_threshold_reported cfg \<or> volume_due vol cfg,
         uc_last_report := (if period_due now cfg then now else uc_last_report cfg)\<rparr>)"
  by (auto simp: report_trigger_def volume_trigger_def period_trigger_def volume_due_def period_due_def Let_def
      split: option.splits)

text \<open>
  C25: The reporter sends a report for a URR exactly when its volume condition (with the code's product in
  place of a test of the trigger bit) or its period is due;
  the report carries the session's CP SEID, the URR's own sequence number, the totals of the URR's
  counters over all CPUs and the due triggers; sequence numbers advance by one per report, the marks
  are set, and no other URR changes.
\<close>

theorem urr_report_exact:
  assumes "local_seid sid" "rule_id uid" "urr_configs srv (sid, uid) = Some cfg"
  shows "(let ul = percpu_total ul_bytes (Some vs); dl = percpu_total dl_bytes (Some vs);
      v = volume_due (ul + dl) cfg; p = period_due now cfg;
      (srv', out) = report_one now (urr_key (UrrKey_new sid uid), sum_urr_stats vs) srv
    in out = (if v \<or> p then Some (build_session_report_request (next_report_seq srv) (uc_cp_seid cfg) uid
          (uc_ur_seqn cfg) ((if v then 2 else 0) OR (if p then 1 else 0)) (ul + dl) ul dl) else None) \<and>
      next_report_seq srv' = next_report_seq srv + (if v \<or> p then 1 else 0) \<and>
      urr_configs srv' = (urr_configs srv)((sid, uid) \<mapsto>
        cfg\<lparr>uc_threshold_reported := uc_threshold_reported cfg \<or> v,
            uc_last_report := (if p then now else uc_last_report cfg),
            uc_ur_seqn := uc_ur_seqn cfg + (if v \<or> p then 1 else 0)\<rparr>) \<and>
      sessions srv' = sessions srv \<and> associations srv' = associations srv)"
proof -
  have key: "drop_bit 16 (urr_key (UrrKey_new sid uid)) = sid"
    "ucast (urr_key (UrrKey_new sid uid) AND 0xFFFF) = uid"
    using urr_key_decompose [OF assms(1,2)] .
  show ?thesis
    by (simp add: report_one_def key assms(3) report_trigger_cases sum_urr_stats_total alloc_report_seq_def Let_def)
qed

theorem urr_report_exact_witness:
  "(let cfg = \<lparr>uc_urr_id = 7, uc_seid = 1, uc_cp_seid = 9, uc_measurement_method = 2, uc_reporting_triggers = 2,
      uc_volume_threshold_total = Some 100, uc_measurement_period = None, uc_last_report = 0,
      uc_threshold_reported = False, uc_ur_seqn = 0\<rparr>;
     srv = (pfcp_server_new 0 0 UNSPECIFIED UNSPECIFIED)\<lparr>urr_configs := [(1, 7) \<mapsto> cfg]\<rparr>
    in snd (report_one 5 (urr_key (UrrKey_new 1 7), sum_urr_stats [\<lparr>ul_bytes = 60, ul_packets = 1,
         dl_bytes = 50, dl_packets = 1\<rparr>]) srv) = Some (build_session_report_request 1000 9 7 0 2 110 60 50))"
proof -
  have "local_seid 1" "rule_id 7"
    by (simp_all add: local_seid_def rule_id_def)
  from urr_report_exact [OF this, of "(pfcp_server_new 0 0 UNSPECIFIED UNSPECIFIED)\<lparr>urr_configs := [(1, 7) \<mapsto>
      \<lparr>uc_urr_id = 7, uc_seid = 1, uc_cp_seid = 9, uc_measurement_method = 2, uc_reporting_triggers = 2,
      uc_volume_threshold_total = Some 100, uc_measurement_period = None, uc_last_report = 0,
      uc_threshold_reported = False, uc_ur_seqn = 0\<rparr>]\<rparr>" _ "[\<lparr>ul_bytes = 60, ul_packets = 1,
         dl_bytes = 50, dl_packets = 1\<rparr>]" 5]
  show ?thesis
    by (simp add: Let_def volume_due_def period_due_def percpu_total_def pfcp_server_new_def
        split: prod.splits)
qed

lemma composed_id_rule_id: "rule_id (ucast ((k :: u64) AND 0xFFFF))"
proof -
  have "k AND 0xFFFF = take_bit 16 k"
    by (simp add: take_bit_eq_mask mask_eq_exp_minus_1)
  then have "unat (k AND 0xFFFF) < 2 ^ 16"
    by (simp add: take_bit_eq_mod unat_mod)
  then show ?thesis
    by (simp add: rule_id_def unsigned_ucast_eq take_bit_nat_eq_self)
qed

lemma report_one_wide:
  assumes "\<not> rule_id uid"
  shows "urr_configs (fst (report_one now e srv)) (sid, uid) = urr_configs srv (sid, uid)"
  using assms composed_id_rule_id [of "fst e"]
  by (cases e) (auto simp: report_one_def Let_def alloc_report_seq_def split: option.splits prod.splits)

lemma report_all_Cons: "fst (report_all now (e # es) srv) = fst (report_all now es (fst (report_one now e srv)))"
  by (simp add: case_prod_beta Let_def)

lemma report_all_wide:
  "\<not> rule_id uid \<Longrightarrow> urr_configs (fst (report_all now es srv)) (sid, uid) = urr_configs srv (sid, uid)"
  by (induction es arbitrary: srv) (simp_all add: report_one_wide report_all_Cons del: report_all.simps(2))

text \<open>
  A URR whose identifier does not fit 16 bits is accepted but never reported: no tick changes
  its configuration, so its sequence number and marks never advance.
\<close>

theorem wide_urr_never_reported:
  assumes "\<not> rule_id uid"
  shows "urr_configs (fst (urr_tick now entries srv)) (sid, uid) = urr_configs srv (sid, uid)"
  using report_all_wide [OF assms] by (simp add: urr_tick_def case_prod_beta Let_def split: option.splits)

theorem wide_urr_never_reported_witness:
  "(let srv = (pfcp_server_new 0 0 UNSPECIFIED UNSPECIFIED)\<lparr>srv_peer_addr := Some (SocketV4 UNSPECIFIED 8805)\<rparr>
    in urr_configs (fst (urr_tick 0 [Some (UrrKey_new 1 0x10001, [])] srv)) (1, 0x10001) =
       urr_configs srv (1, 0x10001))"
  unfolding Let_def by (rule wide_urr_never_reported) (simp add: rule_id_def)

end
