(* ===== verification/Upf_Run.thy ===== *)
theory Upf_Run
  imports Upf_Invariant Urr_Reporter
begin

text \<open>
  The running UPF as a transition system: served datagrams, keep-alive rounds, reporter ticks,
  packets processed by the XDP programs, and session deletions whose second part runs after other
  steps. In every state reachable with fewer than 2^48 datagrams the server invariant holds, hence
  SEIDs fit the composed keys and a fresh SEID is in use at most by a session that was restored from the
  store (\<open>Upf_Agree\<close> states this with an example).
\<close>

section \<open>The reporter keeps the invariant\<close>

lemma report_trigger_ids:
  "uc_seid (snd (report_trigger now vol cfg)) = uc_seid cfg \<and>
   uc_urr_id (snd (report_trigger now vol cfg)) = uc_urr_id cfg"
  by (simp add: report_trigger_cases)

lemma inv_replace_urr_config:
  assumes "server_inv R srv" "urr_configs srv (sid, uid) = Some c" "uc_seid c' = uc_seid c" "uc_urr_id c' = uc_urr_id c"
  shows "server_inv R (srv\<lparr>urr_configs := (urr_configs srv)((sid, uid) \<mapsto> c')\<rparr>)"
  using assms by (intro server_invI) (auto dest: server_invD split: if_splits)

lemma inv_report_seq [simp]: "server_inv R (srv\<lparr>next_report_seq := n\<rparr>) = server_inv R srv"
  by (simp add: server_inv_def)

lemma report_one_inv:
  assumes "server_inv R srv"
  shows "server_inv R (fst (report_one now e srv)) \<and> next_seid (fst (report_one now e srv)) = next_seid srv"
proof -
  obtain k acc where e: "e = (k, acc)"
    by force
  show ?thesis
  proof (cases "urr_configs srv (drop_bit 16 k, ucast (k AND 0xFFFF))")
    case (Some cfg)
    note inv = inv_replace_urr_config [OF assms Some]
    show ?thesis
      using Some by (auto simp: e report_one_def Let_def alloc_report_seq_def report_trigger_cases intro!: inv)
  qed (simp add: e report_one_def assms)
qed

lemma report_all_inv:
  "server_inv R srv \<Longrightarrow> server_inv R (fst (report_all now es srv)) \<and> next_seid (fst (report_all now es srv)) = next_seid srv"
  by (induction es arbitrary: srv) (simp_all add: report_one_inv report_all_Cons del: report_all.simps(2))

lemma urr_tick_inv:
  assumes "server_inv R srv"
  shows "server_inv R (fst (urr_tick now es srv)) \<and> next_seid (fst (urr_tick now es srv)) = next_seid srv"
  using report_all_inv [OF assms] assms by (simp add: urr_tick_def case_prod_beta Let_def split: option.splits)

section \<open>Steps\<close>

text \<open>
  \<open>L\<close> is the table of sessions the UPF starts with: those of a store that could be read
  (\<open>startup_load\<close>), or none. \<open>n\<close> counts the datagrams.
\<close>

inductive upf_run :: "(u64 \<rightharpoonup> session_data) \<Rightarrow> nat \<Rightarrow> upf_state \<Rightarrow> bool" for L where
  start: "startup_load loaded ((pfcp_server_new now t a b)\<lparr>tx_tui := tui, session_store := store\<rparr>) = (srv, effs) \<Longrightarrow>
    sessions srv = L \<Longrightarrow> upf_run L 0 \<lparr>st_server = srv, st_maps = M, st_effects = effs\<rparr>"
| datagram: "upf_run L n st \<Longrightarrow> upf_run L (Suc n) (fst (serve_datagram E data src st))"
| deletion_begin: "upf_run L n st \<Longrightarrow> upf_run L (Suc n) (fst (deletion_critical E sid src st))"
| deletion_finish: "upf_run L n st \<Longrightarrow> upf_run L n (deletion_cleanup E sid d st)"
| keepalive: "upf_run L n st \<Longrightarrow> upf_run L n (st\<lparr>st_server := fst (keepalive_round now t sent (st_server st) sq)\<rparr>)"
| tick: "upf_run L n st \<Longrightarrow> upf_run L n (st\<lparr>st_server := fst (urr_tick now es (st_server st))\<rparr>)"
| uplink: "upf_run L n st \<Longrightarrow> upf_run L n (st\<lparr>st_maps := fst (upf_edge_n3 X (st_maps st) p)\<rparr>)"
| downlink: "upf_run L n st \<Longrightarrow> upf_run L n (st\<lparr>st_maps := fst (upf_edge_n6 X (st_maps st) p)\<rparr>)"

text \<open>What loading leaves as it was, and what it announces.\<close>

lemma startup_load_shape:
  assumes "startup_load loaded srv = (srv', effs)"
  shows "srv' = srv\<lparr>sessions := sessions srv'\<rparr>"
    "effs = [] \<and> sessions srv' = sessions srv \<or> effs = tui_sessions_updated srv'"
proof -
  have restore: "restore_sessions ss srv0 = srv0\<lparr>sessions := sessions (restore_sessions ss srv0)\<rparr>" for ss srv0
    by (induction ss srv0 rule: restore_sessions.induct) simp_all
  show "srv' = srv\<lparr>sessions := sessions srv'\<rparr>"
    using assms restore by (auto simp: startup_load_def Let_def split: if_splits option.splits)
  show "effs = [] \<and> sessions srv' = sessions srv \<or> effs = tui_sessions_updated srv'"
    using assms by (auto simp: startup_load_def Let_def split: if_splits option.splits)
qed

lemma start_server:
  assumes "startup_load loaded ((pfcp_server_new now t a b)\<lparr>tx_tui := tui, session_store := store\<rparr>) = (srv, effs)"
  shows "associations srv = Map.empty" "urr_configs srv = Map.empty" "next_seid srv = 1" "next_teid srv = 1000"
    "tx_tui srv = tui" "n3_addr srv = b" "server_inv (dom (sessions srv)) srv"
proof -
  note s = startup_load_shape(1) [OF assms]
  show "associations srv = Map.empty" "urr_configs srv = Map.empty" "next_seid srv = 1" "next_teid srv = 1000"
    "tx_tui srv = tui" "n3_addr srv = b" by (subst s, simp add: pfcp_server_new_def)+
  then show "server_inv (dom (sessions srv)) srv" by (auto simp: server_inv_def)
qed

definition inv_step :: "u64 set \<Rightarrow> pfcp_server \<Rightarrow> pfcp_server \<Rightarrow> bool" where
  "inv_step R srv srv' \<longleftrightarrow> server_inv R srv' \<and>
     unat (next_seid srv') \<in> {unat (next_seid srv), unat (next_seid srv) + 1}"

lemma handle_message_step:
  assumes "server_inv R (st_server st)" "seid_room (st_server st)"
  shows "inv_step R (st_server st) (st_server (fst (handle_message E data src st)))"
  using assms heartbeat.keeps_inv heartbeat.seid_step association.keeps_inv association.seid_step
    establishment.keeps_inv establishment.seid_step modification.keeps_inv modification.seid_step
    deletion.keeps_inv deletion.seid_step
  by (auto simp: inv_step_def handle_message_def split: sum.splits)

lemma serve_datagram_state:
  "fst (serve_datagram E data src st) =
     fst (handle_message E data src (st\<lparr>st_server := touch_activity (env_now E) (st_server st)\<rparr>))"
  by (auto simp: serve_datagram_def split: prod.splits sum.splits)

lemma serve_datagram_step:
  assumes "server_inv R (st_server st)" "seid_room (st_server st)"
  shows "inv_step R (st_server st) (st_server (fst (serve_datagram E data src st)))"
proof -
  let ?st = "st\<lparr>st_server := touch_activity (env_now E) (st_server st)\<rparr>"
  have "inv_step R (st_server ?st) (st_server (fst (handle_message E data src ?st)))"
    using assms by (intro handle_message_step) (simp_all add: seid_room_def)
  then show ?thesis
    by (simp add: serve_datagram_state inv_step_def)
qed

lemma keepalive_round_inv:
  "server_inv R srv \<Longrightarrow> server_inv R (fst (keepalive_round now t sent srv sq)) \<and>
    next_seid (fst (keepalive_round now t sent srv sq)) = next_seid srv"
  by (simp add: keepalive_round_def split: prod.splits option.splits)

lemma keepalive_next: "next_seid (fst (keepalive_round now t sent srv sq)) = next_seid srv"
  by (simp add: keepalive_round_def split: prod.splits option.splits)

lemma urr_tick_next: "next_seid (fst (urr_tick now es srv)) = next_seid srv"
proof -
  have one: "next_seid (fst (report_one now e srv)) = next_seid srv" for e srv
    by (auto simp: report_one_def Let_def alloc_report_seq_def split: option.split prod.split)
  have "next_seid (fst (report_all now rs srv)) = next_seid srv" for rs srv
    by (induction rs arbitrary: srv) (simp_all add: one report_all_Cons del: report_all.simps(2))
  then show ?thesis by (simp add: urr_tick_def case_prod_beta Let_def split: option.splits)
qed

section \<open>Reachable states\<close>

lemma upf_run_inv:
  assumes "upf_run L n st" "n < 2 ^ 48"
  shows "server_inv (dom L) (st_server st) \<and> unat (next_seid (st_server st)) \<le> n + 1"
  using assms
proof (induction rule: upf_run.induct)
  case (start loaded now t a b tui store srv effs M)
  with start_server [OF start(1)] show ?case by simp
next
  case (datagram n st E data src)
  then have "seid_room (st_server st)"
    by (simp add: seid_room_def)
  with datagram serve_datagram_step [of "dom L" st E data src] show ?case
    by (auto simp: inv_step_def)
next
  case (deletion_begin n st E sid src)
  then show ?case
    using deletion_critical_server [of "dom L" st E sid src] by auto
qed (simp_all add: keepalive_round_inv [of "dom L"] urr_tick_inv [of "dom L"])

end
