(* ===== verification/Upf_Session.thy ===== *)
theory Upf_Session
  imports Upf_Run
begin

text \<open>
  What the session procedures do: establishment installs exactly the session's rules, modification
  moves the tunnel, deletion removes the session from the data path; requests from a source that
  does not own the session change nothing. The last sections state how associations, heartbeats
  and ownership behave where several SMFs or restarts are involved.
\<close>

section \<open>The environment\<close>

text \<open>The kernel maps follow their laws; \<open>env_roomy\<close>: insertions find room.\<close>

definition env_laws :: "upf_env \<Rightarrow> bool" where
  "env_laws E \<longleftrightarrow> hash_laws (session_ops E) \<and> hash_laws (pdr_ops E) \<and> hash_laws (far_ops E) \<and>
     hash_laws (urr_ops E) \<and> (\<forall>xs. set (set_order E xs) = set xs)"

definition roomy :: "('k, 'v) hash_ops \<Rightarrow> bool" where
  "roomy h \<longleftrightarrow> (\<forall>m k v. h_insert h m k v \<noteq> None)"

definition env_roomy :: "upf_env \<Rightarrow> bool" where
  "env_roomy E \<longleftrightarrow> roomy (session_ops E) \<and> roomy (pdr_ops E) \<and> roomy (far_ops E) \<and> roomy (urr_ops E) \<and>
     (\<forall>xs. percpu_values E xs \<noteq> None)"

definition demo_upf_env :: "ipv4 list \<Rightarrow> upf_env" where
  "demo_upf_env nodes = \<lparr>env_now = 0, assoc_order = (\<lambda>_. nodes), set_order = remdups, session_ops = roomy_ops,
     pdr_ops = roomy_ops, far_ops = roomy_ops, urr_ops = roomy_ops, nr_cpus = Some 2, percpu_values = Some\<rparr>"

lemma demo_upf_env_ok [simp]: "env_laws (demo_upf_env nodes)" "env_roomy (demo_upf_env nodes)"
  by (simp_all add: env_laws_def env_roomy_def roomy_def demo_upf_env_def) (simp_all add: roomy_ops_def)

lemma env_lawsD:
  assumes "env_laws E"
  shows "hash_laws (session_ops E)" "hash_laws (pdr_ops E)" "hash_laws (far_ops E)" "hash_laws (urr_ops E)"
    "set (set_order E xs) = set xs"
  using assms by (simp_all add: env_laws_def)

section \<open>Insertion and removal loops\<close>

lemma insert_each_ok:
  "hash_laws h \<Longrightarrow> insert_each h kvs m = (m', True) \<Longrightarrow> m' = m ++ map_of (rev kvs)"
proof (induction kvs arbitrary: m)
  case (Cons kv kvs)
  obtain k v where kv: "kv = (k, v)"
    by force
  with Cons.prems obtain m1 where m1: "h_insert h m k v = Some m1" "insert_each h kvs m1 = (m', True)"
    by (auto split: option.splits)
  then have "m' = m(k \<mapsto> v) ++ map_of (rev kvs)"
    using Cons by (simp add: hash_insertD [OF Cons.prems(1) m1(1)])
  also have "\<dots> = m ++ map_of (rev (kv # kvs))"
    by (rule ext) (simp add: kv map_add_def split: option.split)
  finally show ?case .
qed simp

lemma insert_each_roomy: "roomy h \<Longrightarrow> snd (insert_each h kvs m)"
  by (induction h kvs m rule: insert_each.induct) (auto simp: roomy_def split: option.splits)

lemma remove_each_eq: "hash_laws h \<Longrightarrow> remove_each h ks m = m |` (- set ks)"
proof (induction ks arbitrary: m)
  case (Cons k ks)
  then have "remove_each h (k # ks) m = (m(k := None)) |` (- set ks)"
    by (simp add: remove_each_def)
  then show ?case
    by (auto simp: restrict_map_def fun_eq_iff)
qed (simp add: remove_each_def restrict_map_def)

lemma install_urrs_shape:
  "\<exists>c u. fst (install_urrs E sid cp us srv M) = srv\<lparr>urr_configs := c\<rparr> \<and>
     fst (snd (install_urrs E sid cp us srv M)) = M\<lparr>URR_MAP := u\<rparr>"
proof (induction us arbitrary: srv M)
  case Nil
  show ?case
    by (intro exI [of _ "urr_configs srv"] exI [of _ "URR_MAP M"]) simp
next
  case (Cons x us)
  have unchanged: "\<exists>c u. srv = srv\<lparr>urr_configs := c\<rparr> \<and> M = M\<lparr>URR_MAP := u\<rparr>"
    by (intro exI [of _ "urr_configs srv"] exI [of _ "URR_MAP M"]) simp
  have step: "\<exists>c u. fst (install_urrs E sid cp us (srv\<lparr>urr_configs := c0\<rparr>) (M\<lparr>URR_MAP := u0\<rparr>)) =
      srv\<lparr>urr_configs := c\<rparr> \<and>
    fst (snd (install_urrs E sid cp us (srv\<lparr>urr_configs := c0\<rparr>) (M\<lparr>URR_MAP := u0\<rparr>))) = M\<lparr>URR_MAP := u\<rparr>" for c0 u0
    using Cons [of "srv\<lparr>urr_configs := c0\<rparr>" "M\<lparr>URR_MAP := u0\<rparr>"] by simp
  show ?case
    using unchanged step by (simp add: Let_def split: option.splits)
qed

lemma install_urrs_frame:
  assumes "install_urrs E sid cp us srv M = (srv', M', ok)"
  shows "sessions srv' = sessions srv" "associations srv' = associations srv" "n3_addr srv' = n3_addr srv"
    "SESSION_MAP M' = SESSION_MAP M" "PDR_MAP M' = PDR_MAP M" "FAR_MAP M' = FAR_MAP M"
    "IF_INDEX M' = IF_INDEX M" "GW_MAC M' = GW_MAC M"
  using install_urrs_shape [of E sid cp us srv M] assms by auto

lemma install_urrs_roomy: "env_roomy E \<Longrightarrow> snd (snd (install_urrs E sid cp us srv M))"
proof (induction us arbitrary: srv M)
  case (Cons x us)
  let ?n = "case nr_cpus E of None \<Rightarrow> 1 | Some n \<Rightarrow> n"
  obtain zeros where z: "percpu_values E (replicate ?n default_urr_stats) = Some zeros"
    using Cons.prems unfolding env_roomy_def by blast
  obtain m where m: "h_insert (urr_ops E) (URR_MAP M) (UrrKey_new sid (urr_id x)) zeros = Some m"
    using Cons.prems unfolding env_roomy_def roomy_def by blast
  show ?case
    using Cons by (simp add: z m)
qed simp

definition pdr_entries :: "u64 \<Rightarrow> ipv4 \<Rightarrow> parsed_pdr list \<Rightarrow> (pdr_key \<times> pdr_value) list" where
  "pdr_entries sid ue pdrs = map (\<lambda>p. (PdrKey_new sid (ucast (pdr_id p)), pdr_value_of ue p)) pdrs"

definition far_entries :: "u64 \<Rightarrow> ipv4 \<Rightarrow> parsed_far list \<Rightarrow> (far_key \<times> far_value) list" where
  "far_entries sid n3 fars = map (\<lambda>f. (FarKey_new sid (far_id f), far_value_of n3 f)) fars"

lemma install_rules_ok:
  assumes "env_laws E" "install_rules E sid cp ue pdrs fars urrs srv M = (srv', M', True)"
  shows "PDR_MAP M' = PDR_MAP M ++ map_of (rev (pdr_entries sid ue pdrs))"
    "FAR_MAP M' = FAR_MAP M ++ map_of (rev (far_entries sid (n3_addr srv) fars))"
    "SESSION_MAP M' = SESSION_MAP M" "IF_INDEX M' = IF_INDEX M" "GW_MAC M' = GW_MAC M"
    "sessions srv' = sessions srv" "associations srv' = associations srv" "n3_addr srv' = n3_addr srv"
proof -
  obtain pm where p: "insert_each (pdr_ops E) (pdr_entries sid ue pdrs) (PDR_MAP M) = (pm, True)"
    using assms(2) by (auto simp: install_rules_def pdr_entries_def Let_def split: prod.splits if_splits)
  obtain fm where f: "insert_each (far_ops E) (far_entries sid (n3_addr srv) fars) (FAR_MAP M) = (fm, True)"
    using assms(2) p
    by (auto simp: install_rules_def pdr_entries_def far_entries_def Let_def split: prod.splits if_splits)
  have u: "install_urrs E sid cp urrs srv (M\<lparr>PDR_MAP := pm, FAR_MAP := fm\<rparr>) = (srv', M', True)"
    using assms(2) p f by (simp add: install_rules_def pdr_entries_def far_entries_def)
  note frame = install_urrs_frame [OF u]
  show "PDR_MAP M' = PDR_MAP M ++ map_of (rev (pdr_entries sid ue pdrs))"
    using frame insert_each_ok [OF env_lawsD(2) [OF assms(1)] p] by simp
  show "FAR_MAP M' = FAR_MAP M ++ map_of (rev (far_entries sid (n3_addr srv) fars))"
    using frame insert_each_ok [OF env_lawsD(3) [OF assms(1)] f] by simp
  show "SESSION_MAP M' = SESSION_MAP M" "IF_INDEX M' = IF_INDEX M" "GW_MAC M' = GW_MAC M"
    "sessions srv' = sessions srv" "associations srv' = associations srv" "n3_addr srv' = n3_addr srv"
    using frame by simp_all
qed

lemma install_rules_roomy:
  assumes "env_roomy E"
  obtains srv' M' where "install_rules E sid cp ue pdrs fars urrs srv M = (srv', M', True)"
proof -
  have "snd (snd (install_rules E sid cp ue pdrs fars urrs srv M))"
    using assms insert_each_roomy [of "pdr_ops E"] insert_each_roomy [of "far_ops E"]
      install_urrs_roomy [OF assms]
    by (auto simp: install_rules_def env_roomy_def Let_def split: prod.splits) (metis snd_conv)+
  then show thesis
    using that by (cases "install_rules E sid cp ue pdrs fars urrs srv M") auto
qed

section \<open>Establishment\<close>

text \<open>The state after a successful establishment, in terms of the request and the state before.\<close>

definition established :: "session_establishment_req \<Rightarrow> ipv4 \<Rightarrow> ipv4 \<Rightarrow> upf_state \<Rightarrow> session_data" where
  "established req ue gnb st = \<lparr>sd_ue_ip = ue, sd_teid = next_teid (st_server st), sd_gnb_ip = gnb,
     sd_cp_seid = ser_cp_seid req\<rparr>"

lemma establishment_okE:
  assumes "handle_session_establishment E hdr body src st = (st', Inr r)"
  obtains req k a ue gnb sm srv3 M3 where
    "session_establishment_req_decode body = Inr req" "find_association E (st_server st) src = Some (k, a)"
    "find_map pdr_ue_ip (ser_create_pdrs req) = Some ue"
    "find_map far_outer_header_creation (ser_create_fars req) = Some gnb"
    "h_insert (session_ops E) (SESSION_MAP (st_maps st)) (SessionKey (ip_be ue))
       (session_info_of (next_seid (st_server st)) (next_teid (st_server st)) (ohc_peer_addr gnb)
         (n3_addr (st_server st)) (ser_create_pdrs req)) = Some sm"
    "install_rules E (next_seid (st_server st)) (ser_cp_seid req) ue (ser_create_pdrs req) (ser_create_fars req)
       (ser_create_urrs req) (fst (alloc_teid (fst (alloc_seid (st_server st)))))
       ((st_maps st)\<lparr>SESSION_MAP := sm\<rparr>) = (srv3, M3, True)"
    "st_server st' = register_session (as_node_id a) (next_seid (st_server st))
       (established req ue (ohc_peer_addr gnb) st) srv3" "st_maps st' = M3"
    "r = build_session_establishment_response (seq_num hdr) (ser_cp_seid req) (next_seid (st_server st))
       (n3_addr (st_server st')) (created_pdrs_of (next_teid (st_server st)) (n3_addr (st_server st'))
       (ser_create_pdrs req))"
    "st_effects st' = st_effects st @ establishment_effects (st_server st') (next_seid (st_server st))
       (established req ue (ohc_peer_addr gnb) st)"
  using assms unfolding handle_session_establishment_def established_def
  by (auto simp: Let_def alloc_seid_def alloc_teid_def emit_def split: sum.splits option.splits prod.splits if_splits)

lemma register_session_props [simp]:
  "sessions (register_session node sid d srv) = (sessions srv)(sid \<mapsto> d)"
  "n3_addr (register_session node sid d srv) = n3_addr srv"
  by (simp_all add: register_session_def Let_def split: option.splits)

lemma register_session_association:
  "associations srv node = Some a \<Longrightarrow> associations (register_session node sid d srv) =
     (associations srv)(node \<mapsto> a\<lparr>as_sessions := (as_sessions a)(sd_cp_seid d \<mapsto> d)\<rparr>)"
  by (simp add: register_session_def)

lemma alloc_frame [simp]:
  "sessions (fst (alloc_teid (fst (alloc_seid srv)))) = sessions srv"
  "associations (fst (alloc_teid (fst (alloc_seid srv)))) = associations srv"
  "n3_addr (fst (alloc_teid (fst (alloc_seid srv)))) = n3_addr srv"
  by (simp_all add: alloc_seid_def alloc_teid_def)

text \<open>
  C5: A successful establishment installs the session completely and nothing else: the SESSION map
  gains the UE's entry, the PDR and FAR maps gain exactly the rules of the request under the newly
  allocated SEID, the server and the requesting SMF's association register the session, and the
  response announces that SEID and, for each access-side PDR, the newly allocated TEID.
\<close>

theorem establishment_installs_session:
  assumes "env_laws E" "server_inv R (st_server st)" "session_establishment_req_decode body = Inr req"
    and "handle_session_establishment E hdr body src st = (st', Inr r)"
  shows "\<exists>ue gnb k a. find_map pdr_ue_ip (ser_create_pdrs req) = Some ue \<and>
    find_map far_outer_header_creation (ser_create_fars req) = Some gnb \<and>
    find_association E (st_server st) src = Some (k, a) \<and>
    (let sid = next_seid (st_server st); td = next_teid (st_server st); n3 = n3_addr (st_server st);
         d = established req ue (ohc_peer_addr gnb) st in
     SESSION_MAP (st_maps st') = (SESSION_MAP (st_maps st))(SessionKey (ip_be ue) \<mapsto>
       session_info_of sid td (ohc_peer_addr gnb) n3 (ser_create_pdrs req)) \<and>
     PDR_MAP (st_maps st') = PDR_MAP (st_maps st) ++ map_of (rev (pdr_entries sid ue (ser_create_pdrs req))) \<and>
     FAR_MAP (st_maps st') = FAR_MAP (st_maps st) ++ map_of (rev (far_entries sid n3 (ser_create_fars req))) \<and>
     sessions (st_server st') = (sessions (st_server st))(sid \<mapsto> d) \<and>
     associations (st_server st') = (associations (st_server st))(k \<mapsto>
       a\<lparr>as_sessions := (as_sessions a)(ser_cp_seid req \<mapsto> d)\<rparr>) \<and>
     r = build_session_establishment_response (seq_num hdr) (ser_cp_seid req) sid n3
       (created_pdrs_of td n3 (ser_create_pdrs req)))"
  using assms(4)
proof (cases rule: establishment_okE)
  case (1 req' k a ue gnb sm srv3 M3)
  have req: "req' = req"
    using 1(1) assms(3) by simp
  note a = find_association_Some [OF 1(2)]
  have node: "as_node_id a = k"
    using server_invD(2) [OF assms(2)] a by blast
  note ok = install_rules_ok [OF assms(1) 1(6)]
  have sm: "sm = (SESSION_MAP (st_maps st))(SessionKey (ip_be ue) \<mapsto>
      session_info_of (next_seid (st_server st)) (next_teid (st_server st)) (ohc_peer_addr gnb)
        (n3_addr (st_server st)) (ser_create_pdrs req))"
    using hash_insertD [OF env_lawsD(1) [OF assms(1)] 1(5)] req by simp
  have "associations (st_server st') = (associations (st_server st))(k \<mapsto>
      a\<lparr>as_sessions := (as_sessions a)(ser_cp_seid req \<mapsto> established req ue (ohc_peer_addr gnb) st)\<rparr>)"
    using register_session_association [of srv3 k a] a ok 1(7) req
    by (simp add: node established_def)
  with ok 1 req sm show ?thesis
    by (intro exI [of _ ue] exI [of _ gnb] exI [of _ k] exI [of _ a]) (simp add: Let_def)
qed

text \<open>With room in the maps, a complete request of an associated SMF succeeds.\<close>

lemma establishment_progress:
  assumes "env_roomy E" "session_establishment_req_decode body = Inr req" "is_v4 src"
    and "find_association E (st_server st) src = Some (k, a)"
    and "find_map pdr_ue_ip (ser_create_pdrs req) = Some ue"
    and "find_map far_outer_header_creation (ser_create_fars req) = Some gnb"
  obtains st' r where "handle_session_establishment E hdr body src st = (st', Inr r)"
proof -
  let ?srv = "st_server st"
  define srv2 where "srv2 = fst (alloc_teid (fst (alloc_seid ?srv)))"
  obtain sm where sm: "h_insert (session_ops E) (SESSION_MAP (st_maps st)) (SessionKey (ip_be ue))
      (session_info_of (next_seid ?srv) (next_teid ?srv) (ohc_peer_addr gnb) (n3_addr ?srv) (ser_create_pdrs req)) = Some sm"
    using assms(1) unfolding env_roomy_def roomy_def by blast
  obtain srv3 M3 where r: "install_rules E (next_seid ?srv) (ser_cp_seid req) ue (ser_create_pdrs req)
      (ser_create_fars req) (ser_create_urrs req) srv2 ((st_maps st)\<lparr>SESSION_MAP := sm\<rparr>) = (srv3, M3, True)"
    using install_rules_roomy [OF assms(1)] by blast
  have al: "alloc_seid ?srv = (?srv\<lparr>next_seid := next_seid ?srv + 1\<rparr>, next_seid ?srv)"
    by (simp add: alloc_seid_def)
  have at: "alloc_teid (?srv\<lparr>next_seid := next_seid ?srv + 1\<rparr>) = (srv2, next_teid ?srv)"
    by (simp add: alloc_seid_def alloc_teid_def srv2_def)
  have n3: "n3_addr srv2 = n3_addr ?srv"
    by (simp add: srv2_def)
  have "\<exists>st' r. handle_session_establishment E hdr body src st = (st', Inr r)"
    using assms(2-6) sm r by (simp add: handle_session_establishment_def al at n3 Let_def)
  then show thesis
    using that by blast
qed

definition demo_smf :: smf_association where
  "demo_smf = smf_association_new 0 (Ipv4Addr 10 0 0 1) (SocketV4 (Ipv4Addr 10 0 0 1) 8805) 77"

definition demo_state :: upf_state where
  "demo_state = \<lparr>st_server = (pfcp_server_new 0 0 (Ipv4Addr 10 0 0 2) (Ipv4Addr 10 0 0 3))
       \<lparr>associations := [Ipv4Addr 10 0 0 1 \<mapsto> demo_smf]\<rparr>,
     st_maps = demo_maps, st_effects = []\<rparr>"

abbreviation demo_src :: socket_addr where
  "demo_src \<equiv> SocketV4 (Ipv4Addr 10 0 0 1) 8805"

lemma demo_find_association:
  "find_association (demo_upf_env [Ipv4Addr 10 0 0 1]) (st_server demo_state) demo_src =
     Some (Ipv4Addr 10 0 0 1, demo_smf)"
  by (simp add: find_association_def demo_upf_env_def demo_state_def demo_smf_def smf_association_new_def)

lemma demo_state_inv: "server_inv R (st_server demo_state)"
proof -
  have "server_inv R ((pfcp_server_new 0 0 (Ipv4Addr 10 0 0 2) (Ipv4Addr 10 0 0 3))\<lparr>associations :=
      (associations (pfcp_server_new 0 0 (Ipv4Addr 10 0 0 2) (Ipv4Addr 10 0 0 3)))(Ipv4Addr 10 0 0 1 \<mapsto> demo_smf)\<rparr>)"
    by (rule inv_replace_association [OF server_inv_new]) (simp_all add: demo_smf_def smf_association_new_def)
  then show ?thesis
    by (simp add: demo_state_def pfcp_server_new_def)
qed

theorem establishment_installs_session_witness:
  "\<exists>st' r. handle_session_establishment (demo_upf_env [Ipv4Addr 10 0 0 1])
       (new_session_msg PFCP_SESSION_ESTABLISHMENT_REQ 0 7)
       (establishment_body (Ipv4Addr 10 0 0 1) 5
          [\<lparr>pp_pdr_id = 1, pp_precedence = 100, pp_source_interface = 0, pp_fteid_choose = True,
            pp_ue_ip = Some (Ipv4Addr 10 45 0 2), pp_far_id = 1, pp_urr_id = None,
            pp_outer_header_removal = True, pp_sdf_filter = None\<rparr>]
          [\<lparr>fp_far_id = 1, fp_apply_action = 2, fp_dest_interface = 0, fp_outer_header_creation =
            Some \<lparr>ohc_teid = 9, ohc_peer_addr = Ipv4Addr 172 22 0 23, ohc_port = 2152\<rparr>\<rparr>] []) demo_src demo_state
     = (st', Inr r) \<and>
     sessions (st_server st') 1 = Some \<lparr>sd_ue_ip = Ipv4Addr 10 45 0 2, sd_teid = 1000,
       sd_gnb_ip = Ipv4Addr 172 22 0 23, sd_cp_seid = 5\<rparr>"
proof -
  define ps where "ps = [\<lparr>pp_pdr_id = 1, pp_precedence = 100, pp_source_interface = 0, pp_fteid_choose = True,
    pp_ue_ip = Some (Ipv4Addr 10 45 0 2), pp_far_id = 1, pp_urr_id = None,
    pp_outer_header_removal = True, pp_sdf_filter = None\<rparr>]"
  define fs where "fs = [\<lparr>fp_far_id = 1, fp_apply_action = 2, fp_dest_interface = 0, fp_outer_header_creation =
    Some \<lparr>ohc_teid = 9, ohc_peer_addr = Ipv4Addr 172 22 0 23, ohc_port = 2152\<rparr>\<rparr>]"
  let ?E = "demo_upf_env [Ipv4Addr 10 0 0 1]"
  have d: "session_establishment_req_decode (establishment_body (Ipv4Addr 10 0 0 1) 5 ps fs []) =
    Inr \<lparr>ser_node_id = Some (Ipv4Addr 10 0 0 1), ser_cp_seid = 5, ser_smf_addr = Ipv4Addr 10 0 0 1,
      ser_create_pdrs = map parsed_of_pdr_params ps, ser_create_fars = map parsed_of_far_params fs,
      ser_create_urrs = []\<rparr>"
    using decode_establishment_body [of ps fs "Ipv4Addr 10 0 0 1" 5 "[]"] by (simp add: ps_def fs_def nibble_def)
  obtain st' r where h: "handle_session_establishment ?E (new_session_msg PFCP_SESSION_ESTABLISHMENT_REQ 0 7)
      (establishment_body (Ipv4Addr 10 0 0 1) 5 ps fs []) demo_src demo_state = (st', Inr r)"
    by (rule establishment_progress [OF demo_upf_env_ok(2) d _ demo_find_association])
      (auto simp: ps_def fs_def parsed_of_pdr_params_def parsed_of_far_params_def)
  from establishment_installs_session [OF demo_upf_env_ok(1) demo_state_inv d h]
  have "sessions (st_server st') 1 = Some \<lparr>sd_ue_ip = Ipv4Addr 10 45 0 2, sd_teid = 1000,
       sd_gnb_ip = Ipv4Addr 172 22 0 23, sd_cp_seid = 5\<rparr>"
    by (auto simp: ps_def fs_def parsed_of_pdr_params_def parsed_of_far_params_def demo_state_def
        pfcp_server_new_def established_def Let_def)
  with h show ?thesis
    by (auto simp: ps_def fs_def)
qed

section \<open>Ownership\<close>

definition owns :: "upf_env \<Rightarrow> upf_state \<Rightarrow> socket_addr \<Rightarrow> u64 \<Rightarrow> bool" where
  "owns E st src sid \<longleftrightarrow>
     (case sessions (st_server st) sid of
        None \<Rightarrow> False
      | Some d \<Rightarrow> \<exists>owner. check_ownership E (st_server st) src (sd_cp_seid d) = Inr owner)"

lemma owns_association:
  assumes "owns E st src sid"
  obtains d k a where "sessions (st_server st) sid = Some d" "associations (st_server st) k = Some a"
    "as_peer_addr a = src" "as_sessions a (sd_cp_seid d) \<noteq> None"
  using assms unfolding owns_def check_ownership_def
  by (auto split: option.splits if_splits dest: find_association_Some)

text \<open>
  The contract of an operation on an existing session: without ownership it is refused and leaves
  the state as it is.
\<close>

locale owned_operation =
  fixes run :: "upf_env \<Rightarrow> u64 \<Rightarrow> socket_addr \<Rightarrow> upf_state \<Rightarrow> upf_state \<times> (handler_error + 'r)"
  assumes refused: "\<not> owns E st src sid \<Longrightarrow> \<exists>e. run E sid src st = (st, Inl e)"
begin

lemma accepted_owned: "snd (run E sid src st) = Inr r \<Longrightarrow> owns E st src sid"
  using refused by fastforce

lemma changed_owned: "fst (run E sid src st) \<noteq> st \<Longrightarrow> owns E st src sid"
  using refused by fastforce

lemma foreign_source:
  assumes "\<And>k a d. associations (st_server st) k = Some a \<Longrightarrow> as_peer_addr a = src \<Longrightarrow>
      sessions (st_server st) sid = Some d \<Longrightarrow> as_sessions a (sd_cp_seid d) = None"
  shows "\<exists>e. run E sid src st = (st, Inl e)"
proof (rule refused)
  show "\<not> owns E st src sid"
    using assms by (auto elim!: owns_association)
qed

end

interpretation modify: owned_operation "\<lambda>E sid. handle_session_modification E (hdr\<lparr>seid := Some sid\<rparr>) body" for hdr body
  by unfold_locales
    (auto simp: owns_def handle_session_modification_def split: sum.splits option.splits)

interpretation delete_begin: owned_operation deletion_critical
  by unfold_locales (auto simp: owns_def deletion_critical_def split: sum.splits option.splits)

interpretation delete: owned_operation "\<lambda>E sid. handle_session_deletion E (hdr\<lparr>seid := Some sid\<rparr>) body" for hdr body
  by unfold_locales
    (use delete_begin.refused in \<open>fastforce simp: handle_session_deletion_def\<close>)

text \<open>
  C16: A request to modify or delete a session from a source whose associations do not list the
  session's CP SEID is refused, and neither the server nor the BPF maps change.
\<close>

theorem foreign_requests_refused:
  assumes "\<And>k a d. associations (st_server st) k = Some a \<Longrightarrow> as_peer_addr a = src \<Longrightarrow>
      sessions (st_server st) sid = Some d \<Longrightarrow> as_sessions a (sd_cp_seid d) = None"
    and "seid hdr = Some sid"
  shows "(\<exists>e. handle_session_modification E hdr body src st = (st, Inl e)) \<and>
    (\<exists>e. handle_session_deletion E hdr body src st = (st, Inl e))"
proof -
  have "hdr\<lparr>seid := Some sid\<rparr> = hdr"
    using assms(2) by simp
  moreover have "\<exists>e. handle_session_modification E (hdr\<lparr>seid := Some sid\<rparr>) body src st = (st, Inl e)"
    by (rule modify.foreign_source) (rule assms(1))
  moreover have "\<exists>e. handle_session_deletion E (hdr\<lparr>seid := Some sid\<rparr>) body src st = (st, Inl e)"
    by (rule delete.foreign_source) (rule assms(1))
  ultimately show ?thesis
    by simp
qed

theorem foreign_requests_refused_witness:
  "\<exists>e. handle_session_deletion (demo_upf_env [Ipv4Addr 10 0 0 1]) (new_session_msg PFCP_SESSION_DELETION_REQ 1 7) []
     (SocketV4 (Ipv4Addr 10 0 0 9) 8805) demo_state = (demo_state, Inl e)"
  by (rule foreign_requests_refused [of demo_state "SocketV4 (Ipv4Addr 10 0 0 9) 8805" 1, THEN conjunct2])
    (simp_all add: demo_state_def pfcp_server_new_def new_session_msg_def)

section \<open>Deletion\<close>

lemma deletion_okE:
  assumes "handle_session_deletion E hdr body src st = (st', Inr r)" "seid hdr = Some sid"
  obtains d owner where "sessions (st_server st) sid = Some d"
    "check_ownership E (st_server st) src (sd_cp_seid d) = Inr owner"
    "st_server st' = unregister_session owner sid (sd_cp_seid d) (st_server st)"
    "st_maps st' = st_maps (deletion_cleanup E sid d st)"
    "r = build_session_deletion_response (seq_num hdr) sid"
  using assms unfolding handle_session_deletion_def deletion_critical_def
  by (auto simp: Let_def deletion_cleanup_def split: sum.splits option.splits prod.splits)

lemma unregister_props [simp]:
  "sessions (unregister_session owner sid cp srv) = (sessions srv)(sid := None)"
  "urr_configs (unregister_session owner sid cp srv) = urr_configs srv"
  by (simp_all add: unregister_session_def Let_def split: option.splits)

lemma deletion_cleanup_maps:
  fixes st :: upf_state and d :: session_data and sid :: u64 and E :: upf_env
  assumes "env_laws E"
  defines "key \<equiv> SessionKey (ip_be (sd_ue_ip d))"
  defines "ids \<equiv> installed_pdr_ids (st_maps st) key"
  defines "pvs \<equiv> installed_pdrs (st_maps st) sid ids"
  defines "M' \<equiv> st_maps (deletion_cleanup E sid d st)"
  shows "SESSION_MAP M' = (SESSION_MAP (st_maps st))(key := None)"
    and "PDR_MAP M' = PDR_MAP (st_maps st) |` (- (PdrKey_new sid ` set ids))"
    and "FAR_MAP M' = FAR_MAP (st_maps st) |` (- (FarKey_new sid ` pv_far_id ` set pvs))"
    and "URR_MAP M' = URR_MAP (st_maps st) |` (- (UrrKey_new sid ` {u \<in> pv_urr_id ` set pvs. u \<noteq> 0}))"
  using env_lawsD [OF assms(1)] unfolding M'_def pvs_def ids_def key_def
  by (auto simp: deletion_cleanup_def Let_def remove_each_eq image_image Collect_conj_eq
      intro!: arg_cong2 [where f = restrict_map])

text \<open>
  C7: A successful deletion takes the session out of the data path: the server forgets it, the
  UE's entry leaves the SESSION map, so that the UE's traffic is passed to the stack again, the
  PDRs listed in that entry and the FARs and URRs these PDRs refer to leave their maps, the rules
  of every other session stay, and the response is positive.
\<close>

theorem deletion_removes_session:
  assumes "env_laws E" "seid hdr = Some sid" "handle_session_deletion E hdr body src st = (st', Inr r)"
    and "local_seid sid" "local_seid sid'" "sid' \<noteq> sid"
  shows "\<exists>d. sessions (st_server st) sid = Some d \<and> sessions (st_server st') = (sessions (st_server st))(sid := None) \<and>
    (let M = st_maps st; M' = st_maps st'; key = SessionKey (ip_be (sd_ue_ip d)); ids = installed_pdr_ids M key in
     SESSION_MAP M' = (SESSION_MAP M)(key := None) \<and>
     (\<forall>p f. uplink_parse p = Some f \<and> pf_ue_ip f = ip_be (sd_ue_ip d) \<longrightarrow> upf_edge_n3 X M' p = (M', p, XDP_PASS)) \<and>
     (\<forall>i \<in> set ids. PDR_MAP M' (PdrKey_new sid i) = None) \<and>
     (\<forall>pv \<in> set (installed_pdrs M sid ids). FAR_MAP M' (FarKey_new sid (pv_far_id pv)) = None) \<and>
     (\<forall>i. PDR_MAP M' (PdrKey_new sid' i) = PDR_MAP M (PdrKey_new sid' i) \<and>
          FAR_MAP M' (FarKey_new sid' i) = FAR_MAP M (FarKey_new sid' i) \<and>
          URR_MAP M' (UrrKey_new sid' i) = URR_MAP M (UrrKey_new sid' i))) \<and>
    r = build_session_deletion_response (seq_num hdr) sid"
  using assms(3,2)
proof (cases rule: deletion_okE)
  case (1 d owner)
  note maps = deletion_cleanup_maps [OF assms(1), where st = st and sid = sid and d = d, folded 1(4)]
  have other: "sid \<noteq> sid'"
    using assms(6) by simp
  show ?thesis
    using 1(1,3,5) maps assms(4,5) other
    by (intro exI [of _ d])
      (auto simp: Let_def pdr.removed_other_session far.removed_other_session urr.removed_other_session
        restrict_map_def upf_edge_n3_def try_n3_uplink_def dest: pdr.mk_session far.mk_session urr.mk_session)
qed

lemma deletion_progress:
  assumes "owns E st src sid" "seid hdr = Some sid"
  obtains st' r where "handle_session_deletion E hdr body src st = (st', Inr r)"
  using assms unfolding owns_def handle_session_deletion_def deletion_critical_def
  by (auto simp: Let_def split: option.splits)

definition demo_data :: session_data where
  "demo_data = \<lparr>sd_ue_ip = Ipv4Addr 10 45 0 2, sd_teid = 1000, sd_gnb_ip = Ipv4Addr 172 22 0 23, sd_cp_seid = 5\<rparr>"

definition demo_state1 :: upf_state where
  "demo_state1 = demo_state\<lparr>st_server := (st_server demo_state)\<lparr>sessions := [1 \<mapsto> demo_data],
     associations := [Ipv4Addr 10 0 0 1 \<mapsto> demo_smf\<lparr>as_sessions := [5 \<mapsto> demo_data]\<rparr>]\<rparr>\<rparr>"

lemma demo_owns: "owns (demo_upf_env [Ipv4Addr 10 0 0 1]) demo_state1 demo_src 1"
  by (simp add: owns_def check_ownership_def find_association_def demo_upf_env_def demo_state1_def demo_smf_def
      smf_association_new_def demo_data_def)

theorem deletion_removes_session_witness:
  "\<exists>st' r. handle_session_deletion (demo_upf_env [Ipv4Addr 10 0 0 1]) (new_session_msg PFCP_SESSION_DELETION_REQ 1 7) []
     demo_src demo_state1 = (st', Inr r) \<and> sessions (st_server st') 1 = None \<and>
     SESSION_MAP (st_maps st') (SessionKey (ip_be (Ipv4Addr 10 45 0 2))) = None"
proof -
  let ?E = "demo_upf_env [Ipv4Addr 10 0 0 1]" and ?h = "new_session_msg PFCP_SESSION_DELETION_REQ 1 7"
  have h: "seid ?h = Some 1" and l: "local_seid 1" "local_seid 2" "(2 :: u64) \<noteq> 1"
    by (simp_all add: new_session_msg_def local_seid_def)
  obtain st' r where d: "handle_session_deletion ?E ?h [] demo_src demo_state1 = (st', Inr r)"
    using deletion_progress [OF demo_owns h] by blast
  from deletion_removes_session [OF demo_upf_env_ok(1) h d l, of demo_env] d show ?thesis
    by (auto simp: Let_def demo_state1_def demo_data_def)
qed

text \<open>
  C36: Ownership rests on the CP SEID alone: when the association of one SMF lists the CP SEID of a
  session that another SMF established, the first SMF's deletion request for that session is
  accepted and removes it.
\<close>

theorem shared_cp_seid_deletes_foreign_session:
  assumes "find_association E (st_server st) src = Some (k, b)" "is_v4 src" "seid hdr = Some sid"
    and "sessions (st_server st) sid = Some d" "as_sessions b (sd_cp_seid d) = Some d'" "d' \<noteq> d"
  shows "\<exists>st' r. handle_session_deletion E hdr body src st = (st', Inr r) \<and> sessions (st_server st') sid = None"
proof -
  have "owns E st src sid"
    using assms by (simp add: owns_def check_ownership_def)
  then obtain st' r where h: "handle_session_deletion E hdr body src st = (st', Inr r)"
    using deletion_progress [OF _ assms(3)] by blast
  from h assms(3) show ?thesis
    by (cases rule: deletion_okE) (auto simp: h)
qed

theorem shared_cp_seid_deletes_foreign_session_witness:
  "(let a = demo_smf\<lparr>as_sessions := [5 \<mapsto> demo_data]\<rparr>;
        other = demo_data\<lparr>sd_ue_ip := Ipv4Addr 10 45 0 3, sd_teid := 1001\<rparr>;
        b = (smf_association_new 0 (Ipv4Addr 10 0 0 9) (SocketV4 (Ipv4Addr 10 0 0 9) 8805) 88)\<lparr>as_sessions := [5 \<mapsto> other]\<rparr>;
        st = demo_state\<lparr>st_server := (st_server demo_state)\<lparr>sessions := [1 \<mapsto> demo_data, 2 \<mapsto> other],
          associations := [Ipv4Addr 10 0 0 1 \<mapsto> a, Ipv4Addr 10 0 0 9 \<mapsto> b]\<rparr>\<rparr>
    in \<exists>st' r. handle_session_deletion (demo_upf_env [Ipv4Addr 10 0 0 1, Ipv4Addr 10 0 0 9])
         (new_session_msg PFCP_SESSION_DELETION_REQ 1 7) [] (SocketV4 (Ipv4Addr 10 0 0 9) 8805) st = (st', Inr r) \<and>
       sessions (st_server st') 1 = None)"
  unfolding Let_def
  by (rule shared_cp_seid_deletes_foreign_session [where k = "Ipv4Addr 10 0 0 9" and d = demo_data
        and d' = "demo_data\<lparr>sd_ue_ip := Ipv4Addr 10 45 0 3, sd_teid := 1001\<rparr>"
        and b = "(smf_association_new 0 (Ipv4Addr 10 0 0 9) (SocketV4 (Ipv4Addr 10 0 0 9) 8805) 88)\<lparr>as_sessions :=
          [5 \<mapsto> demo_data\<lparr>sd_ue_ip := Ipv4Addr 10 45 0 3, sd_teid := 1001\<rparr>]\<rparr>"])
    (simp_all add: find_association_def demo_upf_env_def demo_smf_def smf_association_new_def demo_data_def
      new_session_msg_def)

text \<open>
  Deletion leaves the session's URR configurations behind: none of them is removed, whatever
  the outcome of the request.
\<close>

theorem deletion_keeps_urr_configs:
  "urr_configs (st_server (fst (handle_session_deletion E hdr body src st))) = urr_configs (st_server st)"
  by (auto simp: handle_session_deletion_def deletion_critical_def Let_def
      split: sum.splits option.splits prod.splits)

section \<open>Modification\<close>

text \<open>What the kernel laws make of one Update FAR: entries are changed in place, never added.\<close>

definition point_far :: "outer_header_creation \<Rightarrow> far_value \<Rightarrow> far_value" where
  "point_far ohc fv = fv\<lparr>fv_gnb_ip := ip_be (ohc_peer_addr ohc), fv_teid := to_be (ohc_teid ohc)\<rparr>"

definition point_session :: "outer_header_creation \<Rightarrow> session_info \<Rightarrow> session_info" where
  "point_session ohc info = info\<lparr>si_gnb_ip := ip_be (ohc_peer_addr ohc), si_teid := to_be (ohc_teid ohc)\<rparr>"

definition point_data :: "outer_header_creation \<Rightarrow> session_data \<Rightarrow> session_data" where
  "point_data ohc d = d\<lparr>sd_gnb_ip := ohc_peer_addr ohc, sd_teid := ohc_teid ohc\<rparr>"

definition change_at :: "'k \<Rightarrow> ('v \<Rightarrow> 'v) \<Rightarrow> ('k \<rightharpoonup> 'v) \<Rightarrow> ('k \<rightharpoonup> 'v)" where
  "change_at k f m = m(k := map_option f (m k))"

definition apply_update :: "u64 \<Rightarrow> session_key \<Rightarrow> pfcp_server \<times> bpf_maps \<Rightarrow> parsed_far \<Rightarrow> pfcp_server \<times> bpf_maps" where
  "apply_update sid key sM f =
     (case far_outer_header_creation f of
        None \<Rightarrow> sM
      | Some ohc \<Rightarrow>
         (let (srv, M) = sM; M1 = M\<lparr>FAR_MAP := change_at (FarKey_new sid (far_id f)) (point_far ohc) (FAR_MAP M)\<rparr>
          in if far_dest_interface f = Some IFACE_ACCESS
             then (srv\<lparr>sessions := change_at sid (point_data ohc) (sessions srv)\<rparr>,
                   M1\<lparr>SESSION_MAP := change_at key (point_session ohc) (SESSION_MAP M1)\<rparr>)
             else (srv, M1)))"

lemma change_at_None: "m k = None \<Longrightarrow> change_at k f m = m"
  by (auto simp: change_at_def)

lemma change_at_Some: "m k = Some v \<Longrightarrow> change_at k f m = m(k \<mapsto> f v)"
  by (simp add: change_at_def)

lemma update_far_entry_eq:
  assumes "env_laws E"
  shows "update_far_entry E sid f ohc M =
    Some (M\<lparr>FAR_MAP := change_at (FarKey_new sid (far_id f)) (point_far ohc) (FAR_MAP M)\<rparr>)"
  by (cases "FAR_MAP M (FarKey_new sid (far_id f))")
    (simp_all add: update_far_entry_def change_at_None change_at_Some point_far_def
      hash_insert_present [OF env_lawsD(3) [OF assms]])

lemma update_session_entry_eq:
  assumes "env_laws E"
  shows "update_session_entry E key ohc M =
    Some (M\<lparr>SESSION_MAP := change_at key (point_session ohc) (SESSION_MAP M)\<rparr>)"
  by (cases "SESSION_MAP M key")
    (simp_all add: update_session_entry_def change_at_None change_at_Some point_session_def
      hash_insert_present [OF env_lawsD(1) [OF assms]])

lemma update_session_data_eq:
  "update_session_data sid ohc srv = srv\<lparr>sessions := change_at sid (point_data ohc) (sessions srv)\<rparr>"
  by (cases "sessions srv sid")
    (simp_all add: update_session_data_def change_at_None change_at_Some point_data_def)

text \<open>Under the kernel laws the loop never fails, and it applies the updates in order.\<close>

lemma update_fars_eq:
  assumes "env_laws E"
  shows "update_fars E sid key fs srv M =
    (let (srv', M') = foldl (apply_update sid key) (srv, M) fs in (srv', M', True))"
proof (induction fs arbitrary: srv M)
  case (Cons f fs)
  show ?case
  proof (cases "far_outer_header_creation f")
    case None
    then show ?thesis
      using Cons by (simp add: apply_update_def)
  next
    case (Some ohc)
    then show ?thesis
      using Cons
      by (simp add: apply_update_def update_far_entry_eq [OF assms] update_session_entry_eq [OF assms]
          update_session_data_eq Let_def)
  qed
qed simp

lemma apply_update_parts:
  "PDR_MAP (snd (apply_update sid key sM f)) = PDR_MAP (snd sM)"
  "FAR_MAP (snd (apply_update sid key sM f)) = (case far_outer_header_creation f of
     None \<Rightarrow> FAR_MAP (snd sM)
   | Some ohc \<Rightarrow> change_at (FarKey_new sid (far_id f)) (point_far ohc) (FAR_MAP (snd sM)))"
  "SESSION_MAP (snd (apply_update sid key sM f)) = (case far_outer_header_creation f of
     None \<Rightarrow> SESSION_MAP (snd sM)
   | Some ohc \<Rightarrow> if far_dest_interface f = Some IFACE_ACCESS
       then change_at key (point_session ohc) (SESSION_MAP (snd sM)) else SESSION_MAP (snd sM))"
  "sessions (fst (apply_update sid key sM f)) = (case far_outer_header_creation f of
     None \<Rightarrow> sessions (fst sM)
   | Some ohc \<Rightarrow> if far_dest_interface f = Some IFACE_ACCESS
       then change_at sid (point_data ohc) (sessions (fst sM)) else sessions (fst sM))"
  by (cases sM; simp add: apply_update_def Let_def split: option.split)+

lemma point_absorb [simp]:
  "point_far ohc (point_far ohc' fv) = point_far ohc fv"
  "point_session ohc (point_session ohc' info) = point_session ohc info"
  "point_data ohc (point_data ohc' d) = point_data ohc d"
  by (simp_all add: point_far_def point_session_def point_data_def)

lemma apply_update_far:
  "FAR_MAP (snd sM) k = Some fv \<Longrightarrow>
    \<exists>fv'. FAR_MAP (snd (apply_update sid key sM f)) k = Some fv' \<and> point_far ohc fv' = point_far ohc fv"
  by (auto simp: apply_update_parts change_at_def split: option.split)

lemma apply_update_session:
  "SESSION_MAP (snd sM) k = Some info \<Longrightarrow>
    \<exists>info'. SESSION_MAP (snd (apply_update sid key sM f)) k = Some info' \<and> point_session ohc info' = point_session ohc info"
  by (auto simp: apply_update_parts change_at_def split: option.split)

lemma apply_update_data:
  "sessions (fst sM) k = Some d \<Longrightarrow>
    \<exists>d'. sessions (fst (apply_update sid key sM f)) k = Some d' \<and> point_data ohc d' = point_data ohc d"
  by (auto simp: apply_update_parts change_at_def split: option.split)

text \<open>What the updates can change at all: the session's own data, SESSION entry and named FARs.\<close>

definition updates_only :: "u64 \<Rightarrow> session_key \<Rightarrow> u32 set \<Rightarrow> pfcp_server \<times> bpf_maps \<Rightarrow> pfcp_server \<times> bpf_maps \<Rightarrow> bool" where
  "updates_only sid key fids sM sM' \<longleftrightarrow>
     fst sM' = (fst sM)\<lparr>sessions := sessions (fst sM')\<rparr> \<and>
     snd sM' = (snd sM)\<lparr>SESSION_MAP := SESSION_MAP (snd sM'), FAR_MAP := FAR_MAP (snd sM')\<rparr> \<and>
     (\<forall>s. s \<noteq> sid \<longrightarrow> sessions (fst sM') s = sessions (fst sM) s) \<and>
     (\<forall>k. k \<noteq> key \<longrightarrow> SESSION_MAP (snd sM') k = SESSION_MAP (snd sM) k) \<and>
     (\<forall>k. k \<notin> FarKey_new sid ` fids \<longrightarrow> FAR_MAP (snd sM') k = FAR_MAP (snd sM) k)"

lemma updates_only_trans:
  assumes "updates_only sid key A x y" "updates_only sid key B y z"
  shows "updates_only sid key (A \<union> B) x z"
proof -
  obtain srv M where x: "x = (srv, M)" by force
  note d = assms [unfolded updates_only_def]
  have "fst z = (fst x)\<lparr>sessions := sessions (fst z)\<rparr>"
    using d(2) by (subst conjunct1 [OF d(2)], subst conjunct1 [OF d(1)]) simp
  moreover have "snd z = (snd x)\<lparr>SESSION_MAP := SESSION_MAP (snd z), FAR_MAP := FAR_MAP (snd z)\<rparr>"
    by (subst conjunct1 [OF conjunct2 [OF d(2)]], subst conjunct1 [OF conjunct2 [OF d(1)]]) simp
  ultimately show ?thesis
    using d by (simp add: updates_only_def image_Un)
qed

lemma apply_update_only: "updates_only sid key {far_id f} sM (apply_update sid key sM f)"
  by (cases sM) (simp add: updates_only_def apply_update_def change_at_def Let_def split: option.split)

lemma apply_updates_only: "updates_only sid key (far_id ` set fs) sM (foldl (apply_update sid key) sM fs)"
proof (induction fs arbitrary: sM)
  case Nil
  show ?case by (simp add: updates_only_def)
next
  case (Cons f fs)
  from updates_only_trans [OF apply_update_only Cons.IH] show ?case by simp
qed

lemma apply_updates_far:
  "FAR_MAP (snd sM) k = Some fv \<Longrightarrow>
    \<exists>fv'. FAR_MAP (snd (foldl (apply_update sid key) sM fs)) k = Some fv' \<and> point_far ohc fv' = point_far ohc fv"
proof (induction fs arbitrary: sM fv)
  case (Cons f fs)
  then show ?case
    using apply_update_far [OF Cons.prems, of sid key f ohc] by (metis foldl_Cons)
qed simp

lemma apply_updates_session:
  "SESSION_MAP (snd sM) k = Some info \<Longrightarrow>
    \<exists>info'. SESSION_MAP (snd (foldl (apply_update sid key) sM fs)) k = Some info' \<and>
      point_session ohc info' = point_session ohc info"
proof (induction fs arbitrary: sM info)
  case (Cons f fs)
  then show ?case
    using apply_update_session [OF Cons.prems, of sid key f ohc] by (metis foldl_Cons)
qed simp

lemma apply_updates_data:
  "sessions (fst sM) k = Some d \<Longrightarrow>
    \<exists>d'. sessions (fst (foldl (apply_update sid key) sM fs)) k = Some d' \<and> point_data ohc d' = point_data ohc d"
proof (induction fs arbitrary: sM d)
  case (Cons f fs)
  then show ?case
    using apply_update_data [OF Cons.prems, of sid key f ohc] by (metis foldl_Cons)
qed simp

lemma apply_updates_none:
  "\<forall>f \<in> set fs. far_outer_header_creation f = None \<Longrightarrow> foldl (apply_update sid key) sM fs = sM"
  by (induction fs) (simp_all add: apply_update_def)

lemma update_urrs_frame [simp]: "sessions (update_urrs sid us srv) = sessions srv"
  by (induction sid us srv rule: update_urrs.induct) (auto split: option.splits)

lemma update_urrs_only: "update_urrs sid us srv = srv\<lparr>urr_configs := urr_configs (update_urrs sid us srv)\<rparr>"
proof (induction sid us srv rule: update_urrs.induct)
  case (2 sid x us srv)
  show ?case
  proof (cases "urr_configs srv (sid, urr_id x)")
    case None
    with 2(1) show ?thesis by simp
  next
    case (Some cfg)
    from 2(2) [OF Some] Some show ?thesis by simp
  qed
qed simp

lemma update_urrs_other:
  "(s, u) \<notin> {sid} \<times> urr_id ` set us \<Longrightarrow> urr_configs (update_urrs sid us srv) (s, u) = urr_configs srv (s, u)"
  by (induction sid us srv rule: update_urrs.induct) (auto split: option.split)

text \<open>
  C6: Handover: a modification by the owner whose last tunnel update is an access-side FAR always
  succeeds under the kernel's laws; afterwards that FAR, the UE's SESSION entry and the server's
  session data point to the new gNB address and TEID, with all their other fields as before. The
  SESSION entries of all other UEs and the data of all other sessions are unchanged, and so are the FARs of
  other sessions and those FARs of this one that the request does not name, the PDR, URR and interface
  maps, the associations, counters and addresses of the server, and all URR configurations but those of
  this session that the request names; nothing is sent, stored or logged.
\<close>

theorem modification_moves_tunnel:
  assumes "env_laws E" "owns E st src sid" "seid hdr = Some sid" "sessions (st_server st) sid = Some d"
    and "session_modification_req_decode body = Inr req" "smr_update_fars req = xs @ f # ys"
    and "far_outer_header_creation f = Some ohc" "far_dest_interface f = Some IFACE_ACCESS"
    and "\<forall>g \<in> set ys. far_outer_header_creation g = None"
    and "FAR_MAP (st_maps st) (FarKey_new sid (far_id f)) = Some fv"
    and "SESSION_MAP (st_maps st) (SessionKey (ip_be (sd_ue_ip d))) = Some info"
    and "local_seid sid"
  shows "\<exists>st'. handle_session_modification E hdr body src st =
      (st', Inr (build_session_modification_response (seq_num hdr) (sd_cp_seid d))) \<and>
    FAR_MAP (st_maps st') (FarKey_new sid (far_id f)) = Some (point_far ohc fv) \<and>
    SESSION_MAP (st_maps st') = (SESSION_MAP (st_maps st))(SessionKey (ip_be (sd_ue_ip d)) \<mapsto> point_session ohc info) \<and>
    sessions (st_server st') = (sessions (st_server st))(sid \<mapsto> point_data ohc d) \<and>
    (\<forall>k. k \<notin> FarKey_new sid ` far_id ` set (smr_update_fars req) \<longrightarrow> FAR_MAP (st_maps st') k = FAR_MAP (st_maps st) k) \<and>
    (\<forall>sid' i. local_seid sid' \<and> sid' \<noteq> sid \<longrightarrow>
       FAR_MAP (st_maps st') (FarKey_new sid' i) = FAR_MAP (st_maps st) (FarKey_new sid' i)) \<and>
    st_maps st' = (st_maps st)\<lparr>SESSION_MAP := SESSION_MAP (st_maps st'), FAR_MAP := FAR_MAP (st_maps st')\<rparr> \<and>
    st_server st' = (st_server st)\<lparr>sessions := sessions (st_server st'), urr_configs := urr_configs (st_server st')\<rparr> \<and>
    (\<forall>s u. (s, u) \<notin> {sid} \<times> urr_id ` set (smr_update_urrs req) \<longrightarrow>
       urr_configs (st_server st') (s, u) = urr_configs (st_server st) (s, u)) \<and>
    st_effects st' = st_effects st"
proof -
  let ?key = "SessionKey (ip_be (sd_ue_ip d))"
  let ?sM = "foldl (apply_update sid ?key) (st_server st, st_maps st) xs"
  define res where "res = foldl (apply_update sid ?key) (st_server st, st_maps st) (smr_update_fars req)"
  define st' where "st' = st\<lparr>st_server := update_urrs sid (smr_update_urrs req) (fst res), st_maps := snd res\<rparr>"
  obtain owner where o: "check_ownership E (st_server st) src (sd_cp_seid d) = Inr owner"
    using assms(2,4) by (auto simp: owns_def)
  have h: "handle_session_modification E hdr body src st =
      (st', Inr (build_session_modification_response (seq_num hdr) (sd_cp_seid d)))"
    by (simp add: handle_session_modification_def assms(3-5) o update_fars_eq [OF assms(1)] case_prod_beta Let_def
        st'_def res_def)
  have r: "res = apply_update sid ?key ?sM f"
    by (simp add: res_def assms(6) apply_updates_none [OF assms(9)])
  obtain srv M where sM: "?sM = (srv, M)"
    by force
  have fin: "FAR_MAP (snd res) (FarKey_new sid (far_id f)) = Some (point_far ohc fv)"
    "SESSION_MAP (snd res) ?key = Some (point_session ohc info)" "sessions (fst res) sid = Some (point_data ohc d)"
    using apply_updates_far [of "(st_server st, st_maps st)" "FarKey_new sid (far_id f)" fv sid ?key xs ohc]
      apply_updates_session [of "(st_server st, st_maps st)" ?key info sid ?key xs ohc]
      apply_updates_data [of "(st_server st, st_maps st)" sid d sid ?key xs ohc] assms(4,10,11)
    unfolding r sM by (auto simp: apply_update_parts assms(7,8) change_at_def)
  have only: "updates_only sid ?key (far_id ` set (smr_update_fars req)) (st_server st, st_maps st) res"
    unfolding res_def by (rule apply_updates_only)
  have "FAR_MAP (snd res) (FarKey_new sid' i) = FAR_MAP (st_maps st) (FarKey_new sid' i)"
    if "local_seid sid'" "sid' \<noteq> sid" for sid' i
  proof -
    have "FarKey_new sid' i \<notin> FarKey_new sid ` far_id ` set (smr_update_fars req)"
      using far.mk_session [OF _ that(1) assms(12)] that(2) by blast
    with only show ?thesis by (simp add: updates_only_def)
  qed
  moreover have "SESSION_MAP (snd res) = (SESSION_MAP (st_maps st))(?key \<mapsto> point_session ohc info)"
    "sessions (fst res) = (sessions (st_server st))(sid \<mapsto> point_data ohc d)"
    using only fin by (auto simp: updates_only_def fun_eq_iff)
  moreover have "st_server st' = (st_server st)\<lparr>sessions := sessions (st_server st'), urr_configs := urr_configs (st_server st')\<rparr>"
    using update_urrs_only [of sid "smr_update_urrs req" "fst res"] only
    by (simp add: st'_def updates_only_def)
  ultimately show ?thesis
    using h fin only update_urrs_other [where srv = "fst res" and sid = sid]
    by (intro exI [of _ st']) (auto simp: st'_def updates_only_def)
qed

theorem modification_moves_tunnel_witness:
  "(let ohc = \<lparr>ohc_teid = 0xAB, ohc_peer_addr = Ipv4Addr 172 22 0 99, ohc_port = 2152\<rparr>;
        fv = \<lparr>fv_apply_action = 2, fv_dst_interface = 0, fv_gnb_ip = 0, fv_teid = 0, fv_upf_n3_ip = 0\<rparr>;
        st = demo_state1\<lparr>st_maps := demo_maps\<lparr>FAR_MAP := [FarKey_new 1 2 \<mapsto> fv]\<rparr>\<rparr>
    in \<exists>st' r. handle_session_modification (demo_upf_env [Ipv4Addr 10 0 0 1])
         (new_session_msg PFCP_SESSION_MODIFICATION_REQ 1 7)
         (modification_body [\<lparr>fp_far_id = 2, fp_apply_action = 2, fp_dest_interface = 0,
           fp_outer_header_creation = Some ohc\<rparr>] []) demo_src st = (st', Inr r) \<and>
       FAR_MAP (st_maps st') (FarKey_new 1 2) = Some (point_far ohc fv) \<and>
       sessions (st_server st') 1 = Some (point_data ohc demo_data))"
proof -
  define ohc :: outer_header_creation where "ohc = \<lparr>ohc_teid = 0xAB, ohc_peer_addr = Ipv4Addr 172 22 0 99, ohc_port = 2152\<rparr>"
  define fv :: far_value where "fv = \<lparr>fv_apply_action = 2, fv_dst_interface = 0, fv_gnb_ip = 0, fv_teid = 0, fv_upf_n3_ip = 0\<rparr>"
  define f where "f = \<lparr>fp_far_id = 2, fp_apply_action = 2, fp_dest_interface = 0, fp_outer_header_creation = Some ohc\<rparr>"
  define st where "st = demo_state1\<lparr>st_maps := demo_maps\<lparr>FAR_MAP := [FarKey_new 1 2 \<mapsto> fv]\<rparr>\<rparr>"
  let ?E = "demo_upf_env [Ipv4Addr 10 0 0 1]" and ?h = "new_session_msg PFCP_SESSION_MODIFICATION_REQ 1 7"
  have o: "owns ?E st demo_src 1"
    using demo_owns by (simp add: owns_def st_def cong: option.case_cong)
  have h: "seid ?h = Some 1" "sessions (st_server st) 1 = Some demo_data" "local_seid 1" "local_seid 2"
    by (simp_all add: new_session_msg_def st_def demo_state1_def local_seid_def)
  have b: "session_modification_req_decode (modification_body [f] []) =
    Inr \<lparr>smr_cp_seid = None, smr_smf_addr = None, smr_update_fars = [parsed_of_far_params f], smr_update_urrs = []\<rparr>"
    using decode_modification_body [of "[f]" "[]"] by (simp add: f_def nibble_def)
  have ip: "ip_be (Ipv4Addr 10 45 0 2) = 0x02002D0A"
    by code_simp
  have "\<exists>st'. handle_session_modification ?E ?h (modification_body [f] []) demo_src st =
      (st', Inr (build_session_modification_response (seq_num ?h) (sd_cp_seid demo_data))) \<and>
    FAR_MAP (st_maps st') (FarKey_new 1 (far_id (parsed_of_far_params f))) = Some (point_far ohc fv) \<and>
    sessions (st_server st') = (sessions (st_server st))(1 \<mapsto> point_data ohc demo_data)"
    using modification_moves_tunnel [OF demo_upf_env_ok(1) o h(1,2) b, where xs = "[]" and ys = "[]" and ohc = ohc and fv = fv
        and info = demo_session and f = "parsed_of_far_params f"] h(3)
    by (fastforce simp: f_def st_def demo_data_def ip demo_maps_lookup(1) parsed_of_far_params_def ohc_def)
  then show ?thesis
    by (auto simp: ohc_def fv_def f_def st_def parsed_of_far_params_def)
qed

section \<open>Associations and heartbeats\<close>

lemma association_setup_decode_tlv:
  "association_setup_req_decode (tlv PFCP_IE_NODE_ID (node_id_value node) @
      tlv PFCP_IE_RECOVERY_TIME_STAMP (to_be_bytes ts) @ []) = Inr \<lparr>asr_node_id = node, asr_recovery_ts = ts\<rparr>"
  using recovery_ts.dec_enc [of ts] node_id.dec_enc [of node]
  by (simp add: association_setup_req_decode_def find_ie_type_def require_def node_id.iter_enc
      recovery_ts.iter_enc raw_of_def del: append_Nil2)

text \<open>
  C29: Association setup: a repeated request with the same recovery time stamp is answered and
  changes nothing; any other time stamp, newer or older, replaces the association by a fresh one
  without sessions that is bound to the sender's address. Sessions and BPF maps are never touched.
\<close>

theorem association_setup_behaviour:
  assumes "association_setup_req_decode body = Inr req"
    and "handle_session_association E hdr body src st = (st', out)"
  shows "out = Inr (build_association_setup_response (seq_num hdr) (n3_addr (st_server st)) (srv_recovery_ts (st_server st))) \<and>
    sessions (st_server st') = sessions (st_server st) \<and> st_maps st' = st_maps st \<and>
    (if map_option as_recovery_ts (associations (st_server st) (asr_node_id req)) = Some (asr_recovery_ts req)
     then st' = st
     else associations (st_server st') = (associations (st_server st))(asr_node_id req \<mapsto>
         smf_association_new (env_now E) (asr_node_id req) src (asr_recovery_ts req)) \<and>
       srv_peer_addr (st_server st') = Some (SocketV4 (asr_node_id req) 8805))"
proof (cases "associations (st_server st) (asr_node_id req)")
  case None
  then show ?thesis
    using assms by (auto simp: handle_session_association_def Let_def)
next
  case (Some a)
  then show ?thesis
    using assms by (auto simp: handle_session_association_def Let_def split: if_splits)
qed

theorem association_setup_behaviour_witness:
  "associations (st_server (fst (handle_session_association (demo_upf_env [Ipv4Addr 10 0 0 1])
       (new_node_msg PFCP_ASSOCIATION_SETUP_REQ 3)
       (tlv PFCP_IE_NODE_ID (node_id_value (Ipv4Addr 10 0 0 1)) @ tlv PFCP_IE_RECOVERY_TIME_STAMP (to_be_bytes (5 :: u32)) @ [])
       demo_src demo_state1))) (Ipv4Addr 10 0 0 1)
   = Some (smf_association_new 0 (Ipv4Addr 10 0 0 1) demo_src 5)"
proof -
  obtain st' out where h: "handle_session_association (demo_upf_env [Ipv4Addr 10 0 0 1])
       (new_node_msg PFCP_ASSOCIATION_SETUP_REQ 3)
       (tlv PFCP_IE_NODE_ID (node_id_value (Ipv4Addr 10 0 0 1)) @ tlv PFCP_IE_RECOVERY_TIME_STAMP (to_be_bytes (5 :: u32)) @ [])
       demo_src demo_state1 = (st', out)"
    by force
  from association_setup_behaviour [OF association_setup_decode_tlv h] show ?thesis
    unfolding h by (simp add: demo_state1_def demo_smf_def smf_association_new_def demo_upf_env_def)
qed

text \<open>
  A heartbeat with a changed recovery time stamp empties the sender's association but leaves
  the UPF's sessions and BPF maps as they were; from then on every request of that SMF to modify
  or delete one of those sessions is refused.
\<close>

theorem heartbeat_restart_orphans_sessions:
  assumes "find_association E (st_server st) src = Some (k, a)" "is_v4 src"
    and "hbr_recovery_ts (heartbeat_req_decode body) = Some ts" "as_recovery_ts a \<noteq> ts"
    and "\<And>k' a'. associations (st_server st) k' = Some a' \<Longrightarrow> as_peer_addr a' = src \<Longrightarrow> k' = k"
    and "seid hdr' = Some sid"
  shows "(let st' = fst (handle_heartbeat E hdr body src st) in
    sessions (st_server st') = sessions (st_server st) \<and> st_maps st' = st_maps st \<and>
    (\<exists>e. handle_session_deletion E' hdr' body' src st' = (st', Inl e)) \<and>
    (\<exists>e. handle_session_modification E' hdr' body' src st' = (st', Inl e)))"
proof -
  let ?st = "fst (handle_heartbeat E hdr body src st)"
  note a = find_association_Some [OF assms(1)]
  have s: "sessions (st_server ?st) = sessions (st_server st)" "st_maps ?st = st_maps st"
    by (auto simp: handle_heartbeat_def Let_def split: option.splits)
  obtain a2 where as: "associations (st_server ?st) = (associations (st_server st))(k \<mapsto> a2)"
    and e: "as_sessions a2 = Map.empty"
    using assms(1-4) by (auto simp: handle_heartbeat_def Let_def)
  have foreign: "as_sessions a' (sd_cp_seid d) = None"
    if "associations (st_server ?st) k' = Some a'" "as_peer_addr a' = src" for k' a' d
    using that assms(5) e unfolding as by (auto split: if_splits)
  have "hdr'\<lparr>seid := Some sid\<rparr> = hdr'"
    using assms(6) by simp
  moreover have "\<exists>e. handle_session_deletion E' (hdr'\<lparr>seid := Some sid\<rparr>) body' src ?st = (?st, Inl e)"
    by (rule delete.foreign_source) (use foreign in blast)
  moreover have "\<exists>e. handle_session_modification E' (hdr'\<lparr>seid := Some sid\<rparr>) body' src ?st = (?st, Inl e)"
    by (rule modify.foreign_source) (use foreign in blast)
  ultimately show ?thesis
    using s by (simp add: Let_def)
qed

theorem heartbeat_restart_orphans_sessions_witness:
  "(let st' = fst (handle_heartbeat (demo_upf_env [Ipv4Addr 10 0 0 1]) (new_node_msg PFCP_HEARTBEAT_REQ 3)
        (tlv PFCP_IE_RECOVERY_TIME_STAMP (to_be_bytes (99 :: u32)) @ []) demo_src demo_state1) in
    sessions (st_server st') 1 = Some demo_data \<and>
    (\<exists>e. handle_session_deletion (demo_upf_env [Ipv4Addr 10 0 0 1]) (new_session_msg PFCP_SESSION_DELETION_REQ 1 7) []
       demo_src st' = (st', Inl e)))"
proof -
  let ?E = "demo_upf_env [Ipv4Addr 10 0 0 1]"
  have f: "find_association ?E (st_server demo_state1) demo_src =
      Some (Ipv4Addr 10 0 0 1, demo_smf\<lparr>as_sessions := [5 \<mapsto> demo_data]\<rparr>)"
    by (simp add: find_association_def demo_upf_env_def demo_state1_def demo_smf_def smf_association_new_def)
  have t: "hbr_recovery_ts (heartbeat_req_decode (tlv PFCP_IE_RECOVERY_TIME_STAMP (to_be_bytes (99 :: u32)) @ [])) = Some 99"
    using recovery_ts.dec_enc [of 99]
    by (simp add: heartbeat_req_decode_def find_ie_type_def recovery_ts.iter_enc raw_of_def)
  have h: "seid (new_session_msg PFCP_SESSION_DELETION_REQ 1 7) = Some 1"
    by (simp add: new_session_msg_def)
  have u: "k' = Ipv4Addr 10 0 0 1" if "associations (st_server demo_state1) k' = Some a'" for k' a'
    using that by (simp add: demo_state1_def split: if_splits)
  have n: "as_recovery_ts (demo_smf\<lparr>as_sessions := [5 \<mapsto> demo_data]\<rparr>) \<noteq> 99"
    by (simp add: demo_smf_def smf_association_new_def)
  from heartbeat_restart_orphans_sessions [where hdr = "new_node_msg PFCP_HEARTBEAT_REQ 3" and E' = ?E
      and body' = "[]", OF f _ t n u h]
  show ?thesis
    by (simp add: Let_def demo_state1_def)
qed

section \<open>Datagrams that are not requests\<close>

text \<open>
  A datagram that is no well-formed PFCP message, or whose type the UPF does not serve, changes
  neither the sessions nor the associations nor the BPF maps and is not answered.
\<close>

theorem unserved_datagrams_ignored:
  assumes "case pfcp_header_decode data of Inl e \<Rightarrow> True
    | Inr (hdr, body) \<Rightarrow> msg_type hdr \<notin> {PFCP_HEARTBEAT_REQ, PFCP_ASSOCIATION_SETUP_REQ,
        PFCP_SESSION_ESTABLISHMENT_REQ, PFCP_SESSION_MODIFICATION_REQ, PFCP_SESSION_DELETION_REQ}"
  shows "serve_datagram E data src st =
    (st\<lparr>st_server := touch_activity (env_now E) (st_server st)\<rparr>, None)"
proof (cases "pfcp_header_decode data")
  case (Inl e)
  then show ?thesis
    by (simp add: serve_datagram_def handle_message_def)
next
  case (Inr hb)
  then show ?thesis
    using assms by (cases hb) (simp add: serve_datagram_def handle_message_def)
qed

theorem unserved_datagrams_ignored_witness:
  "serve_datagram (demo_upf_env []) [0x20, 51] demo_src demo_state =
     (demo_state\<lparr>st_server := touch_activity 0 (st_server demo_state)\<rparr>, None)"
  using unserved_datagrams_ignored [of "[0x20, 51]" "demo_upf_env []" demo_src demo_state]
  by (simp add: pfcp_header_decode_def demo_upf_env_def)

end
