(* ===== verification/Upf_Datapath.thy ===== *)
theory Upf_Datapath
  imports Upf_Session
begin

text \<open>
  From a PFCP request to the data path: the rules that the standard establishment request of
  \<open>build_session_establishment_request\<close> carries, the maps that its handling produces, and what the
  XDP programs then select for the UE's traffic. The root theory combines these facts.
\<close>

definition basic_pdrs :: "ipv4 \<Rightarrow> pdr_params list" where
  "basic_pdrs ue = [\<lparr>pp_pdr_id = 1, pp_precedence = 100, pp_source_interface = INTERFACE_ACCESS,
      pp_fteid_choose = True, pp_ue_ip = Some ue, pp_far_id = 1, pp_urr_id = None,
      pp_outer_header_removal = True, pp_sdf_filter = None\<rparr>,
    \<lparr>pp_pdr_id = 2, pp_precedence = 100, pp_source_interface = INTERFACE_CORE,
      pp_fteid_choose = False, pp_ue_ip = Some ue, pp_far_id = 2, pp_urr_id = None,
      pp_outer_header_removal = False, pp_sdf_filter = None\<rparr>]"

definition basic_fars :: "ipv4 \<Rightarrow> u32 \<Rightarrow> far_params list" where
  "basic_fars gnb td = [\<lparr>fp_far_id = 1, fp_apply_action = ACTION_FORW, fp_dest_interface = INTERFACE_CORE,
      fp_outer_header_creation = None\<rparr>,
    \<lparr>fp_far_id = 2, fp_apply_action = ACTION_FORW, fp_dest_interface = INTERFACE_ACCESS,
      fp_outer_header_creation = Some \<lparr>ohc_teid = td, ohc_peer_addr = gnb, ohc_port = 2152\<rparr>\<rparr>]"

lemma basic_request_decodes:
  assumes "unat sq < 2 ^ 24"
  obtains h where "pfcp_header_decode (build_session_establishment_request sq smf cp ue gnb td) =
      Inr (h, establishment_body smf cp (basic_pdrs ue) (basic_fars gnb td) [])"
    "msg_type h = PFCP_SESSION_ESTABLISHMENT_REQ" "seq_num h = sq"
proof -
  let ?h = "new_session_msg PFCP_SESSION_ESTABLISHMENT_REQ 0 sq"
  let ?mb = "fold add_create_far (basic_fars gnb td) (fold add_create_pdr (basic_pdrs ue)
        (add_fseid cp smf (add_node_id_v4 smf (mb_new ?h))))"
  have m: "build_session_establishment_request sq smf cp ue gnb td = mb_finish ?mb"
    by (simp add: build_session_establishment_request_def basic_pdrs_def basic_fars_def)
  have "mb_buf ?mb = pfcp_header_encode ?h @ establishment_body smf cp (basic_pdrs ue) (basic_fars gnb td) []"
    by (simp add: establishment_body_def add_fseid_def add_node_id_v4_def add_create_pdr_def
        add_create_far_def mb_buf_fold)
  note d = decode_finish [OF wf_session_msg [OF assms] this, folded m]
  show thesis
    by (rule that [OF d]) (simp_all add: new_session_msg_def)
qed

lemma basic_body_decodes:
  "session_establishment_req_decode (establishment_body smf cp (basic_pdrs ue) (basic_fars gnb td) []) =
    Inr \<lparr>ser_node_id = Some smf, ser_cp_seid = cp, ser_smf_addr = smf,
         ser_create_pdrs = map parsed_of_pdr_params (basic_pdrs ue),
         ser_create_fars = map parsed_of_far_params (basic_fars gnb td), ser_create_urrs = []\<rparr>"
proof -
  have "\<forall>p \<in> set (basic_pdrs ue). nibble (pp_source_interface p)"
    "\<forall>f \<in> set (basic_fars gnb td). nibble (fp_dest_interface f)"
    by (simp_all add: basic_pdrs_def basic_fars_def nibble_def)
  from decode_establishment_body [OF this, of smf cp "[]"] show ?thesis
    by simp
qed

text \<open>Maps that hold the rules of the basic request under the SEID \<open>sid\<close>.\<close>

definition serves_ue :: "bpf_maps \<Rightarrow> u64 \<Rightarrow> ipv4 \<Rightarrow> ipv4 \<Rightarrow> ipv4 \<Rightarrow> u32 \<Rightarrow> bool" where
  "serves_ue M sid ue n3 gnb td \<longleftrightarrow>
     (\<exists>session. SESSION_MAP M (SessionKey (ip_be ue)) = Some session \<and> si_seid session = sid \<and>
        si_upf_ip session = ip_be n3 \<and> si_pdr_count session = 2 \<and> session_pdrs session = [1, 2]) \<and>
     (\<exists>p1 p2. PDR_MAP M (PdrKey_new sid 1) = Some p1 \<and> PDR_MAP M (PdrKey_new sid 2) = Some p2 \<and>
        p1 = pdr_value_of ue (parsed_of_pdr_params (basic_pdrs ue ! 0)) \<and>
        p2 = pdr_value_of ue (parsed_of_pdr_params (basic_pdrs ue ! 1))) \<and>
     FAR_MAP M (FarKey_new sid 1) = Some (far_value_of n3 (parsed_of_far_params (basic_fars gnb td ! 0))) \<and>
     FAR_MAP M (FarKey_new sid 2) = Some (far_value_of n3 (parsed_of_far_params (basic_fars gnb td ! 1)))"

lemma serves_ue_selection:
  assumes "serves_ue M sid ue n3 gnb td"
  obtains session where "SESSION_MAP M (SessionKey (ip_be ue)) = Some session" "si_upf_ip session = ip_be n3"
    "\<And>f. flow_action M session IFACE_ACCESS f = (False, 0)"
    "\<And>f. flow_action M session IFACE_CORE f = (False, 0)"
    "downlink_endpoint M session = Some (ip_be gnb, to_be td)"
proof -
  obtain session where s: "SESSION_MAP M (SessionKey (ip_be ue)) = Some session" "si_seid session = sid"
      "si_upf_ip session = ip_be n3" "si_pdr_count session = 2" "session_pdrs session = [1, 2]"
    using assms unfolding serves_ue_def by blast
  have c: "\<not> (- 1 :: u32) \<le> 100" "(2 :: u8) AND 1 = 0" "(2 :: u8) AND 2 = 2"
    by code_simp+
  note rules = assms [unfolded serves_ue_def, THEN conjunct2]
  have sel: "flow_action M session iface f = (False, 0)" if "iface = 0 \<or> iface = 1" for iface f
    using rules that c s
    by (auto simp: flow_action_def select_far_def pdr_value_of_def far_value_of_def parsed_of_pdr_params_def
        parsed_of_far_params_def basic_pdrs_def basic_fars_def sdf_matches_def)
  have "downlink_endpoint M session = Some (ip_be gnb, to_be td)"
    using rules c s
    by (auto simp: downlink_endpoint_def downlink_get_far_def pdr_value_of_def far_value_of_def
        parsed_of_pdr_params_def parsed_of_far_params_def basic_pdrs_def basic_fars_def)
  then show thesis
    using that s(1,3) sel by blast
qed

lemma basic_entries:
  assumes "local_seid sid"
  shows "(m ++ map_of (rev (pdr_entries sid ue (map parsed_of_pdr_params (basic_pdrs ue))))) (PdrKey_new sid 1) =
      Some (pdr_value_of ue (parsed_of_pdr_params (basic_pdrs ue ! 0)))"
    and "(m ++ map_of (rev (pdr_entries sid ue (map parsed_of_pdr_params (basic_pdrs ue))))) (PdrKey_new sid 2) =
      Some (pdr_value_of ue (parsed_of_pdr_params (basic_pdrs ue ! 1)))"
    and "(m' ++ map_of (rev (far_entries sid n3 (map parsed_of_far_params (basic_fars gnb td))))) (FarKey_new sid 1) =
      Some (far_value_of n3 (parsed_of_far_params (basic_fars gnb td ! 0)))"
    and "(m' ++ map_of (rev (far_entries sid n3 (map parsed_of_far_params (basic_fars gnb td))))) (FarKey_new sid 2) =
      Some (far_value_of n3 (parsed_of_far_params (basic_fars gnb td ! 1)))"
proof -
  have "rule_id 1" "rule_id 2"
    by (simp_all add: rule_id_def)
  then have "PdrKey_new sid 1 \<noteq> PdrKey_new sid 2" "FarKey_new sid 1 \<noteq> FarKey_new sid 2"
    using assms by (simp_all add: pdr.mk_eq_iff far.mk_eq_iff)
  then show "(m ++ map_of (rev (pdr_entries sid ue (map parsed_of_pdr_params (basic_pdrs ue))))) (PdrKey_new sid 1) =
      Some (pdr_value_of ue (parsed_of_pdr_params (basic_pdrs ue ! 0)))"
    "(m ++ map_of (rev (pdr_entries sid ue (map parsed_of_pdr_params (basic_pdrs ue))))) (PdrKey_new sid 2) =
      Some (pdr_value_of ue (parsed_of_pdr_params (basic_pdrs ue ! 1)))"
    "(m' ++ map_of (rev (far_entries sid n3 (map parsed_of_far_params (basic_fars gnb td))))) (FarKey_new sid 1) =
      Some (far_value_of n3 (parsed_of_far_params (basic_fars gnb td ! 0)))"
    "(m' ++ map_of (rev (far_entries sid n3 (map parsed_of_far_params (basic_fars gnb td))))) (FarKey_new sid 2) =
      Some (far_value_of n3 (parsed_of_far_params (basic_fars gnb td ! 1)))"
    by (simp_all add: pdr_entries_def far_entries_def basic_pdrs_def basic_fars_def parsed_of_pdr_params_def
        parsed_of_far_params_def map_add_def)
qed

lemma basic_session_info:
  "session_pdrs (session_info_of sid td' gnb n3 (map parsed_of_pdr_params (basic_pdrs ue))) = [1, 2]"
  "si_pdr_count (session_info_of sid td' gnb n3 (map parsed_of_pdr_params (basic_pdrs ue))) = 2"
  by (simp_all add: session_pdrs_def session_info_of_def basic_pdrs_def parsed_of_pdr_params_def Let_def
      upt_rec)

lemma basic_request_served:
  assumes "env_laws E" "env_roomy E" "unat sq < 2 ^ 24" "is_v4 src"
    and "find_association E (st_server st) src = Some (k, a)" "local_seid (next_seid (st_server st))"
  obtains st' r where
    "handle_message E (build_session_establishment_request sq smf cp ue gnb td) src st = (st', Inr r)"
    "serves_ue (st_maps st') (next_seid (st_server st)) ue (n3_addr (st_server st)) gnb td"
    "GW_MAC (st_maps st') = GW_MAC (st_maps st)" "IF_INDEX (st_maps st') = IF_INDEX (st_maps st)"
proof -
  let ?body = "establishment_body smf cp (basic_pdrs ue) (basic_fars gnb td) []"
  obtain h where h: "pfcp_header_decode (build_session_establishment_request sq smf cp ue gnb td) = Inr (h, ?body)"
      "msg_type h = PFCP_SESSION_ESTABLISHMENT_REQ"
    using basic_request_decodes [OF assms(3)] by blast
  obtain st' r where e: "handle_session_establishment E h ?body src st = (st', Inr r)"
    by (rule establishment_progress [OF assms(2) basic_body_decodes assms(4,5)])
      (auto simp: basic_pdrs_def basic_fars_def parsed_of_pdr_params_def parsed_of_far_params_def)
  have hm: "handle_message E (build_session_establishment_request sq smf cp ue gnb td) src st = (st', Inr r)"
    by (simp add: handle_message_def h e)
  from e show thesis
  proof (cases rule: establishment_okE)
    case (1 req k a ue' gnb' sm srv3 M3)
    have req: "ser_create_pdrs req = map parsed_of_pdr_params (basic_pdrs ue)"
      "ser_create_fars req = map parsed_of_far_params (basic_fars gnb td)"
      using 1(1) basic_body_decodes [of smf cp ue gnb td] by auto
    have u: "ue' = ue" and g: "ohc_peer_addr gnb' = gnb"
      using 1(3,4) by (auto simp: req basic_pdrs_def basic_fars_def parsed_of_pdr_params_def parsed_of_far_params_def)
    note ok = install_rules_ok [OF assms(1) 1(6)]
    have sm: "sm (SessionKey (ip_be ue)) = Some (session_info_of (next_seid (st_server st)) (next_teid (st_server st))
        gnb (n3_addr (st_server st)) (map parsed_of_pdr_params (basic_pdrs ue)))"
      using hash_insertD [OF env_lawsD(1) [OF assms(1)] 1(5)] by (simp add: u g req)
    have "serves_ue M3 (next_seid (st_server st)) ue (n3_addr (st_server st)) gnb td"
      unfolding serves_ue_def
      using ok basic_entries [OF assms(6)] basic_session_info sm
      by (simp add: u req session_info_of_def Let_def)
    with ok 1(8) that [OF hm] show thesis
      by simp
  qed
qed

end
