(* ===== verification/Smf_State.thy ===== *)
theory Smf_State
  imports Upf_Server
begin

text \<open>
  State and response checks of the SMF simulator (src/smf-sim/src/state.rs, validator.rs and the
  structures of config.rs): the identifier counters with the UE address pool, the table of
  sessions, and the three functions that look at a response. Every \<^verbatim>\<open>anyhow\<close> error of the simulator
  is a constructor of \<open>sim_error\<close>; the text of a message is left out.
\<close>

section \<open>Configuration\<close>

record network_config =
  nc_smf_n4_addr :: ipv4
  nc_smf_n4_port :: u16
  nc_upf_n4_addr :: ipv4
  nc_upf_n4_port :: u16
  nc_gnb_addr :: ipv4
  nc_gnb_gtpu_port :: u16

record session_config =
  sc_ue_ip_pool_start :: ipv4
  sc_ue_ip_pool_end :: ipv4
  sc_gnb_teid_start :: u32
  sc_max_sessions :: u32

record timing_config =
  tc_heartbeat_interval_sec :: u64
  tc_response_timeout_ms :: u64
  tc_max_retries :: u32

record sim_config =
  cfg_network :: network_config
  cfg_session :: session_config
  cfg_timing :: timing_config

abbreviation default_pfcp_port :: u16 where "default_pfcp_port \<equiv> 8805"
abbreviation default_gtpu_port :: u16 where "default_gtpu_port \<equiv> 2152"
abbreviation default_gnb_teid_start :: u32 where "default_gnb_teid_start \<equiv> 0x80000001"
abbreviation default_max_sessions :: u32 where "default_max_sessions \<equiv> 100"
abbreviation default_heartbeat_interval :: u64 where "default_heartbeat_interval \<equiv> 15"
abbreviation default_response_timeout :: u64 where "default_response_timeout \<equiv> 5000"
abbreviation default_max_retries :: u32 where "default_max_retries \<equiv> 3"

section \<open>Errors\<close>

datatype sim_error =
    DecodeFailed pfcp_error
  | TypeMismatch u8 u8
  | SeqMismatch u32 u32
  | MandatoryIeMissing "string list"
  | CauseNotAccepted u8
  | NoFseid
  | NoCreatedPdr
  | NoFteid
  | UpfSeidZero
  | UpfTeidZero
  | UePoolExhausted
  | SendFailed
  | RecvFailed
  | TimedOut
  | NoLastError
  | NoReturn
  | ScenarioNotImplemented u8

section \<open>The simulator's state\<close>

record sim_session =
  ss_cp_seid :: u64
  ss_upf_seid :: u64
  ss_upf_teid :: u32
  ss_upf_n3_addr :: ipv4
  ss_ue_ip :: ipv4
  ss_gnb_teid :: u32
  ss_created_at :: instant

record sim_state =
  sim_next_ue_ip :: u32
  sim_ue_ip_end :: u32
  sim_next_gnb_teid :: u32
  sim_next_cp_seid :: u64
  sim_next_seq :: u32
  sim_sessions :: "u64 \<rightharpoonup> sim_session"
  sim_upf_recovery_ts :: "u32 option"
  sim_my_recovery_ts :: u32

definition sim_state_new :: "u64 \<Rightarrow> session_config \<Rightarrow> sim_state" where
  "sim_state_new unix_secs cfg = \<lparr>sim_next_ue_ip = u32_from_ip (sc_ue_ip_pool_start cfg),
     sim_ue_ip_end = u32_from_ip (sc_ue_ip_pool_end cfg), sim_next_gnb_teid = sc_gnb_teid_start cfg,
     sim_next_cp_seid = 1, sim_next_seq = 1, sim_sessions = Map.empty, sim_upf_recovery_ts = None,
     sim_my_recovery_ts = ucast unix_secs + 2208988800\<rparr>"

text \<open>\<^verbatim>\<open>Ipv4Addr::from(u32)\<close> of the standard library.\<close>

definition ip_from_u32 :: "u32 \<Rightarrow> ipv4" where
  "ip_from_u32 w = Ipv4Addr (ucast (drop_bit 24 w)) (ucast (drop_bit 16 w)) (ucast (drop_bit 8 w)) (ucast w)"

definition alloc_ue_ip :: "sim_state \<Rightarrow> sim_state \<times> (sim_error + ipv4)" where
  "alloc_ue_ip s =
     (if \<not> sim_next_ue_ip s \<le> sim_ue_ip_end s then (s, Inl UePoolExhausted)
      else (s\<lparr>sim_next_ue_ip := sim_next_ue_ip s + 1\<rparr>, Inr (ip_from_u32 (sim_next_ue_ip s))))"

definition alloc_gnb_teid :: "sim_state \<Rightarrow> sim_state \<times> u32" where
  "alloc_gnb_teid s = (s\<lparr>sim_next_gnb_teid := sim_next_gnb_teid s + 1\<rparr>, sim_next_gnb_teid s)"

definition alloc_cp_seid :: "sim_state \<Rightarrow> sim_state \<times> u64" where
  "alloc_cp_seid s = (s\<lparr>sim_next_cp_seid := sim_next_cp_seid s + 1\<rparr>, sim_next_cp_seid s)"

definition next_seq_num :: "sim_state \<Rightarrow> sim_state \<times> u32" where
  "next_seq_num s = (s\<lparr>sim_next_seq := sim_next_seq s + 1\<rparr>, sim_next_seq s)"

section \<open>Checks of a response\<close>

definition validate_response :: "u8 \<Rightarrow> u32 \<Rightarrow> bytes \<Rightarrow> sim_error + unit" where
  "validate_response req_type req_seq rsp =
     (case pfcp_header_decode rsp of Inl e \<Rightarrow> Inl (DecodeFailed e) | Inr (rsp_hdr, body) \<Rightarrow>
      let expected_type = req_type + 1 in
      if msg_type rsp_hdr \<noteq> expected_type then Inl (TypeMismatch expected_type (msg_type rsp_hdr))
      else if seq_num rsp_hdr \<noteq> req_seq then Inl (SeqMismatch req_seq (seq_num rsp_hdr))
      else
        let result = validate (msg_type rsp_hdr) body in
        if \<not> is_ok result then Inl (MandatoryIeMissing (missing result))
        else
          (case find (\<lambda>i. ie_type i = PFCP_IE_CAUSE) (iter_ies body) of
             None \<Rightarrow> Inr ()
           | Some cause \<Rightarrow>
               if ie_value cause \<noteq> [] \<and> ie_value cause ! 0 = CAUSE_REQUEST_ACCEPTED then Inr ()
               else Inl (CauseNotAccepted (case ie_value cause of [] \<Rightarrow> 0 | c # cs \<Rightarrow> c))))"

definition extract_session_info :: "bytes \<Rightarrow> sim_error + u64 \<times> u32 \<times> ipv4" where
  "extract_session_info rsp =
     (case pfcp_header_decode rsp of Inl e \<Rightarrow> Inl (DecodeFailed e) | Inr (hdr, body) \<Rightarrow>
      let ies = iter_ies body in
      case find (\<lambda>i. ie_type i = PFCP_IE_FSEID) ies of None \<Rightarrow> Inl NoFseid | Some fs \<Rightarrow>
      case parse_fseid (ie_value fs) of Inl e \<Rightarrow> Inl (DecodeFailed e) | Inr (upf_seid, addr) \<Rightarrow>
      if upf_seid = 0 then Inl UpfSeidZero
      else case find (\<lambda>i. ie_type i = PFCP_IE_CREATED_PDR) ies of None \<Rightarrow> Inl NoCreatedPdr | Some created_pdr \<Rightarrow>
      case find (\<lambda>i. ie_type i = PFCP_IE_FTEID) (iter_ies (ie_value created_pdr)) of
        None \<Rightarrow> Inl NoFteid
      | Some ft \<Rightarrow>
      case parse_fteid (ie_value ft) of Inl e \<Rightarrow> Inl (DecodeFailed e) | Inr (upf_teid, upf_n3_addr) \<Rightarrow>
      if upf_teid = 0 then Inl UpfTeidZero
      else Inr (upf_seid, upf_teid, upf_n3_addr))"

definition extract_recovery_ts :: "bytes \<Rightarrow> u32 option" where
  "extract_recovery_ts rsp =
     (case pfcp_header_decode rsp of Inl e \<Rightarrow> None | Inr (hdr, body) \<Rightarrow>
      Option.bind (find (\<lambda>i. ie_type i = PFCP_IE_RECOVERY_TIME_STAMP) (iter_ies body))
        (\<lambda>i. ok_of (parse_recovery_timestamp (ie_value i))))"

section \<open>Properties of the counters\<close>

interpretation gnb_teid_alloc: allocator alloc_gnb_teid sim_next_gnb_teid
  by unfold_locales (simp_all add: alloc_gnb_teid_def)

interpretation cp_seid_alloc: allocator alloc_cp_seid sim_next_cp_seid
  by unfold_locales (simp_all add: alloc_cp_seid_def)

interpretation seq_alloc: allocator next_seq_num sim_next_seq
  by unfold_locales (simp_all add: next_seq_num_def)

lemma octets_ip_from_u32: "octets (ip_from_u32 w) = to_be_bytes w"
  by (simp add: ip_from_u32_def wire)

lemma u32_from_ip_from_u32 [simp]: "u32_from_ip (ip_from_u32 w) = w"
  by (simp add: u32_from_ip_def octets_ip_from_u32 from_be_bytes_to_be_bytes)

lemma ip_from_u32_from_ip [simp]: "ip_from_u32 (u32_from_ip ip) = ip"
  by (rule u32_from_ip_inject [THEN iffD1]) simp

lemma ip_from_u32_inject [simp]: "ip_from_u32 a = ip_from_u32 b \<longleftrightarrow> a = b"
  by (metis u32_from_ip_from_u32)

lemma alloc_ue_ip_frame [simp]: "sim_ue_ip_end (fst (alloc_ue_ip s)) = sim_ue_ip_end s"
  by (simp add: alloc_ue_ip_def)

text \<open>What the pool hands out on its \<open>i\<close>-th call, counted from the current state.\<close>

definition pool_result :: "u32 \<Rightarrow> u32 \<Rightarrow> nat \<Rightarrow> sim_error + ipv4" where
  "pool_result first final i =
     (if unat first + i \<le> unat final then Inr (ip_from_u32 (first + of_nat i)) else Inl UePoolExhausted)"

lemma pool_results:
  assumes "unat (sim_ue_ip_end s) < 2 ^ 32 - 1"
  shows "snd (repeat_alloc alloc_ue_ip n s) = map (pool_result (sim_next_ue_ip s) (sim_ue_ip_end s)) [0..<n]"
  using assms
proof (induction n arbitrary: s)
  case (Suc n)
  let ?f = "sim_next_ue_ip s" and ?e = "sim_ue_ip_end s"
  have split: "map (pool_result ?f ?e) [0..<Suc n] =
      pool_result ?f ?e 0 # map (\<lambda>i. pool_result ?f ?e (Suc i)) [0..<n]"
    by (simp add: upt_conv_Cons map_Suc_upt [symmetric] del: upt_Suc)
  have shift: "pool_result ?f ?e (Suc i) = pool_result (sim_next_ue_ip (fst (alloc_ue_ip s))) ?e i" for i
  proof (cases "?f \<le> ?e")
    case True
    then have "unat (?f + 1) = unat ?f + 1"
      using Suc.prems by (simp add: unat_word_ariths word_le_nat_alt)
    with True show ?thesis
      by (simp add: pool_result_def alloc_ue_ip_def add.assoc)
  qed (simp add: pool_result_def alloc_ue_ip_def word_le_nat_alt)
  have "snd (alloc_ue_ip s) = pool_result ?f ?e 0"
    by (simp add: alloc_ue_ip_def pool_result_def word_le_nat_alt)
  with Suc.IH [of "fst (alloc_ue_ip s)"] Suc.prems show ?case
    unfolding split by (simp add: shift case_prod_beta Let_def)
qed simp

text \<open>
  C28: The UE address pool. As long as the pool does not end at 255.255.255.255, any number of
  requests is served with the consecutive addresses from the first to the last one of the pool,
  each of them once, and every further request fails with the pool error; no address outside the
  configured range is ever handed out.
\<close>

theorem ue_pool_exact:
  assumes "unat (u32_from_ip (sc_ue_ip_pool_end cfg)) < 2 ^ 32 - 1"
  shows "(let first = u32_from_ip (sc_ue_ip_pool_start cfg); final = u32_from_ip (sc_ue_ip_pool_end cfg);
        rs = snd (repeat_alloc alloc_ue_ip n (sim_state_new t cfg)) in
    length rs = n \<and>
    (\<forall>i < n. rs ! i = (if unat first + i \<le> unat final then Inr (ip_from_u32 (first + of_nat i)) else Inl UePoolExhausted)) \<and>
    (\<forall>i < n. \<forall>ip. rs ! i = Inr ip \<longrightarrow> first \<le> u32_from_ip ip \<and> u32_from_ip ip \<le> final) \<and>
    (\<forall>i < n. \<forall>j < n. \<forall>ip. rs ! i = Inr ip \<and> rs ! j = Inr ip \<longrightarrow> i = j))"
proof -
  define first where "first = u32_from_ip (sc_ue_ip_pool_start cfg)"
  define final where "final = u32_from_ip (sc_ue_ip_pool_end cfg)"
  define rs where "rs = snd (repeat_alloc alloc_ue_ip n (sim_state_new t cfg))"
  have rs: "rs = map (pool_result first final) [0..<n]"
    using pool_results [of "sim_state_new t cfg" n] assms(1)
    by (simp add: rs_def first_def final_def sim_state_new_def)
  have un: "unat (first + of_nat i) = unat first + i" if "unat first + i \<le> unat final" for i
  proof -
    have "unat final < 2 ^ 32" using unsigned_less [of final, where 'a = nat] by simp
    with that have "unat (of_nat i :: u32) = i" and "unat first + i < 2 ^ 32"
      by (simp_all add: unat_of_nat)
    then show ?thesis by (simp add: unat_word_ariths)
  qed
  have val: "unat first + i \<le> unat final \<and> unat (u32_from_ip ip) = unat first + i"
    if "i < n" "rs ! i = Inr ip" for i ip
    using that un [of i] by (auto simp: rs pool_result_def split: if_splits)
  then have "i = j" if "i < n" "j < n" "rs ! i = Inr ip" "rs ! j = Inr ip" for i j ip
    using that by (metis add_left_cancel)
  moreover have "first \<le> u32_from_ip ip \<and> u32_from_ip ip \<le> final" if "i < n" "rs ! i = Inr ip" for i ip
    using val [OF that] by (simp add: word_le_nat_alt)
  moreover have "length rs = n" and "\<forall>i < n. rs ! i = pool_result first final i"
    by (simp_all add: rs)
  ultimately show ?thesis
    unfolding Let_def first_def [symmetric] final_def [symmetric] rs_def [symmetric]
    by (auto simp: pool_result_def)
qed

theorem ue_pool_exact_witness:
  "snd (repeat_alloc alloc_ue_ip 3 (sim_state_new 0 \<lparr>sc_ue_ip_pool_start = Ipv4Addr 10 45 0 9,
     sc_ue_ip_pool_end = Ipv4Addr 10 45 0 10, sc_gnb_teid_start = 1, sc_max_sessions = 100\<rparr>)) ! 2 = Inl UePoolExhausted"
proof -
  let ?cfg = "\<lparr>sc_ue_ip_pool_start = Ipv4Addr 10 45 0 9, sc_ue_ip_pool_end = Ipv4Addr 10 45 0 10,
    sc_gnb_teid_start = 1, sc_max_sessions = 100\<rparr> :: session_config"
  have u: "u32_from_ip (Ipv4Addr 10 45 0 9) = 170721289" "u32_from_ip (Ipv4Addr 10 45 0 10) = 170721290"
    by (simp_all add: u32_from_ip_def from_be_bytes_def)
  have "unat (u32_from_ip (sc_ue_ip_pool_end ?cfg)) < 2 ^ 32 - 1"
    by (simp add: u)
  from ue_pool_exact [OF this, of 3 0] show ?thesis
    by (simp add: u Let_def)
qed

end
