(* ===== verification/Smf_Transport.thy ===== *)
theory Smf_Transport
  imports Smf_State
begin

text \<open>
  The request/response transport of the SMF simulator (src/smf-sim/src/transport.rs).

  Socket, clock and peer are outside the program: the record \<open>net\<close> holds what the code uses of
  them, over a state \<open>'p\<close> of the outside world. \<open>net_recv N p n\<close> waits at most \<open>n\<close> nanoseconds for a
  datagram. The receive loop reads the clock in every round and compares it with a fixed deadline. With a
  clock that stands still while datagrams keep coming it never ends, so it is a partial function: \<open>None\<close>
  says that it does not return. That it returns is a theorem about every network whose clock goes on
  when a datagram is received (\<open>ticking_net\<close>).
\<close>

section \<open>The outside world\<close>

datatype recv_outcome = Got socket_addr bytes | RecvErr | Elapsed

record 'p net =
  net_now :: "'p \<Rightarrow> instant"
  net_unix :: "'p \<Rightarrow> u64"
  net_send :: "'p \<Rightarrow> socket_addr \<Rightarrow> bytes \<Rightarrow> 'p \<times> bool"
  net_recv :: "'p \<Rightarrow> nat \<Rightarrow> 'p \<times> recv_outcome"
  net_sleep :: "'p \<Rightarrow> nat \<Rightarrow> 'p"

section \<open>The transport\<close>

record pfcp_transport =
  tr_peer_addr :: socket_addr
  tr_response_timeout :: nat
  tr_max_retries :: u32
  tr_last_activity :: instant

definition transport_new :: "instant \<Rightarrow> socket_addr \<Rightarrow> u64 \<Rightarrow> u32 \<Rightarrow> pfcp_transport" where
  "transport_new now peer timeout_ms retries = \<lparr>tr_peer_addr = peer,
     tr_response_timeout = millis (unat timeout_ms), tr_max_retries = retries, tr_last_activity = now\<rparr>"

definition handle_unsolicited :: "u64 \<Rightarrow> bytes \<Rightarrow> bytes option" where
  "handle_unsolicited unix_secs data =
     (case pfcp_header_decode data of Inl e \<Rightarrow> None | Inr (hdr, body) \<Rightarrow>
      if msg_type hdr = PFCP_HEARTBEAT_REQ
      then Some (build_heartbeat_response (seq_num hdr) (ucast unix_secs + 2208988800))
      else None)"

text \<open>One round of the inner loop on a datagram that is not the response.\<close>

definition answer_unsolicited :: "'p net \<Rightarrow> socket_addr \<Rightarrow> bytes \<Rightarrow> 'p \<Rightarrow> 'p" where
  "answer_unsolicited N src buf p =
     (case handle_unsolicited (net_unix N p) buf of
        None \<Rightarrow> p
      | Some rsp \<Rightarrow> fst (net_send N p src rsp))"

lemma case_sum_mono [partial_function_mono]:
  assumes "\<And>a. mono_option (\<lambda>f. F f a)" and "\<And>b. mono_option (\<lambda>f. G f b)"
  shows "mono_option (\<lambda>f. case r of Inl a \<Rightarrow> F f a | Inr b \<Rightarrow> G f b)"
  using assms by (cases r) simp_all

lemma case_recv_outcome_mono [partial_function_mono]:
  assumes "\<And>a d. mono_option (\<lambda>f. F f a d)" and "mono_option G" and "mono_option H"
  shows "mono_option (\<lambda>f. case out of Got a d \<Rightarrow> F f a d | RecvErr \<Rightarrow> G f | Elapsed \<Rightarrow> H f)"
  using assms by (cases out) simp_all

text \<open>The inner loop, until \<open>deadline\<close>.\<close>

partial_function (option) recv_loop :: "'p net \<Rightarrow> u8 \<Rightarrow> instant \<Rightarrow> 'p \<Rightarrow> ('p \<times> (sim_error + bytes)) option" where
  "recv_loop N expected deadline p =
     (let remaining = deadline - net_now N p in
      if remaining = 0 then Some (p, Inl TimedOut)
      else case net_recv N p remaining of (p1, out) \<Rightarrow>
        (case out of
           Elapsed \<Rightarrow> Some (p1, Inl TimedOut)
         | RecvErr \<Rightarrow> Some (p1, Inl RecvFailed)
         | Got src data \<Rightarrow>
             let buf = take 4096 data in
             case pfcp_header_decode buf of
               Inl e \<Rightarrow> recv_loop N expected deadline p1
             | Inr hb \<Rightarrow>
                 if msg_type (fst hb) = expected then Some (p1, Inr buf)
                 else recv_loop N expected deadline (answer_unsolicited N src buf p1)))"

text \<open>
  The loop over the attempts; \<open>last_err\<close> is unwrapped when they are used up. \<open>NoReturn\<close> is no error of
  the program: it is the value of a request whose receive loop does not return.
\<close>

fun attempt_loop :: "'p net \<Rightarrow> pfcp_transport \<Rightarrow> bytes \<Rightarrow> u8 \<Rightarrow> nat \<Rightarrow> sim_error option \<Rightarrow> 'p
    \<Rightarrow> pfcp_transport \<times> 'p \<times> (sim_error + bytes)" where
  "attempt_loop N tr msg expected 0 last_err p =
     (tr, p, Inl (case last_err of None \<Rightarrow> NoLastError | Some e \<Rightarrow> e))"
| "attempt_loop N tr msg expected (Suc n) last_err p =
     (case net_send N p (tr_peer_addr tr) msg of
        (p1, False) \<Rightarrow> (tr, p1, Inl SendFailed)
      | (p1, True) \<Rightarrow>
          (case recv_loop N expected (net_now N p1 + tr_response_timeout tr) p1 of
             None \<Rightarrow> (tr, p1, Inl NoReturn)
           | Some (p2, Inr buf) \<Rightarrow> (tr\<lparr>tr_last_activity := net_now N p2\<rparr>, p2, Inr buf)
           | Some (p2, Inl e) \<Rightarrow> attempt_loop N tr msg expected n (Some e) p2))"

definition send_and_recv :: "'p net \<Rightarrow> pfcp_transport \<Rightarrow> bytes \<Rightarrow> 'p
    \<Rightarrow> pfcp_transport \<times> 'p \<times> (sim_error + bytes)" where
  "send_and_recv N tr msg p =
     (case pfcp_header_decode msg of Inl e \<Rightarrow> (tr, p, Inl (DecodeFailed e)) | Inr (hdr, body) \<Rightarrow>
      attempt_loop N tr msg (msg_type hdr + 1) (unat (tr_max_retries tr) + 1) None p)"

section \<open>Properties\<close>

text \<open>
  A transmission counter of the outside world for one message \<open>m\<close> to one destination \<open>a\<close>:
  sending counts, receiving does not.
\<close>

definition counts_sends :: "'p net \<Rightarrow> socket_addr \<Rightarrow> bytes \<Rightarrow> ('p \<Rightarrow> nat) \<Rightarrow> bool" where
  "counts_sends N a m c \<longleftrightarrow>
     (\<forall>p b d. c (fst (net_send N p b d)) = c p + (if b = a \<and> d = m then 1 else 0)) \<and>
     (\<forall>p n. c (fst (net_recv N p n)) = c p)"

lemma counts_sendsD:
  assumes "counts_sends N a m c"
  shows "net_send N p b d = (p', ok) \<Longrightarrow> c p' = c p + (if b = a \<and> d = m then 1 else 0)"
    and "net_recv N p n = (p', r) \<Longrightarrow> c p' = c p"
  using assms by (metis counts_sends_def fst_conv)+

lemma heartbeat_response_decodes:
  assumes "unat sq < 2 ^ 24"
  shows "\<exists>h. pfcp_header_decode (build_heartbeat_response sq ts) =
      Inr (h, tlv PFCP_IE_RECOVERY_TIME_STAMP (to_be_bytes ts)) \<and> msg_type h = PFCP_HEARTBEAT_RSP \<and>
    seq_num h = sq \<and> seid h = None"
  unfolding build_heartbeat_response_def
  by (rule node_message [OF assms]) (simp add: add_recovery_timestamp_def)

lemma heartbeat_response_type:
  assumes "pfcp_header_decode buf = Inr (h, body)"
  shows "\<exists>h' body'. pfcp_header_decode (build_heartbeat_response (seq_num h) ts) = Inr (h', body') \<and>
    msg_type h' = PFCP_HEARTBEAT_RSP"
  using heartbeat_response_decodes [of "seq_num h" ts] decoded_wf(1) [OF assms] by (auto simp: wf_header_def)

lemma answer_unsolicited_count:
  assumes "counts_sends N a m c" "\<And>h body. pfcp_header_decode m = Inr (h, body) \<Longrightarrow> msg_type h \<noteq> PFCP_HEARTBEAT_RSP"
  shows "c (answer_unsolicited N src buf p) = c p"
proof (cases "handle_unsolicited (net_unix N p) buf")
  case (Some rsp)
  then obtain h body where "pfcp_header_decode buf = Inr (h, body)"
      and r: "rsp = build_heartbeat_response (seq_num h) (ucast (net_unix N p) + 2208988800)"
    by (auto simp: handle_unsolicited_def split: sum.splits if_splits)
  then have "rsp \<noteq> m"
    using heartbeat_response_type assms(2) by blast
  with Some assms(1) show ?thesis
    by (simp add: answer_unsolicited_def counts_sends_def)
qed (simp add: answer_unsolicited_def)

lemma recv_loop_result:
  assumes "counts_sends N a m c" "\<And>h body. pfcp_header_decode m = Inr (h, body) \<Longrightarrow> msg_type h \<noteq> PFCP_HEARTBEAT_RSP"
    and "recv_loop N expected deadline p = Some (p', r)"
  shows "c p' = c p \<and>
    (case r of
       Inl e \<Rightarrow> e \<in> {TimedOut, RecvFailed}
     | Inr buf \<Rightarrow> \<exists>h body. pfcp_header_decode buf = Inr (h, body) \<and> msg_type h = expected)"
proof -
  let ?P = "\<lambda>N' t (d :: instant) q res. N' = N \<longrightarrow> c (fst res) = c q \<and>
    (case snd res of
       Inl e \<Rightarrow> e \<in> {TimedOut, RecvFailed}
     | Inr buf \<Rightarrow> \<exists>h body. pfcp_header_decode buf = Inr (h, body) \<and> msg_type h = t)"
  note keep = counts_sendsD(2) [OF assms(1)] answer_unsolicited_count [OF assms(1,2)]
  have "?P N expected deadline p (p', r)"
    by (rule recv_loop.raw_induct [where P = ?P, OF _ assms(3)])
      (force simp: Let_def keep split: if_splits prod.splits recv_outcome.splits sum.splits)
  then show ?thesis by simp
qed

section \<open>The clock\<close>

text \<open>
  What the loops of the simulator rely on: receiving a datagram takes time, and sending does not turn the
  clock back.
\<close>

locale ticking_net =
  fixes N :: "'p net"
  assumes send_now: "net_send N p a d = (p1, ok) \<Longrightarrow> net_now N p \<le> net_now N p1"
    and recv_got: "net_recv N p n = (p1, Got src d) \<Longrightarrow> net_now N p < net_now N p1"
begin

lemma answer_now: "net_now N p \<le> net_now N (answer_unsolicited N src buf p)"
  using send_now by (auto simp: answer_unsolicited_def split: option.split) (metis prod.collapse)

lemma recv_loop_returns: "\<exists>p' r. recv_loop N expected deadline p = Some (p', r)"
proof (induction "deadline - net_now N p" arbitrary: p rule: less_induct)
  case less
  obtain p1 out where recv: "net_recv N p (deadline - net_now N p) = (p1, out)" by force
  have later: "\<exists>p' r. recv_loop N expected deadline q = Some (p', r)"
    if "out = Got src d" "net_now N p < deadline" "net_now N p1 \<le> net_now N q" for src d q
    using recv_got [OF recv [unfolded that(1)]] that by (intro less) simp
  show ?case
    using recv later answer_now [of p1]
    by (subst recv_loop.simps) (auto simp: Let_def split: recv_outcome.splits sum.splits)
qed

lemma attempt_loop_result:
  assumes "counts_sends N (tr_peer_addr tr) msg c"
    and "\<And>h body. pfcp_header_decode msg = Inr (h, body) \<Longrightarrow> msg_type h \<noteq> PFCP_HEARTBEAT_RSP"
    and "attempt_loop N tr msg expected n last_err p = (tr', p', r)"
    and "last_err \<noteq> None \<or> n > 0" "set_option last_err \<subseteq> {TimedOut, RecvFailed}"
  shows "c p' \<le> c p + n \<and>
    (case r of
       Inr buf \<Rightarrow> tr' = tr\<lparr>tr_last_activity := net_now N p'\<rparr> \<and> c p < c p' \<and>
         (\<exists>h body. pfcp_header_decode buf = Inr (h, body) \<and> msg_type h = expected)
     | Inl e \<Rightarrow> tr' = tr \<and>
         (e = SendFailed \<and> (\<exists>q. net_send N q (tr_peer_addr tr) msg = (p', False)) \<or>
          e \<in> {TimedOut, RecvFailed} \<and> c p' = c p + n))"
  using assms(3-)
proof (induction n arbitrary: last_err p)
  case (Suc n)
  obtain p1 ok where s: "net_send N p (tr_peer_addr tr) msg = (p1, ok)" by fastforce
  have c1: "c p1 = c p + 1" using counts_sendsD(1) [OF assms(1) s] by simp
  obtain p2 r2 where rl: "recv_loop N expected (net_now N p1 + tr_response_timeout tr) p1 = Some (p2, r2)"
    using recv_loop_returns by metis
  note res = recv_loop_result [OF assms(1,2) rl]
  show ?case
  proof (cases "ok \<and> (\<exists>e. r2 = Inl e)")
    case True
    then obtain e where e: "r2 = Inl e" "ok" by blast
    with Suc.prems s rl have "attempt_loop N tr msg expected n (Some e) p2 = (tr', p', r)" by simp
    from Suc.IH [OF this] e res c1 show ?thesis by (auto split: sum.splits)
  next
    case False
    with Suc.prems s rl c1 res show ?thesis
      by (cases r2) (auto split: if_splits bool.splits)
  qed
qed auto

end


text \<open>
  A network that delivers a given list of datagrams and then nothing; its state is the clock, the
  datagrams to come and the number of transmissions of one message to one address.
\<close>

definition scripted_net :: "socket_addr \<Rightarrow> bytes \<Rightarrow> (nat \<times> recv_outcome list \<times> nat) net" where
  "scripted_net a m = \<lparr>net_now = fst, net_unix = (\<lambda>p. 0),
     net_send = (\<lambda>(t, os, k) b d. ((t, os, k + (if b = a \<and> d = m then 1 else 0)), True)),
     net_recv = (\<lambda>(t, os, k) n. case os of [] \<Rightarrow> ((t + n, [], k), Elapsed) | r # rs \<Rightarrow> ((t + 1, rs, k), r)),
     net_sleep = (\<lambda>(t, os, k) n. (t + n, os, k))\<rparr>"

definition demo_peer :: socket_addr where
  "demo_peer = SocketV4 (Ipv4Addr 10 0 0 2) 8805"

lemma scripted_counts: "counts_sends (scripted_net a m) a m (snd \<circ> snd)"
  by (auto simp: counts_sends_def scripted_net_def split: list.split)

interpretation scripted: ticking_net "scripted_net a m" for a m
  by unfold_locales (auto simp: scripted_net_def split: list.splits)

lemma scripted_recv:
  "0 < n \<Longrightarrow> recv_loop (scripted_net a m) t (T + n) (T, [], k) = Some ((T + n, [], k), Inl TimedOut)"
  by (subst recv_loop.simps) (simp add: scripted_net_def)

lemma scripted_times_out:
  assumes "0 < tr_response_timeout tr"
  shows "snd (snd (attempt_loop (scripted_net a m) tr msg t (Suc n) last_err (T, [], k))) = Inl TimedOut"
proof (induction n arbitrary: last_err T k)
  case (Suc n)
  then show ?case
    by (subst attempt_loop.simps(2))
      (simp add: scripted_recv [OF assms] scripted_net_def [THEN arg_cong [where f = net_send]] scripted_net_def [THEN arg_cong [where f = net_now]]
        del: attempt_loop.simps)
qed (simp add: scripted_recv [OF assms] scripted_net_def [THEN arg_cong [where f = net_send]] scripted_net_def [THEN arg_cong [where f = net_now]])


text \<open>
  C37: Responses are matched by type only. When the first datagram that arrives is a response of the
  expected type with another sequence number, for instance the late answer to an earlier request,
  it is returned as the answer, the validation of the sequence number then fails the request, and
  the answer that follows is never read.
\<close>

theorem stale_response_fails_request:
  assumes "pfcp_header_decode msg = Inr (h, body)" "net_send N p (tr_peer_addr tr) msg = (p1, True)"
    and "net_recv N p1 (tr_response_timeout tr) = (p2, Got src stale)" "0 < tr_response_timeout tr"
    and "length stale \<le> 4096" "pfcp_header_decode stale = Inr (h', body')"
    and "msg_type h' = msg_type h + 1" "seq_num h' \<noteq> seq_num h"
  shows "send_and_recv N tr msg p = (tr\<lparr>tr_last_activity := net_now N p2\<rparr>, p2, Inr stale) \<and>
    validate_response (msg_type h) (seq_num h) stale = Inl (SeqMismatch (seq_num h) (seq_num h'))"
proof -
  have "recv_loop N (msg_type h + 1) (net_now N p1 + tr_response_timeout tr) p1 = Some (p2, Inr stale)"
    using assms by (subst recv_loop.simps) (simp add: Let_def)
  with assms show ?thesis
    by (simp add: send_and_recv_def validate_response_def Let_def)
qed

theorem stale_response_fails_request_witness:
  "snd (snd (send_and_recv (scripted_net demo_peer (mb_finish (mb_new (new_node_msg PFCP_HEARTBEAT_REQ 7))))
     (transport_new 0 demo_peer 5000 3)
     (mb_finish (mb_new (new_node_msg PFCP_HEARTBEAT_REQ 7)))
     (0, [Got demo_peer (build_heartbeat_response 6 99), Got demo_peer (build_heartbeat_response 7 99)], 0)))
   = Inr (build_heartbeat_response 6 99)"
proof -
  let ?m = "mb_finish (mb_new (new_node_msg PFCP_HEARTBEAT_REQ 7))"
  let ?N = "scripted_net demo_peer ?m"
  let ?os = "[Got demo_peer (build_heartbeat_response 6 99), Got demo_peer (build_heartbeat_response 7 99)]"
  have q: "unat (7 :: u32) < 2 ^ 24" "unat (6 :: u32) < 2 ^ 24" by simp_all
  from decode_finish [OF wf_node_msg [OF q(1), of PFCP_HEARTBEAT_REQ], of "mb_new (new_node_msg PFCP_HEARTBEAT_REQ 7)" "[]"]
  obtain h body where d: "pfcp_header_decode ?m = Inr (h, body)" "msg_type h = PFCP_HEARTBEAT_REQ" "seq_num h = 7"
    by (simp add: new_node_msg_def)
  obtain h' where d': "pfcp_header_decode (build_heartbeat_response 6 99) =
      Inr (h', tlv PFCP_IE_RECOVERY_TIME_STAMP (to_be_bytes (99 :: u32)))" "msg_type h' = PFCP_HEARTBEAT_RSP" "seq_num h' = 6"
    using heartbeat_response_decodes [OF q(2)] by metis
  have "length (build_heartbeat_response 6 99) \<le> 4096"
    by (simp add: build_heartbeat_response_def mb_finish_def add_recovery_timestamp_def length_pfcp_header_encode
        header_len_def Let_def)
  moreover have "net_send ?N (0, ?os, 0) (tr_peer_addr (transport_new 0 demo_peer 5000 3)) ?m = ((0, ?os, 1), True)"
    and "net_recv ?N (0, ?os, 1) (tr_response_timeout (transport_new 0 demo_peer 5000 3)) =
      ((1, tl ?os, 1), Got demo_peer (build_heartbeat_response 6 99))"
    and "0 < tr_response_timeout (transport_new 0 demo_peer 5000 3)"
    by (simp_all add: scripted_net_def transport_new_def)
  ultimately show ?thesis
    using stale_response_fails_request [OF d(1) _ _ _ _ d'(1)] d(2,3) d'(2,3) by fastforce
qed

end
