(* ===== verification/Smf_Client.thy ===== *)
theory Smf_Client
  imports Smf_Transport
begin

text \<open>
  What the SMF simulator does with its transport: the single-message commands and the report
  listener of src/smf-sim/src/main.rs, the keep-alive of keepalive.rs and the scenario of
  scenario/basic_lifecycle.rs. An operation takes the world \<open>'p\<close> and returns it with the transport,
  the simulator's state and a result. \<open>rts\<close> is the value that \<^verbatim>\<open>recovery_ts()\<close> fixes at its first
  call. The retry loop of the scenario may never end: \<open>associate_loop\<close> is then \<open>None\<close>.
\<close>

section \<open>Requests and exchanges\<close>

definition recovery_ts_init :: "u64 \<Rightarrow> u32" where
  "recovery_ts_init unix_secs = ucast unix_secs + 2208988800"

definition heartbeat_request :: "u32 \<Rightarrow> u32 \<Rightarrow> bytes" where
  "heartbeat_request sq ts = mb_finish (add_recovery_timestamp ts (mb_new (new_node_msg PFCP_HEARTBEAT_REQ sq)))"

definition association_request :: "u32 \<Rightarrow> ipv4 \<Rightarrow> u32 \<Rightarrow> bytes" where
  "association_request sq smf_addr ts =
     mb_finish (add_recovery_timestamp ts (add_node_id_v4 smf_addr
       (mb_new (new_node_msg PFCP_ASSOCIATION_SETUP_REQ sq))))"

definition deletion_request :: "u64 \<Rightarrow> u32 \<Rightarrow> bytes" where
  "deletion_request upf_seid sq = mb_finish (mb_new (new_session_msg PFCP_SESSION_DELETION_REQ upf_seid sq))"

text \<open>Send a request, wait for the answer and validate it.\<close>

definition exchange :: "'p net \<Rightarrow> pfcp_transport \<Rightarrow> u8 \<Rightarrow> u32 \<Rightarrow> bytes \<Rightarrow> 'p
    \<Rightarrow> pfcp_transport \<times> 'p \<times> (sim_error + bytes)" where
  "exchange N tr req_type sq req p =
     (case send_and_recv N tr req p of
        (tr1, p1, Inl e) \<Rightarrow> (tr1, p1, Inl e)
      | (tr1, p1, Inr rsp) \<Rightarrow>
          (case validate_response req_type sq rsp of
             Inl e \<Rightarrow> (tr1, p1, Inl e)
           | Inr u \<Rightarrow> (tr1, p1, Inr rsp)))"

section \<open>Single messages\<close>

definition send_heartbeat :: "'p net \<Rightarrow> u32 \<Rightarrow> pfcp_transport \<Rightarrow> 'p \<Rightarrow> pfcp_transport \<times> 'p \<times> (sim_error + unit)" where
  "send_heartbeat N rts tr p =
     (case exchange N tr PFCP_HEARTBEAT_REQ 1 (heartbeat_request 1 rts) p of
        (tr1, p1, r) \<Rightarrow> (tr1, p1, map_sum id (\<lambda>_. ()) r))"

definition send_association_setup ::
  "'p net \<Rightarrow> u32 \<Rightarrow> ipv4 \<Rightarrow> pfcp_transport \<Rightarrow> 'p \<Rightarrow> pfcp_transport \<times> 'p \<times> (sim_error + unit)" where
  "send_association_setup N rts smf_addr tr p =
     (case exchange N tr PFCP_ASSOCIATION_SETUP_REQ 1 (association_request 1 smf_addr rts) p of
        (tr1, p1, r) \<Rightarrow> (tr1, p1, map_sum id (\<lambda>_. ()) r))"

definition send_session_deletion ::
  "'p net \<Rightarrow> u64 \<Rightarrow> pfcp_transport \<Rightarrow> 'p \<Rightarrow> pfcp_transport \<times> 'p \<times> (sim_error + unit)" where
  "send_session_deletion N upf_seid tr p =
     (case exchange N tr PFCP_SESSION_DELETION_REQ 99 (deletion_request upf_seid 99) p of
        (tr1, p1, r) \<Rightarrow> (tr1, p1, map_sum id (\<lambda>_. ()) r))"

text \<open>The modification command checks the type of the answer only.\<close>

definition modify_urr_request :: "u64 \<Rightarrow> u64 option \<Rightarrow> u32 option \<Rightarrow> bytes" where
  "modify_urr_request sd volth period =
     mb_finish (add_update_urr \<lparr>up_urr_id = 1, up_measurement_method = MEASUREMENT_METHOD_VOLUM,
         up_reporting_triggers = REPORTING_TRIGGER_VOLTH OR REPORTING_TRIGGER_PERIO,
         up_volume_threshold_total = volth, up_measurement_period = period\<rparr>
       (mb_new (new_session_msg PFCP_SESSION_MODIFICATION_REQ sd 3)))"

definition send_session_modification ::
  "'p net \<Rightarrow> u64 \<Rightarrow> u64 option \<Rightarrow> u32 option \<Rightarrow> pfcp_transport \<Rightarrow> 'p \<Rightarrow> pfcp_transport \<times> 'p \<times> (sim_error + unit)" where
  "send_session_modification N sd volth period tr p =
     (case send_and_recv N tr (modify_urr_request sd volth period) p of
        (tr1, p1, Inl e) \<Rightarrow> (tr1, p1, Inl e)
      | (tr1, p1, Inr rsp) \<Rightarrow>
          (case pfcp_header_decode rsp of
             Inl e \<Rightarrow> (tr1, p1, Inl (DecodeFailed e))
           | Inr (hdr, body) \<Rightarrow>
               if msg_type hdr = PFCP_SESSION_MODIFICATION_RSP then (tr1, p1, Inr ())
               else (tr1, p1, Inl (TypeMismatch PFCP_SESSION_MODIFICATION_RSP (msg_type hdr)))))"

subsection \<open>Listening for usage reports\<close>

record usage_report =
  ur_urr_id :: u32
  ur_trigger :: u16
  ur_total :: u64
  ur_ul :: u64
  ur_dl :: u64

definition usage_report_step :: "raw_ie \<Rightarrow> usage_report \<Rightarrow> usage_report" where
  "usage_report_step ie r =
     (let v = ie_value ie in
      if ie_type ie = PFCP_IE_URR_ID \<and> length v \<ge> 4 then r\<lparr>ur_urr_id := from_be_bytes (take 4 v)\<rparr>
      else if ie_type ie = PFCP_IE_USAGE_REPORT_TRIGGER \<and> length v \<ge> 2 then r\<lparr>ur_trigger := ucast (v ! 0)\<rparr>
      else if ie_type ie = PFCP_IE_VOLUME_MEASUREMENT \<and> length v \<ge> 25 then
        r\<lparr>ur_total := from_be_bytes (take 8 (drop 1 v)), ur_ul := from_be_bytes (take 8 (drop 9 v)),
          ur_dl := from_be_bytes (take 8 (drop 17 v))\<rparr>
      else r)"

definition usage_report_of :: "bytes \<Rightarrow> usage_report" where
  "usage_report_of v = fold usage_report_step (iter_ies v)
     \<lparr>ur_urr_id = 0, ur_trigger = 0, ur_total = 0, ur_ul = 0, ur_dl = 0\<rparr>"

definition usage_reports :: "bytes \<Rightarrow> usage_report list" where
  "usage_reports body = map (\<lambda>outer. usage_report_of (ie_value outer))
     (filter (\<lambda>outer. ie_type outer = PFCP_IE_USAGE_REPORT_IN_SESS_RPT_REQ) (iter_ies body))"

text \<open>The reports are those the program prints, in order, each with the SEID of its message.\<close>

partial_function (option) report_loop :: "'p net \<Rightarrow> instant \<Rightarrow> (u64 \<times> usage_report) list \<Rightarrow> 'p
    \<Rightarrow> ('p \<times> (u64 \<times> usage_report) list \<times> (sim_error + unit)) option" where
  "report_loop N deadline seen p =
     (let remaining = deadline - net_now N p in
      if remaining = 0 then Some (p, seen, Inr ())
      else case net_recv N p remaining of (p1, out) \<Rightarrow>
        (case out of
           Elapsed \<Rightarrow> Some (p1, seen, Inr ())
         | RecvErr \<Rightarrow> Some (p1, seen, Inl RecvFailed)
         | Got src data \<Rightarrow>
            (case pfcp_header_decode (take 2048 data) of
               Inl e \<Rightarrow> report_loop N deadline seen p1
             | Inr hb \<Rightarrow>
                 if msg_type (fst hb) = PFCP_SESSION_REPORT_REQ then
                   let sd = (case seid (fst hb) of None \<Rightarrow> 0 | Some s \<Rightarrow> s);
                       seen' = seen @ map (Pair sd) (usage_reports (snd hb))
                   in (case net_send N p1 src (build_session_report_response (seq_num (fst hb)) sd) of (p2, ok) \<Rightarrow>
                       if ok then report_loop N deadline seen' p2 else Some (p2, seen', Inl SendFailed))
                 else report_loop N deadline seen p1)))"

definition wait_and_handle_reports :: "'p net \<Rightarrow> u64 \<Rightarrow> 'p \<Rightarrow> ('p \<times> (u64 \<times> usage_report) list \<times> (sim_error + unit)) option" where
  "wait_and_handle_reports N seconds p = report_loop N (net_now N p + secs (unat seconds)) [] p"

context ticking_net
begin

lemma report_loop_returns: "\<exists>res. report_loop N deadline seen p = Some res"
proof (induction "deadline - net_now N p" arbitrary: seen p rule: less_induct)
  case less
  obtain p1 out where recv: "net_recv N p (deadline - net_now N p) = (p1, out)" by force
  have later: "\<exists>res. report_loop N deadline seen' q = Some res"
    if "out = Got src d" "net_now N p < deadline" "net_now N p1 \<le> net_now N q" for src d seen' q
    using recv_got [OF recv [unfolded that(1)]] that by (intro less) simp
  show ?case
    using recv later send_now [of p1]
    by (subst report_loop.simps) (auto simp: Let_def split: recv_outcome.splits sum.splits prod.splits)
qed

end

subsection \<open>The establishment command\<close>

definition cli_pdrs :: "ipv4 \<Rightarrow> pdr_params list" where
  "cli_pdrs ue_ip =
    [\<lparr>pp_pdr_id = 1, pp_precedence = 100, pp_source_interface = INTERFACE_ACCESS, pp_fteid_choose = False,
      pp_ue_ip = Some ue_ip, pp_far_id = 1, pp_urr_id = Some 1, pp_outer_header_removal = False,
      pp_sdf_filter = Some \<lparr>sdf_proto = 6, sdf_src_ip = UNSPECIFIED, sdf_dst_ip = UNSPECIFIED,
        sdf_src_port = 0, sdf_dst_port = 0\<rparr>\<rparr>,
     \<lparr>pp_pdr_id = 2, pp_precedence = 200, pp_source_interface = INTERFACE_ACCESS, pp_fteid_choose = False,
      pp_ue_ip = Some ue_ip, pp_far_id = 3, pp_urr_id = None, pp_outer_header_removal = False,
      pp_sdf_filter = None\<rparr>,
     \<lparr>pp_pdr_id = 3, pp_precedence = 100, pp_source_interface = INTERFACE_CORE, pp_fteid_choose = False,
      pp_ue_ip = Some ue_ip, pp_far_id = 2, pp_urr_id = Some 1, pp_outer_header_removal = False,
      pp_sdf_filter = None\<rparr>]"

definition cli_fars :: "ipv4 \<Rightarrow> u32 \<Rightarrow> far_params list" where
  "cli_fars gnb_addr gnb_teid =
    [\<lparr>fp_far_id = 1, fp_apply_action = ACTION_FORW, fp_dest_interface = INTERFACE_CORE,
      fp_outer_header_creation = None\<rparr>,
     \<lparr>fp_far_id = 2, fp_apply_action = ACTION_FORW, fp_dest_interface = INTERFACE_ACCESS,
      fp_outer_header_creation = Some \<lparr>ohc_teid = gnb_teid, ohc_peer_addr = gnb_addr, ohc_port = 2152\<rparr>\<rparr>,
     \<lparr>fp_far_id = 3, fp_apply_action = ACTION_DROP, fp_dest_interface = INTERFACE_CORE,
      fp_outer_header_creation = None\<rparr>]"

definition cli_urr :: urr_params where
  "cli_urr = \<lparr>up_urr_id = 1, up_measurement_method = MEASUREMENT_METHOD_VOLUM,
     up_reporting_triggers = REPORTING_TRIGGER_VOLTH OR REPORTING_TRIGGER_PERIO,
     up_volume_threshold_total = Some 10000, up_measurement_period = Some 30\<rparr>"

definition cli_establishment_request :: "sim_config \<Rightarrow> ipv4 \<Rightarrow> bytes" where
  "cli_establishment_request cfg ue_ip =
     (let smf = nc_smf_n4_addr (cfg_network cfg);
          msg = mb_new (new_session_msg PFCP_SESSION_ESTABLISHMENT_REQ 0 2);
          msg = add_fseid 1 smf (add_node_id_v4 smf msg);
          msg = fold add_create_pdr (cli_pdrs ue_ip) msg;
          msg = fold add_create_far (cli_fars (nc_gnb_addr (cfg_network cfg)) (sc_gnb_teid_start (cfg_session cfg))) msg
      in mb_finish (add_create_urr cli_urr msg))"

definition send_session_establishment :: "'p net \<Rightarrow> sim_config \<Rightarrow> ipv4 \<Rightarrow> u64 \<Rightarrow> pfcp_transport \<Rightarrow> 'p
    \<Rightarrow> pfcp_transport \<times> 'p \<times> (u64 \<times> usage_report) list \<times> (sim_error + u64 \<times> u32 \<times> ipv4)" where
  "send_session_establishment N cfg ue_ip wait tr p =
     (case exchange N tr PFCP_SESSION_ESTABLISHMENT_REQ 2 (cli_establishment_request cfg ue_ip) p of
        (tr1, p1, Inl e) \<Rightarrow> (tr1, p1, [], Inl e)
      | (tr1, p1, Inr rsp) \<Rightarrow>
          (case extract_session_info rsp of
             Inl e \<Rightarrow> (tr1, p1, [], Inl e)
           | Inr info \<Rightarrow>
               if wait > 0 then
                 (case wait_and_handle_reports N wait p1 of
                    None \<Rightarrow> (tr1, p1, [], Inl NoReturn)
                  | Some (p2, reports, ignored) \<Rightarrow> (tr1, p2, reports, Inr info))
               else (tr1, p1, [], Inr info)))"

section \<open>Keep-alive\<close>

record keepalive_state =
  ka_seq :: u32
  ka_upf_ts :: u64
  ka_restarts :: "u32 list"

definition ka_next_seq :: "keepalive_state \<Rightarrow> keepalive_state \<times> u32" where
  "ka_next_seq ka = (ka\<lparr>ka_seq := ka_seq ka + 1\<rparr>, ka_seq ka)"

definition do_association :: "'p net \<Rightarrow> u32 \<Rightarrow> ipv4 \<Rightarrow> u32 \<Rightarrow> pfcp_transport \<Rightarrow> 'p
    \<Rightarrow> pfcp_transport \<times> 'p \<times> (sim_error + u32 option)" where
  "do_association N rts smf_addr sq tr p =
     (case exchange N tr PFCP_ASSOCIATION_SETUP_REQ sq (association_request sq smf_addr rts) p of
        (tr1, p1, r) \<Rightarrow> (tr1, p1, map_sum id extract_recovery_ts r))"

text \<open>The re-association both branches run: a time stamp in the answer replaces the stored one.\<close>

definition reassociate :: "'p net \<Rightarrow> u32 \<Rightarrow> ipv4 \<Rightarrow> pfcp_transport \<Rightarrow> keepalive_state \<Rightarrow> 'p
    \<Rightarrow> pfcp_transport \<times> keepalive_state \<times> 'p" where
  "reassociate N rts smf_addr tr ka p =
     (let (ka1, sq) = ka_next_seq ka in
      case do_association N rts smf_addr sq tr p of
        (tr1, p1, Inr (Some ts)) \<Rightarrow> (tr1, ka1\<lparr>ka_upf_ts := ucast ts\<rparr>, p1)
      | (tr1, p1, r) \<Rightarrow> (tr1, ka1, p1))"

text \<open>One round of the endless loop of \<^verbatim>\<open>keepalive::run\<close>, its sleeps included.\<close>

definition ka_round :: "'p net \<Rightarrow> nat \<Rightarrow> u32 \<Rightarrow> ipv4 \<Rightarrow> pfcp_transport \<Rightarrow> keepalive_state \<Rightarrow> 'p
    \<Rightarrow> pfcp_transport \<times> keepalive_state \<times> 'p" where
  "ka_round N interval rts smf_addr tr ka p =
     (let idle = elapsed (net_now N p) (tr_last_activity tr) in
      if idle \<ge> interval then
        let (ka1, sq) = ka_next_seq ka;
            (tr', ka', p') =
              (case send_and_recv N tr (heartbeat_request sq rts) p of
                 (tr1, p1, Inr rsp) \<Rightarrow>
                   (case extract_recovery_ts rsp of
                      None \<Rightarrow> (tr1, ka1, p1)
                    | Some recv \<Rightarrow>
                        let stored = ucast (ka_upf_ts ka1) :: u32 in
                        if stored = 0 then (tr1, ka1\<lparr>ka_upf_ts := ucast recv\<rparr>, p1)
                        else if stored \<noteq> recv then
                          reassociate N rts smf_addr tr1
                            (ka1\<lparr>ka_upf_ts := ucast recv, ka_restarts := ka_restarts ka1 @ [recv]\<rparr>) p1
                        else (tr1, ka1, p1))
               | (tr1, p1, Inl e) \<Rightarrow> reassociate N rts smf_addr tr1 ka1 (net_sleep N p1 (secs 5)))
        in (tr', ka', net_sleep N p' interval)
      else (tr, ka, net_sleep N p (interval - idle)))"

section \<open>Scenario 1: basic lifecycle\<close>

text \<open>Seconds to wait before the next attempt; the product wraps at 64 bits.\<close>

definition backoff_secs :: "u32 \<Rightarrow> u64" where
  "backoff_secs cnt_tries = min (3 * 2 ^ unat (cnt_tries - 1)) 30"

partial_function (option) associate_loop :: "'p net \<Rightarrow> ipv4 \<Rightarrow> u32 \<Rightarrow> pfcp_transport \<Rightarrow> sim_state \<Rightarrow> u32 \<Rightarrow> 'p
    \<Rightarrow> (pfcp_transport \<times> sim_state \<times> u32 \<times> 'p \<times> bytes) option" where
  "associate_loop N smf_addr rts tr s cnt_tries p =
     (let (s1, sq) = next_seq_num s;
          tries = cnt_tries + 1;
          (tr1, p1, r) = exchange N tr PFCP_ASSOCIATION_SETUP_REQ sq (association_request sq smf_addr rts) p
      in case r of
           Inl e \<Rightarrow> associate_loop N smf_addr rts tr1 s1 tries (net_sleep N p1 (secs (unat (backoff_secs tries))))
         | Inr rsp \<Rightarrow> Some (tr1, s1, tries, p1, rsp))"

definition lifecycle_sdf :: "ipv4 \<Rightarrow> ipv4 \<Rightarrow> sdf_filter" where
  "lifecycle_sdf ue_ip gnb_addr = \<lparr>sdf_proto = 0x06, sdf_src_ip = ue_ip, sdf_dst_ip = gnb_addr,
     sdf_src_port = 1234, sdf_dst_port = 5678\<rparr>"

definition lifecycle_pdrs :: "ipv4 \<Rightarrow> ipv4 \<Rightarrow> pdr_params list" where
  "lifecycle_pdrs ue_ip gnb_addr =
    [\<lparr>pp_pdr_id = 1, pp_precedence = 100, pp_source_interface = INTERFACE_ACCESS, pp_fteid_choose = True,
      pp_ue_ip = Some ue_ip, pp_far_id = 1, pp_urr_id = None, pp_outer_header_removal = True,
      pp_sdf_filter = Some (lifecycle_sdf ue_ip gnb_addr)\<rparr>,
     \<lparr>pp_pdr_id = 2, pp_precedence = 100, pp_source_interface = INTERFACE_CORE, pp_fteid_choose = False,
      pp_ue_ip = Some ue_ip, pp_far_id = 2, pp_urr_id = None, pp_outer_header_removal = False,
      pp_sdf_filter = Some (lifecycle_sdf ue_ip gnb_addr)\<rparr>]"

definition tunnel_far :: "ipv4 \<Rightarrow> u32 \<Rightarrow> far_params" where
  "tunnel_far gnb_addr gnb_teid = \<lparr>fp_far_id = 2, fp_apply_action = ACTION_FORW,
     fp_dest_interface = INTERFACE_ACCESS, fp_outer_header_creation =
       Some \<lparr>ohc_teid = gnb_teid, ohc_peer_addr = gnb_addr, ohc_port = 2152\<rparr>\<rparr>"

definition lifecycle_fars :: "ipv4 \<Rightarrow> u32 \<Rightarrow> far_params list" where
  "lifecycle_fars gnb_addr gnb_teid =
    [\<lparr>fp_far_id = 1, fp_apply_action = ACTION_FORW, fp_dest_interface = INTERFACE_CORE,
      fp_outer_header_creation = None\<rparr>, tunnel_far gnb_addr gnb_teid]"

definition lifecycle_establishment_request :: "network_config \<Rightarrow> u32 \<Rightarrow> u64 \<Rightarrow> ipv4 \<Rightarrow> u32 \<Rightarrow> bytes" where
  "lifecycle_establishment_request net sq cp_seid ue_ip gnb_teid =
     (let smf = nc_smf_n4_addr net;
          msg = mb_new (new_session_msg PFCP_SESSION_ESTABLISHMENT_REQ 0 sq);
          msg = add_fseid cp_seid smf (add_node_id_v4 smf msg);
          msg = fold add_create_pdr (lifecycle_pdrs ue_ip (nc_gnb_addr net)) msg
      in mb_finish (fold add_create_far (lifecycle_fars (nc_gnb_addr net) gnb_teid) msg))"

text \<open>Step 2: identifiers are taken before the request is sent and are not given back.\<close>

definition lifecycle_establish :: "'p net \<Rightarrow> network_config \<Rightarrow> pfcp_transport \<Rightarrow> sim_state \<Rightarrow> 'p
    \<Rightarrow> pfcp_transport \<times> sim_state \<times> 'p \<times> (sim_error + sim_session)" where
  "lifecycle_establish N net tr s p =
     (case alloc_ue_ip s of (s1, Inl e) \<Rightarrow> (tr, s1, p, Inl e) | (s1, Inr ue_ip) \<Rightarrow>
      let (s2, gnb_teid) = alloc_gnb_teid s1; (s3, cp_seid) = alloc_cp_seid s2; (s4, sq) = next_seq_num s3 in
      case exchange N tr PFCP_SESSION_ESTABLISHMENT_REQ sq
             (lifecycle_establishment_request net sq cp_seid ue_ip gnb_teid) p of
        (tr1, p1, Inl e) \<Rightarrow> (tr1, s4, p1, Inl e)
      | (tr1, p1, Inr rsp) \<Rightarrow>
          (case extract_session_info rsp of
             Inl e \<Rightarrow> (tr1, s4, p1, Inl e)
           | Inr (upf_seid, upf_teid, upf_n3_addr) \<Rightarrow>
               let session = \<lparr>ss_cp_seid = cp_seid, ss_upf_seid = upf_seid, ss_upf_teid = upf_teid,
                     ss_upf_n3_addr = upf_n3_addr, ss_ue_ip = ue_ip, ss_gnb_teid = gnb_teid,
                     ss_created_at = net_now N p1\<rparr>
               in (tr1, s4\<lparr>sim_sessions := (sim_sessions s4)(cp_seid \<mapsto> session)\<rparr>, p1, Inr session)))"

definition lifecycle_modification_request :: "network_config \<Rightarrow> u64 \<Rightarrow> u32 \<Rightarrow> bytes" where
  "lifecycle_modification_request net upf_seid sq =
     mb_finish (add_update_far (tunnel_far (nc_gnb_addr net) 0xdeadbeef)
       (mb_new (new_session_msg PFCP_SESSION_MODIFICATION_REQ upf_seid sq)))"

definition lifecycle_modify :: "'p net \<Rightarrow> network_config \<Rightarrow> u64 \<Rightarrow> pfcp_transport \<Rightarrow> sim_state \<Rightarrow> 'p
    \<Rightarrow> pfcp_transport \<times> sim_state \<times> 'p \<times> (sim_error + bytes)" where
  "lifecycle_modify N net upf_seid tr s p =
     (let (s1, sq) = next_seq_num s in
      case exchange N tr PFCP_SESSION_MODIFICATION_REQ sq (lifecycle_modification_request net upf_seid sq) p of
        (tr1, p1, r) \<Rightarrow> (tr1, s1, p1, r))"

definition lifecycle_delete :: "'p net \<Rightarrow> u64 \<Rightarrow> u64 \<Rightarrow> pfcp_transport \<Rightarrow> sim_state \<Rightarrow> 'p
    \<Rightarrow> pfcp_transport \<times> sim_state \<times> 'p \<times> (sim_error + bytes)" where
  "lifecycle_delete N cp_seid upf_seid tr s p =
     (let (s1, sq) = next_seq_num s in
      case exchange N tr PFCP_SESSION_DELETION_REQ sq (deletion_request upf_seid sq) p of
        (tr1, p1, Inl e) \<Rightarrow> (tr1, s1, p1, Inl e)
      | (tr1, p1, Inr rsp) \<Rightarrow> (tr1, s1\<lparr>sim_sessions := (sim_sessions s1)(cp_seid := None)\<rparr>, p1, Inr rsp))"

text \<open>Steps 2 to 5, after the association.\<close>

definition lifecycle_session :: "'p net \<Rightarrow> sim_config \<Rightarrow> pfcp_transport \<Rightarrow> sim_state \<Rightarrow> 'p
    \<Rightarrow> pfcp_transport \<times> sim_state \<times> 'p \<times> (sim_error + unit)" where
  "lifecycle_session N cfg tr s p =
     (case lifecycle_establish N (cfg_network cfg) tr s p of
        (tr1, s1, p1, Inl e) \<Rightarrow> (tr1, s1, p1, Inl e)
      | (tr1, s1, p1, Inr session) \<Rightarrow>
      let wait_secs = tc_heartbeat_interval_sec (cfg_timing cfg) * 3 + 5;
          p2 = net_sleep N p1 (secs (unat wait_secs)) in
      case lifecycle_modify N (cfg_network cfg) (ss_upf_seid session) tr1 s1 p2 of
        (tr3, s3, p3, Inl e) \<Rightarrow> (tr3, s3, p3, Inl e)
      | (tr3, s3, p3, Inr rsp) \<Rightarrow>
      case lifecycle_delete N (ss_cp_seid session) (ss_upf_seid session) tr3 s3 p3 of
        (tr4, s4, p4, r) \<Rightarrow> (tr4, s4, p4, map_sum id (\<lambda>_. ()) r))"

definition basic_lifecycle_run :: "'p net \<Rightarrow> sim_config \<Rightarrow> u32 \<Rightarrow> pfcp_transport \<Rightarrow> sim_state \<Rightarrow> 'p
    \<Rightarrow> (pfcp_transport \<times> sim_state \<times> 'p \<times> (sim_error + unit)) option" where
  "basic_lifecycle_run N cfg rts tr s p =
     map_option (\<lambda>(tr1, s1, tries, p1, rsp). lifecycle_session N cfg tr1 s1 p1)
       (associate_loop N (nc_smf_n4_addr (cfg_network cfg)) rts tr s 0 p)"

section \<open>Properties\<close>

text \<open>
  The wait between association attempts doubles from three seconds and is capped at thirty, for
  the first 64 attempts; from the 65th attempt on the power wraps to zero and the scenario retries
  without waiting.
\<close>

theorem backoff_wraps:
  assumes "0 < cnt_tries"
  shows "unat (backoff_secs cnt_tries) =
    (if unat cnt_tries \<le> 64 then min (3 * 2 ^ (unat cnt_tries - 1)) 30 else 0)"
proof -
  let ?n = "unat cnt_tries - 1"
  have n: "unat (cnt_tries - 1) = ?n"
    using assms by (simp add: unat_minus_one word_gt_0)
  have eval: "unat (3 * 2 ^ k :: u64) = 3 * 2 ^ k mod 2 ^ 64" for k
    using unat_of_nat [of "3 * 2 ^ k", where 'a = 64] by simp
  have product: "min (unat (3 * 2 ^ k :: u64)) 30 = (if k < 64 then min (3 * 2 ^ k) 30 else 0)" for k
  proof -
    consider "k < 63" | "k = 63" | "63 < k" by linarith
    then show ?thesis
    proof cases
      assume "k < 63"
      then have "3 * 2 ^ k \<le> 3 * (2 :: nat) ^ 62"
        by (intro mult_left_mono power_increasing) simp_all
      with \<open>k < 63\<close> show ?thesis by (simp add: eval)
    next
      assume "63 < k"
      then have "(2 :: nat) ^ 64 dvd 3 * 2 ^ k"
        by (intro dvd_mult le_imp_power_dvd) simp
      with \<open>63 < k\<close> show ?thesis by (simp add: eval mod_eq_0_iff_dvd del: power_numeral)
    qed (simp add: eval)
  qed
  have "unat (backoff_secs cnt_tries) = min (unat (3 * 2 ^ ?n :: u64)) 30"
    by (simp add: backoff_secs_def n min_def word_le_nat_alt)
  also have "\<dots> = (if ?n < 64 then min (3 * 2 ^ ?n) 30 else 0)"
    by (rule product)
  finally show ?thesis
    using assms by (auto simp: word_less_nat_alt)
qed

theorem backoff_wraps_witness: "unat (backoff_secs 65) = 0" "unat (backoff_secs 3) = 12"
  using backoff_wraps [of 65] backoff_wraps [of 3] by simp_all

text \<open>
  C23: Usage reports round trip between the two programs: the Session Report Request the UPF builds is
  recognised by the simulator's listener under the session's CP SEID, and the listener reads back
  exactly one report with the URR, the trigger and the three volumes.
\<close>

theorem report_request_roundtrip:
  assumes "unat sq < 2 ^ 24"
  shows "\<exists>h body. pfcp_header_decode (build_session_report_request sq cp urr ur_seqn trigger tot ul dl) = Inr (h, body) \<and>
    msg_type h = PFCP_SESSION_REPORT_REQ \<and> seid h = Some cp \<and> seq_num h = sq \<and>
    usage_reports body = [\<lparr>ur_urr_id = urr, ur_trigger = ucast trigger, ur_total = tot, ur_ul = ul, ur_dl = dl\<rparr>] \<and>
    is_ok (validate PFCP_SESSION_REPORT_REQ body)"
proof -
  let ?v = "usage_report_value urr ur_seqn trigger tot ul dl"
  let ?body = "tlv PFCP_IE_REPORT_TYPE [REPORT_TYPE_USAR] @ tlv PFCP_IE_USAGE_REPORT_IN_SESS_RPT_REQ ?v"
  have len: "length ?v < 65536"
    by (simp add: usage_report_value_def append_ie_tlv Let_def)
  have h: "\<exists>h. pfcp_header_decode (build_session_report_request sq cp urr ur_seqn trigger tot ul dl) = Inr (h, ?body) \<and>
      msg_type h = PFCP_SESSION_REPORT_REQ \<and> seq_num h = sq \<and> seid h = Some cp"
    unfolding build_session_report_request_def Let_def by (rule session_message [OF assms]) simp
  have "usage_report_of ?v = \<lparr>ur_urr_id = urr, ur_trigger = ucast trigger, ur_total = tot, ur_ul = ul, ur_dl = dl\<rparr>"
    by (simp add: usage_report_of_def usage_report_value_def append_ie_tlv Let_def usage_report_step_def wire)
  with len have "usage_reports ?body = [\<lparr>ur_urr_id = urr, ur_trigger = ucast trigger, ur_total = tot, ur_ul = ul, ur_dl = dl\<rparr>]"
    and "is_ok (validate PFCP_SESSION_REPORT_REQ ?body)"
    by (simp_all add: usage_reports_def validate_def is_ok_def dict_lookup_def PFCP_DICT_def ie_spec_of_def Let_def)
  with h show ?thesis by blast
qed

theorem report_request_roundtrip_witness:
  "\<exists>h body. pfcp_header_decode (build_session_report_request 1000 5 1 0 2 300 100 200) = Inr (h, body) \<and>
     map ur_total (usage_reports body) = [300]"
  using report_request_roundtrip [of 1000 5 1 0 2 300 100 200] by fastforce

end
