(* ===== verification/Smf_Upf.thy ===== *)
theory Smf_Upf
  imports Upf_Datapath Smf_Client
begin

text \<open>
  The two programs together. First, every answer the UPF gives passes the checks the simulator
  makes on it: the contract \<open>answering_handler\<close>, interpreted for the five handlers. Then the
  simulator runs against a UPF at the other end of its socket (\<open>upf_net\<close>): a datagram sent to the
  UPF's address is served by \<open>serve_datagram\<close>, whose reply arrives at the simulator unless the
  network loses it.
\<close>

section \<open>Answers pass the validation of the receiver\<close>

lemma validate_responseI:
  assumes "pfcp_header_decode r = Inr (h, body)" "msg_type h = t + 1" "seq_num h = sq"
    and "is_ok (validate (t + 1) body)"
    and "\<And>c. find (\<lambda>i. ie_type i = PFCP_IE_CAUSE) (iter_ies body) = Some c \<Longrightarrow> ie_value c = [CAUSE_REQUEST_ACCEPTED]"
  shows "validate_response t sq r = Inr ()"
  using assms by (auto simp: validate_response_def Let_def split: option.splits)

lemmas validate_defs = validate_def is_ok_def dict_lookup_def PFCP_DICT_def ie_spec_of_def

lemma iter_created_pdrs:
  "iter_ies (concat (map (\<lambda>(pid, td, ip). tlv PFCP_IE_CREATED_PDR (created_pdr_value pid td ip)) cs)) =
     map (\<lambda>(pid, td, ip). raw_of PFCP_IE_CREATED_PDR (created_pdr_value pid td ip)) cs"
proof (induction cs)
  case (Cons c cs)
  obtain pid td ip where "c = (pid, td, ip)" by (metis prod_cases3)
  with Cons show ?case by (simp add: created_pdr_value_def append_ie_tlv)
qed (simp add: iter_ies.simps)

definition establishment_answer_body :: "ipv4 \<Rightarrow> u64 \<Rightarrow> (u16 \<times> u32 \<times> ipv4) list \<Rightarrow> bytes" where
  "establishment_answer_body n3 sid cs =
     tlv PFCP_IE_NODE_ID (node_id_value n3) @ tlv PFCP_IE_CAUSE [CAUSE_REQUEST_ACCEPTED] @
     tlv PFCP_IE_FSEID (fseid_value (sid, n3)) @
     concat (map (\<lambda>(pid, td, ip). tlv PFCP_IE_CREATED_PDR (created_pdr_value pid td ip)) cs)"

lemma iter_establishment_answer:
  "iter_ies (establishment_answer_body n3 sid cs) =
     raw_of PFCP_IE_NODE_ID (node_id_value n3) # raw_of PFCP_IE_CAUSE [CAUSE_REQUEST_ACCEPTED] #
     raw_of PFCP_IE_FSEID (fseid_value (sid, n3)) #
     map (\<lambda>(pid, td, ip). raw_of PFCP_IE_CREATED_PDR (created_pdr_value pid td ip)) cs"
  by (simp add: establishment_answer_body_def iter_created_pdrs)

lemma establishment_answer_decodes:
  assumes "unat sq < 2 ^ 24"
  shows "\<exists>h. pfcp_header_decode (build_session_establishment_response sq cp sid n3 cs) =
      Inr (h, establishment_answer_body n3 sid cs) \<and> msg_type h = PFCP_SESSION_ESTABLISHMENT_RSP \<and>
    seq_num h = sq \<and> seid h = Some cp"
  unfolding build_session_establishment_response_def Let_def
  by (rule session_message [OF assms])
    (simp add: establishment_answer_body_def add_node_id_v4_def add_cause_def add_fseid_def)

text \<open>What the simulator reads from the answer to an establishment.\<close>

lemma extract_session_info_answer:
  assumes "unat sq < 2 ^ 24" "sid \<noteq> 0" "td \<noteq> 0"
  shows "extract_session_info (build_session_establishment_response sq cp sid n3 ((pid, td, ip) # cs)) = Inr (sid, td, ip)"
proof -
  have "iter_ies (created_pdr_value pid td ip) =
      [raw_of PFCP_IE_PDR_ID (to_be_bytes pid), raw_of PFCP_IE_FTEID (fteid_value (td, ip))]"
    by (simp add: created_pdr_value_def append_ie_tlv)
  with establishment_answer_decodes [OF assms(1), of cp sid n3 "(pid, td, ip) # cs"] assms(2,3) show ?thesis
    by (auto simp: extract_session_info_def iter_establishment_answer fseid.dec_enc fteid.dec_enc Let_def)
qed

text \<open>
  The contract of a handler for requests of type \<open>t\<close>: an answer it gives is the message type that
  follows the request, carries the request's sequence number, has all mandatory elements and
  accepts the request.
\<close>

locale answering_handler =
  fixes t :: u8 and handle :: "upf_env \<Rightarrow> pfcp_header \<Rightarrow> bytes \<Rightarrow> socket_addr \<Rightarrow> upf_state \<Rightarrow> upf_state \<times> (handler_error + bytes)"
  assumes answer_valid: "handle E hdr body src st = (st', Inr r) \<Longrightarrow> unat (seq_num hdr) < 2 ^ 24 \<Longrightarrow>
      validate_response t (seq_num hdr) r = Inr ()"
begin

lemma answer_type:
  assumes "handle E hdr body src st = (st', Inr r)" "unat (seq_num hdr) < 2 ^ 24"
  obtains h body' where "pfcp_header_decode r = Inr (h, body')" "msg_type h = t + 1" "seq_num h = seq_num hdr"
  using answer_valid [OF assms] by (auto simp: validate_response_def Let_def split: sum.splits if_splits)

lemma answer_not_empty:
  assumes "handle E hdr body src st = (st', Inr r)" "unat (seq_num hdr) < 2 ^ 24"
  shows "r \<noteq> []"
  using answer_valid [OF assms] by (auto simp: validate_response_def pfcp_header_decode_def)

end

lemma heartbeat_answer: "unat sq < 2 ^ 24 \<Longrightarrow> validate_response PFCP_HEARTBEAT_REQ sq (build_heartbeat_response sq ts) = Inr ()"
  using heartbeat_response_decodes [of sq ts]
  by (auto intro!: validate_responseI simp: validate_defs)

lemma association_answer_decodes:
  assumes "unat sq < 2 ^ 24"
  shows "\<exists>h. pfcp_header_decode (build_association_setup_response sq n3 ts) =
      Inr (h, tlv PFCP_IE_NODE_ID (node_id_value n3) @ tlv PFCP_IE_CAUSE [CAUSE_REQUEST_ACCEPTED] @
        tlv PFCP_IE_RECOVERY_TIME_STAMP (to_be_bytes ts) @ tlv PFCP_IE_UP_FUNCTION_FEATURES [0x04, 0x00]) \<and>
    msg_type h = PFCP_ASSOCIATION_SETUP_RSP \<and> seq_num h = sq \<and> seid h = None"
  unfolding build_association_setup_response_def Let_def
  by (rule node_message [OF assms])
    (simp add: add_node_id_v4_def add_cause_def add_recovery_timestamp_def add_up_function_features_def)

lemma association_answer:
  "unat sq < 2 ^ 24 \<Longrightarrow> validate_response PFCP_ASSOCIATION_SETUP_REQ sq (build_association_setup_response sq n3 ts) = Inr ()"
  using association_answer_decodes [of sq n3 ts]
  by (auto intro!: validate_responseI simp: validate_defs)

lemma establishment_answer:
  "unat sq < 2 ^ 24 \<Longrightarrow>
    validate_response PFCP_SESSION_ESTABLISHMENT_REQ sq (build_session_establishment_response sq cp sid n3 cs) = Inr ()"
  using establishment_answer_decodes [of sq cp sid n3 cs]
  by (auto intro!: validate_responseI simp: validate_defs iter_establishment_answer)

lemma cause_answer:
  assumes "unat sq < 2 ^ 24" "t + 1 \<in> {PFCP_SESSION_MODIFICATION_RSP, PFCP_SESSION_DELETION_RSP}"
  shows "validate_response t sq (mb_finish (add_cause CAUSE_REQUEST_ACCEPTED (mb_new (new_session_msg (t + 1) sd sq)))) = Inr ()"
proof -
  have "\<exists>h. pfcp_header_decode (mb_finish (add_cause CAUSE_REQUEST_ACCEPTED (mb_new (new_session_msg (t + 1) sd sq)))) =
      Inr (h, tlv PFCP_IE_CAUSE [CAUSE_REQUEST_ACCEPTED]) \<and> msg_type h = t + 1 \<and> seq_num h = sq \<and> seid h = Some sd"
    by (rule session_message [OF assms(1)]) (simp add: add_cause_def)
  with assms(2) show ?thesis
    by (auto intro!: validate_responseI simp: validate_defs)
qed

interpretation heartbeat_handler: answering_handler PFCP_HEARTBEAT_REQ handle_heartbeat
  by unfold_locales (auto simp: handle_heartbeat_def Let_def heartbeat_answer)

interpretation association_handler: answering_handler PFCP_ASSOCIATION_SETUP_REQ handle_session_association
  by unfold_locales (auto simp: handle_session_association_def Let_def association_answer split: sum.splits if_splits)

interpretation establishment_handler: answering_handler PFCP_SESSION_ESTABLISHMENT_REQ handle_session_establishment
  by unfold_locales (erule establishment_okE, simp add: establishment_answer)

interpretation modification_handler: answering_handler PFCP_SESSION_MODIFICATION_REQ handle_session_modification
  using cause_answer [of _ PFCP_SESSION_MODIFICATION_REQ]
  by unfold_locales (auto simp: handle_session_modification_def build_session_modification_response_def Let_def
      split: sum.splits option.splits prod.splits if_splits)

interpretation deletion_handler: answering_handler PFCP_SESSION_DELETION_REQ handle_session_deletion
  using cause_answer [of _ PFCP_SESSION_DELETION_REQ]
  by unfold_locales (auto simp: handle_session_deletion_def build_session_deletion_response_def Let_def
      split: sum.splits prod.splits)

lemma answers_validate:
  assumes "pfcp_header_decode data = Inr (hdr, body)" "serve_datagram E data src st = (st', Some r)"
  shows "validate_response (msg_type hdr) (seq_num hdr) r = Inr ()"
proof -
  have sq: "unat (seq_num hdr) < 2 ^ 24"
    using decoded_wf(1) [OF assms(1)] by (simp add: wf_header_def)
  show ?thesis
    using assms sq heartbeat_handler.answer_valid association_handler.answer_valid establishment_handler.answer_valid
      modification_handler.answer_valid deletion_handler.answer_valid
    by (auto simp: serve_datagram_def handle_message_def split: prod.splits sum.splits if_splits)
qed

text \<open>
  C17: Whatever the state of the UPF and whatever request arrives, an answer it sends is a
  well-formed message that the simulator's validation of that very request accepts: its type
  follows the request's, the sequence number is the request's, no mandatory element is missing and
  the cause is acceptance.
\<close>

theorem upf_answers_validate:
  assumes "pfcp_header_decode data = Inr (hdr, body)" "serve_datagram E data src st = (st', Some r)"
  shows "validate_response (msg_type hdr) (seq_num hdr) r = Inr ()"
  using assms by (rule answers_validate)

lemma heartbeat_request_header:
  assumes "unat sq < 2 ^ 24"
  shows "\<exists>h. pfcp_header_decode (heartbeat_request sq ts) =
      Inr (h, tlv PFCP_IE_RECOVERY_TIME_STAMP (to_be_bytes ts)) \<and> msg_type h = PFCP_HEARTBEAT_REQ \<and> seq_num h = sq \<and>
    seid h = None"
  unfolding heartbeat_request_def by (rule node_message [OF assms]) (simp add: add_recovery_timestamp_def)

lemma heartbeat_served:
  assumes "pfcp_header_decode data = Inr (hdr, body)" "msg_type hdr = PFCP_HEARTBEAT_REQ"
  shows "\<exists>st' r. serve_datagram E data src st = (st', Some r)"
proof -
  have sq: "unat (seq_num hdr) < 2 ^ 24"
    using decoded_wf(1) [OF assms(1)] by (simp add: wf_header_def)
  obtain st' r where hh: "handle_heartbeat E hdr body src (st\<lparr>st_server := touch_activity (env_now E) (st_server st)\<rparr>) = (st', Inr r)"
    by (simp add: handle_heartbeat_def Let_def)
  with heartbeat_handler.answer_not_empty [OF hh sq] assms show ?thesis
    by (simp add: serve_datagram_def handle_message_def)
qed

theorem upf_answers_validate_witness:
  "\<exists>st' r. serve_datagram (demo_upf_env []) (heartbeat_request 7 99) demo_src demo_state = (st', Some r) \<and>
     validate_response PFCP_HEARTBEAT_REQ 7 r = Inr ()"
proof -
  have q: "unat (7 :: u32) < 2 ^ 24" by simp
  obtain h where h: "pfcp_header_decode (heartbeat_request 7 99) =
      Inr (h, tlv PFCP_IE_RECOVERY_TIME_STAMP (to_be_bytes (99 :: u32)))" "msg_type h = PFCP_HEARTBEAT_REQ" "seq_num h = 7"
    using heartbeat_request_header [OF q, of 99] by blast
  from heartbeat_served [OF h(1,2)] obtain st' r
    where r: "serve_datagram (demo_upf_env []) (heartbeat_request 7 99) demo_src demo_state = (st', Some r)" by blast
  from upf_answers_validate [OF h(1) r] r h(2,3) show ?thesis by auto
qed

section \<open>The simulator at one end, the UPF at the other\<close>

record upf_link =
  lk_upf :: upf_state
  lk_inbox :: "bytes list"
  lk_lost :: "bool list"
  lk_clock :: nat

text \<open>A reply reaches the simulator unless the network loses it; \<open>lk_lost\<close> says which ones are lost.\<close>

definition deliver :: "upf_link \<Rightarrow> bytes option \<Rightarrow> upf_link" where
  "deliver l out =
     (case out of None \<Rightarrow> l | Some r \<Rightarrow>
      (case lk_lost l of
         [] \<Rightarrow> l\<lparr>lk_inbox := lk_inbox l @ [r]\<rparr>
       | b # bs \<Rightarrow> l\<lparr>lk_lost := bs, lk_inbox := (if b then lk_inbox l else lk_inbox l @ [r])\<rparr>))"

definition upf_net :: "upf_env \<Rightarrow> socket_addr \<Rightarrow> socket_addr \<Rightarrow> upf_link net" where
  "upf_net E smf upf = \<lparr>
     net_now = lk_clock,
     net_unix = (\<lambda>l. of_nat (lk_clock l div secs 1)),
     net_send = (\<lambda>l a d. if a \<noteq> upf then (l, True)
        else (let (st', out) = serve_datagram (E\<lparr>env_now := lk_clock l\<rparr>) d smf (lk_upf l)
              in (deliver (l\<lparr>lk_upf := st'\<rparr>) out, True))),
     net_recv = (\<lambda>l n. case lk_inbox l of
          [] \<Rightarrow> (l\<lparr>lk_clock := lk_clock l + n\<rparr>, Elapsed)
        | r # rs \<Rightarrow> (l\<lparr>lk_inbox := rs, lk_clock := lk_clock l + 1\<rparr>, Got upf r)),
     net_sleep = (\<lambda>l n. l\<lparr>lk_clock := lk_clock l + n\<rparr>)\<rparr>"

lemma upf_net_sel [simp]:
  "net_now (upf_net E smf upf) = lk_clock"
  "net_sleep (upf_net E smf upf) l n = l\<lparr>lk_clock := lk_clock l + n\<rparr>"
  by (simp_all add: upf_net_def)

lemma upf_net_send:
  "serve_datagram (E\<lparr>env_now := lk_clock l\<rparr>) d smf (lk_upf l) = (st', out) \<Longrightarrow>
    net_send (upf_net E smf upf) l upf d = (deliver (l\<lparr>lk_upf := st'\<rparr>) out, True)"
  by (simp add: upf_net_def)

lemma upf_net_recv:
  "lk_inbox l = [] \<Longrightarrow> net_recv (upf_net E smf upf) l n = (l\<lparr>lk_clock := lk_clock l + n\<rparr>, Elapsed)"
  "lk_inbox l = r # rs \<Longrightarrow> net_recv (upf_net E smf upf) l n = (l\<lparr>lk_inbox := rs, lk_clock := lk_clock l + 1\<rparr>, Got upf r)"
  by (simp_all add: upf_net_def)

lemma recv_loop_inbox:
  assumes "lk_inbox l = r # rs" "pfcp_header_decode r = Inr (h, body)" "length r \<le> 4096" "lk_clock l < d"
  shows "recv_loop (upf_net E smf upf) (msg_type h) d l = Some (l\<lparr>lk_inbox := rs, lk_clock := lk_clock l + 1\<rparr>, Inr r)"
  using assms by (subst recv_loop.simps) (simp add: upf_net_recv(2) Let_def)

text \<open>A request the UPF answers, over a network that does not lose the answer.\<close>

definition quiet :: "upf_link \<Rightarrow> bool" where
  "quiet l \<longleftrightarrow> lk_inbox l = [] \<and> lk_lost l = []"

lemma attempt_answered:
  assumes "pfcp_header_decode req = Inr (hdr, body)" "quiet l" "tr_peer_addr tr = upf" "0 < tr_response_timeout tr"
    and "serve_datagram (E\<lparr>env_now := lk_clock l\<rparr>) req smf (lk_upf l) = (st', Some r)" "length r \<le> 4096"
  shows "attempt_loop (upf_net E smf upf) tr req (msg_type hdr + 1) (Suc n) err l =
    (tr\<lparr>tr_last_activity := lk_clock l + 1\<rparr>, l\<lparr>lk_upf := st', lk_clock := lk_clock l + 1\<rparr>, Inr r)"
proof -
  obtain h b where h: "pfcp_header_decode r = Inr (h, b)" "msg_type h = msg_type hdr + 1"
    using answers_validate [OF assms(1,5)] by (auto simp: validate_response_def Let_def split: sum.splits if_splits)
  let ?l = "l\<lparr>lk_upf := st', lk_inbox := [r]\<rparr>"
  have s: "net_send (upf_net E smf upf) l (tr_peer_addr tr) req = (?l, True)"
    using upf_net_send [OF assms(5)] assms(2,3) by (simp add: deliver_def quiet_def)
  have "recv_loop (upf_net E smf upf) (msg_type hdr + 1) (lk_clock l + tr_response_timeout tr) ?l =
      Some (?l\<lparr>lk_inbox := [], lk_clock := lk_clock ?l + 1\<rparr>, Inr r)"
    using recv_loop_inbox [of ?l r "[]" h b] h assms(4,6) by simp
  moreover have "?l\<lparr>lk_inbox := [], lk_clock := lk_clock ?l + 1\<rparr> = l\<lparr>lk_upf := st', lk_clock := lk_clock l + 1\<rparr>"
    using assms(2) by (simp add: quiet_def)
  ultimately show ?thesis
    using s by simp
qed

lemma exchange_answered:
  assumes "pfcp_header_decode req = Inr (hdr, body)" "quiet l" "tr_peer_addr tr = upf" "0 < tr_response_timeout tr"
    and "serve_datagram (E\<lparr>env_now := lk_clock l\<rparr>) req smf (lk_upf l) = (st', Some r)" "length r \<le> 4096"
  shows "exchange (upf_net E smf upf) tr (msg_type hdr) (seq_num hdr) req l =
    (tr\<lparr>tr_last_activity := lk_clock l + 1\<rparr>, l\<lparr>lk_upf := st', lk_clock := lk_clock l + 1\<rparr>, Inr r)"
  using attempt_answered [OF assms] answers_validate [OF assms(1,5)] assms(1)
  by (simp add: exchange_def send_and_recv_def del: attempt_loop.simps)

text \<open>The first answer is lost: the timeout passes and the UPF serves the same request again.\<close>

definition lossy :: "upf_link \<Rightarrow> bool" where
  "lossy l \<longleftrightarrow> lk_inbox l = [] \<and> lk_lost l = [True]"

lemma exchange_retried:
  fixes l :: upf_link
  assumes "pfcp_header_decode req = Inr (hdr, body)" "lossy l" "tr_peer_addr tr = upf" "0 < tr_response_timeout tr"
    and "0 < tr_max_retries tr"
    and "serve_datagram (E\<lparr>env_now := lk_clock l\<rparr>) req smf (lk_upf l) = (st1, Some r1)"
    and "serve_datagram (E\<lparr>env_now := lk_clock l + tr_response_timeout tr\<rparr>) req smf st1 = (st', Some r)" "length r \<le> 4096"
  defines "t \<equiv> lk_clock l + tr_response_timeout tr + 1"
  shows "exchange (upf_net E smf upf) tr (msg_type hdr) (seq_num hdr) req l =
    (tr\<lparr>tr_last_activity := t\<rparr>, l\<lparr>lk_upf := st', lk_lost := [], lk_clock := t\<rparr>, Inr r)"
proof -
  let ?l = "l\<lparr>lk_upf := st1, lk_lost := []\<rparr>"
  let ?l2 = "?l\<lparr>lk_clock := lk_clock l + tr_response_timeout tr\<rparr>"
  have s: "net_send (upf_net E smf upf) l (tr_peer_addr tr) req = (?l, True)"
    using upf_net_send [OF assms(6)] assms(2,3) by (simp add: deliver_def lossy_def)
  have rl: "recv_loop (upf_net E smf upf) (msg_type hdr + 1) (lk_clock l + tr_response_timeout tr) ?l = Some (?l2, Inl TimedOut)"
    using assms(2,4) by (subst recv_loop.simps) (simp add: upf_net_recv(1) lossy_def)
  obtain n where n: "unat (tr_max_retries tr) = Suc n"
    using assms(5) by (metis gr0_implies_Suc unat_gt_0 word_gt_0)
  have "attempt_loop (upf_net E smf upf) tr req (msg_type hdr + 1) (Suc n) (Some TimedOut) ?l2 =
      (tr\<lparr>tr_last_activity := t\<rparr>, ?l2\<lparr>lk_upf := st', lk_clock := t\<rparr>, Inr r)"
    using attempt_answered [OF assms(1) _ assms(3,4), of ?l2 E smf st' r] assms(2,7,8)
    by (simp add: t_def quiet_def lossy_def del: attempt_loop.simps)
  with s rl n assms(1) answers_validate [OF assms(1,7)] show ?thesis
    by (simp add: exchange_def send_and_recv_def)
qed

end
