(* ===== verification/Lifecycle.thy ===== *)
theory Lifecycle
  imports Smf_Upf
begin

text \<open>
  The simulator's first scenario against the UPF: association, session establishment, modification
  and deletion, each a request over the link of \<open>Smf_Upf\<close>. The lemmas follow one request through
  \<open>serve_datagram\<close>; the theorems say how the whole run ends on both sides, and what a retransmission
  does when an answer is lost.

  Iterating over the associations visits exactly the stored ones (\<open>order_laws\<close>), the documented
  behaviour of a hash map's \<open>values_mut\<close>.
\<close>

section \<open>Requests as the UPF decodes them\<close>

lemma association_request_header:
  assumes "unat sq < 2 ^ 24"
  shows "\<exists>h. pfcp_header_decode (association_request sq node ts) =
      Inr (h, tlv PFCP_IE_NODE_ID (node_id_value node) @ tlv PFCP_IE_RECOVERY_TIME_STAMP (to_be_bytes ts) @ []) \<and>
    msg_type h = PFCP_ASSOCIATION_SETUP_REQ \<and> seq_num h = sq \<and> seid h = None"
  unfolding association_request_def
  by (rule node_message [OF assms]) (simp add: add_node_id_v4_def add_recovery_timestamp_def)

lemma deletion_request_header:
  assumes "unat sq < 2 ^ 24"
  shows "\<exists>h. pfcp_header_decode (deletion_request sid sq) = Inr (h, []) \<and>
    msg_type h = PFCP_SESSION_DELETION_REQ \<and> seq_num h = sq \<and> seid h = Some sid"
  unfolding deletion_request_def by (rule session_message [OF assms]) simp

lemma lifecycle_request_header:
  assumes "unat sq < 2 ^ 24"
  shows "\<exists>h. pfcp_header_decode (lifecycle_establishment_request net sq cp ue td) =
      Inr (h, establishment_body (nc_smf_n4_addr net) cp (lifecycle_pdrs ue (nc_gnb_addr net))
        (lifecycle_fars (nc_gnb_addr net) td) []) \<and>
    msg_type h = PFCP_SESSION_ESTABLISHMENT_REQ \<and> seq_num h = sq \<and> seid h = Some 0"
  unfolding lifecycle_establishment_request_def Let_def
  by (rule session_message [OF assms])
    (simp add: establishment_body_def add_node_id_v4_def add_fseid_def add_create_pdr_def add_create_far_def mb_buf_fold)

lemma lifecycle_body_decodes:
  "session_establishment_req_decode (establishment_body smf cp (lifecycle_pdrs ue gnb) (lifecycle_fars gnb td) []) =
     Inr \<lparr>ser_node_id = Some smf, ser_cp_seid = cp, ser_smf_addr = smf,
       ser_create_pdrs = map parsed_of_pdr_params (lifecycle_pdrs ue gnb),
       ser_create_fars = map parsed_of_far_params (lifecycle_fars gnb td), ser_create_urrs = []\<rparr>"
  using decode_establishment_body [of "lifecycle_pdrs ue gnb" "lifecycle_fars gnb td" smf cp "[]"]
  by (simp add: lifecycle_pdrs_def lifecycle_fars_def tunnel_far_def nibble_def)

lemma lifecycle_modification_header:
  assumes "unat sq < 2 ^ 24"
  shows "\<exists>h. pfcp_header_decode (lifecycle_modification_request net sid sq) =
      Inr (h, modification_body [tunnel_far (nc_gnb_addr net) 0xdeadbeef] []) \<and>
    msg_type h = PFCP_SESSION_MODIFICATION_REQ \<and> seq_num h = sq \<and> seid h = Some sid"
  unfolding lifecycle_modification_request_def
  by (rule session_message [OF assms]) (simp add: modification_body_def add_update_far_def)

section \<open>Associations\<close>

definition order_laws :: "upf_env \<Rightarrow> bool" where
  "order_laws E \<longleftrightarrow> (\<forall>m. set (assoc_order E m) = dom m)"

text \<open>The node is associated from \<open>src\<close>, and no other association has that address.\<close>

definition registered :: "socket_addr \<Rightarrow> ipv4 \<Rightarrow> pfcp_server \<Rightarrow> smf_association \<Rightarrow> bool" where
  "registered src node srv a \<longleftrightarrow> associations srv node = Some a \<and> as_node_id a = node \<and> as_peer_addr a = src \<and>
     (\<forall>k b. associations srv k = Some b \<longrightarrow> as_peer_addr b = src \<longrightarrow> k = node)"

text \<open>A node the UPF has no association with, at an address no association has.\<close>

definition stranger :: "socket_addr \<Rightarrow> ipv4 \<Rightarrow> pfcp_server \<Rightarrow> bool" where
  "stranger src node srv \<longleftrightarrow> associations srv node = None \<and>
     (\<forall>k b. associations srv k = Some b \<longrightarrow> as_peer_addr b \<noteq> src)"

lemma strangerD: "stranger src node srv \<Longrightarrow> associations srv node = None"
  by (simp add: stranger_def)

lemma find_map_unique:
  assumes "f x = Some y" "\<And>z. z \<noteq> x \<Longrightarrow> f z = None" "x \<in> set xs"
  shows "find_map f xs = Some y"
  using assms(3)
proof (induction xs)
  case (Cons z zs)
  then show ?case
    using assms(1,2) by (cases "z = x") simp_all
qed simp

lemma registered_found:
  assumes "order_laws E" "registered src node srv a"
  shows "find_association E srv src = Some (node, a)"
  unfolding find_association_def
proof (rule find_map_unique [where x = node])
  show "node \<in> set (assoc_order E (associations srv))"
    using assms by (simp add: order_laws_def registered_def domI)
  show "(case associations srv k of None \<Rightarrow> None | Some b \<Rightarrow> if as_peer_addr b = src then Some (k, b) else None) = None"
    if "k \<noteq> node" for k
  proof (cases "associations srv k")
    case (Some b)
    with that assms(2) have "as_peer_addr b \<noteq> src" unfolding registered_def by blast
    with Some show ?thesis by simp
  qed simp
qed (use assms(2) in \<open>simp add: registered_def\<close>)

lemma env_now_simps [simp]:
  "env_laws (E\<lparr>env_now := t\<rparr>) = env_laws E" "env_roomy (E\<lparr>env_now := t\<rparr>) = env_roomy E"
  "order_laws (E\<lparr>env_now := t\<rparr>) = order_laws E"
  by (simp_all add: env_laws_def env_roomy_def order_laws_def)

lemma answer_nonempty: "validate_response t sq r = Inr () \<Longrightarrow> r \<noteq> []"
  by (auto simp: validate_response_def pfcp_header_decode_def)

section \<open>One request at a time\<close>

lemma serve_association:
  assumes "unat sq < 2 ^ 24" "associations (st_server st) node = None"
  shows "\<exists>st'. serve_datagram E (association_request sq node ts) src st =
      (st', Some (build_association_setup_response sq (n3_addr (st_server st)) (srv_recovery_ts (st_server st)))) \<and>
    associations (st_server st') = (associations (st_server st))(node \<mapsto> smf_association_new (env_now E) node src ts) \<and>
    sessions (st_server st') = sessions (st_server st) \<and> next_seid (st_server st') = next_seid (st_server st) \<and>
    next_teid (st_server st') = next_teid (st_server st) \<and> n3_addr (st_server st') = n3_addr (st_server st) \<and>
    st_maps st' = st_maps st"
proof -
  obtain h where h: "pfcp_header_decode (association_request sq node ts) =
      Inr (h, tlv PFCP_IE_NODE_ID (node_id_value node) @ tlv PFCP_IE_RECOVERY_TIME_STAMP (to_be_bytes ts) @ [])"
      "msg_type h = PFCP_ASSOCIATION_SETUP_REQ" "seq_num h = sq"
    using association_request_header [OF assms(1)] by blast
  have "build_association_setup_response sq n3 t \<noteq> []" for n3 t
    by (rule answer_nonempty [OF association_answer [OF assms(1)]])
  with h assms(2) show ?thesis
    by (simp add: serve_datagram_def handle_message_def handle_session_association_def touch_activity_def
        association_setup_decode_tlv [simplified] emit_def Let_def)
qed

lemma touch_frame [simp]:
  "associations (touch_activity t srv) = associations srv" "sessions (touch_activity t srv) = sessions srv"
  "next_teid (touch_activity t srv) = next_teid srv" "n3_addr (touch_activity t srv) = n3_addr srv"
  by (simp_all add: touch_activity_def)

lemma registered_touch [simp]: "registered src node (touch_activity t srv) a = registered src node srv a"
  by (simp add: registered_def)

lemma registered_update:
  assumes "registered src node srv a" "associations srv' = (associations srv)(node \<mapsto> a')"
    and "as_node_id a' = as_node_id a" "as_peer_addr a' = as_peer_addr a"
  shows "registered src node srv' a'"
  using assms by (auto simp: registered_def split: if_splits)

lemma install_rules_counters:
  assumes "install_rules E sid cp ue pdrs fars urrs srv M = (srv', M', ok)"
  shows "next_seid srv' = next_seid srv" "next_teid srv' = next_teid srv"
proof -
  have urrs: "next_seid (fst (install_urrs E sid cp urrs srv M1)) = next_seid srv"
      "next_teid (fst (install_urrs E sid cp urrs srv M1)) = next_teid srv" for M1
    using install_urrs_shape [of E sid cp urrs srv M1] by auto
  have "next_seid (fst (install_rules E sid cp ue pdrs fars urrs srv M)) = next_seid srv"
      "next_teid (fst (install_rules E sid cp ue pdrs fars urrs srv M)) = next_teid srv"
    by (simp_all add: install_rules_def urrs Let_def split_beta)
  with assms show "next_seid srv' = next_seid srv" "next_teid srv' = next_teid srv" by simp_all
qed

lemma register_session_counters:
  "next_seid (register_session node sid d srv) = next_seid srv" "next_teid (register_session node sid d srv) = next_teid srv"
  "n3_addr (register_session node sid d srv) = n3_addr srv"
  by (simp_all add: register_session_def Let_def split: option.split)

text \<open>A successful establishment in terms of the decoded request.\<close>

lemma establishment_effect:
  fixes st :: upf_state
  assumes "env_laws E" "env_roomy E" "is_v4 src" "session_establishment_req_decode body = Inr req"
    and "find_association E (st_server st) src = Some (node, a)" "as_node_id a = node" "associations (st_server st) node = Some a"
    and "find_map pdr_ue_ip (ser_create_pdrs req) = Some ue"
    and "find_map far_outer_header_creation (ser_create_fars req) = Some ohc"
  defines "sid \<equiv> next_seid (st_server st)" and "td \<equiv> next_teid (st_server st)"
    and "n3 \<equiv> n3_addr (st_server st)" and "d \<equiv> established req ue (ohc_peer_addr ohc) st"
  shows "\<exists>st'. handle_session_establishment E h body src st = (st', Inr (build_session_establishment_response
        (seq_num h) (ser_cp_seid req) sid n3 (created_pdrs_of td n3 (ser_create_pdrs req)))) \<and>
    sessions (st_server st') = (sessions (st_server st))(sid \<mapsto> d) \<and>
    associations (st_server st') = (associations (st_server st))(node \<mapsto>
      a\<lparr>as_sessions := (as_sessions a)(ser_cp_seid req \<mapsto> d)\<rparr>) \<and>
    SESSION_MAP (st_maps st') = (SESSION_MAP (st_maps st))(SessionKey (ip_be ue) \<mapsto>
      session_info_of sid td (ohc_peer_addr ohc) n3 (ser_create_pdrs req)) \<and>
    PDR_MAP (st_maps st') = PDR_MAP (st_maps st) ++ map_of (rev (pdr_entries sid ue (ser_create_pdrs req))) \<and>
    FAR_MAP (st_maps st') = FAR_MAP (st_maps st) ++ map_of (rev (far_entries sid n3 (ser_create_fars req))) \<and>
    next_seid (st_server st') = sid + 1 \<and> next_teid (st_server st') = td + 1 \<and> n3_addr (st_server st') = n3"
proof -
  obtain st' r where ok: "handle_session_establishment E h body src st = (st', Inr r)"
    by (rule establishment_progress [OF assms(2,4,3,5,8,9)])
  then show ?thesis
  proof (rule establishment_okE)
    fix req' k a' ue' gnb' sm srv3 M3
    assume e: "session_establishment_req_decode body = Inr req'" "find_association E (st_server st) src = Some (k, a')"
        "find_map pdr_ue_ip (ser_create_pdrs req') = Some ue'"
        "find_map far_outer_header_creation (ser_create_fars req') = Some gnb'"
        "h_insert (session_ops E) (SESSION_MAP (st_maps st)) (SessionKey (ip_be ue'))
           (session_info_of (next_seid (st_server st)) (next_teid (st_server st)) (ohc_peer_addr gnb')
             (n3_addr (st_server st)) (ser_create_pdrs req')) = Some sm"
      and i: "install_rules E (next_seid (st_server st)) (ser_cp_seid req') ue' (ser_create_pdrs req') (ser_create_fars req')
           (ser_create_urrs req') (fst (alloc_teid (fst (alloc_seid (st_server st)))))
           ((st_maps st)\<lparr>SESSION_MAP := sm\<rparr>) = (srv3, M3, True)"
      and f: "st_server st' = register_session (as_node_id a') (next_seid (st_server st))
           (established req' ue' (ohc_peer_addr gnb') st) srv3" "st_maps st' = M3"
        "r = build_session_establishment_response (seq_num h) (ser_cp_seid req') (next_seid (st_server st))
           (n3_addr (st_server st')) (created_pdrs_of (next_teid (st_server st)) (n3_addr (st_server st'))
           (ser_create_pdrs req'))"
    have eqs: "req' = req" "a' = a" "ue' = ue" "gnb' = ohc"
      using e(1-4) assms(4,5,8,9) by auto
    have "sm = (SESSION_MAP (st_maps st))(SessionKey (ip_be ue) \<mapsto>
        session_info_of sid td (ohc_peer_addr ohc) n3 (ser_create_pdrs req))"
      using hash_insertD [OF env_lawsD(1) [OF assms(1)] e(5)] by (simp add: eqs sid_def td_def n3_def)
    with install_rules_ok [OF assms(1) i] install_rules_counters [OF i] register_session_association [of srv3 node a sid d]
      assms(6,7) ok f
    show ?thesis
      by (simp add: eqs sid_def td_def n3_def d_def established_def register_session_counters
        alloc_seid_def alloc_teid_def)
  qed
qed

text \<open>The session the scenario's request creates.\<close>

abbreviation lifecycle_data :: "ipv4 \<Rightarrow> u32 \<Rightarrow> ipv4 \<Rightarrow> u64 \<Rightarrow> session_data" where
  "lifecycle_data ue td gnb cp \<equiv> \<lparr>sd_ue_ip = ue, sd_teid = td, sd_gnb_ip = gnb, sd_cp_seid = cp\<rparr>"

definition lifecycle_info :: "u64 \<Rightarrow> u32 \<Rightarrow> ipv4 \<Rightarrow> ipv4 \<Rightarrow> ipv4 \<Rightarrow> session_info" where
  "lifecycle_info sid td gnb n3 ue = session_info_of sid td gnb n3 (map parsed_of_pdr_params (lifecycle_pdrs ue gnb))"

lemma serve_establishment:
  fixes st :: upf_state and net :: network_config
  assumes "env_laws E" "env_roomy E" "order_laws E" "unat sq < 2 ^ 24" "is_v4 src"
    and "registered src node (st_server st) a"
  defines "sid \<equiv> next_seid (st_server st)" and "td \<equiv> next_teid (st_server st)"
    and "n3 \<equiv> n3_addr (st_server st)" and "gnb \<equiv> nc_gnb_addr net" and "M \<equiv> st_maps st"
  shows "\<exists>st'. serve_datagram E (lifecycle_establishment_request net sq cp ue gtd) src st =
      (st', Some (build_session_establishment_response sq cp sid n3 [(1, td, n3)])) \<and>
    sessions (st_server st') = (sessions (st_server st))(sid \<mapsto> lifecycle_data ue td gnb cp) \<and>
    registered src node (st_server st') (a\<lparr>as_sessions := (as_sessions a)(cp \<mapsto> lifecycle_data ue td gnb cp)\<rparr>) \<and>
    SESSION_MAP (st_maps st') = (SESSION_MAP M)(SessionKey (ip_be ue) \<mapsto> lifecycle_info sid td gnb n3 ue) \<and>
    PDR_MAP (st_maps st') = PDR_MAP M ++ map_of (rev (pdr_entries sid ue (map parsed_of_pdr_params (lifecycle_pdrs ue gnb)))) \<and>
    FAR_MAP (st_maps st') = FAR_MAP M ++ map_of (rev (far_entries sid n3 (map parsed_of_far_params (lifecycle_fars gnb gtd)))) \<and>
    next_seid (st_server st') = sid + 1 \<and> next_teid (st_server st') = td + 1 \<and> n3_addr (st_server st') = n3"
proof -
  let ?st = "st\<lparr>st_server := touch_activity (env_now E) (st_server st)\<rparr>"
  let ?body = "establishment_body (nc_smf_n4_addr net) cp (lifecycle_pdrs ue gnb) (lifecycle_fars gnb gtd) []"
  let ?d = "lifecycle_data ue td gnb cp"
  let ?req = "\<lparr>ser_node_id = Some (nc_smf_n4_addr net), ser_cp_seid = cp, ser_smf_addr = nc_smf_n4_addr net,
    ser_create_pdrs = map parsed_of_pdr_params (lifecycle_pdrs ue gnb),
    ser_create_fars = map parsed_of_far_params (lifecycle_fars gnb gtd), ser_create_urrs = []\<rparr>"
  have ue: "find_map pdr_ue_ip (ser_create_pdrs ?req) = Some ue"
    and ohc: "find_map far_outer_header_creation (ser_create_fars ?req) =
      Some \<lparr>ohc_teid = gtd, ohc_peer_addr = gnb, ohc_port = 2152\<rparr>"
    and created: "\<And>t n. created_pdrs_of t n (map parsed_of_pdr_params (lifecycle_pdrs ue gnb)) = [(1, t, n)]"
    by (simp_all add: lifecycle_pdrs_def lifecycle_fars_def tunnel_far_def parsed_of_pdr_params_def
        parsed_of_far_params_def created_pdrs_of_def)
  have fa: "find_association E (st_server ?st) src = Some (node, a)"
    by (rule registered_found [OF assms(3)]) (use assms(6) in simp)
  have nd: "as_node_id a = node" "associations (st_server ?st) node = Some a"
    using assms(6) by (simp_all add: registered_def)
  obtain h where h: "pfcp_header_decode (lifecycle_establishment_request net sq cp ue gtd) = Inr (h, ?body)"
      "msg_type h = PFCP_SESSION_ESTABLISHMENT_REQ" "seq_num h = sq"
    using lifecycle_request_header [OF assms(4), of net cp ue gtd] by (auto simp: gnb_def)
  from establishment_effect [OF assms(1,2,5) lifecycle_body_decodes fa nd ue ohc, of h]
  obtain st' where st': "handle_session_establishment E h ?body src ?st =
      (st', Inr (build_session_establishment_response sq cp sid n3 [(1, td, n3)]))"
    and s: "sessions (st_server st') = (sessions (st_server st))(sid \<mapsto> ?d)"
    and as: "associations (st_server st') = (associations (st_server st))(node \<mapsto> a\<lparr>as_sessions := (as_sessions a)(cp \<mapsto> ?d)\<rparr>)"
    and m: "SESSION_MAP (st_maps st') = (SESSION_MAP M)(SessionKey (ip_be ue) \<mapsto> lifecycle_info sid td gnb n3 ue)"
      "PDR_MAP (st_maps st') = PDR_MAP M ++ map_of (rev (pdr_entries sid ue (map parsed_of_pdr_params (lifecycle_pdrs ue gnb))))"
      "FAR_MAP (st_maps st') = FAR_MAP M ++ map_of (rev (far_entries sid n3 (map parsed_of_far_params (lifecycle_fars gnb gtd))))"
    and c: "next_seid (st_server st') = sid + 1" "next_teid (st_server st') = td + 1" "n3_addr (st_server st') = n3"
    by (auto simp: h created established_def lifecycle_info_def sid_def td_def n3_def M_def)
  have "registered src node (st_server st') (a\<lparr>as_sessions := (as_sessions a)(cp \<mapsto> ?d)\<rparr>)"
    using as by (rule registered_update [OF assms(6)]) simp_all
  with st' s m c answer_nonempty [OF establishment_answer [OF assms(4)]] h show ?thesis
    by (simp add: serve_datagram_def handle_message_def)
qed

text \<open>A session of the associated node belongs to it.\<close>

lemma registered_owner:
  assumes "order_laws E" "is_v4 src" "registered src node srv a" "as_sessions a cp \<noteq> None"
  shows "check_ownership E srv src cp = Inr node"
  using assms registered_found [OF assms(1,3)] by (simp add: check_ownership_def registered_def)

definition new_tunnel :: "ipv4 \<Rightarrow> outer_header_creation" where
  "new_tunnel gnb = \<lparr>ohc_teid = 0xdeadbeef, ohc_peer_addr = gnb, ohc_port = 2152\<rparr>"

lemma serve_modification:
  fixes st :: upf_state and net :: network_config
  assumes "env_laws E" "order_laws E" "unat sq < 2 ^ 24" "is_v4 src" "registered src node (st_server st) a"
    and "sessions (st_server st) sid = Some d" "as_sessions a (sd_cp_seid d) \<noteq> None"
  defines "ohc \<equiv> new_tunnel (nc_gnb_addr net)" and "M \<equiv> st_maps st"
  shows "\<exists>st'. serve_datagram E (lifecycle_modification_request net sid sq) src st =
      (st', Some (build_session_modification_response sq (sd_cp_seid d))) \<and>
    sessions (st_server st') = (sessions (st_server st))(sid \<mapsto> point_data ohc d) \<and>
    registered src node (st_server st') a \<and>
    st_maps st' = M\<lparr>FAR_MAP := change_at (FarKey_new sid 2) (point_far ohc) (FAR_MAP M),
      SESSION_MAP := change_at (SessionKey (ip_be (sd_ue_ip d))) (point_session ohc) (SESSION_MAP M)\<rparr>"
proof -
  let ?st = "st\<lparr>st_server := touch_activity (env_now E) (st_server st)\<rparr>"
  let ?f = "tunnel_far (nc_gnb_addr net) 0xdeadbeef"
  obtain h where h: "pfcp_header_decode (lifecycle_modification_request net sid sq) = Inr (h, modification_body [?f] [])"
      "msg_type h = PFCP_SESSION_MODIFICATION_REQ" "seq_num h = sq" "seid h = Some sid"
    using lifecycle_modification_header [OF assms(3)] by blast
  have own: "check_ownership E (touch_activity (env_now E) (st_server st)) src (sd_cp_seid d) = Inr node"
    by (rule registered_owner [OF assms(2,4)]) (use assms(5,7) in simp_all)
  have body: "session_modification_req_decode (modification_body [?f] []) =
      Inr \<lparr>smr_cp_seid = None, smr_smf_addr = None, smr_update_fars = [parsed_of_far_params ?f], smr_update_urrs = []\<rparr>"
    using decode_modification_body [of "[?f]" "[]"] by (simp add: tunnel_far_def nibble_def)
  have f: "far_id (parsed_of_far_params ?f) = 2" "far_outer_header_creation (parsed_of_far_params ?f) = Some ohc"
      "far_dest_interface (parsed_of_far_params ?f) = Some IFACE_ACCESS"
    by (simp_all add: tunnel_far_def parsed_of_far_params_def ohc_def new_tunnel_def)
  have "build_session_modification_response sq (sd_cp_seid d) \<noteq> []"
    using cause_answer [OF assms(3), of PFCP_SESSION_MODIFICATION_REQ "sd_cp_seid d"]
    by (intro answer_nonempty [of PFCP_SESSION_MODIFICATION_REQ sq]) (simp add: build_session_modification_response_def)
  then show ?thesis
    using h assms(5,6) by (simp add: serve_datagram_def handle_message_def handle_session_modification_def body own
        update_far_entry_eq [OF assms(1)] update_session_entry_eq [OF assms(1)] update_session_data_eq
        f change_at_def registered_def M_def Let_def)
qed

lemma serve_deletion:
  fixes st :: upf_state
  assumes "env_laws E" "order_laws E" "unat sq < 2 ^ 24" "is_v4 src" "registered src node (st_server st) a"
    and "sessions (st_server st) sid = Some d" "as_sessions a (sd_cp_seid d) \<noteq> None"
  defines "M \<equiv> st_maps st" and "key \<equiv> SessionKey (ip_be (sd_ue_ip d))"
  shows "\<exists>st'. serve_datagram E (deletion_request sid sq) src st = (st', Some (build_session_deletion_response sq sid)) \<and>
    sessions (st_server st') = (sessions (st_server st))(sid := None) \<and>
    SESSION_MAP (st_maps st') = (SESSION_MAP M)(key := None) \<and>
    PDR_MAP (st_maps st') = PDR_MAP M |` (- (PdrKey_new sid ` set (installed_pdr_ids M key))) \<and>
    FAR_MAP (st_maps st') = FAR_MAP M |`
      (- (FarKey_new sid ` pv_far_id ` set (installed_pdrs M sid (installed_pdr_ids M key))))"
proof -
  let ?st = "st\<lparr>st_server := touch_activity (env_now E) (st_server st)\<rparr>"
  obtain h where h: "pfcp_header_decode (deletion_request sid sq) = Inr (h, [])"
      "msg_type h = PFCP_SESSION_DELETION_REQ" "seq_num h = sq" "seid h = Some sid"
    using deletion_request_header [OF assms(3)] by blast
  have own: "check_ownership E (st_server ?st) src (sd_cp_seid d) = Inr node"
    by (rule registered_owner [OF assms(2,4)]) (use assms(5,7) in simp_all)
  then have "owns E ?st src sid"
    using assms(6) by (simp add: owns_def)
  then obtain st' r where del: "handle_session_deletion E h [] src ?st = (st', Inr r)"
    using h(4) by (rule deletion_progress)
  then obtain d' owner where d': "sessions (st_server ?st) sid = Some d'"
      "st_server st' = unregister_session owner sid (sd_cp_seid d') (st_server ?st)"
      "st_maps st' = st_maps (deletion_cleanup E sid d' ?st)" "r = build_session_deletion_response (seq_num h) sid"
    using h(4) by (rule deletion_okE)
  then have "d' = d" using assms(6) by simp
  have "build_session_deletion_response sq sid \<noteq> []"
    using cause_answer [OF assms(3), of PFCP_SESSION_DELETION_REQ sid]
    by (intro answer_nonempty [of PFCP_SESSION_DELETION_REQ sq]) (simp add: build_session_deletion_response_def)
  with del d' \<open>d' = d\<close> h deletion_cleanup_maps [OF assms(1), where st = ?st and d = d and sid = sid] show ?thesis
    by (simp add: serve_datagram_def handle_message_def M_def key_def)
qed

section \<open>The scenario over the link\<close>

definition tr_ok :: "socket_addr \<Rightarrow> pfcp_transport \<Rightarrow> bool" where
  "tr_ok upf tr \<longleftrightarrow> tr_peer_addr tr = upf \<and> 0 < tr_response_timeout tr"

lemma tr_ok_activity [simp]: "tr_ok upf (tr\<lparr>tr_last_activity := t\<rparr>) = tr_ok upf tr"
  by (simp add: tr_ok_def)

lemma quiet_simps [simp]:
  "quiet (l\<lparr>lk_upf := u\<rparr>) = quiet l" "quiet (l\<lparr>lk_clock := t\<rparr>) = quiet l"
  by (simp_all add: quiet_def)

lemma link_exchange:
  assumes "\<exists>h. pfcp_header_decode req = Inr (h, body) \<and> msg_type h = t \<and> seq_num h = sq \<and> seid h = sd"
    and "quiet l" "tr_ok upf tr" "length r \<le> 4096"
    and "serve_datagram (E\<lparr>env_now := lk_clock l\<rparr>) req smf (lk_upf l) = (st', Some r)"
  shows "exchange (upf_net E smf upf) tr t sq req l =
    (tr\<lparr>tr_last_activity := lk_clock l + 1\<rparr>, l\<lparr>lk_upf := st', lk_clock := lk_clock l + 1\<rparr>, Inr r)"
  using exchange_answered [of req _ body l tr upf E smf st' r] assms by (auto simp: tr_ok_def)

lemma answer_lengths:
  "length (build_association_setup_response sq n3 ts) \<le> 4096"
  "length (build_session_establishment_response sq cp sid n3 [(pid, td, ip)]) \<le> 4096"
  "length (build_session_modification_response sq sd) \<le> 4096"
  "length (build_session_deletion_response sq sd) \<le> 4096"
  by (simp_all add: build_association_setup_response_def build_session_establishment_response_def
      build_session_modification_response_def build_session_deletion_response_def mb_finish_def
      add_node_id_v4_def add_cause_def add_recovery_timestamp_def add_up_function_features_def add_fseid_def
      add_created_pdr_def created_pdr_value_def append_ie_tlv length_pfcp_header_encode header_len_def Let_def)

lemma link_associate:
  assumes "quiet l" "tr_ok upf tr" "unat (sim_next_seq s) < 2 ^ 24"
    and "stranger src smf (st_server (lk_upf l))"
  shows "\<exists>tr' l' rsp a. associate_loop (upf_net E src upf) smf rts tr s 0 l =
      Some (tr', s\<lparr>sim_next_seq := sim_next_seq s + 1\<rparr>, 1, l', rsp) \<and> tr_ok upf tr' \<and> quiet l' \<and>
    registered src smf (st_server (lk_upf l')) a \<and>
    sessions (st_server (lk_upf l')) = sessions (st_server (lk_upf l)) \<and>
    next_seid (st_server (lk_upf l')) = next_seid (st_server (lk_upf l)) \<and>
    next_teid (st_server (lk_upf l')) = next_teid (st_server (lk_upf l)) \<and>
    st_maps (lk_upf l') = st_maps (lk_upf l)"
proof -
  let ?E = "E\<lparr>env_now := lk_clock l\<rparr>"
  obtain st' where st': "serve_datagram ?E (association_request (sim_next_seq s) smf rts) src (lk_upf l) =
      (st', Some (build_association_setup_response (sim_next_seq s) (n3_addr (st_server (lk_upf l)))
        (srv_recovery_ts (st_server (lk_upf l)))))"
    and a: "associations (st_server st') = (associations (st_server (lk_upf l)))(smf \<mapsto>
      smf_association_new (env_now ?E) smf src rts)"
    and same: "sessions (st_server st') = sessions (st_server (lk_upf l))"
      "next_seid (st_server st') = next_seid (st_server (lk_upf l))"
      "next_teid (st_server st') = next_teid (st_server (lk_upf l))" "st_maps st' = st_maps (lk_upf l)"
    using serve_association [OF assms(3) strangerD [OF assms(4)], of ?E rts src] by blast
  have "registered src smf (st_server st') (smf_association_new (env_now ?E) smf src rts)"
    using a assms(4) by (auto simp: registered_def stranger_def smf_association_new_def split: if_splits)
  moreover note link_exchange [OF association_request_header [OF assms(3)] assms(1,2) answer_lengths(1) st']
  ultimately show ?thesis
    using same assms(1,2) by (subst associate_loop.simps) (auto simp: next_seq_num_def)
qed

text \<open>Step 2: what the simulator makes of the UPF's answer.\<close>

lemma establish_answered:
  fixes net :: network_config and s :: sim_state
  assumes "unat (sim_next_seq s) < 2 ^ 24" "sim_next_ue_ip s \<le> sim_ue_ip_end s" "sid \<noteq> 0" "td \<noteq> 0"
    and "exchange N tr PFCP_SESSION_ESTABLISHMENT_REQ (sim_next_seq s) (lifecycle_establishment_request net (sim_next_seq s)
       (sim_next_cp_seid s) (ip_from_u32 (sim_next_ue_ip s)) (sim_next_gnb_teid s)) p =
       (tr', p', Inr (build_session_establishment_response (sim_next_seq s) (sim_next_cp_seid s) sid nip [(1, td, nip)]))"
  shows "\<exists>s' session. lifecycle_establish N net tr s p = (tr', s', p', Inr session) \<and>
    ss_cp_seid session = sim_next_cp_seid s \<and> ss_upf_seid session = sid \<and> sim_next_seq s' = sim_next_seq s + 1 \<and>
    sim_sessions s' = (sim_sessions s)(sim_next_cp_seid s \<mapsto> session)"
proof -
  have "extract_session_info (build_session_establishment_response (sim_next_seq s) (sim_next_cp_seid s) sid nip [(1, td, nip)]) =
      Inr (sid, td, nip)"
    using assms(1,3,4) by (rule extract_session_info_answer)
  with assms(2,5) show ?thesis
    by (simp add: lifecycle_establish_def alloc_ue_ip_def alloc_gnb_teid_def alloc_cp_seid_def next_seq_num_def Let_def)
qed

text \<open>Step 2 over the link.\<close>

lemma link_establish:
  fixes net :: network_config and s :: sim_state and l :: upf_link
  assumes "env_laws E" "env_roomy E" "order_laws E" "is_v4 src" "quiet l" "tr_ok upf tr"
    and "registered src node (st_server (lk_upf l)) a" "unat (sim_next_seq s) < 2 ^ 24"
    and "sim_next_ue_ip s \<le> sim_ue_ip_end s" "next_seid (st_server (lk_upf l)) \<noteq> 0" "next_teid (st_server (lk_upf l)) \<noteq> 0"
  defines "U \<equiv> lk_upf l" and "sid \<equiv> next_seid (st_server (lk_upf l))" and "td \<equiv> next_teid (st_server (lk_upf l))"
    and "n3 \<equiv> n3_addr (st_server (lk_upf l))" and "gnb \<equiv> nc_gnb_addr net" and "ue \<equiv> ip_from_u32 (sim_next_ue_ip s)"
    and "cp \<equiv> sim_next_cp_seid s" and "gtd \<equiv> sim_next_gnb_teid s"
  shows "\<exists>tr' s' l' session. lifecycle_establish (upf_net E src upf) net tr s l = (tr', s', l', Inr session) \<and>
    tr_ok upf tr' \<and> quiet l' \<and> ss_cp_seid session = cp \<and> ss_upf_seid session = sid \<and>
    sim_next_seq s' = sim_next_seq s + 1 \<and> sim_sessions s' = (sim_sessions s)(cp \<mapsto> session) \<and>
    sessions (st_server (lk_upf l')) = (sessions (st_server U))(sid \<mapsto> lifecycle_data ue td gnb cp) \<and>
    registered src node (st_server (lk_upf l')) (a\<lparr>as_sessions := (as_sessions a)(cp \<mapsto> lifecycle_data ue td gnb cp)\<rparr>) \<and>
    SESSION_MAP (st_maps (lk_upf l')) = (SESSION_MAP (st_maps U))(SessionKey (ip_be ue) \<mapsto> lifecycle_info sid td gnb n3 ue) \<and>
    PDR_MAP (st_maps (lk_upf l')) = PDR_MAP (st_maps U) ++
      map_of (rev (pdr_entries sid ue (map parsed_of_pdr_params (lifecycle_pdrs ue gnb)))) \<and>
    FAR_MAP (st_maps (lk_upf l')) = FAR_MAP (st_maps U) ++
      map_of (rev (far_entries sid n3 (map parsed_of_far_params (lifecycle_fars gnb gtd))))"
proof -
  let ?E = "E\<lparr>env_now := lk_clock l\<rparr>" and ?req = "lifecycle_establishment_request net (sim_next_seq s) cp ue gtd"
  have laws: "env_laws ?E" "env_roomy ?E" "order_laws ?E" using assms(1-3) by simp_all
  obtain st' where st': "serve_datagram ?E ?req src (lk_upf l) =
      (st', Some (build_session_establishment_response (sim_next_seq s) cp sid n3 [(1, td, n3)]))"
    and eff: "sessions (st_server st') = (sessions (st_server U))(sid \<mapsto> lifecycle_data ue td gnb cp)"
      "registered src node (st_server st') (a\<lparr>as_sessions := (as_sessions a)(cp \<mapsto> lifecycle_data ue td gnb cp)\<rparr>)"
      "SESSION_MAP (st_maps st') = (SESSION_MAP (st_maps U))(SessionKey (ip_be ue) \<mapsto> lifecycle_info sid td gnb n3 ue)"
      "PDR_MAP (st_maps st') = PDR_MAP (st_maps U) ++
        map_of (rev (pdr_entries sid ue (map parsed_of_pdr_params (lifecycle_pdrs ue gnb))))"
      "FAR_MAP (st_maps st') = FAR_MAP (st_maps U) ++
        map_of (rev (far_entries sid n3 (map parsed_of_far_params (lifecycle_fars gnb gtd))))"
    using serve_establishment [OF laws assms(8,4,7), of net cp ue gtd]
    unfolding U_def sid_def td_def n3_def gnb_def by blast
  have ex: "exchange (upf_net E src upf) tr PFCP_SESSION_ESTABLISHMENT_REQ (sim_next_seq s) ?req l =
      (tr\<lparr>tr_last_activity := lk_clock l + 1\<rparr>, l\<lparr>lk_upf := st', lk_clock := lk_clock l + 1\<rparr>,
       Inr (build_session_establishment_response (sim_next_seq s) cp sid n3 [(1, td, n3)]))"
    by (rule link_exchange [OF lifecycle_request_header [OF assms(8)] assms(5,6) answer_lengths(2) st'])
  have "sid \<noteq> 0" "td \<noteq> 0" using assms(10,11) by (simp_all add: sid_def td_def)
  from establish_answered [OF assms(8,9) this ex [unfolded cp_def ue_def gtd_def]] eff assms(5,6) show ?thesis
    by (auto simp: cp_def)
qed

text \<open>Steps 4 and 5.\<close>

lemma link_modify:
  fixes net :: network_config and s :: sim_state and l :: upf_link
  assumes "env_laws E" "order_laws E" "is_v4 src" "quiet l" "tr_ok upf tr" "unat (sim_next_seq s) < 2 ^ 24"
    and "registered src node (st_server (lk_upf l)) a" "sessions (st_server (lk_upf l)) sid = Some d"
    and "as_sessions a (sd_cp_seid d) \<noteq> None"
  defines "ohc \<equiv> new_tunnel (nc_gnb_addr net)" and "M \<equiv> st_maps (lk_upf l)"
  shows "\<exists>tr' l' rsp. lifecycle_modify (upf_net E src upf) net sid tr s l =
      (tr', s\<lparr>sim_next_seq := sim_next_seq s + 1\<rparr>, l', Inr rsp) \<and> tr_ok upf tr' \<and> quiet l' \<and>
    sessions (st_server (lk_upf l')) = (sessions (st_server (lk_upf l)))(sid \<mapsto> point_data ohc d) \<and>
    registered src node (st_server (lk_upf l')) a \<and>
    st_maps (lk_upf l') = M\<lparr>FAR_MAP := change_at (FarKey_new sid 2) (point_far ohc) (FAR_MAP M),
      SESSION_MAP := change_at (SessionKey (ip_be (sd_ue_ip d))) (point_session ohc) (SESSION_MAP M)\<rparr>"
proof -
  have laws: "env_laws (E\<lparr>env_now := lk_clock l\<rparr>)" "order_laws (E\<lparr>env_now := lk_clock l\<rparr>)"
    using assms(1,2) by simp_all
  obtain st' where st': "serve_datagram (E\<lparr>env_now := lk_clock l\<rparr>) (lifecycle_modification_request net sid (sim_next_seq s))
      src (lk_upf l) = (st', Some (build_session_modification_response (sim_next_seq s) (sd_cp_seid d)))"
    and eff: "sessions (st_server st') = (sessions (st_server (lk_upf l)))(sid \<mapsto> point_data ohc d)"
      "registered src node (st_server st') a"
      "st_maps st' = M\<lparr>FAR_MAP := change_at (FarKey_new sid 2) (point_far ohc) (FAR_MAP M),
        SESSION_MAP := change_at (SessionKey (ip_be (sd_ue_ip d))) (point_session ohc) (SESSION_MAP M)\<rparr>"
    using serve_modification [OF laws assms(6,3,7,8,9), of net] unfolding ohc_def M_def by blast
  note link_exchange [OF lifecycle_modification_header [OF assms(6)] assms(4,5) answer_lengths(3) st']
  then show ?thesis
    using eff assms(4,5) by (simp add: lifecycle_modify_def next_seq_num_def)
qed

lemma link_delete:
  fixes s :: sim_state and l :: upf_link
  assumes "env_laws E" "order_laws E" "is_v4 src" "quiet l" "tr_ok upf tr" "unat (sim_next_seq s) < 2 ^ 24"
    and "registered src node (st_server (lk_upf l)) a" "sessions (st_server (lk_upf l)) sid = Some d"
    and "as_sessions a (sd_cp_seid d) \<noteq> None"
  defines "M \<equiv> st_maps (lk_upf l)" and "key \<equiv> SessionKey (ip_be (sd_ue_ip d))"
  shows "\<exists>tr' l' rsp. lifecycle_delete (upf_net E src upf) cp sid tr s l =
      (tr', s\<lparr>sim_next_seq := sim_next_seq s + 1, sim_sessions := (sim_sessions s)(cp := None)\<rparr>, l', Inr rsp) \<and> quiet l' \<and>
    sessions (st_server (lk_upf l')) = (sessions (st_server (lk_upf l)))(sid := None) \<and>
    SESSION_MAP (st_maps (lk_upf l')) = (SESSION_MAP M)(key := None) \<and>
    PDR_MAP (st_maps (lk_upf l')) = PDR_MAP M |` (- (PdrKey_new sid ` set (installed_pdr_ids M key))) \<and>
    FAR_MAP (st_maps (lk_upf l')) = FAR_MAP M |`
      (- (FarKey_new sid ` pv_far_id ` set (installed_pdrs M sid (installed_pdr_ids M key))))"
proof -
  have laws: "env_laws (E\<lparr>env_now := lk_clock l\<rparr>)" "order_laws (E\<lparr>env_now := lk_clock l\<rparr>)"
    using assms(1,2) by simp_all
  obtain st' where st': "serve_datagram (E\<lparr>env_now := lk_clock l\<rparr>) (deletion_request sid (sim_next_seq s)) src (lk_upf l) =
      (st', Some (build_session_deletion_response (sim_next_seq s) sid))"
    and eff: "sessions (st_server st') = (sessions (st_server (lk_upf l)))(sid := None)"
      "SESSION_MAP (st_maps st') = (SESSION_MAP M)(key := None)"
      "PDR_MAP (st_maps st') = PDR_MAP M |` (- (PdrKey_new sid ` set (installed_pdr_ids M key)))"
      "FAR_MAP (st_maps st') = FAR_MAP M |`
        (- (FarKey_new sid ` pv_far_id ` set (installed_pdrs M sid (installed_pdr_ids M key))))"
    using serve_deletion [OF laws assms(6,3,7,8,9)] unfolding key_def M_def by blast
  note link_exchange [OF deletion_request_header [OF assms(6)] assms(4,5) answer_lengths(4) st']
  then show ?thesis
    using eff assms(4,5) by (simp add: lifecycle_delete_def next_seq_num_def)
qed

subsection \<open>What the session leaves behind\<close>

lemma restrict_added: "set (map fst kvs) \<subseteq> K \<Longrightarrow> (m ++ map_of kvs) |` (- K) = m |` (- K)"
proof (rule ext)
  fix k
  assume "set (map fst kvs) \<subseteq> K"
  then have "k \<notin> K \<Longrightarrow> map_of kvs k = None"
    by (auto simp: map_of_eq_None_iff)
  then show "((m ++ map_of kvs) |` (- K)) k = (m |` (- K)) k"
    by (simp add: restrict_map_def map_add_def)
qed

lemma restrict_changed: "k \<in> K \<Longrightarrow> change_at k f m |` (- K) = m |` (- K)"
  by (auto simp: change_at_def restrict_map_def fun_eq_iff)

lemma lifecycle_ids:
  assumes "SESSION_MAP M key = Some (point_session ohc (lifecycle_info sid td gnb n3 ue))"
  shows "installed_pdr_ids M key = [1, 2]"
  using assms
  by (simp add: installed_pdr_ids_def lifecycle_info_def session_info_of_def lifecycle_pdrs_def parsed_of_pdr_params_def
      point_session_def upt_rec Let_def)

lemma lifecycle_installed_fars:
  assumes "local_seid sid"
    and "PDR_MAP M = m ++ map_of (rev (pdr_entries sid ue (map parsed_of_pdr_params (lifecycle_pdrs ue gnb))))"
  shows "pv_far_id ` set (installed_pdrs M sid [1, 2]) = {1, 2}"
proof -
  have "PdrKey_new sid 1 \<noteq> PdrKey_new sid 2"
    using pdr.mk_eq_iff [of sid sid 1 2] assms(1) by (simp add: rule_id_def)
  then show ?thesis
    by (simp add: installed_pdrs_def assms(2) pdr_entries_def lifecycle_pdrs_def parsed_of_pdr_params_def
        pdr_value_of_def List.map_filter_def map_add_def)
qed


text \<open>Modification followed by deletion of the scenario's session.\<close>

lemma link_tear_down:
  fixes net :: network_config and s :: sim_state and l :: upf_link
  assumes "env_laws E" "order_laws E" "is_v4 src" "quiet l" "tr_ok upf tr" "unat (sim_next_seq s) + 1 < 2 ^ 24"
    and "registered src node (st_server (lk_upf l)) a" "as_sessions a cp \<noteq> None" "local_seid sid"
    and "sessions (st_server (lk_upf l)) sid = Some (lifecycle_data ue td gnb cp)"
    and "SESSION_MAP (st_maps (lk_upf l)) (SessionKey (ip_be ue)) = Some (lifecycle_info sid td gnb nip ue)"
    and "PDR_MAP (st_maps (lk_upf l)) = m ++ map_of (rev (pdr_entries sid ue (map parsed_of_pdr_params (lifecycle_pdrs ue gnb))))"
  defines "M \<equiv> st_maps (lk_upf l)" and "N \<equiv> upf_net E src upf"
  shows "\<exists>tr3 s3 l3 rsp3 tr4 s4 l4 rsp4. lifecycle_modify N net sid tr s l = (tr3, s3, l3, Inr rsp3) \<and>
    lifecycle_delete N cp sid tr3 s3 l3 = (tr4, s4, l4, Inr rsp4) \<and> quiet l4 \<and>
    sim_next_seq s4 = sim_next_seq s + 2 \<and> sim_sessions s4 = (sim_sessions s)(cp := None) \<and>
    sessions (st_server (lk_upf l4)) = (sessions (st_server (lk_upf l)))(sid := None) \<and>
    SESSION_MAP (st_maps (lk_upf l4)) = (SESSION_MAP M)(SessionKey (ip_be ue) := None) \<and>
    PDR_MAP (st_maps (lk_upf l4)) = PDR_MAP M |` (- (PdrKey_new sid ` {1, 2})) \<and>
    FAR_MAP (st_maps (lk_upf l4)) = FAR_MAP M |` (- (FarKey_new sid ` {1, 2}))"
proof -
  let ?d = "lifecycle_data ue td gnb cp" and ?ohc = "new_tunnel (nc_gnb_addr net)" and ?key = "SessionKey (ip_be ue)"
  let ?s3 = "s\<lparr>sim_next_seq := sim_next_seq s + 1\<rparr>"
  have sq: "unat (sim_next_seq s) < 2 ^ 24" "unat (sim_next_seq ?s3) < 2 ^ 24" "as_sessions a (sd_cp_seid ?d) \<noteq> None"
    using assms(6,8) by (simp_all add: unat_word_ariths)
  obtain tr3 l3 rsp3 where m: "lifecycle_modify N net sid tr s l = (tr3, ?s3, l3, Inr rsp3)" "tr_ok upf tr3" "quiet l3"
      "sessions (st_server (lk_upf l3)) = (sessions (st_server (lk_upf l)))(sid \<mapsto> point_data ?ohc ?d)"
      "registered src node (st_server (lk_upf l3)) a"
      "st_maps (lk_upf l3) = M\<lparr>FAR_MAP := change_at (FarKey_new sid 2) (point_far ?ohc) (FAR_MAP M),
        SESSION_MAP := change_at (SessionKey (ip_be (sd_ue_ip ?d))) (point_session ?ohc) (SESSION_MAP M)\<rparr>"
    using link_modify [OF assms(1-5) sq(1) assms(7,10) sq(3), of net] unfolding N_def M_def by blast
  have l3: "sessions (st_server (lk_upf l3)) sid = Some (point_data ?ohc ?d)" "sd_ue_ip (point_data ?ohc ?d) = ue"
      "as_sessions a (sd_cp_seid (point_data ?ohc ?d)) \<noteq> None"
    using m(4) sq(3) by (simp_all add: point_data_def)
  have ids: "installed_pdr_ids (st_maps (lk_upf l3)) ?key = [1, 2]"
    by (rule lifecycle_ids) (use m(6) assms(11) in \<open>simp add: change_at_def M_def\<close>)
  have fars: "pv_far_id ` set (installed_pdrs (st_maps (lk_upf l3)) sid [1, 2]) = {1, 2}"
    by (rule lifecycle_installed_fars [OF assms(9)]) (use m(6) assms(12) in \<open>simp add: M_def\<close>)
  obtain tr4 l4 rsp4 where "lifecycle_delete N cp sid tr3 ?s3 l3 =
        (tr4, ?s3\<lparr>sim_next_seq := sim_next_seq ?s3 + 1, sim_sessions := (sim_sessions ?s3)(cp := None)\<rparr>, l4, Inr rsp4)"
      "quiet l4" "sessions (st_server (lk_upf l4)) = (sessions (st_server (lk_upf l3)))(sid := None)"
      "SESSION_MAP (st_maps (lk_upf l4)) = (SESSION_MAP (st_maps (lk_upf l3)))(?key := None)"
      "PDR_MAP (st_maps (lk_upf l4)) = PDR_MAP (st_maps (lk_upf l3)) |` (- (PdrKey_new sid ` {1, 2}))"
      "FAR_MAP (st_maps (lk_upf l4)) = FAR_MAP (st_maps (lk_upf l3)) |` (- (FarKey_new sid ` {1, 2}))"
    using link_delete [OF assms(1-3) m(3,2) sq(2) m(5) l3(1,3), of cp] unfolding l3(2) ids fars N_def by auto
  moreover have "FarKey_new sid 2 \<in> FarKey_new sid ` {1, 2}" by simp
  ultimately show ?thesis
    using m by (simp add: restrict_changed del: image_insert) (simp add: change_at_def)
qed

lemma link_session:
  fixes cfg :: sim_config and s :: sim_state and l :: upf_link
  assumes "env_laws E" "env_roomy E" "order_laws E" "is_v4 src" "quiet l" "tr_ok upf tr"
    and "registered src node (st_server (lk_upf l)) a" "unat (sim_next_seq s) + 2 < 2 ^ 24"
    and "sim_next_ue_ip s \<le> sim_ue_ip_end s" "next_seid (st_server (lk_upf l)) \<noteq> 0" "next_teid (st_server (lk_upf l)) \<noteq> 0"
    and "local_seid (next_seid (st_server (lk_upf l)))"
  defines "U \<equiv> lk_upf l" and "sid \<equiv> next_seid (st_server (lk_upf l))" and "ue \<equiv> ip_from_u32 (sim_next_ue_ip s)"
  shows "\<exists>tr' s' l'. lifecycle_session (upf_net E src upf) cfg tr s l = (tr', s', l', Inr ()) \<and> quiet l' \<and>
    sim_next_seq s' = sim_next_seq s + 3 \<and> sim_sessions s' = (sim_sessions s)(sim_next_cp_seid s := None) \<and>
    sessions (st_server (lk_upf l')) = (sessions (st_server U))(sid := None) \<and>
    SESSION_MAP (st_maps (lk_upf l')) = (SESSION_MAP (st_maps U))(SessionKey (ip_be ue) := None) \<and>
    PDR_MAP (st_maps (lk_upf l')) = PDR_MAP (st_maps U) |` (- (PdrKey_new sid ` {1, 2})) \<and>
    FAR_MAP (st_maps (lk_upf l')) = FAR_MAP (st_maps U) |` (- (FarKey_new sid ` {1, 2}))"
proof -
  let ?net = "cfg_network cfg" and ?cp = "sim_next_cp_seid s" and ?td = "next_teid (st_server U)"
    and ?n3 = "n3_addr (st_server U)"
  let ?gnb = "nc_gnb_addr ?net"
  let ?d = "lifecycle_data ue ?td ?gnb ?cp"
  let ?pdrs = "pdr_entries sid ue (map parsed_of_pdr_params (lifecycle_pdrs ue ?gnb))"
  let ?fars = "far_entries sid ?n3 (map parsed_of_far_params (lifecycle_fars ?gnb (sim_next_gnb_teid s)))"
  have sq: "unat (sim_next_seq s) < 2 ^ 24" "unat (sim_next_seq s + 1) + 1 < 2 ^ 24"
    using assms(8) by (simp_all add: unat_word_ariths)
  obtain tr1 s1 l1 session where e: "lifecycle_establish (upf_net E src upf) ?net tr s l = (tr1, s1, l1, Inr session)"
      "tr_ok upf tr1" "quiet l1" "ss_cp_seid session = ?cp" "ss_upf_seid session = sid"
      "sim_next_seq s1 = sim_next_seq s + 1" "sim_sessions s1 = (sim_sessions s)(?cp \<mapsto> session)"
      "sessions (st_server (lk_upf l1)) = (sessions (st_server U))(sid \<mapsto> ?d)"
    and reg: "registered src node (st_server (lk_upf l1)) (a\<lparr>as_sessions := (as_sessions a)(?cp \<mapsto> ?d)\<rparr>)"
    and maps: "SESSION_MAP (st_maps (lk_upf l1)) = (SESSION_MAP (st_maps U))(SessionKey (ip_be ue) \<mapsto> lifecycle_info sid ?td ?gnb ?n3 ue)"
      "PDR_MAP (st_maps (lk_upf l1)) = PDR_MAP (st_maps U) ++ map_of (rev ?pdrs)"
      "FAR_MAP (st_maps (lk_upf l1)) = FAR_MAP (st_maps U) ++ map_of (rev ?fars)"
    using link_establish [OF assms(1-7) sq(1) assms(9-11), of ?net] unfolding U_def sid_def ue_def by blast
  define l2 where "l2 = l1\<lparr>lk_clock := lk_clock l1 + secs (unat (tc_heartbeat_interval_sec (cfg_timing cfg) * 3 + 5))\<rparr>"
  have up: "lk_upf l2 = lk_upf l1" "quiet l2" using e(3) by (simp_all add: l2_def)
  have added: "set (map fst (rev ?pdrs)) \<subseteq> PdrKey_new sid ` {1, 2}" "set (map fst (rev ?fars)) \<subseteq> FarKey_new sid ` {1, 2}"
    by (simp_all add: pdr_entries_def far_entries_def lifecycle_pdrs_def lifecycle_fars_def tunnel_far_def
        parsed_of_pdr_params_def parsed_of_far_params_def)
  have "\<exists>tr3 s3 l3 rsp3 tr4 s4 l4 rsp4. lifecycle_modify (upf_net E src upf) ?net sid tr1 s1 l2 = (tr3, s3, l3, Inr rsp3) \<and>
    lifecycle_delete (upf_net E src upf) ?cp sid tr3 s3 l3 = (tr4, s4, l4, Inr rsp4) \<and> quiet l4 \<and>
    sim_next_seq s4 = sim_next_seq s1 + 2 \<and> sim_sessions s4 = (sim_sessions s1)(?cp := None) \<and>
    sessions (st_server (lk_upf l4)) = (sessions (st_server (lk_upf l2)))(sid := None) \<and>
    SESSION_MAP (st_maps (lk_upf l4)) = (SESSION_MAP (st_maps (lk_upf l2)))(SessionKey (ip_be ue) := None) \<and>
    PDR_MAP (st_maps (lk_upf l4)) = PDR_MAP (st_maps (lk_upf l2)) |` (- (PdrKey_new sid ` {1, 2})) \<and>
    FAR_MAP (st_maps (lk_upf l4)) = FAR_MAP (st_maps (lk_upf l2)) |` (- (FarKey_new sid ` {1, 2}))"
    by (rule link_tear_down [OF assms(1,3,4) up(2) e(2) _ reg [folded up(1)], where gnb = ?gnb and td = ?td and nip = ?n3])
      (use e(6,8) sq(2) maps up assms(12) in \<open>simp_all add: sid_def\<close>)
  then show ?thesis
    using e up maps restrict_added [OF added(1)] restrict_added [OF added(2)]
    by (auto simp: lifecycle_session_def l2_def [symmetric] Let_def simp del: image_insert)
qed

section \<open>The whole run\<close>

text \<open>
  C3: The simulator's basic lifecycle scenario, run over a network that loses nothing against a
  UPF that does not know the simulator yet and has room in its maps, ends successfully:
  it associates, establishes a session, modifies it and deletes it. The UPF's session table is
  afterwards exactly what it was, the UE's entry and the PDRs and FARs of the session are gone from
  the data path, nothing else of these maps changed, the simulator has forgotten the session and has
  used four sequence numbers.
\<close>

theorem lifecycle_passes:
  fixes cfg :: sim_config and s :: sim_state and l :: upf_link
  assumes "env_laws E" "env_roomy E" "order_laws E" "is_v4 src" "quiet l" "tr_ok upf tr"
    and "unat (sim_next_seq s) + 3 < 2 ^ 24" "sim_next_ue_ip s \<le> sim_ue_ip_end s"
    and "stranger src (nc_smf_n4_addr (cfg_network cfg)) (st_server (lk_upf l))"
    and "next_seid (st_server (lk_upf l)) \<noteq> 0" "next_teid (st_server (lk_upf l)) \<noteq> 0"
    and "local_seid (next_seid (st_server (lk_upf l)))" "sessions (st_server (lk_upf l)) (next_seid (st_server (lk_upf l))) = None"
  defines "U \<equiv> lk_upf l" and "sid \<equiv> next_seid (st_server (lk_upf l))"
  shows "\<exists>tr' s' l'. basic_lifecycle_run (upf_net E src upf) cfg rts tr s l = Some (tr', s', l', Inr ()) \<and>
    sim_next_seq s' = sim_next_seq s + 4 \<and> sim_sessions s' = (sim_sessions s)(sim_next_cp_seid s := None) \<and>
    sessions (st_server (lk_upf l')) = sessions (st_server U) \<and>
    SESSION_MAP (st_maps (lk_upf l')) =
      (SESSION_MAP (st_maps U))(SessionKey (ip_be (ip_from_u32 (sim_next_ue_ip s))) := None) \<and>
    PDR_MAP (st_maps (lk_upf l')) = PDR_MAP (st_maps U) |` (- (PdrKey_new sid ` {1, 2})) \<and>
    FAR_MAP (st_maps (lk_upf l')) = FAR_MAP (st_maps U) |` (- (FarKey_new sid ` {1, 2}))"
proof -
  let ?smf = "nc_smf_n4_addr (cfg_network cfg)" and ?s1 = "s\<lparr>sim_next_seq := sim_next_seq s + 1\<rparr>"
  have sq: "unat (sim_next_seq s) < 2 ^ 24" "unat (sim_next_seq ?s1) + 2 < 2 ^ 24"
    using assms(7) by (simp_all add: unat_word_ariths)
  obtain tr1 l1 rsp a where a: "associate_loop (upf_net E src upf) ?smf rts tr s 0 l = Some (tr1, ?s1, 1, l1, rsp)"
      "tr_ok upf tr1" "quiet l1" "registered src ?smf (st_server (lk_upf l1)) a"
      "sessions (st_server (lk_upf l1)) = sessions (st_server U)" "next_seid (st_server (lk_upf l1)) = sid"
      "next_teid (st_server (lk_upf l1)) = next_teid (st_server U)" "st_maps (lk_upf l1) = st_maps U"
    using link_associate [OF assms(5,6) sq(1) assms(9), where E = E and rts = rts] unfolding U_def sid_def by blast
  have ok: "sim_next_ue_ip ?s1 \<le> sim_ue_ip_end ?s1" "next_seid (st_server (lk_upf l1)) \<noteq> 0"
      "next_teid (st_server (lk_upf l1)) \<noteq> 0" "local_seid (next_seid (st_server (lk_upf l1)))"
    using a assms(8,10-12) by (simp_all add: U_def sid_def)
  obtain tr2 s2 l2 where "lifecycle_session (upf_net E src upf) cfg tr1 ?s1 l1 = (tr2, s2, l2, Inr ())"
      "sim_next_seq s2 = sim_next_seq ?s1 + 3" "sim_sessions s2 = (sim_sessions ?s1)(sim_next_cp_seid ?s1 := None)"
      "sessions (st_server (lk_upf l2)) = (sessions (st_server (lk_upf l1)))(sid := None)"
      "SESSION_MAP (st_maps (lk_upf l2)) =
        (SESSION_MAP (st_maps (lk_upf l1)))(SessionKey (ip_be (ip_from_u32 (sim_next_ue_ip ?s1))) := None)"
      "PDR_MAP (st_maps (lk_upf l2)) = PDR_MAP (st_maps (lk_upf l1)) |` (- (PdrKey_new sid ` {1, 2}))"
      "FAR_MAP (st_maps (lk_upf l2)) = FAR_MAP (st_maps (lk_upf l1)) |` (- (FarKey_new sid ` {1, 2}))"
    using link_session [OF assms(1-4) a(3,2,4) sq(2) ok, of cfg] unfolding a(6) by blast
  moreover have "(sessions (st_server U))(sid := None) = sessions (st_server U)"
    using assms(13) by (simp add: U_def sid_def fun_upd_idem)
  ultimately show ?thesis
    using a by (simp add: basic_lifecycle_run_def del: image_insert)
qed

text \<open>An environment whose association order is the one the model's hash map may have.\<close>

definition all_bytes :: "u8 list" where
  "all_bytes = map word_of_nat [0..<256]"

definition all_ipv4 :: "ipv4 list" where
  "all_ipv4 = concat (map (\<lambda>a. concat (map (\<lambda>b. concat (map (\<lambda>c. map (Ipv4Addr a b c) all_bytes) all_bytes)) all_bytes)) all_bytes)"

lemma in_all_bytes: "v \<in> set all_bytes"
proof -
  have "v \<in> word_of_nat ` {0..<256}"
    by (rule image_eqI [where x = "unat v"]) (use unsigned_less [of v, where 'a = nat] in simp_all)
  then show ?thesis by (simp add: all_bytes_def del: upt_Suc)
qed

lemma in_all_ipv4: "a \<in> set all_ipv4"
proof (cases a)
  case (Ipv4Addr w x y z)
  have "Ipv4Addr w x y z \<in> Ipv4Addr w x y ` set all_bytes" by (rule imageI [OF in_all_bytes])
  with Ipv4Addr show ?thesis
    using in_all_bytes unfolding all_ipv4_def by simp blast
qed

definition lifecycle_env :: upf_env where
  "lifecycle_env = (demo_upf_env [])\<lparr>assoc_order := (\<lambda>m. filter (\<lambda>k. m k \<noteq> None) all_ipv4)\<rparr>"

lemma lifecycle_env_ok: "env_laws lifecycle_env" "env_roomy lifecycle_env" "order_laws lifecycle_env"
proof -
  show "env_laws lifecycle_env" "env_roomy lifecycle_env"
    using demo_upf_env_ok [of "[]"] by (simp_all add: lifecycle_env_def env_laws_def env_roomy_def)
  show "order_laws lifecycle_env"
    using in_all_ipv4 by (auto simp: lifecycle_env_def order_laws_def)
qed

definition fresh_link :: "bool list \<Rightarrow> upf_link" where
  "fresh_link lost = \<lparr>lk_upf = demo_state\<lparr>st_server := (st_server demo_state)\<lparr>associations := Map.empty\<rparr>\<rparr>,
     lk_inbox = [], lk_lost = lost, lk_clock = 0\<rparr>"

lemma fresh_link_ok:
  "stranger demo_src node (st_server (lk_upf (fresh_link lost)))" "next_seid (st_server (lk_upf (fresh_link lost))) = 1"
  "next_teid (st_server (lk_upf (fresh_link lost))) = 1000" "sessions (st_server (lk_upf (fresh_link lost))) = Map.empty"
  "local_seid 1" "quiet (fresh_link [])"
  by (simp_all add: fresh_link_def stranger_def demo_state_def pfcp_server_new_def local_seid_def quiet_def)

definition demo_config :: sim_config where
  "demo_config = \<lparr>cfg_network = \<lparr>nc_smf_n4_addr = Ipv4Addr 10 0 0 1, nc_smf_n4_port = default_pfcp_port,
       nc_upf_n4_addr = Ipv4Addr 10 0 0 2, nc_upf_n4_port = default_pfcp_port,
       nc_gnb_addr = Ipv4Addr 172 22 0 23, nc_gnb_gtpu_port = default_gtpu_port\<rparr>,
     cfg_session = \<lparr>sc_ue_ip_pool_start = Ipv4Addr 10 45 0 1, sc_ue_ip_pool_end = Ipv4Addr 10 45 0 100,
       sc_gnb_teid_start = default_gnb_teid_start, sc_max_sessions = default_max_sessions\<rparr>,
     cfg_timing = \<lparr>tc_heartbeat_interval_sec = default_heartbeat_interval,
       tc_response_timeout_ms = default_response_timeout, tc_max_retries = default_max_retries\<rparr>\<rparr>"

theorem lifecycle_passes_witness:
  "\<exists>tr' s' l'. basic_lifecycle_run (upf_net lifecycle_env demo_src demo_peer) demo_config 99
      (transport_new 0 demo_peer default_response_timeout default_max_retries)
      (sim_state_new 0 (cfg_session demo_config)) (fresh_link []) = Some (tr', s', l', Inr ()) \<and>
    sim_next_seq s' = 5 \<and> sessions (st_server (lk_upf l')) = Map.empty"
proof -
  let ?s = "sim_state_new 0 (cfg_session demo_config)"
  have "tr_ok demo_peer (transport_new 0 demo_peer default_response_timeout default_max_retries)"
    by (simp add: tr_ok_def transport_new_def)
  moreover have "unat (sim_next_seq ?s) + 3 < 2 ^ 24" "sim_next_ue_ip ?s \<le> sim_ue_ip_end ?s"
    by (simp_all add: sim_state_new_def demo_config_def u32_from_ip_def from_be_bytes_def)
  ultimately show ?thesis
    using lifecycle_passes [of lifecycle_env demo_src "fresh_link []" demo_peer "transport_new 0 demo_peer default_response_timeout default_max_retries" ?s demo_config 99]
      fresh_link_ok lifecycle_env_ok
    by (auto simp: sim_state_new_def)
qed

section \<open>A lost answer\<close>

lemma link_exchange_retried:
  fixes l :: upf_link
  assumes "\<exists>h. pfcp_header_decode req = Inr (h, body) \<and> msg_type h = t \<and> seq_num h = sq \<and> seid h = sd"
    and "lossy l" "tr_ok upf tr" "0 < tr_max_retries tr" "length r \<le> 4096"
    and "serve_datagram (E\<lparr>env_now := lk_clock l\<rparr>) req smf (lk_upf l) = (st1, Some r1)"
    and "serve_datagram (E\<lparr>env_now := lk_clock l + tr_response_timeout tr\<rparr>) req smf st1 = (st', Some r)"
  shows "\<exists>now. exchange (upf_net E smf upf) tr t sq req l =
    (tr\<lparr>tr_last_activity := now\<rparr>, l\<lparr>lk_upf := st', lk_lost := [], lk_clock := now\<rparr>, Inr r)"
  using exchange_retried [of req _ body l tr upf E smf st1 r1 st' r] assms by (auto simp: tr_ok_def)

lemma establish_retried:
  fixes net :: network_config and s :: sim_state and l :: upf_link
  assumes "env_laws E" "env_roomy E" "order_laws E" "is_v4 src" "lossy l" "tr_ok upf tr" "0 < tr_max_retries tr"
    and "registered src node (st_server (lk_upf l)) a" "unat (sim_next_seq s) < 2 ^ 24"
    and "sim_next_ue_ip s \<le> sim_ue_ip_end s"
    and "next_seid (st_server (lk_upf l)) + 1 \<noteq> 0" "next_teid (st_server (lk_upf l)) + 1 \<noteq> 0"
  defines "U \<equiv> lk_upf l" and "sid \<equiv> next_seid (st_server (lk_upf l))" and "td \<equiv> next_teid (st_server (lk_upf l))"
    and "nip \<equiv> n3_addr (st_server (lk_upf l))" and "gnb \<equiv> nc_gnb_addr net" and "ue \<equiv> ip_from_u32 (sim_next_ue_ip s)"
    and "cp \<equiv> sim_next_cp_seid s"
  shows "\<exists>tr' s' l' session a' m. lifecycle_establish (upf_net E src upf) net tr s l = (tr', s', l', Inr session) \<and>
    tr_ok upf tr' \<and> quiet l' \<and> ss_cp_seid session = cp \<and> ss_upf_seid session = sid + 1 \<and>
    sim_next_seq s' = sim_next_seq s + 1 \<and> sim_sessions s' = (sim_sessions s)(cp \<mapsto> session) \<and>
    sessions (st_server (lk_upf l')) = (sessions (st_server U))
      (sid \<mapsto> lifecycle_data ue td gnb cp, sid + 1 \<mapsto> lifecycle_data ue (td + 1) gnb cp) \<and>
    registered src node (st_server (lk_upf l')) a' \<and> as_sessions a' cp \<noteq> None \<and>
    SESSION_MAP (st_maps (lk_upf l')) (SessionKey (ip_be ue)) = Some (lifecycle_info (sid + 1) (td + 1) gnb nip ue) \<and>
    PDR_MAP (st_maps (lk_upf l')) =
      m ++ map_of (rev (pdr_entries (sid + 1) ue (map parsed_of_pdr_params (lifecycle_pdrs ue gnb))))"
proof -
  let ?E = "\<lambda>t. E\<lparr>env_now := t\<rparr>" and ?t = "lk_clock l + tr_response_timeout tr"
  let ?req = "lifecycle_establishment_request net (sim_next_seq s) cp ue (sim_next_gnb_teid s)"
  have laws: "env_laws (?E t)" "env_roomy (?E t)" "order_laws (?E t)" for t using assms(1-3) by simp_all
  let ?a1 = "a\<lparr>as_sessions := (as_sessions a)(cp \<mapsto> lifecycle_data ue td gnb cp)\<rparr>"
  obtain st1 where st1: "serve_datagram (?E (lk_clock l)) ?req src (lk_upf l) =
      (st1, Some (build_session_establishment_response (sim_next_seq s) cp sid nip [(1, td, nip)]))"
    and s1: "sessions (st_server st1) = (sessions (st_server U))(sid \<mapsto> lifecycle_data ue td gnb cp)"
    and r1: "registered src node (st_server st1) ?a1"
    and c: "next_seid (st_server st1) = sid + 1" "next_teid (st_server st1) = td + 1" "n3_addr (st_server st1) = nip"
    using serve_establishment [OF laws assms(9,4,8), of "lk_clock l" net cp ue "sim_next_gnb_teid s"]
    unfolding U_def sid_def td_def nip_def gnb_def by blast
  let ?a2 = "?a1\<lparr>as_sessions := (as_sessions ?a1)(cp \<mapsto> lifecycle_data ue (td + 1) gnb cp)\<rparr>"
  obtain st2 where st2: "serve_datagram (?E ?t) ?req src st1 =
      (st2, Some (build_session_establishment_response (sim_next_seq s) cp (sid + 1) nip [(1, td + 1, nip)]))"
    and s2: "sessions (st_server st2) = (sessions (st_server st1))(sid + 1 \<mapsto> lifecycle_data ue (td + 1) gnb cp)"
    and r2: "registered src node (st_server st2) ?a2"
    and m2: "SESSION_MAP (st_maps st2) = (SESSION_MAP (st_maps st1))(SessionKey (ip_be ue) \<mapsto>
        lifecycle_info (sid + 1) (td + 1) gnb nip ue)"
      "PDR_MAP (st_maps st2) = PDR_MAP (st_maps st1) ++
        map_of (rev (pdr_entries (sid + 1) ue (map parsed_of_pdr_params (lifecycle_pdrs ue gnb))))"
    using serve_establishment [OF laws assms(9,4) r1, of ?t net cp ue "sim_next_gnb_teid s"]
    unfolding c gnb_def by blast
  obtain now where ex: "exchange (upf_net E src upf) tr PFCP_SESSION_ESTABLISHMENT_REQ (sim_next_seq s) ?req l =
      (tr\<lparr>tr_last_activity := now\<rparr>, l\<lparr>lk_upf := st2, lk_lost := [], lk_clock := now\<rparr>,
       Inr (build_session_establishment_response (sim_next_seq s) cp (sid + 1) nip [(1, td + 1, nip)]))"
    using link_exchange_retried [OF lifecycle_request_header [OF assms(9)] assms(5-7) answer_lengths(2) st1 st2] by blast
  have "sid + 1 \<noteq> 0" "td + 1 \<noteq> 0" using assms(11,12) by (simp_all add: sid_def td_def)
  from establish_answered [OF assms(9,10) this ex [unfolded cp_def ue_def]] obtain s' session where
    "lifecycle_establish (upf_net E src upf) net tr s l =
       (tr\<lparr>tr_last_activity := now\<rparr>, s', l\<lparr>lk_upf := st2, lk_lost := [], lk_clock := now\<rparr>, Inr session)"
    "ss_cp_seid session = cp" "ss_upf_seid session = sid + 1" "sim_next_seq s' = sim_next_seq s + 1"
    "sim_sessions s' = (sim_sessions s)(cp \<mapsto> session)"
    by (auto simp: cp_def)
  then show ?thesis
    using s1 s2 r2 m2 assms(5,6)
    by (intro exI [of _ "tr\<lparr>tr_last_activity := now\<rparr>"] exI [of _ s'] exI [of _ session] exI [of _ ?a2] exI [of _ "PDR_MAP (st_maps st1)"]
        exI [of _ "l\<lparr>lk_upf := st2, lk_lost := [], lk_clock := now\<rparr>"]) (simp add: lossy_def quiet_def)
qed

text \<open>
  C30: The UPF does not recognise a retransmitted request. If the answer to the scenario's
  establishment request is lost and the simulator repeats the request, the UPF creates a second
  session for the same UE. The simulator learns only of the second, and when it has modified and
  deleted it and reports success, the first session is still in the UPF's table.
\<close>

theorem lost_answer_leaks_session:
  fixes cfg :: sim_config and s :: sim_state and l :: upf_link
  assumes "env_laws E" "env_roomy E" "order_laws E" "is_v4 src" "lossy l" "tr_ok upf tr" "0 < tr_max_retries tr"
    and "registered src node (st_server (lk_upf l)) a" "unat (sim_next_seq s) + 2 < 2 ^ 24"
    and "sim_next_ue_ip s \<le> sim_ue_ip_end s"
    and "next_seid (st_server (lk_upf l)) + 1 \<noteq> 0" "next_teid (st_server (lk_upf l)) + 1 \<noteq> 0"
    and "local_seid (next_seid (st_server (lk_upf l)) + 1)"
  defines "U \<equiv> lk_upf l" and "sid \<equiv> next_seid (st_server (lk_upf l))"
  shows "\<exists>tr' s' l'. lifecycle_session (upf_net E src upf) cfg tr s l = (tr', s', l', Inr ()) \<and>
    sim_sessions s' = (sim_sessions s)(sim_next_cp_seid s := None) \<and>
    sessions (st_server (lk_upf l')) = (sessions (st_server U))(sid \<mapsto> lifecycle_data (ip_from_u32 (sim_next_ue_ip s))
      (next_teid (st_server U)) (nc_gnb_addr (cfg_network cfg)) (sim_next_cp_seid s), sid + 1 := None) \<and>
    SESSION_MAP (st_maps (lk_upf l')) (SessionKey (ip_be (ip_from_u32 (sim_next_ue_ip s)))) = None"
proof -
  let ?net = "cfg_network cfg" and ?cp = "sim_next_cp_seid s" and ?td = "next_teid (st_server U)"
    and ?nip = "n3_addr (st_server U)" and ?ue = "ip_from_u32 (sim_next_ue_ip s)"
  let ?gnb = "nc_gnb_addr ?net"
  have sq: "unat (sim_next_seq s) < 2 ^ 24" "unat (sim_next_seq s + 1) + 1 < 2 ^ 24"
    using assms(9) by (simp_all add: unat_word_ariths)
  obtain tr1 s1 l1 session a1 m where e: "lifecycle_establish (upf_net E src upf) ?net tr s l = (tr1, s1, l1, Inr session)"
      "tr_ok upf tr1" "quiet l1" "ss_cp_seid session = ?cp" "ss_upf_seid session = sid + 1"
      "sim_next_seq s1 = sim_next_seq s + 1" "sim_sessions s1 = (sim_sessions s)(?cp \<mapsto> session)"
      "sessions (st_server (lk_upf l1)) = (sessions (st_server U))
        (sid \<mapsto> lifecycle_data ?ue ?td ?gnb ?cp, sid + 1 \<mapsto> lifecycle_data ?ue (?td + 1) ?gnb ?cp)"
      "registered src node (st_server (lk_upf l1)) a1" "as_sessions a1 ?cp \<noteq> None"
      "SESSION_MAP (st_maps (lk_upf l1)) (SessionKey (ip_be ?ue)) = Some (lifecycle_info (sid + 1) (?td + 1) ?gnb ?nip ?ue)"
      "PDR_MAP (st_maps (lk_upf l1)) =
        m ++ map_of (rev (pdr_entries (sid + 1) ?ue (map parsed_of_pdr_params (lifecycle_pdrs ?ue ?gnb))))"
    using establish_retried [OF assms(1-8) sq(1) assms(10-12), of ?net] unfolding U_def sid_def by blast
  define l2 where "l2 = l1\<lparr>lk_clock := lk_clock l1 + secs (unat (tc_heartbeat_interval_sec (cfg_timing cfg) * 3 + 5))\<rparr>"
  have up: "lk_upf l2 = lk_upf l1" "quiet l2" using e(3) by (simp_all add: l2_def)
  have local: "local_seid (sid + 1)" "unat (sim_next_seq s1) + 1 < 2 ^ 24"
      "sessions (st_server (lk_upf l2)) (sid + 1) = Some (lifecycle_data ?ue (?td + 1) ?gnb ?cp)"
    using assms(13) e(6,8) sq(2) up(1) by (simp_all add: sid_def)
  note link_tear_down [OF assms(1,3,4) up(2) e(2) local(2) e(9) [folded up(1)] e(10) local(1,3) e(11,12) [folded up(1)], of ?net]
  with e up show ?thesis
    by (auto simp: lifecycle_session_def l2_def [symmetric] Let_def simp del: image_insert)
qed

text \<open>A UPF that knows the simulator, behind a network that loses the next answer.\<close>

definition lossy_link :: upf_link where
  "lossy_link = (fresh_link [True])\<lparr>lk_upf := demo_state\<rparr>"

theorem lost_answer_leaks_session_witness:
  "\<exists>tr' s' l'. lifecycle_session (upf_net lifecycle_env demo_src demo_peer) demo_config
      (transport_new 0 demo_peer default_response_timeout default_max_retries)
      (sim_state_new 0 (cfg_session demo_config)) lossy_link = (tr', s', l', Inr ()) \<and>
    sim_sessions s' = Map.empty \<and>
    sessions (st_server (lk_upf l')) = [1 \<mapsto> lifecycle_data (Ipv4Addr 10 45 0 1) 1000 (Ipv4Addr 172 22 0 23) 1]"
proof -
  let ?s = "sim_state_new 0 (cfg_session demo_config)"
  let ?tr = "transport_new 0 demo_peer default_response_timeout default_max_retries"
  have t: "tr_ok demo_peer ?tr" "0 < tr_max_retries ?tr"
    by (simp_all add: tr_ok_def transport_new_def)
  have q: "unat (sim_next_seq ?s) + 2 < 2 ^ 24" "sim_next_ue_ip ?s \<le> sim_ue_ip_end ?s"
    by (simp_all add: sim_state_new_def demo_config_def u32_from_ip_def from_be_bytes_def)
  have l: "lossy lossy_link" "registered demo_src (Ipv4Addr 10 0 0 1) (st_server (lk_upf lossy_link)) demo_smf"
    by (simp_all add: lossy_def lossy_link_def fresh_link_def registered_def demo_state_def demo_smf_def smf_association_new_def)
  have u: "next_seid (st_server (lk_upf lossy_link)) = 1" "next_teid (st_server (lk_upf lossy_link)) = 1000"
      "sessions (st_server (lk_upf lossy_link)) = Map.empty" "local_seid 2"
    by (simp_all add: lossy_link_def demo_state_def pfcp_server_new_def local_seid_def)
  have v: "ip_from_u32 (sim_next_ue_ip ?s) = Ipv4Addr 10 45 0 1" "sim_next_cp_seid ?s = 1" "sim_sessions ?s = Map.empty"
      "nc_gnb_addr (cfg_network demo_config) = Ipv4Addr 172 22 0 23"
    by (simp_all add: sim_state_new_def demo_config_def)
  show ?thesis
    using lost_answer_leaks_session [OF lifecycle_env_ok _ l(1) t l(2) q, of demo_config] u(4) unfolding u(1-3) v by auto
qed

end
