(* ===== verification/Smf_Tui.thy ===== *)
theory Smf_Tui
  imports Tui_Common Lifecycle
begin

text \<open>
  The simulator's terminal interface (src/smf-sim/src/tui): commands, the application state, the
  tasks a command starts (adding and deleting sessions, a heartbeat) over the network parameter of
  \<open>Smf_Transport\<close>, the initial association, and the event loop. Tasks return the events they send to
  the interface; a task runs to its end before the next one is started.
\<close>

section \<open>Commands\<close>

datatype sim_command =
  SimShowSessions
| SimShowSession u64
| SimAddSession u32
| SimDelSession u64
| SimHeartbeat
| SimClear
| SimHelp
| SimQuit

definition sim_parse_seid :: "string \<Rightarrow> parse_error + u64" where
  "sim_parse_seid s =
     (case (case strip_prefix ''0x'' s of Some h \<Rightarrow> Some h | None \<Rightarrow> strip_prefix ''0X'' s) of
        Some hex \<Rightarrow> (case parse_hex hex of None \<Rightarrow> Inl (WrongSeid s) | Some v \<Rightarrow> Inr v)
      | None \<Rightarrow> (case parse_word s of None \<Rightarrow> Inl (WrongSeid s) | Some v \<Rightarrow> Inr v))"

definition sim_from_input :: "string \<Rightarrow> parse_error + sim_command" where
  "sim_from_input input =
     (let parts = split_whitespace (trim_text input) in
      if parts = [''show'', ''sessions''] \<or> parts = [''session'', ''list''] then Inr SimShowSessions
      else if length parts = 3 \<and> take 2 parts = [''show'', ''session'']
      then map_sum id SimShowSession (sim_parse_seid (parts ! 2))
      else if parts = [''add'', ''session''] then Inr (SimAddSession 1)
      else if length parts = 3 \<and> take 2 parts = [''add'', ''session'']
      then (case parse_word (parts ! 2) of None \<Rightarrow> Inl NotAnInteger | Some n \<Rightarrow> Inr (SimAddSession n))
      else if length parts = 3 \<and> take 2 parts = [''del'', ''session'']
      then map_sum id SimDelSession (sim_parse_seid (parts ! 2))
      else if parts = [''heartbeat''] \<or> parts = [''hb''] then Inr SimHeartbeat
      else if parts = [''clear''] then Inr SimClear
      else if parts = [''help''] \<or> parts = [''?''] then Inr SimHelp
      else if parts = [''quit''] \<or> parts = [''exit''] \<or> parts = [''q''] then Inr SimQuit
      else if parts = [] then Inl EmptyCommand
      else Inl (UnknownCommand (trim_text input)))"

section \<open>Application state\<close>

datatype sim_line =
  SStart
| SPrompt string
| SNoSession
| STotal nat
| SRow u64 ipv4 u32 ipv4
| SSeid u64
| SUeIp ipv4
| STeid u64
| SGnbIp ipv4
| SMissing u64
| SHelpLine nat
| SParseFailed parse_error
| SPoolFailed sim_error
| SAddingUe ipv4
| SSessionAdded ipv4 u64
| SExtractFailed sim_error
| SAddFailed sim_error
| SSessionDeleted u64
| SDeleteFailed sim_error
| SNoSuchSession u64
| SHeartbeatOk
| SHeartbeatFailed sim_error
| SConnecting
| SConnected
| SConnectFailed sim_error

datatype sim_app_event =
  SEvLog sim_line
| SEvAssociationChanged bool
| SEvHeartbeatUpdated
| SEvSessionsUpdated "sim_session list"

type_synonym sim_log_entry = "string \<times> sim_line"

record sim_app =
  sa_logs :: "sim_log_entry list"
  sa_sessions :: "sim_session list"
  sa_associated :: bool
  sa_last_hb_secs :: u64
  sa_should_quit :: bool
  sa_last_result :: "string option"

definition sim_app_new :: sim_app where
  "sim_app_new = \<lparr>sa_logs = [], sa_sessions = [], sa_associated = False, sa_last_hb_secs = 0, sa_should_quit = False,
     sa_last_result = None\<rparr>"

definition sim_app_add :: "sim_log_entry \<Rightarrow> sim_app \<Rightarrow> sim_app" where
  "sim_app_add e app =
     (let l = sa_logs app @ [e]
      in app\<lparr>sa_logs := (if length l > 200 then tl l else l)\<rparr>)"

definition sim_app_log :: "string \<Rightarrow> sim_line \<Rightarrow> sim_app \<Rightarrow> sim_app" where
  "sim_app_log now msg app = sim_app_add (now, msg) app"

definition clear_logs :: "sim_app \<Rightarrow> sim_app" where
  "clear_logs app = app\<lparr>sa_logs := []\<rparr>"

definition sim_session_count :: "sim_app \<Rightarrow> nat" where
  "sim_session_count app = length (sa_sessions app)"

section \<open>Tasks\<close>

text \<open>
  \<open>order\<close> is the iteration order of the session table. Adding a session: the sequence number is taken
  first, so it is used up even when the address pool is exhausted, which ends the whole command.
\<close>

definition add_session :: "'p net \<Rightarrow> ((u64 \<rightharpoonup> sim_session) \<Rightarrow> sim_session list) \<Rightarrow> ipv4 \<Rightarrow> ipv4 \<Rightarrow> pfcp_transport \<Rightarrow> sim_state \<Rightarrow> 'p
    \<Rightarrow> (pfcp_transport \<times> sim_state \<times> 'p) \<times> sim_app_event list \<times> bool" where
  "add_session N order smf_addr gnb_addr tr s p =
     (let (s1, sq) = next_seq_num s in
      case alloc_ue_ip s1 of
        (s2, Inl e) \<Rightarrow> ((tr, s2, p), [SEvLog (SPoolFailed e)], False)
      | (s2, Inr ue_ip) \<Rightarrow>
         (let (s3, gnb_teid) = alloc_gnb_teid s2; (s4, cp_seid) = alloc_cp_seid s3;
              req = build_session_establishment_request sq smf_addr cp_seid ue_ip gnb_addr gnb_teid;
              (tr1, p1, r) = send_and_recv N tr req p;
              (s5, line) =
                (case r of
                   Inl e \<Rightarrow> (s4, SAddFailed e)
                 | Inr rsp \<Rightarrow>
                    (case extract_session_info rsp of
                       Inl e \<Rightarrow> (s4, SExtractFailed e)
                     | Inr (upf_seid, upf_teid, upf_n3_addr) \<Rightarrow>
                        (s4\<lparr>sim_sessions := (sim_sessions s4)(cp_seid \<mapsto>
                           \<lparr>ss_cp_seid = cp_seid, ss_upf_seid = upf_seid, ss_upf_teid = upf_teid,
                            ss_upf_n3_addr = upf_n3_addr, ss_ue_ip = ue_ip, ss_gnb_teid = gnb_teid,
                            ss_created_at = net_now N p1\<rparr>)\<rparr>, SSessionAdded ue_ip upf_seid)))
          in ((tr1, s5, p1),
              [SEvLog (SAddingUe ue_ip), SEvLog line, SEvSessionsUpdated (order (sim_sessions s5))], True)))"

primrec add_sessions :: "nat \<Rightarrow> 'p net \<Rightarrow> ((u64 \<rightharpoonup> sim_session) \<Rightarrow> sim_session list) \<Rightarrow> ipv4 \<Rightarrow> ipv4
    \<Rightarrow> pfcp_transport \<times> sim_state \<times> 'p \<Rightarrow> (pfcp_transport \<times> sim_state \<times> 'p) \<times> sim_app_event list" where
  "add_sessions 0 N order smf_addr gnb_addr st = (st, [])"
| "add_sessions (Suc n) N order smf_addr gnb_addr st =
     (case st of (tr, s, p) \<Rightarrow>
      case add_session N order smf_addr gnb_addr tr s p of
        (st1, es, False) \<Rightarrow> (st1, es)
      | (st1, es, True) \<Rightarrow>
         (case add_sessions n N order smf_addr gnb_addr st1 of (st2, es') \<Rightarrow> (st2, es @ es')))"

text \<open>The session table is keyed by CP SEID; the result of the validation is discarded.\<close>

definition del_session :: "'p net \<Rightarrow> ((u64 \<rightharpoonup> sim_session) \<Rightarrow> sim_session list) \<Rightarrow> u64 \<Rightarrow> pfcp_transport \<times> sim_state \<times> 'p
    \<Rightarrow> (pfcp_transport \<times> sim_state \<times> 'p) \<times> sim_app_event list" where
  "del_session N order sid st =
     (case st of (tr, s, p) \<Rightarrow>
      case map_option ss_upf_seid (sim_sessions s sid) of
        None \<Rightarrow> (st, [SEvLog (SNoSuchSession sid)])
      | Some upf_seid \<Rightarrow>
         (let (s1, sq) = next_seq_num s in
          case send_and_recv N tr (deletion_request upf_seid sq) p of
            (tr1, p1, Inl e) \<Rightarrow> ((tr1, s1, p1), [SEvLog (SDeleteFailed e)])
          | (tr1, p1, Inr rsp) \<Rightarrow>
             (let ignored = validate_response PFCP_SESSION_DELETION_REQ sq rsp;
                  s2 = s1\<lparr>sim_sessions := (sim_sessions s1)(sid := None)\<rparr>
              in ((tr1, s2, p1), [SEvSessionsUpdated (order (sim_sessions s2)), SEvLog (SSessionDeleted sid)]))))"

text \<open>The manual heartbeat carries the current time as its recovery time stamp.\<close>

definition tui_heartbeat :: "'p net \<Rightarrow> pfcp_transport \<times> sim_state \<times> 'p
    \<Rightarrow> (pfcp_transport \<times> sim_state \<times> 'p) \<times> sim_app_event list" where
  "tui_heartbeat N st =
     (case st of (tr, s, p) \<Rightarrow>
      let (s1, sq) = next_seq_num s in
      case send_and_recv N tr (heartbeat_request sq (ucast (net_unix N p) + 2208988800)) p of
        (tr1, p1, Inr rsp) \<Rightarrow> ((tr1, s1, p1), [SEvLog SHeartbeatOk, SEvHeartbeatUpdated])
      | (tr1, p1, Inl e) \<Rightarrow> ((tr1, s1, p1), [SEvLog (SHeartbeatFailed e)]))"

definition handle_async_command :: "'p net \<Rightarrow> ((u64 \<rightharpoonup> sim_session) \<Rightarrow> sim_session list) \<Rightarrow> ipv4 \<Rightarrow> ipv4 \<Rightarrow> sim_command
    \<Rightarrow> pfcp_transport \<times> sim_state \<times> 'p \<Rightarrow> (pfcp_transport \<times> sim_state \<times> 'p) \<times> sim_app_event list" where
  "handle_async_command N order smf_addr gnb_addr cmd st =
     (case cmd of
        SimAddSession count \<Rightarrow> add_sessions (unat count) N order smf_addr gnb_addr st
      | SimDelSession sid \<Rightarrow> del_session N order sid st
      | SimHeartbeat \<Rightarrow> tui_heartbeat N st
      | _ \<Rightarrow> (st, []))"

text \<open>The initial association: sequence number 1, repeated every ten seconds until it succeeds.\<close>

definition tui_do_association :: "'p net \<Rightarrow> u32 \<Rightarrow> ipv4 \<Rightarrow> pfcp_transport \<Rightarrow> 'p
    \<Rightarrow> pfcp_transport \<times> 'p \<times> (sim_error + u32 option)" where
  "tui_do_association N rts smf_addr tr p =
     (case exchange N tr PFCP_ASSOCIATION_SETUP_REQ 1 (association_request 1 smf_addr rts) p of
        (tr1, p1, r) \<Rightarrow> (tr1, p1, map_sum id extract_recovery_ts r))"

partial_function (option) tui_associate :: "'p net \<Rightarrow> u32 \<Rightarrow> ipv4 \<Rightarrow> pfcp_transport \<Rightarrow> sim_state \<Rightarrow> 'p \<Rightarrow> sim_app_event list
    \<Rightarrow> ((pfcp_transport \<times> sim_state \<times> 'p) \<times> sim_app_event list) option" where
  "tui_associate N rts smf_addr tr s p es =
     (let (tr1, p1, r) = tui_do_association N rts smf_addr tr p
      in case r of
           Inl e \<Rightarrow> tui_associate N rts smf_addr tr1 s (net_sleep N p1 (secs 10)) (es @ [SEvLog (SConnectFailed e)])
         | Inr upf_ts \<Rightarrow>
             Some ((tr1, case upf_ts of None \<Rightarrow> s | Some ts \<Rightarrow> s\<lparr>sim_upf_recovery_ts := Some ts\<rparr>, p1),
               es @ [SEvAssociationChanged True, SEvLog SConnected]))"

section \<open>The interface\<close>

definition sim_row :: "sim_session \<Rightarrow> sim_line" where
  "sim_row s = SRow (ss_upf_seid s) (ss_ue_ip s) (ss_upf_teid s) (ss_upf_n3_addr s)"

definition sim_execute_command :: "string \<Rightarrow> string \<Rightarrow> sim_app \<Rightarrow> sim_app \<times> sim_command option" where
  "sim_execute_command now input app0 =
     (let app = sim_app_log now (SPrompt input) app0 in
      case sim_from_input input of
        Inl e \<Rightarrow> (sim_app_log now (SParseFailed e) app, None)
      | Inr cmd \<Rightarrow>
         (case cmd of
            SimShowSessions \<Rightarrow>
              (if sa_sessions app = [] then sim_app_log now SNoSession app
               else fold (sim_app_log now) (map sim_row (sa_sessions app))
                      (sim_app_log now (STotal (length (sa_sessions app))) app), None)
          | SimShowSession sid \<Rightarrow>
              (case find (\<lambda>s. ss_upf_seid s = sid) (sa_sessions app) of
                 Some s \<Rightarrow> sim_app_log now (SGnbIp (ss_upf_n3_addr s)) (sim_app_log now (STeid (ss_cp_seid s))
                   (sim_app_log now (SUeIp (ss_ue_ip s)) (sim_app_log now (SSeid (ss_upf_seid s)) app)))
               | None \<Rightarrow> sim_app_log now (SMissing sid) app, None)
          | SimAddSession _ \<Rightarrow> (app, Some cmd)
          | SimDelSession _ \<Rightarrow> (app, Some cmd)
          | SimHeartbeat \<Rightarrow> (app, Some cmd)
          | SimClear \<Rightarrow> (app\<lparr>sa_logs := []\<rparr>, None)
          | SimHelp \<Rightarrow> (fold (sim_app_log now) (map SHelpLine [0..<10]) app, None)
          | SimQuit \<Rightarrow> (app\<lparr>sa_should_quit := True\<rparr>, None)))"

definition apply_app_event :: "string \<Rightarrow> sim_app_event \<Rightarrow> sim_app \<Rightarrow> sim_app" where
  "apply_app_event now ev app =
     (case ev of
        SEvLog msg \<Rightarrow> sim_app_log now msg app
      | SEvAssociationChanged v \<Rightarrow> app\<lparr>sa_associated := v\<rparr>
      | SEvHeartbeatUpdated \<Rightarrow> app\<lparr>sa_last_hb_secs := 0\<rparr>
      | SEvSessionsUpdated ss \<Rightarrow> app\<lparr>sa_sessions := ss\<rparr>)"

text \<open>A key event: the new interface state and the command to start, if any.\<close>

definition sim_tui_key :: "'t textarea \<Rightarrow> string \<Rightarrow> key_code \<Rightarrow> key_modifiers \<Rightarrow> sim_app \<times> 't
    \<Rightarrow> (sim_app \<times> 't) \<times> sim_command option" where
  "sim_tui_key T now code mods s =
     (let (app, ta) = s in
      if code = KeyChar CHR ''q'' \<and> mods = ModNone \<or> code = KeyChar CHR ''c'' \<and> mods = ModControl
      then ((app\<lparr>sa_should_quit := True\<rparr>, ta), None)
      else if code = KeyEnter \<and> mods = ModNone then
        (let input = trim_text (ta_line0 T ta)
         in if input \<noteq> [] then (case sim_execute_command now input app of (app', cmd) \<Rightarrow> ((app', ta_default T), cmd))
            else (s, None))
      else if code = KeyEsc \<and> mods = ModNone then ((app, ta_default T), None)
      else ((app, ta_input T ta code mods), None))"

text \<open>
  One round of \<^verbatim>\<open>run_loop\<close>: the queued events, then a key or the tick; the queue of the next round is
  what the started task sends.
\<close>

definition sim_tui_round :: "'p net \<Rightarrow> ((u64 \<rightharpoonup> sim_session) \<Rightarrow> sim_session list) \<Rightarrow> ipv4 \<Rightarrow> ipv4 \<Rightarrow> 't textarea \<Rightarrow> string
    \<Rightarrow> (key_code \<times> key_modifiers) option \<Rightarrow> (sim_app \<times> 't) \<times> (pfcp_transport \<times> sim_state \<times> 'p) \<times> sim_app_event list
    \<Rightarrow> (sim_app \<times> 't) \<times> (pfcp_transport \<times> sim_state \<times> 'p) \<times> sim_app_event list" where
  "sim_tui_round N order smf_addr gnb_addr T now key w =
     (case w of ((app, ta), st, queue) \<Rightarrow>
      let app1 = fold (apply_app_event now) queue app in
      case key of
        None \<Rightarrow> ((app1, ta), st, [])
      | Some (code, mods) \<Rightarrow>
         (case sim_tui_key T now code mods (app1, ta) of
            (ui, None) \<Rightarrow> (ui, st, [])
          | (ui, Some cmd) \<Rightarrow>
             (case handle_async_command N order smf_addr gnb_addr cmd st of (st', es) \<Rightarrow> (ui, st', es))))"

section \<open>The log\<close>

interpretation sim_log: log_buffer sa_logs sim_app_add 200
  by unfold_locales (simp add: sim_app_add_def Let_def)

lemma sim_logs_bounded:
  "length (sa_logs app) \<le> 200 \<Longrightarrow> length (sa_logs (sim_app_log now msg app)) \<le> 200"
  "length (sa_logs app) \<le> 200 \<Longrightarrow> length (sa_logs (fold (sim_app_log now) msgs app)) \<le> 200"
proof -
  have log: "sim_app_log now = (\<lambda>msg. sim_app_add (now, msg))" by (simp add: sim_app_log_def fun_eq_iff)
  show "length (sa_logs app) \<le> 200 \<Longrightarrow> length (sa_logs (sim_app_log now msg app)) \<le> 200"
    unfolding log by (rule sim_log.add_bounded)
  show "length (sa_logs app) \<le> 200 \<Longrightarrow> length (sa_logs (fold (sim_app_log now) msgs app)) \<le> 200"
    using sim_log.adds_bounded [of app "map (Pair now) msgs"] by (simp add: log fold_map o_def)
qed

section \<open>Adding sessions on a UPF\<close>

lemma basic_request_header:
  assumes "unat sq < 2 ^ 24"
  shows "\<exists>h. pfcp_header_decode (build_session_establishment_request sq smf cp ue gnb td) =
      Inr (h, establishment_body smf cp (basic_pdrs ue) (basic_fars gnb td) []) \<and>
    msg_type h = PFCP_SESSION_ESTABLISHMENT_REQ \<and> seq_num h = sq"
  by (rule basic_request_decodes [OF assms]) blast

lemma serve_basic:
  fixes st :: upf_state
  assumes "env_laws E" "env_roomy E" "order_laws E" "unat sq < 2 ^ 24" "is_v4 src"
    and "registered src node (st_server st) a"
  defines "sid \<equiv> next_seid (st_server st)" and "td \<equiv> next_teid (st_server st)" and "nip \<equiv> n3_addr (st_server st)"
  shows "\<exists>st'. serve_datagram E (build_session_establishment_request sq smf cp ue gnb gtd) src st =
      (st', Some (build_session_establishment_response sq cp sid nip [(1, td, nip)])) \<and>
    sessions (st_server st') = (sessions (st_server st))(sid \<mapsto> lifecycle_data ue td gnb cp) \<and>
    registered src node (st_server st') (a\<lparr>as_sessions := (as_sessions a)(cp \<mapsto> lifecycle_data ue td gnb cp)\<rparr>) \<and>
    next_seid (st_server st') = sid + 1 \<and> next_teid (st_server st') = td + 1"
proof -
  let ?st = "st\<lparr>st_server := touch_activity (env_now E) (st_server st)\<rparr>"
  let ?body = "establishment_body smf cp (basic_pdrs ue) (basic_fars gnb gtd) []"
  let ?d = "lifecycle_data ue td gnb cp"
  let ?req = "\<lparr>ser_node_id = Some smf, ser_cp_seid = cp, ser_smf_addr = smf,
    ser_create_pdrs = map parsed_of_pdr_params (basic_pdrs ue),
    ser_create_fars = map parsed_of_far_params (basic_fars gnb gtd), ser_create_urrs = []\<rparr>"
  have ue: "find_map pdr_ue_ip (ser_create_pdrs ?req) = Some ue"
    and ohc: "find_map far_outer_header_creation (ser_create_fars ?req) =
      Some \<lparr>ohc_teid = gtd, ohc_peer_addr = gnb, ohc_port = 2152\<rparr>"
    and created: "\<And>t n. created_pdrs_of t n (map parsed_of_pdr_params (basic_pdrs ue)) = [(1, t, n)]"
    by (simp_all add: basic_pdrs_def basic_fars_def parsed_of_pdr_params_def parsed_of_far_params_def created_pdrs_of_def)
  have fa: "find_association E (st_server ?st) src = Some (node, a)"
    by (rule registered_found [OF assms(3)]) (use assms(6) in simp)
  have nd: "as_node_id a = node" "associations (st_server ?st) node = Some a"
    using assms(6) by (simp_all add: registered_def)
  obtain h where h: "pfcp_header_decode (build_session_establishment_request sq smf cp ue gnb gtd) = Inr (h, ?body)"
      "msg_type h = PFCP_SESSION_ESTABLISHMENT_REQ" "seq_num h = sq"
    using basic_request_header [OF assms(4)] by blast
  from establishment_effect [OF assms(1,2,5) basic_body_decodes fa nd ue ohc, of h]
  obtain st' where st': "handle_session_establishment E h ?body src ?st =
      (st', Inr (build_session_establishment_response sq cp sid nip [(1, td, nip)]))"
    and s: "sessions (st_server st') = (sessions (st_server st))(sid \<mapsto> ?d)"
    and as: "associations (st_server st') = (associations (st_server st))(node \<mapsto> a\<lparr>as_sessions := (as_sessions a)(cp \<mapsto> ?d)\<rparr>)"
    and c: "next_seid (st_server st') = sid + 1" "next_teid (st_server st') = td + 1"
    by (auto simp: h created established_def sid_def td_def nip_def)
  have "registered src node (st_server st') (a\<lparr>as_sessions := (as_sessions a)(cp \<mapsto> ?d)\<rparr>)"
    using as by (rule registered_update [OF assms(6)]) simp_all
  with st' s c answer_nonempty [OF establishment_answer [OF assms(4)]] h show ?thesis
    by (simp add: serve_datagram_def handle_message_def)
qed

lemma link_send:
  assumes "\<exists>h. pfcp_header_decode req = Inr (h, body) \<and> msg_type h = t \<and> seq_num h = sq"
    and "quiet l" "tr_ok upf tr" "length r \<le> 4096"
    and "serve_datagram (E\<lparr>env_now := lk_clock l\<rparr>) req smf (lk_upf l) = (st', Some r)"
  shows "send_and_recv (upf_net E smf upf) tr req l =
    (tr\<lparr>tr_last_activity := lk_clock l + 1\<rparr>, l\<lparr>lk_upf := st', lk_clock := lk_clock l + 1\<rparr>, Inr r)"
proof -
  obtain h where h: "pfcp_header_decode req = Inr (h, body)" using assms(1) by blast
  with attempt_answered [OF h assms(2) _ _ assms(5,4)] assms(3) show ?thesis
    by (simp add: send_and_recv_def tr_ok_def del: attempt_loop.simps)
qed

text \<open>One session: what both sides know afterwards.\<close>

lemma link_add_session:
  fixes s :: sim_state and l :: upf_link
  assumes "env_laws E" "env_roomy E" "order_laws E" "is_v4 src" "quiet l" "tr_ok upf tr"
    and "registered src node (st_server (lk_upf l)) a" "unat (sim_next_seq s) < 2 ^ 24"
    and "sim_next_ue_ip s \<le> sim_ue_ip_end s" "next_seid (st_server (lk_upf l)) \<noteq> 0" "next_teid (st_server (lk_upf l)) \<noteq> 0"
  defines "U \<equiv> st_server (lk_upf l)" and "cp \<equiv> sim_next_cp_seid s" and "ue \<equiv> ip_from_u32 (sim_next_ue_ip s)"
  shows "\<exists>tr' s' l' a' es session. add_session (upf_net E src upf) order smf gnb tr s l = ((tr', s', l'), es, True) \<and>
    tr_ok upf tr' \<and> quiet l' \<and> registered src node (st_server (lk_upf l')) a' \<and>
    next_seid (st_server (lk_upf l')) = next_seid U + 1 \<and> next_teid (st_server (lk_upf l')) = next_teid U + 1 \<and>
    sessions (st_server (lk_upf l')) = (sessions U)(next_seid U \<mapsto> lifecycle_data ue (next_teid U) gnb cp) \<and>
    sim_sessions s' = (sim_sessions s)(cp \<mapsto> session) \<and> ss_upf_seid session = next_seid U \<and>
    sim_next_seq s' = sim_next_seq s + 1 \<and> sim_next_cp_seid s' = cp + 1 \<and>
    sim_next_ue_ip s' = sim_next_ue_ip s + 1 \<and> sim_ue_ip_end s' = sim_ue_ip_end s"
proof -
  have laws: "env_laws (E\<lparr>env_now := lk_clock l\<rparr>)" "env_roomy (E\<lparr>env_now := lk_clock l\<rparr>)" "order_laws (E\<lparr>env_now := lk_clock l\<rparr>)"
    using assms(1-3) by simp_all
  let ?req = "build_session_establishment_request (sim_next_seq s) smf cp ue gnb (sim_next_gnb_teid s)"
  let ?rsp = "build_session_establishment_response (sim_next_seq s) cp (next_seid U) (n3_addr U) [(1, next_teid U, n3_addr U)]"
  obtain st' where st': "serve_datagram (E\<lparr>env_now := lk_clock l\<rparr>) ?req src (lk_upf l) = (st', Some ?rsp)"
    and eff: "sessions (st_server st') = (sessions U)(next_seid U \<mapsto> lifecycle_data ue (next_teid U) gnb cp)"
      "registered src node (st_server st') (a\<lparr>as_sessions := (as_sessions a)(cp \<mapsto> lifecycle_data ue (next_teid U) gnb cp)\<rparr>)"
      "next_seid (st_server st') = next_seid U + 1" "next_teid (st_server st') = next_teid U + 1"
    using serve_basic [OF laws assms(8,4,7), of smf cp ue gnb "sim_next_gnb_teid s"] unfolding U_def by blast
  note sent = link_send [OF basic_request_header [OF assms(8)] assms(5,6) answer_lengths(2) st']
  have "next_seid U \<noteq> 0" "next_teid U \<noteq> 0" using assms(10,11) by (simp_all add: U_def)
  with assms(8) have "extract_session_info ?rsp = Inr (next_seid U, next_teid U, n3_addr U)"
    by (rule extract_session_info_answer)
  then show ?thesis
    using sent eff assms(5,6,9)
    by (auto simp: add_session_def next_seq_num_def alloc_ue_ip_def alloc_gnb_teid_def alloc_cp_seid_def
        cp_def ue_def Let_def)
qed

text \<open>The identifiers that \<open>n\<close> allocations take, starting at \<open>w\<close>.\<close>

definition ids :: "'a::len word \<Rightarrow> nat \<Rightarrow> 'a word set" where
  "ids w n = (\<lambda>i. w + of_nat i) ` {..<n}"

lemma ids_Suc: "ids w (Suc n) = insert w (ids (w + 1) n)"
  by (simp add: ids_def lessThan_Suc_eq_insert_0 image_image add.assoc)

lemma ids_fresh:
  fixes w :: "'a::len word"
  assumes "n < 2 ^ LENGTH('a)"
  shows "w \<notin> ids (w + 1) n"
proof
  assume "w \<in> ids (w + 1) n"
  then obtain i where i: "i < n" "w = w + 1 + of_nat i" by (auto simp: ids_def)
  have "w + 1 + of_nat i = w + of_nat (Suc i)" by (simp add: add.assoc)
  with i(2) have "of_nat (Suc i) = (0 :: 'a word)" by (metis add_cancel_left_right)
  then have "2 ^ LENGTH('a) dvd Suc i" by (simp only: word_of_nat_eq_0_iff)
  with i(1) assms show False by (auto dest: dvd_imp_le)
qed

lemma unat_Suc_room: "unat w + Suc n \<le> 2 ^ LENGTH('a) \<Longrightarrow> 0 < n \<Longrightarrow> unat (w + 1 :: 'a::len word) = unat w + 1"
  by (simp add: unat_word_ariths)

definition paired :: "sim_state \<Rightarrow> pfcp_server \<Rightarrow> ipv4 \<Rightarrow> nat \<Rightarrow> sim_state \<Rightarrow> pfcp_server \<Rightarrow> bool" where
  "paired s U gnb n s' U' \<longleftrightarrow>
     (\<forall>i < n. \<exists>session. sim_sessions s' (sim_next_cp_seid s + of_nat i) = Some session \<and>
        ss_upf_seid session = next_seid U + of_nat i \<and>
        sessions U' (next_seid U + of_nat i) = Some (lifecycle_data (ip_from_u32 (sim_next_ue_ip s + of_nat i))
          (next_teid U + of_nat i) gnb (sim_next_cp_seid s + of_nat i))) \<and>
     (\<forall>x. x \<notin> ids (next_seid U) n \<longrightarrow> sessions U' x = sessions U x) \<and>
     (\<forall>x. x \<notin> ids (sim_next_cp_seid s) n \<longrightarrow> sim_sessions s' x = sim_sessions s x)"

text \<open>A first session and then \<open>n\<close> more.\<close>

lemma paired_Suc:
  assumes "paired s1 U1 gnb n s' U'" "n < 2 ^ 32"
    and "next_seid U1 = next_seid U + 1" "next_teid U1 = next_teid U + 1"
    and "sim_next_cp_seid s1 = sim_next_cp_seid s + 1" "sim_next_ue_ip s1 = sim_next_ue_ip s + 1"
    and "sessions U1 = (sessions U)(next_seid U \<mapsto>
        lifecycle_data (ip_from_u32 (sim_next_ue_ip s)) (next_teid U) gnb (sim_next_cp_seid s))"
    and "sim_sessions s1 = (sim_sessions s)(sim_next_cp_seid s \<mapsto> session)" "ss_upf_seid session = next_seid U"
  shows "paired s U gnb (Suc n) s' U'"
proof -
  have shift: "w + 1 + of_nat i = w + of_nat (Suc i)" for w :: "'a::len word" and i by (simp add: add.assoc)
  have fresh: "next_seid U \<notin> ids (next_seid U + 1) n" "sim_next_cp_seid s \<notin> ids (sim_next_cp_seid s + 1) n"
    using assms(2) by (simp_all add: ids_fresh)
  note p = assms(1) [unfolded paired_def assms(3-6)]
  have first: "sessions U' (next_seid U) = sessions U1 (next_seid U)" "sim_sessions s' (sim_next_cp_seid s) = sim_sessions s1 (sim_next_cp_seid s)"
    using p fresh by blast+
  have "\<exists>session. sim_sessions s' (sim_next_cp_seid s + of_nat i) = Some session \<and> ss_upf_seid session = next_seid U + of_nat i \<and>
      sessions U' (next_seid U + of_nat i) = Some (lifecycle_data (ip_from_u32 (sim_next_ue_ip s + of_nat i))
        (next_teid U + of_nat i) gnb (sim_next_cp_seid s + of_nat i))" if "i < Suc n" for i
  proof (cases i)
    case 0
    then show ?thesis using first assms(7-9) by simp
  next
    case (Suc j)
    then show ?thesis using p that unfolding shift by auto
  qed
  moreover have "sessions U' x = sessions U x" if "x \<notin> ids (next_seid U) (Suc n)" for x
    using that p assms(7) by (simp add: ids_Suc)
  moreover have "sim_sessions s' x = sim_sessions s x" if "x \<notin> ids (sim_next_cp_seid s) (Suc n)" for x
    using that p assms(8) by (simp add: ids_Suc)
  ultimately show ?thesis unfolding paired_def by blast
qed

lemma link_add_sessions:
  fixes s :: sim_state and l :: upf_link
  assumes "env_laws E" "env_roomy E" "order_laws E" "is_v4 src"
    and "quiet l" "tr_ok upf tr" "registered src node (st_server (lk_upf l)) a"
    and "unat (sim_next_seq s) + n \<le> 2 ^ 24" "unat (sim_next_ue_ip s) + n \<le> unat (sim_ue_ip_end s) + 1"
    and "0 < unat (next_seid (st_server (lk_upf l)))" "unat (next_seid (st_server (lk_upf l))) + n \<le> 2 ^ 64"
    and "0 < unat (next_teid (st_server (lk_upf l)))" "unat (next_teid (st_server (lk_upf l))) + n \<le> 2 ^ 32"
  shows "\<exists>tr' s' l' es. add_sessions n (upf_net E src upf) order smf gnb (tr, s, l) = ((tr', s', l'), es) \<and>
    sim_next_seq s' = sim_next_seq s + of_nat n \<and> paired s (st_server (lk_upf l)) gnb n s' (st_server (lk_upf l'))"
  using assms(5-)
proof (induction n arbitrary: tr s l a)
  case 0
  then show ?case by (simp add: paired_def)
next
  case (Suc n)
  let ?U = "st_server (lk_upf l)"
  have one: "unat (sim_next_seq s) < 2 ^ 24" "sim_next_ue_ip s \<le> sim_ue_ip_end s" "next_seid ?U \<noteq> 0" "next_teid ?U \<noteq> 0"
    using Suc.prems(4-9) by (simp_all add: word_le_nat_alt unat_gt_0)
  obtain tr1 s1 l1 a1 es1 session where st: "add_session (upf_net E src upf) order smf gnb tr s l = ((tr1, s1, l1), es1, True)"
      "tr_ok upf tr1" "quiet l1" "registered src node (st_server (lk_upf l1)) a1"
    and up: "next_seid (st_server (lk_upf l1)) = next_seid ?U + 1" "next_teid (st_server (lk_upf l1)) = next_teid ?U + 1"
      "sim_next_cp_seid s1 = sim_next_cp_seid s + 1" "sim_next_ue_ip s1 = sim_next_ue_ip s + 1"
      "sessions (st_server (lk_upf l1)) = (sessions ?U)(next_seid ?U \<mapsto>
        lifecycle_data (ip_from_u32 (sim_next_ue_ip s)) (next_teid ?U) gnb (sim_next_cp_seid s))"
      "sim_sessions s1 = (sim_sessions s)(sim_next_cp_seid s \<mapsto> session)" "ss_upf_seid session = next_seid ?U"
    and seq: "sim_next_seq s1 = sim_next_seq s + 1" "sim_ue_ip_end s1 = sim_ue_ip_end s"
    using link_add_session [OF assms(1-4) Suc.prems(1-3) one, of order smf gnb] by blast
  show ?case
  proof (cases "n = 0")
    case True
    then have "paired s1 (st_server (lk_upf l1)) gnb n s1 (st_server (lk_upf l1))" by (simp add: paired_def)
    from paired_Suc [OF this _ up] st(1) seq True show ?thesis by simp
  next
    case False
    have e: "unat (sim_ue_ip_end s) < 2 ^ 32" using unsigned_less [of "sim_ue_ip_end s", where 'a = nat] by simp
    have inc: "unat (sim_next_seq s + 1) = unat (sim_next_seq s) + 1" "unat (sim_next_ue_ip s + 1) = unat (sim_next_ue_ip s) + 1"
        "unat (next_seid ?U + 1) = unat (next_seid ?U) + 1" "unat (next_teid ?U + 1) = unat (next_teid ?U) + 1"
      by (rule unat_Suc_room [where n = n], use Suc.prems(4-9) False e in simp, use False in simp)+
    have room: "unat (sim_next_seq s1) + n \<le> 2 ^ 24" "unat (sim_next_ue_ip s1) + n \<le> unat (sim_ue_ip_end s1) + 1"
        "0 < unat (next_seid (st_server (lk_upf l1)))" "unat (next_seid (st_server (lk_upf l1))) + n \<le> 2 ^ 64"
        "0 < unat (next_teid (st_server (lk_upf l1)))" "unat (next_teid (st_server (lk_upf l1))) + n \<le> 2 ^ 32"
      using Suc.prems(4-9) inc by (simp_all add: up seq)
    obtain tr' s' l' es where r: "add_sessions n (upf_net E src upf) order smf gnb (tr1, s1, l1) = ((tr', s', l'), es)"
        "sim_next_seq s' = sim_next_seq s1 + of_nat n" "paired s1 (st_server (lk_upf l1)) gnb n s' (st_server (lk_upf l'))"
      using Suc.IH [OF st(3,2,4) room] by blast
    have "n < 2 ^ 32" using Suc.prems(4) by simp
    from paired_Suc [OF r(3) this up] r st(1) seq show ?thesis by simp
  qed
qed

section \<open>Properties\<close>

text \<open>
  The command \<^verbatim>\<open>add session n\<close> against a UPF with which the simulator is associated and whose
  maps have room, over a network that loses nothing: the i-th new session of the simulator is the
  i-th new session of the UPF, the UPF stores it with the i-th address of the pool and the
  simulator's CP SEID, and n sequence numbers are used.
\<close>

theorem add_sessions_establish:
  fixes s :: sim_state and l :: upf_link and count :: u32
  assumes "env_laws E" "env_roomy E" "order_laws E" "is_v4 src"
    and "quiet l" "tr_ok upf tr" "registered src node (st_server (lk_upf l)) a"
    and "unat (sim_next_seq s) + unat count \<le> 2 ^ 24" "unat (sim_next_ue_ip s) + unat count \<le> unat (sim_ue_ip_end s) + 1"
    and "0 < unat (next_seid (st_server (lk_upf l)))" "unat (next_seid (st_server (lk_upf l))) + unat count \<le> 2 ^ 64"
    and "0 < unat (next_teid (st_server (lk_upf l)))" "unat (next_teid (st_server (lk_upf l))) + unat count \<le> 2 ^ 32"
  defines "U \<equiv> st_server (lk_upf l)"
  shows "\<exists>tr' s' l' es. handle_async_command (upf_net E src upf) order smf gnb (SimAddSession count) (tr, s, l) = ((tr', s', l'), es) \<and>
    sim_next_seq s' = sim_next_seq s + count \<and>
    (\<forall>i < unat count. \<exists>session. sim_sessions s' (sim_next_cp_seid s + of_nat i) = Some session \<and>
       ss_upf_seid session = next_seid U + of_nat i \<and>
       sessions (st_server (lk_upf l')) (next_seid U + of_nat i) =
         Some (lifecycle_data (ip_from_u32 (sim_next_ue_ip s + of_nat i)) (next_teid U + of_nat i) gnb (sim_next_cp_seid s + of_nat i)))"
  using link_add_sessions [OF assms(1-13), of order smf gnb]
  by (fastforce simp: handle_async_command_def paired_def U_def)

lemma demo_link_ready:
  defines "l \<equiv> (fresh_link [])\<lparr>lk_upf := demo_state\<rparr>"
  shows "quiet l" "registered demo_src (Ipv4Addr 10 0 0 1) (st_server (lk_upf l)) demo_smf"
    "next_seid (st_server (lk_upf l)) = 1" "next_teid (st_server (lk_upf l)) = 1000" "sessions (st_server (lk_upf l)) = Map.empty"
  by (simp_all add: l_def fresh_link_def quiet_def registered_def demo_state_def demo_smf_def smf_association_new_def pfcp_server_new_def)

theorem add_sessions_establish_witness:
  "\<exists>tr' s' l' es. handle_async_command (upf_net lifecycle_env demo_src demo_peer) (\<lambda>_. []) (Ipv4Addr 10 0 0 1) (Ipv4Addr 172 22 0 23)
      (SimAddSession 2) (transport_new 0 demo_peer default_response_timeout default_max_retries,
       sim_state_new 0 (cfg_session demo_config), (fresh_link [])\<lparr>lk_upf := demo_state\<rparr>) = ((tr', s', l'), es) \<and>
    sim_next_seq s' = 3 \<and>
    sessions (st_server (lk_upf l')) 2 = Some (lifecycle_data (Ipv4Addr 10 45 0 2) 1001 (Ipv4Addr 172 22 0 23) 2)"
proof -
  let ?s = "sim_state_new 0 (cfg_session demo_config)" and ?l = "(fresh_link [])\<lparr>lk_upf := demo_state\<rparr>"
  let ?tr = "transport_new 0 demo_peer default_response_timeout default_max_retries"
  have tr: "tr_ok demo_peer ?tr" by (simp add: tr_ok_def transport_new_def)
  have v: "sim_next_seq ?s = 1" "sim_next_cp_seid ?s = 1" "sim_next_ue_ip ?s = 170721281" "sim_ue_ip_end ?s = 170721380"
    by (simp_all add: sim_state_new_def demo_config_def u32_from_ip_def from_be_bytes_def)
  have ip: "ip_from_u32 170721282 = Ipv4Addr 10 45 0 2"
    using ip_from_u32_from_ip [of "Ipv4Addr 10 45 0 2"] by (simp add: u32_from_ip_def from_be_bytes_def)
  have n: "unat (sim_next_seq ?s) + unat (2 :: u32) \<le> 2 ^ 24" "unat (sim_next_ue_ip ?s) + unat (2 :: u32) \<le> unat (sim_ue_ip_end ?s) + 1"
      "0 < unat (next_seid (st_server (lk_upf ?l)))" "unat (next_seid (st_server (lk_upf ?l))) + unat (2 :: u32) \<le> 2 ^ 64"
      "0 < unat (next_teid (st_server (lk_upf ?l)))" "unat (next_teid (st_server (lk_upf ?l))) + unat (2 :: u32) \<le> 2 ^ 32"
    unfolding v demo_link_ready by simp_all
  obtain tr' s' l' es where r: "handle_async_command (upf_net lifecycle_env demo_src demo_peer) (\<lambda>_. []) (Ipv4Addr 10 0 0 1)
      (Ipv4Addr 172 22 0 23) (SimAddSession 2) (?tr, ?s, ?l) = ((tr', s', l'), es)" "sim_next_seq s' = sim_next_seq ?s + 2"
    and all: "\<forall>i < unat (2 :: u32). \<exists>session. sim_sessions s' (sim_next_cp_seid ?s + of_nat i) = Some session \<and>
       ss_upf_seid session = next_seid (st_server (lk_upf ?l)) + of_nat i \<and>
       sessions (st_server (lk_upf l')) (next_seid (st_server (lk_upf ?l)) + of_nat i) =
         Some (lifecycle_data (ip_from_u32 (sim_next_ue_ip ?s + of_nat i)) (next_teid (st_server (lk_upf ?l)) + of_nat i)
           (Ipv4Addr 172 22 0 23) (sim_next_cp_seid ?s + of_nat i))"
    using add_sessions_establish [OF lifecycle_env_ok _ demo_link_ready(1) tr demo_link_ready(2) n, of "\<lambda>_. []" "Ipv4Addr 10 0 0 1"
        "Ipv4Addr 172 22 0 23"] by auto
  from all [rule_format, of 1] r show ?thesis
    unfolding v demo_link_ready by (auto simp: ip)
qed

text \<open>
  The two session commands of the simulator mean different SEIDs. \<^verbatim>\<open>show session\<close> looks a session
  up by the UPF's SEID, the one the list prints; \<^verbatim>\<open>del session\<close> uses the number as the CP SEID. When
  the CP SEID \<open>u\<close> belongs to a session whose UPF SEID is another number \<open>v\<close>, \<^verbatim>\<open>del session u\<close> removes
  the UPF's session \<open>v\<close>, leaves the session listed as \<open>u\<close> in the UPF, and reports success.
\<close>

theorem show_and_del_disagree:
  fixes s :: sim_state and l :: upf_link
  assumes "env_laws E" "order_laws E" "is_v4 src" "quiet l" "tr_ok upf tr" "unat (sim_next_seq s) < 2 ^ 24"
    and "registered src node (st_server (lk_upf l)) a" "sessions (st_server (lk_upf l)) v = Some d"
    and "as_sessions a (sd_cp_seid d) \<noteq> None"
    and "sim_sessions s u = Some other" "ss_upf_seid other = v" "u \<noteq> v"
    and "find (\<lambda>x. ss_upf_seid x = u) (sa_sessions app) = Some listed"
  shows "fst (sim_execute_command now (''show session '' @ print_hex_word u) app) =
      fold (sim_app_log now) [SPrompt (''show session '' @ print_hex_word u), SSeid u, SUeIp (ss_ue_ip listed),
        STeid (ss_cp_seid listed), SGnbIp (ss_upf_n3_addr listed)] app \<and>
    (\<exists>tr' s' l' es. handle_async_command (upf_net E src upf) order smf gnb (SimDelSession u) (tr, s, l) = ((tr', s', l'), es) \<and>
      sessions (st_server (lk_upf l')) = (sessions (st_server (lk_upf l)))(v := None) \<and>
      sessions (st_server (lk_upf l')) u = sessions (st_server (lk_upf l)) u \<and>
      sim_sessions s' = (sim_sessions s)(u := None) \<and> SEvLog (SSessionDeleted u) \<in> set es)"
proof
  have parts: "split_whitespace (trim_text (''show session '' @ print_hex_word u)) = [''show'', ''session'', print_hex_word u]"
    unfolding trim_text_split by (rule split_show_session [OF hex_solid])
  have "sim_from_input (''show session '' @ print_hex_word u) = Inr (SimShowSession u)"
    unfolding sim_from_input_def parts by (simp add: sim_parse_seid_def print_hex_word_def parse_print_hex strip_prefix_def)
  moreover have "ss_upf_seid listed = u" using assms(13) by (auto simp: find_Some_iff)
  moreover have "sa_sessions (sim_app_log now msg app) = sa_sessions app" for msg
    by (simp add: sim_app_log_def sim_app_add_def Let_def)
  ultimately show "fst (sim_execute_command now (''show session '' @ print_hex_word u) app) =
      fold (sim_app_log now) [SPrompt (''show session '' @ print_hex_word u), SSeid u, SUeIp (ss_ue_ip listed),
        STeid (ss_cp_seid listed), SGnbIp (ss_upf_n3_addr listed)] app"
    using assms(13) by (simp add: sim_execute_command_def Let_def)
next
  have laws: "env_laws (E\<lparr>env_now := lk_clock l\<rparr>)" "order_laws (E\<lparr>env_now := lk_clock l\<rparr>)"
    using assms(1,2) by simp_all
  obtain st' where st': "serve_datagram (E\<lparr>env_now := lk_clock l\<rparr>) (deletion_request v (sim_next_seq s)) src (lk_upf l) =
      (st', Some (build_session_deletion_response (sim_next_seq s) v))"
    and eff: "sessions (st_server st') = (sessions (st_server (lk_upf l)))(v := None)"
    using serve_deletion [OF laws assms(6,3,7,8,9)] by blast
  have "\<exists>h. pfcp_header_decode (deletion_request v (sim_next_seq s)) = Inr (h, []) \<and>
      msg_type h = PFCP_SESSION_DELETION_REQ \<and> seq_num h = sim_next_seq s"
    using deletion_request_header [OF assms(6)] by blast
  note link_send [OF this assms(4,5) answer_lengths(4) st']
  then show "\<exists>tr' s' l' es. handle_async_command (upf_net E src upf) order smf gnb (SimDelSession u) (tr, s, l) = ((tr', s', l'), es) \<and>
      sessions (st_server (lk_upf l')) = (sessions (st_server (lk_upf l)))(v := None) \<and>
      sessions (st_server (lk_upf l')) u = sessions (st_server (lk_upf l)) u \<and>
      sim_sessions s' = (sim_sessions s)(u := None) \<and> SEvLog (SSessionDeleted u) \<in> set es"
    using eff assms(10-12) by (simp add: handle_async_command_def del_session_def next_seq_num_def)
qed

definition demo_sim_session :: "u64 \<Rightarrow> u64 \<Rightarrow> sim_session" where
  "demo_sim_session cp upf = \<lparr>ss_cp_seid = cp, ss_upf_seid = upf, ss_upf_teid = 1000, ss_upf_n3_addr = Ipv4Addr 10 0 0 3,
     ss_ue_ip = Ipv4Addr 10 45 0 1, ss_gnb_teid = 1, ss_created_at = 0\<rparr>"

theorem show_and_del_disagree_witness:
  "\<exists>tr' s' l' es. handle_async_command (upf_net lifecycle_env demo_src demo_peer) (\<lambda>_. []) (Ipv4Addr 10 0 0 1) (Ipv4Addr 172 22 0 23)
      (SimDelSession 2) (transport_new 0 demo_peer default_response_timeout default_max_retries,
       (sim_state_new 0 (cfg_session demo_config))\<lparr>sim_sessions := [1 \<mapsto> demo_sim_session 1 2, 2 \<mapsto> demo_sim_session 2 1]\<rparr>,
       (fresh_link [])\<lparr>lk_upf := demo_state1\<rparr>) = ((tr', s', l'), es) \<and>
    sessions (st_server (lk_upf l')) 1 = None \<and> SEvLog (SSessionDeleted 2) \<in> set es"
proof -
  let ?s = "(sim_state_new 0 (cfg_session demo_config))\<lparr>sim_sessions := [1 \<mapsto> demo_sim_session 1 2, 2 \<mapsto> demo_sim_session 2 1]\<rparr>"
  let ?l = "(fresh_link [])\<lparr>lk_upf := demo_state1\<rparr>" and ?tr = "transport_new 0 demo_peer default_response_timeout default_max_retries"
  let ?app = "sim_app_new\<lparr>sa_sessions := [demo_sim_session 1 2, demo_sim_session 2 1]\<rparr>"
  let ?a = "demo_smf\<lparr>as_sessions := [5 \<mapsto> demo_data]\<rparr>"
  have a: "registered demo_src (Ipv4Addr 10 0 0 1) (st_server (lk_upf ?l)) ?a" "as_sessions ?a (sd_cp_seid demo_data) \<noteq> None"
    by (simp_all add: demo_state1_def demo_state_def demo_smf_def smf_association_new_def registered_def demo_data_def)
  have h: "quiet ?l" "tr_ok demo_peer ?tr" "unat (sim_next_seq ?s) < 2 ^ 24" "sessions (st_server (lk_upf ?l)) 1 = Some demo_data"
      "sim_sessions ?s 2 = Some (demo_sim_session 2 1)" "ss_upf_seid (demo_sim_session 2 1) = 1" "(2 :: u64) \<noteq> 1"
      "find (\<lambda>x. ss_upf_seid x = 2) (sa_sessions ?app) = Some (demo_sim_session 1 2)"
    by (simp_all add: quiet_def fresh_link_def tr_ok_def transport_new_def sim_state_new_def demo_state1_def demo_sim_session_def)
  show ?thesis
    using show_and_del_disagree [OF lifecycle_env_ok(1,3) _ h(1-3) a(1) h(4) a(2) h(5-8), THEN conjunct2, of "\<lambda>_. []" "Ipv4Addr 10 0 0 1"
        "Ipv4Addr 172 22 0 23"] by auto
qed

end
