(* ===== verification/Tui_Draw.thy ===== *)
theory Tui_Draw
  imports Upf_Tui Smf_Tui
begin

text \<open>
  Drawing the two terminal interfaces (src/upf-edge/src/tui/ui.rs, src/smf-sim/src/tui/tui.rs). A frame is the
  list of the widgets drawn and where; a text carries the arguments of its format string. The crate
  \<^verbatim>\<open>ratatui\<close> is a parameter: how it splits a rectangle among constraints and what is inside a border. Its
  documentation says that a split has one rectangle per constraint (\<open>layout_laws\<close>) and that a gauge whose ratio is
  not between 0 and 1 panics. \<open>None\<close> is a panic.
\<close>

section \<open>Widgets\<close>

datatype color = Red | Yellow | Green | Cyan | Blue | DarkGray

datatype constraint = Length u16 | Min u16

record 'r layout =
  lay_split :: "'r \<Rightarrow> constraint list \<Rightarrow> 'r list"
  lay_inner :: "'r \<Rightarrow> 'r"

definition layout_laws :: "'r layout \<Rightarrow> bool" where
  "layout_laws L \<longleftrightarrow> (\<forall>area cs. length (lay_split L area cs) = length cs)"

datatype 'l span_text =
  StAssociated
| StNotAssociated
| StSessions nat
| StTime string
| StMessage 'l
| StHelp "string list"

type_synonym 'l span = "color option \<times> 'l span_text"

datatype gauge_label = GaugeCpu f32 | GaugeMemory f32 | GaugeSession f32 nat

datatype ('l, 't) widget =
  WBlock string
| WParagraph string "color option" "'l span list list" bool
| WGauge gauge_label f32 color
| WList string "'l span list list"
| WTextArea string "color option" 't

type_synonym ('l, 't, 'r) draws = "(('l, 't) widget \<times> 'r) list"

definition index :: "'a list \<Rightarrow> nat \<Rightarrow> 'a option" where
  "index xs i = (if i < length xs then Some (xs ! i) else None)"

definition gauge :: "gauge_label \<Rightarrow> f32 \<Rightarrow> color \<Rightarrow> ('l, 't) widget option" where
  "gauge lab ratio c =
     (case ratio of F32Fin r \<Rightarrow> if 0 \<le> r \<and> r \<le> 1 then Some (WGauge lab ratio c) else None | _ \<Rightarrow> None)"

section \<open>The UPF\<close>

definition gauge_color :: "f32 \<Rightarrow> color" where
  "gauge_color pct = (if f32_le (F32Fin 80) pct then Red else if f32_le (F32Fin 60) pct then Yellow else Green)"

definition association_span :: "bool \<Rightarrow> 'l span" where
  "association_span v = (if v then (Some Green, StAssociated) else (Some Red, StNotAssociated))"

definition upf_render_status :: "upf_app \<Rightarrow> 'r \<Rightarrow> (upf_line, 't, 'r) draws" where
  "upf_render_status app area =
     (let assoc = association_span (ua_associated app); sessions = (None, StSessions (upf_session_count app))
      in [(WParagraph '' UPF-EDGE '' (Some Cyan) [[assoc, sessions]] False, area)])"

definition pct_ratio :: "f32 \<Rightarrow> f32" where
  "pct_ratio pct = f32_clamp (F32Fin 0) (F32Fin 1) (f32_div pct (F32Fin 100))"

definition session_pct :: "nat \<Rightarrow> f32" where
  "session_pct n = f32_min (f32_mul (f32_div (f32_round (of_nat n)) (F32Fin 100)) (F32Fin 100)) (F32Fin 100)"

definition render_server_status :: "'r layout \<Rightarrow> upf_app \<Rightarrow> 'r \<Rightarrow> (upf_line, 't, 'r) draws option" where
  "render_server_status L app area = do {
     let inner = lay_inner L area;
     let rows = lay_split L inner [Length 1, Length 1, Length 1, Length 1, Length 1];
     cpu \<leftarrow> gauge (GaugeCpu (ua_cpu_pct app)) (pct_ratio (ua_cpu_pct app)) (gauge_color (ua_cpu_pct app));
     r1 \<leftarrow> index rows 1;
     mem \<leftarrow> gauge (GaugeMemory (ua_mem_pct app)) (pct_ratio (ua_mem_pct app)) (gauge_color (ua_mem_pct app));
     r2 \<leftarrow> index rows 2;
     let sess_pct = session_pct (upf_session_count app);
     sess \<leftarrow> gauge (GaugeSession sess_pct (upf_session_count app)) (pct_ratio sess_pct) Blue;
     r3 \<leftarrow> index rows 3;
     Some [(WBlock '' Server Status '', area), (cpu, r1), (mem, r2), (sess, r3)] }"

definition log_items :: "(string \<times> 'l) list \<Rightarrow> 'l span list list" where
  "log_items logs = map (\<lambda>(time, message). [(Some DarkGray, StTime time), (None, StMessage message)]) logs"

definition upf_render_logs :: "upf_app \<Rightarrow> 'r \<Rightarrow> (upf_line, 't, 'r) draws" where
  "upf_render_logs app area = [(WList '' Shell '' (log_items (ua_logs app)), area)]"

definition upf_render_input :: "'t \<Rightarrow> 'r \<Rightarrow> (upf_line, 't, 'r) draws" where
  "upf_render_input ta area = [(WTextArea '' Input Command (Enter: Runs | Esc: Reset) '' (Some Yellow) ta, area)]"

definition upf_render_help :: "'r \<Rightarrow> (upf_line, 't, 'r) draws" where
  "upf_render_help area =
     [(WParagraph '' Commands '' None
        [[(None, StHelp [''show sessions'', ''show session <seid>'', ''quit / q''])]] True, area)]"

definition upf_render :: "'r layout \<Rightarrow> 'r \<Rightarrow> upf_app \<Rightarrow> 't \<Rightarrow> (upf_line, 't, 'r) draws option" where
  "upf_render L area app ta = do {
     let chunk = lay_split L area [Length 3, Length 7, Min 5, Length 3, Length 3];
     c0 \<leftarrow> index chunk 0;
     c1 \<leftarrow> index chunk 1;
     server \<leftarrow> render_server_status L app c1;
     c2 \<leftarrow> index chunk 2;
     c3 \<leftarrow> index chunk 3;
     c4 \<leftarrow> index chunk 4;
     Some (upf_render_status app c0 @ server @ upf_render_logs app c2 @ upf_render_input ta c3 @ upf_render_help c4) }"

section \<open>The simulator\<close>

definition sim_render_status :: "sim_app \<Rightarrow> 'r \<Rightarrow> (sim_line, 't, 'r) draws" where
  "sim_render_status app area =
     (let assoc = association_span (sa_associated app); sessions = (None, StSessions (sim_session_count app))
      in [(WParagraph '' smf-sim '' (Some Cyan) [[assoc, sessions]] False, area)])"

definition sim_render_logs :: "sim_app \<Rightarrow> 'r \<Rightarrow> (sim_line, 't, 'r) draws" where
  "sim_render_logs app area = [(WList '' Shell '' (log_items (sa_logs app)), area)]"

definition sim_render_input :: "'t \<Rightarrow> 'r \<Rightarrow> (sim_line, 't, 'r) draws" where
  "sim_render_input ta area = [(WTextArea '' Input Command (Enter: Runs | Esc: Reset) '' (Some Yellow) ta, area)]"

definition sim_render_help :: "'r \<Rightarrow> (sim_line, 't, 'r) draws" where
  "sim_render_help area =
     [(WParagraph '' Commands '' None
        [[(None, StHelp [''show sessions'', ''add session [N]'', ''del session <seid>''])],
         [(None, StHelp [''heartbeat / hb'', ''clear'', ''quit / q''])]] True, area)]"

definition sim_render :: "'r layout \<Rightarrow> 'r \<Rightarrow> sim_app \<Rightarrow> 't \<Rightarrow> (sim_line, 't, 'r) draws option" where
  "sim_render L area app ta = do {
     let chunk = lay_split L area [Length 3, Min 3, Length 3, Length 6];
     c0 \<leftarrow> index chunk 0;
     c1 \<leftarrow> index chunk 1;
     c2 \<leftarrow> index chunk 2;
     c3 \<leftarrow> index chunk 3;
     Some (sim_render_status app c0 @ sim_render_logs app c1 @ sim_render_input ta c2 @ sim_render_help c3) }"

section \<open>Frames\<close>

text \<open>The states that \<^verbatim>\<open>run_loop\<close> draws: the first one, and the one after every event until the loop ends.\<close>

fun upf_frames :: "'t textarea \<Rightarrow> (string \<times> upf_input) list \<Rightarrow> upf_app \<times> 't \<Rightarrow> (upf_app \<times> 't) list" where
  "upf_frames T [] s = [s]"
| "upf_frames T ((now, inp) # rest) s =
     s # (case upf_tui_step T now inp s of (s', stop) \<Rightarrow> if stop then [] else upf_frames T rest s')"

lemma gauge_Some:
  "gauge lab (pct_ratio pct) c = (if pct = F32NaN then None else Some (WGauge lab (pct_ratio pct) c))"
proof (cases "pct = F32NaN")
  case False
  then have "f32_div pct (F32Fin 100) \<noteq> F32NaN" by (cases pct) simp_all
  from clamp_unit [OF this] False show ?thesis by (auto simp: gauge_def pct_ratio_def)
qed (simp add: gauge_def pct_ratio_def)

lemma session_pct_number: "session_pct n \<noteq> F32NaN"
proof -
  obtain x where "f32_round (of_nat n) = x" "x \<noteq> F32NaN" by simp
  then show ?thesis by (cases x; cases "f32_round (case x of F32Fin q \<Rightarrow> q / 100 | _ \<Rightarrow> 0)")
      (auto simp: session_pct_def f32_min_def)
qed

lemma index_split: "layout_laws L \<Longrightarrow> k < length cs \<Longrightarrow> index (lay_split L r cs) k = Some (lay_split L r cs ! k)"
  by (simp add: index_def layout_laws_def)

lemma upf_render_iff:
  assumes "layout_laws L"
  shows "upf_render L area app ta = None \<longleftrightarrow> ua_cpu_pct app = F32NaN \<or> ua_mem_pct app = F32NaN"
  by (simp add: upf_render_def render_server_status_def index_split [OF assms] gauge_Some session_pct_number Let_def)

text \<open>The simulator draws no gauge.\<close>

lemma sim_render_total: "layout_laws L \<Longrightarrow> sim_render L area app ta \<noteq> None"
  by (simp add: sim_render_def index_split Let_def)

lemma memory_nan: "ua_mem_pct (sample_system sys app) = F32NaN \<longleftrightarrow> used_memory sys = 0 \<and> total_memory sys = 0"
proof (cases "used_memory sys" rule: f32_of_u64_cases)
  case 1
  then show ?thesis
    by (cases "total_memory sys" rule: f32_of_u64_cases) (simp_all add: sample_system_def)
next
  case (2 r)
  have "f32_mul (f32_round q) (F32Fin 100) \<noteq> F32NaN" for q by (cases "f32_round q") simp_all
  with 2 show ?thesis
    by (cases "total_memory sys" rule: f32_of_u64_cases) (auto simp: sample_system_def)
qed

section \<open>Readings that can be drawn\<close>

definition good_sample :: "sys_sample \<Rightarrow> bool" where
  "good_sample sys \<longleftrightarrow> global_cpu_usage sys \<noteq> F32NaN \<and> (total_memory sys \<noteq> 0 \<or> used_memory sys \<noteq> 0)"

definition good_input :: "upf_input \<Rightarrow> bool" where
  "good_input inp \<longleftrightarrow> (case inp of UTick (Some sys) \<Rightarrow> good_sample sys | _ \<Rightarrow> True)"

definition drawable :: "upf_app \<Rightarrow> bool" where
  "drawable app \<longleftrightarrow> ua_cpu_pct app \<noteq> F32NaN \<and> ua_mem_pct app \<noteq> F32NaN"

lemma fold_log_pcts [simp]:
  "ua_cpu_pct (fold (upf_app_log now) msgs app) = ua_cpu_pct app" "ua_mem_pct (fold (upf_app_log now) msgs app) = ua_mem_pct app"
  by (induction msgs arbitrary: app) (simp_all add: upf_app_log_def upf_app_add_def Let_def)

lemma drawable_log [simp]: "drawable (upf_app_log now msg app) = drawable app"
  by (simp add: drawable_def upf_app_log_def upf_app_add_def Let_def)

lemma drawable_sample: "drawable (sample_system sys app) \<longleftrightarrow> good_sample sys"
  using memory_nan [of sys app] by (auto simp: drawable_def good_sample_def sample_system_def)

lemma drawable_execute: "drawable (upf_execute_command now input app) = drawable app"
proof -
  have frame: "drawable (app'\<lparr>ua_logs := l\<rparr>) = drawable app'" "drawable (app'\<lparr>ua_should_quit := b\<rparr>) = drawable app'"
      "drawable (fold (upf_app_log now) msgs app') = drawable app'" for app' l b msgs
    by (simp_all add: drawable_def)
  show ?thesis
    by (simp add: upf_execute_command_def Let_def frame split: sum.split upf_command.split option.split)
qed

lemma drawable_step:
  assumes "drawable (fst s)" "good_input inp"
  shows "drawable (fst (fst (upf_tui_step T now inp s)))"
proof -
  have frame: "drawable (app\<lparr>ua_last_hb_secs := n\<rparr>) = drawable app" "drawable (app\<lparr>ua_associated := b\<rparr>) = drawable app"
      "drawable (app\<lparr>ua_sessions := ss\<rparr>) = drawable app" "drawable (app\<lparr>ua_should_quit := b\<rparr>) = drawable app" for app n b ss
    by (simp_all add: drawable_def)
  show ?thesis
    using assms by (cases s) (auto simp: upf_tui_step_def good_input_def Let_def frame drawable_sample drawable_execute
        split: upf_input.splits upf_app_event.splits option.splits)
qed

lemma frames_drawable:
  "drawable (fst s) \<Longrightarrow> \<forall>(now, inp)\<in>set inputs. good_input inp \<Longrightarrow> \<forall>(app, ta)\<in>set (upf_frames T inputs s). drawable app"
proof (induction T inputs s rule: upf_frames.induct)
  case (2 T now inp rest s)
  obtain s' stop where st: "upf_tui_step T now inp s = (s', stop)" by (metis surj_pair)
  with drawable_step [of s inp T now] 2 have "drawable (fst s')" by simp
  with 2 st show ?case by (cases stop) auto
qed auto

section \<open>Properties\<close>

text \<open>
  C40: Drawing the UPF's terminal never panics as long as the operating system reports figures: in every
  frame of a run of the interface, from its start and whatever the events, all widgets are drawn, the
  session gauge included whatever the number of sessions, when no reading has a CPU load that is not a
  number, or neither used nor total memory. The condition is needed: after a first reading of zero used
  and zero total memory the next frame panics.
\<close>

theorem upf_drawing_never_panics:
  fixes T :: "'t textarea" and now :: string
  assumes "layout_laws L"
  defines "start \<equiv> (upf_app_log now UStart upf_app_new, ta_default T)"
  shows "((\<forall>(t, inp)\<in>set inputs. good_input inp) \<longrightarrow>
      (\<forall>(app, ta)\<in>set (upf_frames T inputs start). \<exists>draws. upf_render L area app ta = Some draws \<and>
        (\<exists>r r'. (WGauge (GaugeSession (session_pct (upf_session_count app)) (upf_session_count app)) (F32Fin r) Blue, r') \<in> set draws \<and>
          0 \<le> r \<and> r \<le> 1))) \<and>
    (used_memory sys = 0 \<and> total_memory sys = 0 \<longrightarrow>
      (\<exists>(app, ta)\<in>set (upf_frames T [(t, UTick (Some sys))] start). upf_render L area app ta = None))"
proof -
  have d: "drawable (fst start)" by (simp add: start_def drawable_def upf_app_log_def upf_app_add_def upf_app_new_def Let_def)
  have gauge: "\<exists>draws r r'. upf_render L area app ta = Some draws \<and>
      (WGauge (GaugeSession (session_pct (upf_session_count app)) (upf_session_count app)) (F32Fin r) Blue, r') \<in> set draws \<and>
      0 \<le> r \<and> r \<le> 1" if "drawable app" for app ta
  proof -
    have "f32_div (session_pct n) (F32Fin 100) \<noteq> F32NaN" for n
      using session_pct_number [of n] by (cases "session_pct n") simp_all
    from clamp_unit [OF this] obtain r where r: "pct_ratio (session_pct (upf_session_count app)) = F32Fin r" "0 \<le> r" "r \<le> 1"
      unfolding pct_ratio_def by blast
    with that show ?thesis
      by (simp add: upf_render_def render_server_status_def index_split [OF assms(1)] gauge_Some session_pct_number drawable_def Let_def)
        blast
  qed
  have "\<exists>(app, ta)\<in>set (upf_frames T [(t, UTick (Some sys))] start). upf_render L area app ta = None"
    if no: "used_memory sys = 0" "total_memory sys = 0"
  proof -
    obtain app ta where s: "upf_tui_step T t (UTick (Some sys)) start = ((app, ta), False)" "\<not> drawable app"
      using no drawable_sample [of sys]
      by (auto simp: upf_tui_step_def start_def Let_def good_sample_def sample_system_def upf_app_new_def)
    then have "(app, ta) \<in> set (upf_frames T [(t, UTick (Some sys))] start)" by simp
    moreover have "upf_render L area app ta = None" using s(2) by (simp add: upf_render_iff [OF assms(1)] drawable_def)
    ultimately show ?thesis by blast
  qed
  with frames_drawable [OF d] gauge show ?thesis by fast
qed

theorem upf_drawing_never_panics_witness:
  "\<exists>app. (app, ()) \<in> set (upf_frames \<lparr>ta_default = (), ta_line0 = (\<lambda>_. []), ta_input = (\<lambda>t _ _. t)\<rparr>
       [(''12:00:01'', UTick (Some \<lparr>global_cpu_usage = F32Fin 7, used_memory = 0, total_memory = 0\<rparr>))]
       (upf_app_log ''12:00:00'' UStart upf_app_new, ())) \<and>
     upf_render \<lparr>lay_split = (\<lambda>area cs. map (\<lambda>_. area) cs), lay_inner = id\<rparr> () app () = None"
proof -
  let ?T = "\<lparr>ta_default = (), ta_line0 = (\<lambda>_. []), ta_input = (\<lambda>t _ _. t)\<rparr>"
  let ?L = "\<lparr>lay_split = (\<lambda>area cs. map (\<lambda>_. area) cs), lay_inner = id\<rparr> :: unit layout"
  have "layout_laws ?L" by (simp add: layout_laws_def)
  from upf_drawing_never_panics [OF this, where T = ?T and inputs = "[]"
      and sys = "\<lparr>global_cpu_usage = F32Fin 7, used_memory = 0, total_memory = 0\<rparr>"]
  show ?thesis by fastforce
qed

end
