(* ===== verification/Session_Store.thy ===== *)
theory Session_Store
  imports Upf_Session Rust_Text "HOL-Library.Multiset"
begin

text \<open>
  The Redis session store (src/upf-edge/src/session_store.rs) and recovery after a restart. Redis is
  a parameter: the commands the store issues are fields of \<open>redis\<close>, and \<open>redis_laws\<close> states their
  documented behaviour over the hashes the server holds. Saving and deleting refine an update of a
  map from SEIDs to session data, and loading returns that map. The handlers spawn a task for each save
  and each deletion; the tasks have connections of their own and may take effect in any order, so what a
  restart finds is stated for every order of them.
\<close>

section \<open>The store\<close>

type_synonym redis_hash = "string \<rightharpoonup> string"

record 'r redis =
  rd_connect :: "'r \<Rightarrow> bool"
  rd_hset_pipe :: "'r \<Rightarrow> string \<Rightarrow> (string \<times> string) list \<Rightarrow> 'r option"
  rd_del :: "'r \<Rightarrow> string \<Rightarrow> 'r option"
  rd_keys :: "'r \<Rightarrow> string \<Rightarrow> string list option"
  rd_hgetall :: "'r \<Rightarrow> string \<Rightarrow> redis_hash option"

definition KEY_PREFIX :: string where
  "KEY_PREFIX = ''upf:session:''"

definition store_key :: "u64 \<Rightarrow> string" where
  "store_key sid = KEY_PREFIX @ print_word sid"

definition session_fields :: "session_data \<Rightarrow> (string \<times> string) list" where
  "session_fields d = [(''ue_ip'', print_ipv4 (sd_ue_ip d)), (''teid'', print_word (sd_teid d)),
     (''gnb_ip'', print_ipv4 (sd_gnb_ip d)), (''cp_seid'', print_word (sd_cp_seid d))]"

text \<open>\<^verbatim>\<open>None\<close> is an error returned to the caller.\<close>

definition store_save :: "'r redis \<Rightarrow> u64 \<Rightarrow> session_data \<Rightarrow> 'r \<Rightarrow> 'r option" where
  "store_save R sid d r =
     (if \<not> rd_connect R r then None else rd_hset_pipe R r (store_key sid) (session_fields d))"

definition store_delete :: "'r redis \<Rightarrow> u64 \<Rightarrow> 'r \<Rightarrow> 'r option" where
  "store_delete R sid r = (if \<not> rd_connect R r then None else rd_del R r (store_key sid))"

definition field_or :: "(string \<Rightarrow> 'a option) \<Rightarrow> 'a \<Rightarrow> string option \<Rightarrow> 'a" where
  "field_or parse def v = (case Option.bind v parse of None \<Rightarrow> def | Some x \<Rightarrow> x)"

definition session_of_fields :: "redis_hash \<Rightarrow> session_data" where
  "session_of_fields h = \<lparr>
     sd_ue_ip = field_or parse_ipv4 UNSPECIFIED (h ''ue_ip''),
     sd_teid = field_or parse_word 0 (h ''teid''),
     sd_gnb_ip = field_or parse_ipv4 UNSPECIFIED (h ''gnb_ip''),
     sd_cp_seid = field_or parse_word 0 (h ''cp_seid'')\<rparr>"

fun load_keys :: "'r redis \<Rightarrow> 'r \<Rightarrow> string list \<Rightarrow> (u64 \<times> session_data) list option" where
  "load_keys R r [] = Some []"
| "load_keys R r (key # ks) =
     (case parse_word (trim_start_matches KEY_PREFIX key) of
        None \<Rightarrow> load_keys R r ks
      | Some sid \<Rightarrow>
         (case rd_hgetall R r key of
            None \<Rightarrow> None
          | Some h \<Rightarrow> map_option (Cons (sid, session_of_fields h)) (load_keys R r ks)))"

definition load_all :: "'r redis \<Rightarrow> 'r \<Rightarrow> (u64 \<times> session_data) list option" where
  "load_all R r =
     (if \<not> rd_connect R r then None
      else case rd_keys R r (KEY_PREFIX @ ''*'') of None \<Rightarrow> None | Some ks \<Rightarrow> load_keys R r ks)"

text \<open>
  What one spawned task does; a failure is only logged. A save is one pipeline on one key, a deletion one
  command; a task is taken to run as a whole.
\<close>

fun run_store_task :: "'r redis \<Rightarrow> effect \<Rightarrow> 'r \<Rightarrow> 'r" where
  "run_store_task R (StoreSave sid d) r = (case store_save R sid d r of None \<Rightarrow> r | Some r' \<Rightarrow> r')"
| "run_store_task R (StoreDelete sid) r = (case store_delete R sid r of None \<Rightarrow> r | Some r' \<Rightarrow> r')"
| "run_store_task R _ r = r"

section \<open>What the code relies on\<close>

text \<open>
  \<open>db\<close> is what the server holds. \<^verbatim>\<open>HSET\<close> creates the hash or overwrites the given fields, \<^verbatim>\<open>DEL\<close> removes
  the key, \<^verbatim>\<open>KEYS\<close> with a literal prefix and a star returns each key with that prefix once, and
  \<^verbatim>\<open>HGETALL\<close> returns the hash.
\<close>

definition redis_laws :: "'r redis \<Rightarrow> ('r \<Rightarrow> string \<rightharpoonup> redis_hash) \<Rightarrow> bool" where
  "redis_laws R db \<longleftrightarrow>
     (\<forall>r k fvs r'. rd_hset_pipe R r k fvs = Some r' \<longrightarrow>
        db r' = (db r)(k \<mapsto> (case db r k of None \<Rightarrow> Map.empty | Some h \<Rightarrow> h) ++ map_of (rev fvs))) \<and>
     (\<forall>r k r'. rd_del R r k = Some r' \<longrightarrow> db r' = (db r)(k := None)) \<and>
     (\<forall>r p ks. rd_keys R r (p @ ''*'') = Some ks \<longrightarrow>
        distinct ks \<and> set ks = {k. db r k \<noteq> None \<and> strip_prefix p k \<noteq> None}) \<and>
     (\<forall>r k h. rd_hgetall R r k = Some h \<longrightarrow> h = (case db r k of None \<Rightarrow> Map.empty | Some g \<Rightarrow> g))"

text \<open>The server is reachable and answers every command.\<close>

definition redis_up :: "'r redis \<Rightarrow> bool" where
  "redis_up R \<longleftrightarrow> (\<forall>r. rd_connect R r \<and> (\<forall>k fvs. rd_hset_pipe R r k fvs \<noteq> None) \<and> (\<forall>k. rd_del R r k \<noteq> None) \<and>
     (\<forall>p. rd_keys R r p \<noteq> None) \<and> (\<forall>k. rd_hgetall R r k \<noteq> None))"

text \<open>The abstract store, and the condition that no foreign key has the prefix.\<close>

definition stored :: "(string \<rightharpoonup> redis_hash) \<Rightarrow> u64 \<rightharpoonup> session_data" where
  "stored m sid = map_option session_of_fields (m (store_key sid))"

definition own_keys :: "(string \<rightharpoonup> redis_hash) \<Rightarrow> bool" where
  "own_keys m \<longleftrightarrow> (\<forall>k. m k \<noteq> None \<longrightarrow> strip_prefix KEY_PREFIX k \<noteq> None \<longrightarrow> k \<in> range store_key)"

fun store_spec :: "effect \<Rightarrow> (u64 \<rightharpoonup> session_data) \<Rightarrow> (u64 \<rightharpoonup> session_data)" where
  "store_spec (StoreSave sid d) m = m(sid \<mapsto> d)"
| "store_spec (StoreDelete sid) m = m(sid := None)"
| "store_spec _ m = m"

section \<open>Refinement\<close>

lemma redis_upD:
  assumes "redis_up R"
  shows "rd_connect R r" "\<exists>r'. rd_hset_pipe R r k fvs = Some r'" "\<exists>r'. rd_del R r k = Some r'"
    "\<exists>ks. rd_keys R r p = Some ks" "\<exists>h. rd_hgetall R r k = Some h"
  using assms by (simp_all add: redis_up_def)

lemma strip_prefix_append [simp]: "strip_prefix p (p @ s) = Some s"
  by (simp add: strip_prefix_def)

lemma store_key_inj [simp]: "store_key a = store_key b \<longleftrightarrow> a = b"
  by (simp add: store_key_def decimal.show_inj)

lemma fields_roundtrip: "session_of_fields (h ++ map_of (rev (session_fields d))) = d"
  by (simp add: session_of_fields_def session_fields_def field_or_def parse_print_ipv4 map_add_def)

lemma save_stored:
  assumes "redis_laws R db" "store_save R sid d r = Some r'"
  shows "stored (db r') = (stored (db r))(sid \<mapsto> d)" "own_keys (db r) \<Longrightarrow> own_keys (db r')"
proof -
  have "db r' = (db r)(store_key sid \<mapsto>
      (case db r (store_key sid) of None \<Rightarrow> Map.empty | Some h \<Rightarrow> h) ++ map_of (rev (session_fields d)))"
    using assms unfolding redis_laws_def store_save_def by (auto split: if_splits)
  then show "stored (db r') = (stored (db r))(sid \<mapsto> d)" "own_keys (db r) \<Longrightarrow> own_keys (db r')"
    by (auto simp: stored_def own_keys_def fields_roundtrip fun_eq_iff)
qed

lemma delete_stored:
  assumes "redis_laws R db" "store_delete R sid r = Some r'"
  shows "stored (db r') = (stored (db r))(sid := None)" "own_keys (db r) \<Longrightarrow> own_keys (db r')"
proof -
  have "db r' = (db r)(store_key sid := None)"
    using assms unfolding redis_laws_def store_delete_def by (auto split: if_splits)
  then show "stored (db r') = (stored (db r))(sid := None)" "own_keys (db r) \<Longrightarrow> own_keys (db r')"
    by (auto simp: stored_def own_keys_def fun_eq_iff)
qed

lemma task_refines:
  assumes "redis_laws R db" "redis_up R" "own_keys (db r)"
  shows "stored (db (run_store_task R e r)) = store_spec e (stored (db r)) \<and> own_keys (db (run_store_task R e r))"
proof (cases e)
  case (StoreSave sid d)
  obtain r' where "store_save R sid d r = Some r'"
    using redis_upD(1) [OF assms(2), of r] redis_upD(2) [OF assms(2), of r "store_key sid" "session_fields d"]
    by (auto simp: store_save_def)
  with StoreSave save_stored [OF assms(1)] assms(3) show ?thesis by simp
next
  case (StoreDelete sid)
  obtain r' where "store_delete R sid r = Some r'"
    using redis_upD(1) [OF assms(2), of r] redis_upD(3) [OF assms(2), of r "store_key sid"] by (auto simp: store_delete_def)
  with StoreDelete delete_stored [OF assms(1)] assms(3) show ?thesis by simp
qed (use assms(3) in simp_all)

lemma tasks_refine:
  assumes "redis_laws R db" "redis_up R" "own_keys (db r)"
  shows "stored (db (fold (run_store_task R) es r)) = fold store_spec es (stored (db r)) \<and>
    own_keys (db (fold (run_store_task R) es r))"
  using assms(3) by (induction es arbitrary: r) (simp_all add: task_refines [OF assms(1,2)])

text \<open>The key of a session is read back as its SEID.\<close>

lemma print_word_no_prefix: "strip_prefix KEY_PREFIX (print_word w) = None"
proof (rule ccontr)
  assume "strip_prefix KEY_PREFIX (print_word w) \<noteq> None"
  then have "take (length KEY_PREFIX) (print_word w) = KEY_PREFIX"
    by (simp add: strip_prefix_def split: if_splits)
  then have "CHR '':'' \<in> set (print_word w)"
    by (metis KEY_PREFIX_def in_set_takeD list.set_intros(1) list.set_intros(2))
  then show False
    using print_radix_alnum [of 10 _ "unat w"] alnum_not by (auto simp: print_word_def)
qed

lemma trim_start_prefix: "p \<noteq> [] \<Longrightarrow> trim_start_matches p (p @ s) = trim_start_matches p s"
  by (subst trim_start_matches.simps) simp

lemma trim_start_stop: "strip_prefix p s = None \<Longrightarrow> trim_start_matches p s = s"
  by (subst trim_start_matches.simps) simp

lemma trim_store_key: "trim_start_matches KEY_PREFIX (store_key sid) = print_word sid"
  unfolding store_key_def
  by (subst trim_start_prefix) (simp add: KEY_PREFIX_def, rule trim_start_stop [OF print_word_no_prefix])

lemma load_keys_exact:
  assumes "redis_laws R db" "redis_up R"
  shows "load_keys R r (map store_key sids) = Some (map (\<lambda>sid. (sid, session_of_fields
      (case db r (store_key sid) of None \<Rightarrow> Map.empty | Some h \<Rightarrow> h))) sids)"
proof (induction sids)
  case (Cons sid sids)
  obtain h where h: "rd_hgetall R r (store_key sid) = Some h" using redis_upD(5) [OF assms(2)] by blast
  then have "h = (case db r (store_key sid) of None \<Rightarrow> Map.empty | Some g \<Rightarrow> g)"
    using assms(1) unfolding redis_laws_def by blast
  with h Cons show ?case by (simp add: trim_store_key)
qed simp

lemma load_all_exact:
  assumes "redis_laws R db" "redis_up R" "own_keys (db r)"
  shows "\<exists>ss. load_all R r = Some ss \<and> distinct (map fst ss) \<and> map_of ss = stored (db r)"
proof -
  obtain ks where ks: "rd_keys R r (KEY_PREFIX @ ''*'') = Some ks" and c: "rd_connect R r"
    using redis_upD(1,4) [OF assms(2)] by blast
  then have k: "distinct ks" "set ks = {k. db r k \<noteq> None \<and> strip_prefix KEY_PREFIX k \<noteq> None}"
    using assms(1) unfolding redis_laws_def by blast+
  then have "set ks \<subseteq> range store_key" using assms(3) unfolding own_keys_def by blast
  then obtain sids where s: "ks = map store_key sids"
    by (metis ex_map_conv rangeE subset_iff)
  let ?f = "\<lambda>sid. session_of_fields (case db r (store_key sid) of None \<Rightarrow> Map.empty | Some h \<Rightarrow> h)"
  let ?ss = "map (\<lambda>sid. (sid, ?f sid)) sids"
  have mem: "sid \<in> set sids \<longleftrightarrow> db r (store_key sid) \<noteq> None" for sid
  proof -
    have "sid \<in> set sids \<longleftrightarrow> store_key sid \<in> set ks" by (auto simp: s)
    then show ?thesis using k(2) by (simp add: store_key_def)
  qed
  have "map_of ?ss sid = stored (db r) sid" for sid
    using mem [of sid] by (auto simp: map_of_map_restrict restrict_map_def stored_def)
  moreover have "distinct sids" using k(1) s by (simp add: distinct_map)
  ultimately show ?thesis
    using ks c s load_keys_exact [OF assms(1,2), of r sids]
    by (intro exI [of _ ?ss]) (auto simp: load_all_def o_def)
qed

section \<open>The store follows the server\<close>

text \<open>What a modification does not change of a session.\<close>

definition identity :: "session_data \<Rightarrow> ipv4 \<times> u64" where
  "identity d = (sd_ue_ip d, sd_cp_seid d)"

definition same_sessions :: "(u64 \<rightharpoonup> session_data) \<Rightarrow> (u64 \<rightharpoonup> session_data) \<Rightarrow> bool" where
  "same_sessions m m' \<longleftrightarrow> (\<forall>sid. map_option identity (m sid) = map_option identity (m' sid))"

text \<open>The store tasks of one session.\<close>

definition concerns :: "u64 \<Rightarrow> effect \<Rightarrow> bool" where
  "concerns sid e = (case e of StoreSave s d \<Rightarrow> s = sid | StoreDelete s \<Rightarrow> s = sid | _ \<Rightarrow> False)"

abbreviation tasks_of :: "u64 \<Rightarrow> effect list \<Rightarrow> effect list" where
  "tasks_of sid es \<equiv> filter (concerns sid) es"

text \<open>
  What was spawned for a SEID: one save for a session of the server; nothing, or a save and then a
  deletion, for a SEID without a session.
\<close>

definition task_ok :: "u64 \<Rightarrow> session_data option \<Rightarrow> u64 \<Rightarrow> effect list \<Rightarrow> bool" where
  "task_ok next sd sid ts \<longleftrightarrow>
     (case sd of
        Some d' \<Rightarrow> \<exists>d. ts = [StoreSave sid d] \<and> identity d = identity d'
      | None \<Rightarrow> ts = [] \<or> (\<exists>d. ts = [StoreSave sid d, StoreDelete sid])) \<and>
     (ts \<noteq> [] \<longrightarrow> sid < next)"

definition mirrored :: "upf_state \<Rightarrow> bool" where
  "mirrored st \<longleftrightarrow> session_store (st_server st) \<and>
     (\<forall>sid. task_ok (next_seid (st_server st)) (sessions (st_server st) sid) sid (tasks_of sid (st_effects st)))"

lemma task_ok_same:
  "task_ok next sd sid ts \<Longrightarrow> map_option identity sd' = map_option identity sd \<Longrightarrow> next \<le> next' \<Longrightarrow> task_ok next' sd' sid ts"
  by (auto simp: task_ok_def split: option.splits)

lemma task_ok_new: "task_ok next sd next ts \<Longrightarrow> next < next' \<Longrightarrow> task_ok next' (Some d) next (ts @ [StoreSave next d])"
  by (auto simp: task_ok_def split: option.splits)

lemma task_ok_deleted: "task_ok next (Some d) sid ts \<Longrightarrow> task_ok next None sid (ts @ [StoreDelete sid])"
  by (auto simp: task_ok_def)

lemma concerns_simps [simp]:
  "concerns sid (StoreSave s d) \<longleftrightarrow> s = sid" "concerns sid (StoreDelete s) \<longleftrightarrow> s = sid" "\<not> concerns sid (TuiLog l)"
  "\<not> concerns sid (TuiSessionsUpdated m)" "\<not> concerns sid TuiHeartbeatUpdated" "\<not> concerns sid (TuiAssociationChanged b)"
  "\<not> concerns sid GaugeIncrement" "\<not> concerns sid GaugeDecrement" "\<not> concerns sid (SetupUeRoute ip)"
  "\<not> concerns sid (TeardownUeRoute ip)"
  by (simp_all add: concerns_def)

lemma tasks_of_send [simp]:
  "tasks_of sid (tui_log srv l) = []" "tasks_of sid (tui_sessions_updated srv) = []"
  "tasks_of sid (tui_send srv TuiHeartbeatUpdated) = []" "tasks_of sid (tui_send srv (TuiAssociationChanged b)) = []"
  by (simp_all add: tui_send_def tui_log_def tui_sessions_updated_def)

lemma same_sessions_simps [simp]:
  "same_sessions m m" "identity d = identity d' \<Longrightarrow> same_sessions m m' \<Longrightarrow> same_sessions (m(sid \<mapsto> d)) (m'(sid \<mapsto> d'))"
  "same_sessions m m' \<Longrightarrow> same_sessions (m(sid := None)) (m'(sid := None))"
  by (simp_all add: same_sessions_def)

lemma same_sessions_trans: "same_sessions m m' \<Longrightarrow> same_sessions m' m'' \<Longrightarrow> same_sessions m m''"
  by (simp add: same_sessions_def)

text \<open>Every handler keeps the account of the tasks.\<close>

locale mirroring_handler =
  fixes h :: "upf_env \<Rightarrow> pfcp_header \<Rightarrow> bytes \<Rightarrow> socket_addr \<Rightarrow> upf_state \<Rightarrow> upf_state \<times> (handler_error + bytes)"
  assumes keeps_mirror: "server_inv R (st_server st) \<Longrightarrow> seid_room (st_server st) \<Longrightarrow> mirrored st \<Longrightarrow>
    mirrored (fst (h E hdr body src st))"
begin

lemma live_sessions_saved_once:
  fixes hdr :: pfcp_header and src :: socket_addr
  assumes "server_inv R (st_server st)" "seid_room (st_server st)" "mirrored st"
    and "sessions (st_server (fst (h E hdr body src st))) sid = Some d"
  shows "\<exists>d'. tasks_of sid (st_effects (fst (h E hdr body src st))) = [StoreSave sid d']"
proof -
  let ?st = "fst (h E hdr body src st)"
  have "task_ok (next_seid (st_server ?st)) (sessions (st_server ?st) sid) sid (tasks_of sid (st_effects ?st))"
    using keeps_mirror [OF assms(1-3)] unfolding mirrored_def by blast
  with assms(4) show ?thesis by (auto simp: task_ok_def)
qed

end

text \<open>Steps that spawn no store task and keep the sessions, up to their tunnels.\<close>

lemma mirrored_same:
  assumes "mirrored st" "same_sessions (sessions (st_server st')) (sessions (st_server st))"
    and "session_store (st_server st') = session_store (st_server st)" "next_seid (st_server st) \<le> next_seid (st_server st')"
    and "\<And>sid. tasks_of sid (st_effects st') = tasks_of sid (st_effects st)"
  shows "mirrored st'"
  unfolding mirrored_def
proof (intro conjI allI)
  show "session_store (st_server st')" using assms(1,3) by (simp add: mirrored_def)
  fix sid
  have "task_ok (next_seid (st_server st)) (sessions (st_server st) sid) sid (tasks_of sid (st_effects st))"
    using assms(1) unfolding mirrored_def by blast
  from task_ok_same [OF this, of "sessions (st_server st') sid" "next_seid (st_server st')"] assms(2,4)
  show "task_ok (next_seid (st_server st')) (sessions (st_server st') sid) sid (tasks_of sid (st_effects st'))"
    by (simp add: assms(5) same_sessions_def)
qed

interpretation mirror_heartbeat: mirroring_handler handle_heartbeat
proof
  fix R E hdr body src and st :: upf_state
  assume m: "mirrored st"
  show "mirrored (fst (handle_heartbeat E hdr body src st))"
  proof (rule mirrored_same [OF m])
    show "tasks_of sid (st_effects (fst (handle_heartbeat E hdr body src st))) = tasks_of sid (st_effects st)" for sid
      by (simp add: handle_heartbeat_def Let_def emit_def)
  qed (cases rule: heartbeat_server_cases [of E hdr body src st]; simp)+
qed

interpretation mirror_association: mirroring_handler handle_session_association
proof
  fix R E hdr body src and st :: upf_state
  assume m: "mirrored st"
  show "mirrored (fst (handle_session_association E hdr body src st))"
  proof (rule mirrored_same [OF m])
    show "tasks_of sid (st_effects (fst (handle_session_association E hdr body src st))) = tasks_of sid (st_effects st)" for sid
      by (simp add: handle_session_association_def Let_def emit_def split: sum.split)
  qed (use association_server_cases [of E hdr body src st] in auto)
qed

lemma install_rules_frame:
  "sessions (fst (install_rules E sid cp ue pdrs fars urrs srv M)) = sessions srv \<and>
   session_store (fst (install_rules E sid cp ue pdrs fars urrs srv M)) = session_store srv"
proof -
  have urrs: "sessions (fst (install_urrs E sid cp urrs srv M1)) = sessions srv"
      "session_store (fst (install_urrs E sid cp urrs srv M1)) = session_store srv" for M1
    using install_urrs_shape [of E sid cp urrs srv M1] by auto
  show ?thesis
    by (simp add: install_rules_def urrs Let_def split_beta)
qed

lemma install_rules_next: "next_seid (fst (install_rules E sid cp ue pdrs fars urrs srv M)) = next_seid srv"
  by (simp add: install_rules_def Let_def split_beta)

lemma register_session_store [simp]: "session_store (register_session node sid d srv) = session_store srv"
  by (simp add: register_session_def Let_def split: option.split)

lemma establishment_tasks:
  fixes st :: upf_state
  defines "sid \<equiv> next_seid (st_server st)"
  obtains "sessions (st_server (fst (handle_session_establishment E hdr body src st))) = sessions (st_server st)"
    "st_effects (fst (handle_session_establishment E hdr body src st)) = st_effects st"
    "session_store (st_server (fst (handle_session_establishment E hdr body src st))) = session_store (st_server st)"
  | d es where "sessions (st_server (fst (handle_session_establishment E hdr body src st))) = (sessions (st_server st))(sid \<mapsto> d)"
    "st_effects (fst (handle_session_establishment E hdr body src st)) = st_effects st @ es"
    "session_store (st_server (fst (handle_session_establishment E hdr body src st))) = session_store (st_server st)"
    "session_store (st_server st) \<Longrightarrow> (\<And>s. tasks_of s es = (if s = sid then [StoreSave sid d] else []))"
    "next_seid (st_server (fst (handle_session_establishment E hdr body src st))) = sid + 1"
proof -
  note frame = install_rules_frame [of E]
  obtain st' res where h: "handle_session_establishment E hdr body src st = (st', res)" by force
  show thesis
  proof (cases res)
    case (Inl e)
    show ?thesis
      by (rule that(1)) (use h Inl in \<open>auto simp: handle_session_establishment_def Let_def alloc_seid_def alloc_teid_def frame split_beta
          emit_def split: sum.splits option.splits if_splits\<close>)
  next
    case (Inr r)
    with h have "handle_session_establishment E hdr body src st = (st', Inr r)" by simp
    then show ?thesis
    proof (cases rule: establishment_okE)
      case (1 req k a ue gnb sm srv3 M3)
      let ?d = "established req ue (ohc_peer_addr gnb) st" and ?srv2 = "fst (alloc_teid (fst (alloc_seid (st_server st))))"
      have srv3: "sessions srv3 = sessions (st_server st)" "session_store srv3 = session_store ?srv2" "next_seid srv3 = next_seid ?srv2"
        using frame [of sid "ser_cp_seid req" ue "ser_create_pdrs req" "ser_create_fars req" "ser_create_urrs req" ?srv2]
          install_rules_next [of E sid "ser_cp_seid req" ue "ser_create_pdrs req" "ser_create_fars req" "ser_create_urrs req" ?srv2] 1(6)
        by (metis alloc_frame(1) fst_conv sid_def)+
      show ?thesis
        by (rule that(2) [of ?d "establishment_effects (st_server st') sid ?d"])
          (use h 1(7,10) srv3 in \<open>simp_all add: sid_def establishment_effects_def store_effect_def alloc_seid_def alloc_teid_def\<close>)
    qed
  qed
qed

interpretation mirror_establishment: mirroring_handler handle_session_establishment
proof
  fix R E hdr body src and st :: upf_state
  assume i: "server_inv R (st_server st)" "seid_room (st_server st)" and m: "mirrored st"
  let ?st = "fst (handle_session_establishment E hdr body src st)" and ?sid = "next_seid (st_server st)"
  have mono: "?sid \<le> next_seid (st_server ?st)"
    using establishment.seid_step [OF i, of E hdr body src] by (auto simp: word_le_nat_alt)
  show "mirrored ?st"
  proof (cases rule: establishment_tasks [of E hdr body src st])
    case 1
    with mono show ?thesis by (intro mirrored_same [OF m]) simp_all
  next
    case (2 d es)
    have store: "session_store (st_server st)" using m by (simp add: mirrored_def)
    note tasks = 2(4) [OF store]
    have ok: "task_ok ?sid (sessions (st_server st) s) s (tasks_of s (st_effects st))" for s
      using m unfolding mirrored_def by blast
    have "?sid < next_seid (st_server ?st)"
      using i(2) 2(5) by (simp add: seid_room_def word_less_nat_alt unat_word_ariths)
    then show ?thesis
      using task_ok_new [OF ok] task_ok_same [OF ok _ mono] store
      by (auto simp: mirrored_def 2(1-3) tasks)
  qed
qed

lemma update_fars_sessions:
  "same_sessions (sessions (fst (update_fars E sid key fs srv M))) (sessions srv) \<and>
   session_store (fst (update_fars E sid key fs srv M)) = session_store srv"
proof (induction E sid key fs srv M rule: update_fars.induct)
  case (2 E sid key f fs srv M)
  have "same_sessions (sessions (update_session_data sid ohc srv)) (sessions srv) \<and>
      session_store (update_session_data sid ohc srv) = session_store srv" for ohc
    by (auto simp: update_session_data_def same_sessions_def identity_def split: option.split)
  then show ?case
    using 2 by (auto simp: same_sessions_def split: option.split)
qed simp

lemma update_urrs_store [simp]:
  "session_store (update_urrs sid us srv) = session_store srv"
  by (induction sid us srv rule: update_urrs.induct) (simp_all split: option.split)

lemma modification_effects [simp]: "st_effects (fst (handle_session_modification E hdr body src st)) = st_effects st"
  by (simp add: handle_session_modification_def split_beta Let_def split: sum.split option.split)

lemma modification_sessions:
  "same_sessions (sessions (st_server (fst (handle_session_modification E hdr body src st)))) (sessions (st_server st)) \<and>
   session_store (st_server (fst (handle_session_modification E hdr body src st))) = session_store (st_server st)"
  by (simp add: handle_session_modification_def split_beta Let_def update_fars_sessions split: sum.split option.split)

interpretation mirror_modification: mirroring_handler handle_session_modification
proof
  fix R E hdr body src and st :: upf_state
  assume i: "server_inv R (st_server st)" "seid_room (st_server st)" and m: "mirrored st"
  show "mirrored (fst (handle_session_modification E hdr body src st))"
    by (rule mirrored_same [OF m])
      (use modification_sessions [of E hdr body src st] modification.seid_step [OF i, of E hdr body src]
       in \<open>auto simp: word_le_nat_alt\<close>)
qed

lemma unregister_store [simp]: "session_store (unregister_session owner sid cp srv) = session_store srv"
  by (simp add: unregister_session_def Let_def split: option.split)

interpretation mirror_deletion: mirroring_handler handle_session_deletion
proof
  fix R E body src and hdr :: pfcp_header and st :: upf_state
  assume m: "mirrored st"
  let ?sid = "case seid hdr of None \<Rightarrow> 0 | Some s \<Rightarrow> s"
  obtain st1 res where c: "deletion_critical E ?sid src st = (st1, res)" by force
  have ok: "task_ok (next_seid (st_server st)) (sessions (st_server st) s) s (tasks_of s (st_effects st))" for s
    using m unfolding mirrored_def by blast
  show "mirrored (fst (handle_session_deletion E hdr body src st))"
  proof (cases res)
    case (Inl e)
    with c have "st1 = st" by (auto simp: deletion_critical_def Let_def split: option.splits sum.splits)
    with c Inl m show ?thesis by (simp add: handle_session_deletion_def)
  next
    case (Inr d)
    have d: "sessions (st_server st) ?sid = Some d" "sessions (st_server st1) = (sessions (st_server st))(?sid := None)"
        "next_seid (st_server st1) = next_seid (st_server st)" "session_store (st_server st1)"
        "tasks_of s (st_effects st1) = tasks_of s (st_effects st)" for s
      using c Inr m by (auto simp: deletion_critical_def Let_def emit_def mirrored_def split: option.splits sum.splits)
    have "tasks_of s (st_effects (deletion_cleanup E ?sid d st1)) = tasks_of s (st_effects st1)" for s
      by (simp add: deletion_cleanup_def Let_def emit_def)
    with d c Inr ok task_ok_deleted [OF ok [of ?sid, unfolded d(1)]] show ?thesis
      by (auto simp: handle_session_deletion_def Let_def mirrored_def emit_def store_effect_def)
  qed
qed

lemma mirrored_touch [simp]: "mirrored (st\<lparr>st_server := touch_activity t (st_server st)\<rparr>) = mirrored st"
  by (simp add: mirrored_def touch_activity_def)

lemma serve_mirrors:
  assumes "server_inv R (st_server st)" "seid_room (st_server st)" "mirrored st"
  shows "mirrored (fst (serve_datagram E data src st))"
proof -
  let ?st = "st\<lparr>st_server := touch_activity (env_now E) (st_server st)\<rparr>"
  have i: "server_inv R (st_server ?st)" "seid_room (st_server ?st)" "mirrored ?st"
    using assms by (simp_all add: seid_room_def)
  show ?thesis
    unfolding serve_datagram_state handle_message_def
    using i mirror_heartbeat.keeps_mirror [OF i] mirror_association.keeps_mirror [OF i] mirror_establishment.keeps_mirror [OF i]
      mirror_modification.keeps_mirror [OF i] mirror_deletion.keeps_mirror [OF i]
    by (auto split: sum.split)
qed

text \<open>A UPF that serves datagrams one after the other.\<close>

definition serve_all :: "(upf_env \<times> bytes \<times> socket_addr) list \<Rightarrow> upf_state \<Rightarrow> upf_state" where
  "serve_all ds st = fold (\<lambda>(E, data, src) st. fst (serve_datagram E data src st)) ds st"

lemma serve_all_mirrors:
  assumes "server_inv R (st_server st)" "unat (next_seid (st_server st)) + length ds < 2 ^ 64" "mirrored st"
  shows "mirrored (serve_all ds st)"
  using assms
proof (induction ds arbitrary: st)
  case (Cons x ds)
  obtain E data src where x: "x = (E, data, src)" by (cases x)
  let ?st = "fst (serve_datagram E data src st)"
  have room: "seid_room (st_server st)" using Cons.prems(2) by (simp add: seid_room_def)
  from serve_datagram_step [OF Cons.prems(1) this, of E data src] Cons.prems(2)
  have s: "server_inv R (st_server ?st)" "unat (next_seid (st_server ?st)) + length ds < 2 ^ 64"
    by (auto simp: inv_step_def)
  from Cons.IH [OF s serve_mirrors [OF Cons.prems(1) room Cons.prems(3)]] show ?case by (simp add: serve_all_def x)
qed (simp add: serve_all_def)

section \<open>Any order of the tasks\<close>

text \<open>The tasks of different sessions do not meet; a session is stored by the last of its own tasks.\<close>

definition last_task :: "effect \<Rightarrow> session_data option \<Rightarrow> session_data option" where
  "last_task e old = (case e of StoreSave s d \<Rightarrow> Some d | StoreDelete s \<Rightarrow> None | _ \<Rightarrow> old)"

lemma store_spec_at: "fold store_spec es m sid = fold last_task (tasks_of sid es) (m sid)"
proof (induction es arbitrary: m)
  case (Cons e es)
  then show ?case by (cases e) (simp_all add: last_task_def)
qed simp

text \<open>The deletion of a session has run before the task that saves it.\<close>

definition overtaken :: "u64 \<Rightarrow> effect list \<Rightarrow> bool" where
  "overtaken sid es \<longleftrightarrow> (\<exists>d. tasks_of sid es = [StoreDelete sid, StoreSave sid d])"

lemma two_orders: "mset xs = mset [a, b] \<Longrightarrow> xs = [a, b] \<or> xs = [b, a]"
  by (cases xs; cases "tl xs") (auto simp: add_eq_conv_ex)

lemma any_order:
  assumes "task_ok next sd sid (tasks_of sid es)" "mset es' = mset es"
  shows "case sd of
      Some d \<Rightarrow> map_option identity (fold store_spec es' Map.empty sid) = Some (identity d)
    | None \<Rightarrow> fold store_spec es' Map.empty sid \<noteq> None \<longleftrightarrow> overtaken sid es'"
proof -
  have m: "mset (tasks_of sid es') = mset (tasks_of sid es)" using assms(2) by simp
  have at: "fold store_spec es' Map.empty sid = fold last_task (tasks_of sid es') None" by (simp add: store_spec_at)
  show ?thesis
  proof (cases sd)
    case (Some d)
    then obtain d' where d': "tasks_of sid es = [StoreSave sid d']" "identity d' = identity d"
      using assms(1) by (auto simp: task_ok_def)
    then have "tasks_of sid es' = [StoreSave sid d']" using m by (simp flip: mset_single_iff)
    with d'(2) Some show ?thesis by (simp add: at last_task_def)
  next
    case None
    then consider "tasks_of sid es = []" | d where "tasks_of sid es = [StoreSave sid d, StoreDelete sid]"
      using assms(1) by (auto simp: task_ok_def)
    then show ?thesis
    proof cases
      case 1
      with m have "tasks_of sid es' = []" by simp
      with None show ?thesis by (simp add: at overtaken_def)
    next
      case 2
      with m have "tasks_of sid es' = [StoreSave sid d, StoreDelete sid] \<or> tasks_of sid es' = [StoreDelete sid, StoreSave sid d]"
        by (intro two_orders) simp
      with None show ?thesis by (auto simp: at last_task_def overtaken_def)
    qed
  qed
qed

section \<open>Properties\<close>

text \<open>
  C8: Recovery after a restart. A UPF with a store that starts without sessions, on a Redis without
  sessions, serves any sequence of datagrams (fewer than its SEID counter has values left); the save and
  delete tasks it spawned all reach a working Redis, in any order. A new UPF that starts on the same
  Redis loads every session the old one had, under the same SEID, with the same UE address and the same CP
  SEID. Beside these it loads exactly the deleted sessions whose deletion task ran before the task that saves
  them; if there is none, it has exactly the sessions of the old one.
\<close>

theorem restart_recovers_sessions:
  fixes db :: "'r \<Rightarrow> string \<rightharpoonup> redis_hash" and ds :: "(upf_env \<times> bytes \<times> socket_addr) list"
  assumes "redis_laws R db" "redis_up R" "own_keys (db r)" "stored (db r) = Map.empty"
    and "server_inv Q (st_server st)" "unat (next_seid (st_server st)) + length ds < 2 ^ 64"
    and "session_store (st_server st)" "sessions (st_server st) = Map.empty" "st_effects st = []"
    and "mset es = mset (st_effects (serve_all ds st))"
  defines "old \<equiv> sessions (st_server (serve_all ds st))"
  shows "\<exists>ss. load_all R (fold (run_store_task R) es r) = Some ss \<and>
    (let new = sessions (fst (startup_load (Some ss) (set_session_store (pfcp_server_new now t a b)))) in
     (\<forall>sid d. old sid = Some d \<longrightarrow> map_option identity (new sid) = Some (identity d)) \<and>
     (\<forall>sid. old sid = None \<longrightarrow> (new sid \<noteq> None \<longleftrightarrow> overtaken sid es)) \<and>
     ((\<forall>sid. \<not> overtaken sid es) \<longrightarrow> same_sessions new old))"
proof -
  have "mirrored st" using assms(7-9) by (simp add: mirrored_def task_ok_def)
  then have m: "mirrored (serve_all ds st)" by (rule serve_all_mirrors [OF assms(5,6)])
  let ?r = "fold (run_store_task R) es r" and ?new = "fold store_spec es Map.empty"
  have "task_ok (next_seid (st_server (serve_all ds st))) (old sid) sid (tasks_of sid (st_effects (serve_all ds st)))" for sid
    using m unfolding mirrored_def old_def by blast
  note order = any_order [OF this assms(10)]
  have "stored (db ?r) = ?new" "own_keys (db ?r)"
    using tasks_refine [OF assms(1-3)] assms(4) by simp_all
  with load_all_exact [OF assms(1,2)] obtain ss
    where ss: "load_all R ?r = Some ss" "distinct (map fst ss)" "map_of ss = ?new" by metis
  have "map_of (rev ss) = ?new"
    using ss(2,3) map_of_inject_set [of ss "rev ss"] by (simp add: rev_map [symmetric])
  then have new: "sessions (fst (startup_load (Some ss) (set_session_store (pfcp_server_new now t a b)))) = ?new"
    using ss(3) by (auto simp: startup_load_def set_session_store_def pfcp_server_new_def restore_sessions_map Let_def)
  have live: "map_option identity (?new sid) = Some (identity d)" if "old sid = Some d" for sid d
    using order [of sid] that by simp
  have gone: "?new sid \<noteq> None \<longleftrightarrow> overtaken sid es" if "old sid = None" for sid
    using order [of sid] that by simp
  have "same_sessions ?new old" if "\<forall>sid. \<not> overtaken sid es"
    unfolding same_sessions_def
  proof
    fix sid
    show "map_option identity (?new sid) = map_option identity (old sid)"
      using live [of sid] gone [of sid] that by (cases "old sid") auto
  qed
  with live gone ss(1) show ?thesis by (intro exI [of _ ss]) (simp add: new)
qed

text \<open>A Redis that is a map of hashes.\<close>

definition demo_redis :: "(string \<times> redis_hash) list redis" where
  "demo_redis = \<lparr>rd_connect = (\<lambda>_. True),
     rd_hset_pipe = (\<lambda>r k fvs. Some (AList.update k ((case map_of r k of None \<Rightarrow> Map.empty | Some h \<Rightarrow> h) ++ map_of (rev fvs)) r)),
     rd_del = (\<lambda>r k. Some (AList.delete k r)),
     rd_keys = (\<lambda>r pattern. Some (filter (\<lambda>k. strip_prefix (butlast pattern) k \<noteq> None) (remdups (map fst r)))),
     rd_hgetall = (\<lambda>r k. Some (case map_of r k of None \<Rightarrow> Map.empty | Some h \<Rightarrow> h))\<rparr>"

lemma demo_redis_ok: "redis_laws demo_redis map_of" "redis_up demo_redis"
  by (auto simp: redis_laws_def redis_up_def demo_redis_def update_conv' delete_conv' map_of_eq_None_iff)

definition storing_state :: upf_state where
  "storing_state = demo_state\<lparr>st_server := set_session_store (st_server demo_state)\<rparr>"

text \<open>An established session, its save task and the other effects in reverse order.\<close>

theorem restart_recovers_sessions_witness:
  "(let ds = [(demo_upf_env [Ipv4Addr 10 0 0 1], build_session_establishment_request 7 (Ipv4Addr 10 0 0 1) 5
        (Ipv4Addr 10 45 0 2) (Ipv4Addr 172 22 0 23) 9, demo_src)]; old = serve_all ds storing_state
    in \<exists>ss. load_all demo_redis (fold (run_store_task demo_redis) (rev (st_effects old)) []) = Some ss \<and>
      (\<forall>sid d. sessions (st_server old) sid = Some d \<longrightarrow>
        map_option identity (sessions (fst (startup_load (Some ss) (set_session_store (pfcp_server_new 0 0 UNSPECIFIED UNSPECIFIED)))) sid) =
          Some (identity d)))"
proof -
  let ?ds = "[(demo_upf_env [Ipv4Addr 10 0 0 1], build_session_establishment_request 7 (Ipv4Addr 10 0 0 1) 5
    (Ipv4Addr 10 45 0 2) (Ipv4Addr 172 22 0 23) 9, demo_src)]"
  have "server_inv {} (st_server storing_state)"
    using demo_state_inv [of "{}"] by (simp add: storing_state_def set_session_store_def server_inv_def)
  from restart_recovers_sessions [OF demo_redis_ok _ _ this, of "[]" ?ds "rev (st_effects (serve_all ?ds storing_state))" 0 0 UNSPECIFIED UNSPECIFIED]
  show ?thesis
    by (auto simp: own_keys_def stored_def fun_eq_iff storing_state_def demo_state_def set_session_store_def pfcp_server_new_def Let_def)
qed

section \<open>Restored sessions\<close>

text \<open>No association lists a session, as after a start.\<close>

definition unlisted :: "pfcp_server \<Rightarrow> bool" where
  "unlisted srv \<longleftrightarrow> (\<forall>k a. associations srv k = Some a \<longrightarrow> as_sessions a = Map.empty)"

lemma unlisted_not_owned: "unlisted (st_server st) \<Longrightarrow> \<not> owns E st src sid"
  by (auto simp: unlisted_def elim!: owns_association)

lemma unlisted_refused:
  assumes "unlisted (st_server st)"
  shows "\<exists>e. handle_session_modification E hdr body src st = (st, Inl e)"
    "\<exists>e. handle_session_deletion E hdr body src st = (st, Inl e)"
proof -
  note no = unlisted_not_owned [OF assms]
  show "\<exists>e. handle_session_modification E hdr body src st = (st, Inl e)"
  proof (cases "seid hdr")
    case (Some sid)
    then have "hdr\<lparr>seid := Some sid\<rparr> = hdr" by simp
    with modify.refused [OF no, where hdr = hdr and body = body and E = E and src = src and sid = sid] show ?thesis by simp
  qed (simp add: handle_session_modification_def split: sum.split)
  show "\<exists>e. handle_session_deletion E hdr body src st = (st, Inl e)"
  proof -
    obtain e where "deletion_critical E (case seid hdr of None \<Rightarrow> 0 | Some s \<Rightarrow> s) src st = (st, Inl e)"
      using delete_begin.refused [OF no] by blast
    then show ?thesis by (simp add: handle_session_deletion_def Let_def)
  qed
qed

definition quiet_step :: "upf_state \<Rightarrow> upf_state \<Rightarrow> bool" where
  "quiet_step st st' \<longleftrightarrow> (unlisted (st_server st) \<longrightarrow> unlisted (st_server st') \<and> sessions (st_server st') = sessions (st_server st))"

lemma quiet_heartbeat: "quiet_step st (fst (handle_heartbeat E hdr body src st))"
  by (cases rule: heartbeat_server_cases [of E hdr body src st]) (auto simp: quiet_step_def unlisted_def split: if_splits)

lemma quiet_association: "quiet_step st (fst (handle_session_association E hdr body src st))"
  using association_server_cases [of E hdr body src st]
  by (auto simp: quiet_step_def unlisted_def smf_association_new_def split: if_splits)

lemma quiet_refused:
  "quiet_step st (fst (handle_session_modification E hdr body src st))"
  "quiet_step st (fst (handle_session_deletion E hdr body src st))"
  using unlisted_refused [of st E hdr body src] by (auto simp: quiet_step_def)

definition establishes :: "bytes \<Rightarrow> bool" where
  "establishes data \<longleftrightarrow> (\<exists>hdr body. pfcp_header_decode data = Inr (hdr, body) \<and> msg_type hdr = PFCP_SESSION_ESTABLISHMENT_REQ)"

lemma quiet_serve: "\<not> establishes data \<Longrightarrow> quiet_step st (fst (serve_datagram E data src st))"
proof -
  assume d: "\<not> establishes data"
  let ?st = "st\<lparr>st_server := touch_activity (env_now E) (st_server st)\<rparr>"
  have "quiet_step ?st (fst (handle_message E data src ?st))"
    using d quiet_heartbeat quiet_association quiet_refused
    by (auto simp: handle_message_def establishes_def quiet_step_def [of s s for s] split: sum.split)
  then show ?thesis
    by (simp add: serve_datagram_state quiet_step_def unlisted_def touch_activity_def)
qed

lemma quiet_serve_all:
  assumes "\<forall>(E, data, src) \<in> set ds. \<not> establishes data" "unlisted (st_server st)"
  shows "sessions (st_server (serve_all ds st)) = sessions (st_server st) \<and> unlisted (st_server (serve_all ds st))"
  using assms
proof (induction ds arbitrary: st)
  case (Cons d ds)
  obtain E data src where d: "d = (E, data, src)" by (metis prod_cases3)
  with Cons.prems have "quiet_step st (fst (serve_datagram E data src st))" by (auto intro: quiet_serve)
  with Cons.prems(2) have "unlisted (st_server (fst (serve_datagram E data src st)))"
      "sessions (st_server (fst (serve_datagram E data src st))) = sessions (st_server st)"
    by (simp_all add: quiet_step_def)
  with Cons.IH [of "fst (serve_datagram E data src st)"] Cons.prems(1) d show ?case
    by (simp add: serve_all_def)
qed (simp add: serve_all_def)

text \<open>
  C34: The associations are not restored with the sessions. Whatever a restarted UPF receives apart
  from new establishments, re-associations, heartbeats, modifications and deletions included, the
  restored sessions stay as they are: no SMF can modify or delete them.
\<close>

theorem restored_sessions_stuck:
  assumes "\<forall>(E, data, src) \<in> set ds. \<not> establishes data"
    and "st_server st = fst (startup_load loaded (set_session_store (pfcp_server_new now t a b)))"
  shows "sessions (st_server (serve_all ds st)) = sessions (st_server st) \<and>
    (\<exists>e. handle_session_deletion E hdr body src (serve_all ds st) = (serve_all ds st, Inl e))"
proof -
  have "associations (restore_sessions ss srv) = associations srv" for ss srv
    by (induction ss srv rule: restore_sessions.induct) simp_all
  then have "unlisted (st_server st)"
    using assms(2) by (auto simp: startup_load_def unlisted_def set_session_store_def pfcp_server_new_def Let_def
        split: option.splits if_splits)
  from quiet_serve_all [OF assms(1) this] show ?thesis
    using unlisted_refused(2) by blast
qed

theorem restored_sessions_stuck_witness:
  "(let d = \<lparr>sd_ue_ip = Ipv4Addr 10 45 0 2, sd_teid = 1000, sd_gnb_ip = Ipv4Addr 172 22 0 23, sd_cp_seid = 5\<rparr>;
        st = demo_state\<lparr>st_server := fst (startup_load (Some [(1, d)]) (set_session_store (pfcp_server_new 0 0 UNSPECIFIED UNSPECIFIED)))\<rparr>
    in sessions (st_server (serve_all [(demo_upf_env [], [], demo_src)] st)) 1 = Some d)"
proof -
  let ?d = "\<lparr>sd_ue_ip = Ipv4Addr 10 45 0 2, sd_teid = 1000, sd_gnb_ip = Ipv4Addr 172 22 0 23, sd_cp_seid = 5\<rparr>"
  let ?srv = "fst (startup_load (Some [(1, ?d)]) (set_session_store (pfcp_server_new 0 0 UNSPECIFIED UNSPECIFIED)))"
  have "\<forall>(E, data, src) \<in> set [(demo_upf_env [], [], demo_src)]. \<not> establishes data"
    by (simp add: establishes_def pfcp_header_decode_def)
  from restored_sessions_stuck [OF this, of "demo_state\<lparr>st_server := ?srv\<rparr>"]
  have "sessions (st_server (serve_all [(demo_upf_env [], [], demo_src)] (demo_state\<lparr>st_server := ?srv\<rparr>))) = sessions ?srv"
    by simp
  then show ?thesis
    by (simp add: startup_load_def set_session_store_def pfcp_server_new_def Let_def)
qed

end
