(* ===== verification/Upf_Agree.thy ===== *)
theory Upf_Agree
  imports Upf_Run Lifecycle
begin

text \<open>
  Control plane against data plane: the server's session table and the SESSION map of the XDP
  programs. The contract is \<open>agree\<close>: every session of the server has its entry, under the address of its
  UE, with its SEID and its tunnel, unless it was restored from the store when the UPF started, which
  installs nothing. Every handler keeps it when requests are served one after the other and no UE
  address is given to two sessions at once. While the maps have room there are no other entries
  (\<open>no_stray\<close>). The last section shows what the gap in the deletion handler's locking does to it.
\<close>

section \<open>The contract\<close>

definition ue_key :: "session_data \<Rightarrow> session_key" where
  "ue_key d = SessionKey (ip_be (sd_ue_ip d))"

definition entry_of :: "u64 \<Rightarrow> session_data \<Rightarrow> session_info \<Rightarrow> bool" where
  "entry_of sid d info \<longleftrightarrow> si_seid info = sid \<and> si_gnb_ip info = ip_be (sd_gnb_ip d) \<and> si_teid info = to_be (sd_teid d)"

definition served :: "(session_key \<rightharpoonup> session_info) \<Rightarrow> u64 \<Rightarrow> session_data \<Rightarrow> bool" where
  "served T sid d \<longleftrightarrow> (\<exists>info. T (ue_key d) = Some info \<and> entry_of sid d info)"

definition dormant :: "(u64 \<rightharpoonup> session_data) \<Rightarrow> (session_key \<rightharpoonup> session_info) \<Rightarrow> u64 \<Rightarrow> session_data \<Rightarrow> bool" where
  "dormant L T sid d \<longleftrightarrow> T (ue_key d) = None \<and> (\<exists>d0. L sid = Some d0 \<and> ue_key d0 = ue_key d)"

definition agree :: "(u64 \<rightharpoonup> session_data) \<Rightarrow> (u64 \<rightharpoonup> session_data) \<Rightarrow> (session_key \<rightharpoonup> session_info) \<Rightarrow> bool" where
  "agree L S T \<longleftrightarrow> (\<forall>sid d. S sid = Some d \<longrightarrow> served T sid d \<or> dormant L T sid d)"

definition no_stray :: "u64 \<Rightarrow> (u64 \<rightharpoonup> session_data) \<Rightarrow> (session_key \<rightharpoonup> session_info) \<Rightarrow> bool" where
  "no_stray next S T \<longleftrightarrow>
     (\<forall>k info. T k = Some info \<longrightarrow> si_seid info < next \<and> (\<exists>d. S (si_seid info) = Some d \<and> ue_key d = k))"

lemma agreeD: "agree L S T \<Longrightarrow> S sid = Some d \<Longrightarrow> served T sid d \<or> dormant L T sid d"
  by (simp add: agree_def)

lemma no_strayD:
  assumes "no_stray next S T" "T k = Some info"
  shows "si_seid info < next" "\<exists>d. S (si_seid info) = Some d \<and> ue_key d = k"
  using assms by (simp_all add: no_stray_def)

lemma ip_be_inject [simp]: "ip_be a = ip_be b \<longleftrightarrow> a = b"
  by (simp add: ip_be_def to_be_inject)

lemma ue_key_inject: "ue_key d = ue_key d' \<longleftrightarrow> sd_ue_ip d = sd_ue_ip d'"
  by (simp add: ue_key_def)

lemma ue_key_point [simp]: "ue_key (point_data ohc d) = ue_key d"
  by (simp add: ue_key_def point_data_def)

lemma entry_of_point [simp]: "entry_of sid d info \<Longrightarrow> entry_of sid (point_data ohc d) (point_session ohc info)"
  by (simp add: entry_of_def point_data_def point_session_def)

text \<open>Two sessions of one UE are both restored ones without an entry.\<close>

lemma agree_unique:
  assumes "agree L S T" "S sid = Some d" "S sid' = Some d'" "ue_key d = ue_key d'" "sid \<noteq> sid'"
  shows "dormant L T sid d \<and> dormant L T sid' d'"
  using agreeD [OF assms(1,2)] agreeD [OF assms(1,3)] assms(4,5) by (auto simp: served_def dormant_def entry_of_def)

text \<open>The changes the handlers make: a new entry, a new session, a new tunnel, a deletion.\<close>

lemma agree_entry:
  assumes "agree L S T" "\<And>sid' d'. S sid' = Some d' \<Longrightarrow> ue_key d' \<noteq> k"
  shows "agree L S (T(k \<mapsto> info))"
  using assms by (simp add: agree_def served_def dormant_def)

lemma agree_insert:
  assumes "agree L S T" "served T sid d"
  shows "agree L (S(sid \<mapsto> d)) T"
  using assms by (simp add: agree_def)

lemma no_stray_insert:
  assumes "no_stray sid S T" "\<And>sid' d'. S sid' = Some d' \<Longrightarrow> ue_key d' \<noteq> ue_key d" "si_seid info = sid" "sid < next"
  shows "no_stray next (S(sid \<mapsto> d)) (T(ue_key d \<mapsto> info))"
proof -
  have "si_seid info' < sid" "si_seid info' \<noteq> sid" if "T k = Some info'" for k info'
    using no_strayD(1) [OF assms(1) that] by auto
  then show ?thesis
    unfolding no_stray_def using assms(3,4) no_strayD(2) [OF assms(1)] by (auto intro: less_trans)
qed

lemma agree_change:
  assumes "agree L S T" "S sid = Some d"
  shows "agree L (change_at sid (point_data ohc) S) (change_at (ue_key d) (point_session ohc) T)"
proof -
  have other: "T (ue_key d) = None" if "S sid' = Some d'" "sid' \<noteq> sid" "ue_key d' = ue_key d" for sid' d'
    using agree_unique [OF assms(1) that(1) assms(2) that(3,2)] by (simp add: dormant_def)
  show ?thesis
  proof (cases "T (ue_key d)")
    case None
    then have "dormant L T sid (point_data ohc d)" using agreeD [OF assms] by (auto simp: served_def dormant_def)
    with None assms show ?thesis
      by (simp add: agree_def change_at_Some change_at_None)
  next
    case (Some info)
    then have "entry_of sid d info" using agreeD [OF assms] by (auto simp: served_def dormant_def)
    with Some assms other show ?thesis
      by (auto simp: agree_def change_at_Some served_def dormant_def split: if_splits)
  qed
qed

lemma no_stray_change:
  assumes "no_stray next S T" "S sid = Some d"
  shows "no_stray next (change_at sid (point_data ohc) S) (change_at k (point_session ohc) T)"
  unfolding no_stray_def
proof (intro allI impI)
  fix k' info'
  assume "change_at k (point_session ohc) T k' = Some info'"
  then obtain info where info: "T k' = Some info" "si_seid info' = si_seid info"
    by (auto simp: change_at_def point_session_def split: if_splits)
  then obtain d' where "S (si_seid info') = Some d'" "ue_key d' = k'" "si_seid info' < next"
    using no_strayD [OF assms(1) info(1)] by auto
  then show "si_seid info' < next \<and> (\<exists>d. change_at sid (point_data ohc) S (si_seid info') = Some d \<and> ue_key d = k')"
    by (auto simp: change_at_def)
qed

lemma agree_delete:
  assumes "agree L S T" "S sid = Some d"
  shows "agree L (S(sid := None)) (T(ue_key d := None))"
proof -
  have "dormant L T sid' d'" if "S sid' = Some d'" "sid' \<noteq> sid" "ue_key d' = ue_key d" for sid' d'
    using agree_unique [OF assms(1) that(1) assms(2) that(3,2)] by blast
  with assms(1) show ?thesis
    by (fastforce simp: agree_def served_def dormant_def)
qed

lemma no_stray_delete:
  assumes "no_stray next S T" "S sid = Some d"
  shows "no_stray next (S(sid := None)) (T(ue_key d := None))"
  unfolding no_stray_def
proof (intro allI impI)
  fix k info
  assume "(T(ue_key d := None)) k = Some info"
  then have "k \<noteq> ue_key d" "T k = Some info" by (auto split: if_splits)
  with no_strayD [OF assms(1), of k info] assms(2)
  show "si_seid info < next \<and> (\<exists>d. (S(sid := None)) (si_seid info) = Some d \<and> ue_key d = k)" by auto
qed

lemma no_stray_mono: "no_stray next S T \<Longrightarrow> next \<le> next' \<Longrightarrow> no_stray next' S T"
  unfolding no_stray_def by (meson less_le_trans)

section \<open>Every handler keeps it\<close>

text \<open>\<open>r\<close> says that the maps have had room so far.\<close>

definition in_step :: "(u64 \<rightharpoonup> session_data) \<Rightarrow> bool \<Rightarrow> upf_state \<Rightarrow> bool" where
  "in_step L r st \<longleftrightarrow> agree L (sessions (st_server st)) (SESSION_MAP (st_maps st)) \<and>
     (r \<longrightarrow> no_stray (next_seid (st_server st)) (sessions (st_server st)) (SESSION_MAP (st_maps st)))"

text \<open>An establishment request for a UE that has no session.\<close>

definition new_ue :: "bytes \<Rightarrow> upf_state \<Rightarrow> bool" where
  "new_ue body st \<longleftrightarrow> (\<forall>req ue. session_establishment_req_decode body = Inr req \<longrightarrow>
     find_map pdr_ue_ip (ser_create_pdrs req) = Some ue \<longrightarrow>
     (\<forall>sid d. sessions (st_server st) sid = Some d \<longrightarrow> sd_ue_ip d \<noteq> ue))"

locale agreeing_handler =
  fixes h :: "upf_env \<Rightarrow> pfcp_header \<Rightarrow> bytes \<Rightarrow> socket_addr \<Rightarrow> upf_state \<Rightarrow> upf_state \<times> (handler_error + bytes)"
    and admissible :: "bytes \<Rightarrow> upf_state \<Rightarrow> bool"
  assumes keeps_agree: "env_laws E \<Longrightarrow> server_inv R (st_server st) \<Longrightarrow> seid_room (st_server st) \<Longrightarrow> admissible body st \<Longrightarrow>
      in_step L r st \<Longrightarrow> in_step L (r \<and> env_roomy E) (fst (h E hdr body src st))"
begin

text \<open>With room and nothing restored, afterwards a UE has an entry exactly when it has a session.\<close>

lemma serves_exactly_sessions:
  fixes hdr :: pfcp_header and src :: socket_addr
  assumes "env_laws E" "env_roomy E" "server_inv R (st_server st)" "seid_room (st_server st)" "admissible body st"
    and "in_step Map.empty True st"
  defines "st' \<equiv> fst (h E hdr body src st)"
  shows "SESSION_MAP (st_maps st') (SessionKey (ip_be ue)) \<noteq> None \<longleftrightarrow>
    (\<exists>sid d. sessions (st_server st') sid = Some d \<and> sd_ue_ip d = ue)"
proof -
  have a: "in_step Map.empty True st'"
    using keeps_agree [OF assms(1,3-6), of hdr src] assms(2) by (simp add: st'_def)
  show ?thesis
  proof
    assume "SESSION_MAP (st_maps st') (SessionKey (ip_be ue)) \<noteq> None"
    then show "\<exists>sid d. sessions (st_server st') sid = Some d \<and> sd_ue_ip d = ue"
      using a no_strayD(2) by (fastforce simp: in_step_def ue_key_def)
  next
    assume "\<exists>sid d. sessions (st_server st') sid = Some d \<and> sd_ue_ip d = ue"
    then show "SESSION_MAP (st_maps st') (SessionKey (ip_be ue)) \<noteq> None"
      using a by (auto simp: in_step_def agree_def served_def dormant_def ue_key_def)
  qed
qed

end

lemma heartbeat_frame:
  "sessions (st_server (fst (handle_heartbeat E hdr body src st))) = sessions (st_server st)"
  "next_seid (st_server (fst (handle_heartbeat E hdr body src st))) = next_seid (st_server st)"
  "st_maps (fst (handle_heartbeat E hdr body src st)) = st_maps st"
  by (cases rule: heartbeat_server_cases [of E hdr body src st], simp_all)+
    (simp add: handle_heartbeat_def Let_def)

lemma association_frame:
  "sessions (st_server (fst (handle_session_association E hdr body src st))) = sessions (st_server st)"
  "next_seid (st_server (fst (handle_session_association E hdr body src st))) = next_seid (st_server st)"
  "st_maps (fst (handle_session_association E hdr body src st)) = st_maps st"
  using association_server_cases [of E hdr body src st]
  by (auto simp: handle_session_association_def Let_def split: sum.split)

interpretation agree_heartbeat: agreeing_handler handle_heartbeat "\<lambda>_ _. True"
  by unfold_locales (simp add: in_step_def heartbeat_frame)

interpretation agree_association: agreeing_handler handle_session_association "\<lambda>_ _. True"
  by unfold_locales (simp add: in_step_def association_frame)

text \<open>
  An establishment that fails leaves the table alone; it fails before it touches the maps or, when one
  of them is full, after it has made the SESSION entry.
\<close>

lemma install_rules_session_map:
  "SESSION_MAP (fst (snd (install_rules E sid cp ue pdrs fars urrs srv M))) = SESSION_MAP M"
  "sessions (fst (install_rules E sid cp ue pdrs fars urrs srv M)) = sessions srv"
proof -
  have "SESSION_MAP (fst (snd (install_urrs E sid cp urrs srv M1))) = SESSION_MAP M1"
    "sessions (fst (install_urrs E sid cp urrs srv M1)) = sessions srv" for M1
    using install_urrs_shape [of E sid cp urrs srv M1] by auto
  then show "SESSION_MAP (fst (snd (install_rules E sid cp ue pdrs fars urrs srv M))) = SESSION_MAP M"
    "sessions (fst (install_rules E sid cp ue pdrs fars urrs srv M)) = sessions srv"
    by (simp_all add: install_rules_def Let_def split_beta)
qed

lemma establishment_failed:
  assumes "env_laws E" "handle_session_establishment E hdr body src st = (st', Inl e)"
  shows "sessions (st_server st') = sessions (st_server st) \<and>
    (st_maps st' = st_maps st \<or> \<not> env_roomy E \<and> (\<exists>req ue info. session_establishment_req_decode body = Inr req \<and>
       find_map pdr_ue_ip (ser_create_pdrs req) = Some ue \<and>
       SESSION_MAP (st_maps st') = (SESSION_MAP (st_maps st))(SessionKey (ip_be ue) \<mapsto> info)))"
proof -
  note ins = hash_insertD [OF env_lawsD(1) [OF assms(1)]]
  have roomy: "snd (snd (install_rules E sid cp ue pdrs fars urrs srv M))" if "env_roomy E" for sid cp ue pdrs fars urrs srv M
    using install_rules_roomy [OF that, of sid cp ue pdrs fars urrs srv M] by (metis snd_conv)
  show ?thesis
    using assms(2) roomy
    by (auto simp: handle_session_establishment_def Let_def alloc_seid_def alloc_teid_def install_rules_session_map split_beta
        split: sum.splits option.splits if_splits dest!: ins)
qed

interpretation agree_establishment: agreeing_handler handle_session_establishment new_ue
proof
  fix E R hdr body src L r and st :: upf_state
  assume laws: "env_laws E" and i: "server_inv R (st_server st)" and room: "seid_room (st_server st)"
    and n: "new_ue body st" and a: "in_step L r st"
  let ?S = "sessions (st_server st)" and ?T = "SESSION_MAP (st_maps st)" and ?sid = "next_seid (st_server st)"
  obtain st' res where h: "handle_session_establishment E hdr body src st = (st', res)" by force
  have step: "unat (next_seid (st_server st')) \<in> {unat ?sid, unat ?sid + 1}"
    using establishment.seid_step [OF i room, of E hdr body src] h by simp
  then have mono: "?sid \<le> next_seid (st_server st')" by (auto simp: word_le_nat_alt)
  show "in_step L (r \<and> env_roomy E) (fst (handle_session_establishment E hdr body src st))"
  proof (cases res)
    case (Inl e)
    with h have "handle_session_establishment E hdr body src st = (st', Inl e)" by simp
    from establishment_failed [OF laws this] show ?thesis
    proof (elim conjE disjE exE)
      assume "sessions (st_server st') = ?S" "st_maps st' = st_maps st"
      with a h no_stray_mono [OF _ mono] show ?thesis by (auto simp: in_step_def)
    next
      fix req ue info
      assume s: "sessions (st_server st') = ?S" "\<not> env_roomy E" "session_establishment_req_decode body = Inr req"
        "find_map pdr_ue_ip (ser_create_pdrs req) = Some ue" "SESSION_MAP (st_maps st') = ?T(SessionKey (ip_be ue) \<mapsto> info)"
      have "ue_key d' \<noteq> SessionKey (ip_be ue)" if "?S sid' = Some d'" for sid' d'
        using n s(3,4) that by (auto simp: new_ue_def ue_key_def)
      with a h s show ?thesis by (simp add: in_step_def agree_entry)
    qed
  next
    case (Inr x)
    with h have "handle_session_establishment E hdr body src st = (st', Inr x)" by simp
    then show ?thesis
    proof (cases rule: establishment_okE)
      case (1 req k b ue gnb sm srv3 M3)
      let ?d = "established req ue (ohc_peer_addr gnb) st"
      let ?info = "session_info_of ?sid (next_teid (st_server st)) (ohc_peer_addr gnb) (n3_addr (st_server st)) (ser_create_pdrs req)"
      note ok = install_rules_ok [OF laws(1) 1(6)]
      have key: "ue_key ?d = SessionKey (ip_be ue)" by (simp add: ue_key_def established_def)
      have sm: "sm = ?T(ue_key ?d \<mapsto> ?info)"
        using hash_insertD [OF env_lawsD(1) [OF laws(1)] 1(5)] by (simp add: key)
      have other: "ue_key d' \<noteq> ue_key ?d" if "?S sid' = Some d'" for sid' d'
        using n 1(1,3) that by (auto simp: new_ue_def ue_key_inject established_def)
      have e: "entry_of ?sid ?d ?info"
        by (simp add: entry_of_def session_info_of_def established_def Let_def)
      then have "agree L (?S(?sid \<mapsto> ?d)) sm"
        using a agree_entry [of L ?S ?T "ue_key ?d" ?info] other unfolding sm
        by (intro agree_insert) (auto simp: in_step_def served_def)
      moreover have "?sid < next_seid (st_server st')"
        using alloc_below(1) [OF room] install_rules_inv [OF inv_alloc_seid [OF i]] 1(6,7) room
        by (simp add: seid_room_def) (metis alloc_below(1) fst_conv i inv_alloc_seid inv_alloc_teid install_rules_inv room seid_room_def)
      then have "r \<Longrightarrow> no_stray (next_seid (st_server st')) (?S(?sid \<mapsto> ?d)) sm"
        using no_stray_insert [of ?sid ?S ?T ?d ?info] other e a unfolding sm by (simp add: in_step_def entry_of_def)
      ultimately show ?thesis
        using ok 1(7,8) h by (simp add: in_step_def)
    qed
  qed
qed

lemma pfcp_server_next_sessions: "next_seid (srv\<lparr>sessions := m\<rparr>) = next_seid srv"
  by simp

lemma agree_updates:
  assumes "agree L (sessions (fst sM)) (SESSION_MAP (snd sM))" "sessions (fst sM) sid = Some d"
    and "r \<Longrightarrow> no_stray next (sessions (fst sM)) (SESSION_MAP (snd sM))"
  shows "agree L (sessions (fst (foldl (apply_update sid (ue_key d)) sM fs)))
      (SESSION_MAP (snd (foldl (apply_update sid (ue_key d)) sM fs))) \<and>
    (r \<longrightarrow> no_stray next (sessions (fst (foldl (apply_update sid (ue_key d)) sM fs)))
      (SESSION_MAP (snd (foldl (apply_update sid (ue_key d)) sM fs))))"
  using assms
proof (induction fs arbitrary: sM d)
  case (Cons f fs)
  let ?sM = "apply_update sid (ue_key d) sM f"
  have "\<exists>d'. sessions (fst ?sM) sid = Some d' \<and> ue_key d' = ue_key d"
    using Cons.prems(2) by (simp add: apply_update_parts change_at_def split: option.split)
  then obtain d' where d': "sessions (fst ?sM) sid = Some d'" "ue_key d' = ue_key d"
    by blast
  have "agree L (sessions (fst ?sM)) (SESSION_MAP (snd ?sM))"
    using Cons.prems agree_change [OF Cons.prems(1,2)] by (simp add: apply_update_parts split: option.split)
  moreover have "r \<Longrightarrow> no_stray next (sessions (fst ?sM)) (SESSION_MAP (snd ?sM))"
    using Cons.prems(3) no_stray_change [of "next" "sessions (fst sM)" "SESSION_MAP (snd sM)" sid d _ "ue_key d"] Cons.prems(2) by (simp add: apply_update_parts split: option.split)
  ultimately show ?case using Cons.IH [OF _ d'(1)] by (simp add: d'(2))
qed simp

interpretation agree_modification: agreeing_handler handle_session_modification "\<lambda>_ _. True"
proof
  fix E R body src L r and hdr :: pfcp_header and st :: upf_state
  assume laws: "env_laws E" and a: "in_step L r st"
  have "in_step L r (st\<lparr>st_server := update_urrs sid us (fst sM), st_maps := snd sM\<rparr>)"
    if "sM = foldl (apply_update sid (ue_key d)) (st_server st, st_maps st) fs" "sessions (st_server st) sid = Some d"
    for sM sid d fs us
  proof -
    have "next_seid (fst sM) = next_seid (st_server st)"
      using apply_updates_only [of sid "ue_key d" fs "(st_server st, st_maps st)"] that(1)
      unfolding updates_only_def by (metis fst_conv pfcp_server_next_sessions)
    moreover have "next_seid (update_urrs sid us (fst sM)) = next_seid (fst sM)"
      by (subst update_urrs_only) simp
    ultimately show ?thesis
      using agree_updates [of L "(st_server st, st_maps st)" sid d r "next_seid (st_server st)" fs] a that by (simp add: in_step_def)
  qed
  then show "in_step L (r \<and> env_roomy E) (fst (handle_session_modification E hdr body src st))"
    using a by (auto simp: handle_session_modification_def update_fars_eq [OF laws] case_prod_beta Let_def ue_key_def in_step_def
        split: sum.split option.split)
qed

interpretation agree_deletion: agreeing_handler handle_session_deletion "\<lambda>_ _. True"
proof
  fix E R body src L r and hdr :: pfcp_header and st :: upf_state
  assume laws: "env_laws E" and a: "in_step L r st"
  let ?sid = "case seid hdr of None \<Rightarrow> 0 | Some s \<Rightarrow> s"
  show "in_step L (r \<and> env_roomy E) (fst (handle_session_deletion E hdr body src st))"
  proof (cases "deletion_critical E ?sid src st")
    case (Pair st1 res)
    show ?thesis
    proof (cases res)
      case (Inl e)
      then have "st1 = st"
        using Pair by (auto simp: deletion_critical_def Let_def split: option.splits sum.splits)
      with Pair Inl a show ?thesis by (simp add: handle_session_deletion_def in_step_def)
    next
      case (Inr d)
      have d: "sessions (st_server st) ?sid = Some d" "sessions (st_server st1) = (sessions (st_server st))(?sid := None)"
          "st_maps st1 = st_maps st" "next_seid (st_server st1) = next_seid (st_server st)"
        using Pair Inr by (auto simp: deletion_critical_def Let_def split: option.splits sum.splits)
      have "st_server (deletion_cleanup E ?sid d st1) = st_server st1" by (simp add: deletion_cleanup_def Let_def)
      with agree_delete [of L "sessions (st_server st)" "SESSION_MAP (st_maps st)" ?sid d]
        no_stray_delete [of "next_seid (st_server st)" "sessions (st_server st)" "SESSION_MAP (st_maps st)" ?sid d] a d Pair Inr show ?thesis
        by (simp add: handle_session_deletion_def Let_def deletion_cleanup_maps(1) [OF laws] ue_key_def in_step_def)
    qed
  qed
qed

section \<open>Runs\<close>

text \<open>
  Requests served one at a time under the kernel's laws, keep-alives, reporter ticks and packets in
  between. The SESSION map starts empty; the table starts with the sessions \<open>L\<close> that were restored. \<open>r\<close>
  says that every request found room in the maps.
\<close>

definition admitted :: "bytes \<Rightarrow> upf_state \<Rightarrow> bool" where
  "admitted data st \<longleftrightarrow> (\<forall>hdr body. pfcp_header_decode data = Inr (hdr, body) \<longrightarrow>
     msg_type hdr = PFCP_SESSION_ESTABLISHMENT_REQ \<longrightarrow> new_ue body st)"

inductive orderly_run :: "(u64 \<rightharpoonup> session_data) \<Rightarrow> bool \<Rightarrow> nat \<Rightarrow> upf_state \<Rightarrow> bool" for L where
  start: "startup_load loaded ((pfcp_server_new now t a b)\<lparr>tx_tui := tui, session_store := store\<rparr>) = (srv, effs) \<Longrightarrow>
    sessions srv = L \<Longrightarrow> SESSION_MAP M = Map.empty \<Longrightarrow>
    orderly_run L True 0 \<lparr>st_server = srv, st_maps = M, st_effects = effs\<rparr>"
| datagram: "orderly_run L r n st \<Longrightarrow> env_laws E \<Longrightarrow> admitted data st \<Longrightarrow>
    orderly_run L (r \<and> env_roomy E) (Suc n) (fst (serve_datagram E data src st))"
| keepalive: "orderly_run L r n st \<Longrightarrow>
    orderly_run L r n (st\<lparr>st_server := fst (keepalive_round now t sent (st_server st) sq)\<rparr>)"
| tick: "orderly_run L r n st \<Longrightarrow> orderly_run L r n (st\<lparr>st_server := fst (urr_tick now es (st_server st))\<rparr>)"
| uplink: "orderly_run L r n st \<Longrightarrow> orderly_run L r n (st\<lparr>st_maps := fst (upf_edge_n3 X (st_maps st) p)\<rparr>)"
| downlink: "orderly_run L r n st \<Longrightarrow> orderly_run L r n (st\<lparr>st_maps := fst (upf_edge_n6 X (st_maps st) p)\<rparr>)"

lemma orderly_run_run: "orderly_run L r n st \<Longrightarrow> upf_run L n st"
  by (induction rule: orderly_run.induct) (auto intro: upf_run.intros)

lemma xdp_sessions [simp]:
  "SESSION_MAP (fst (upf_edge_n3 X M p)) = SESSION_MAP M" "SESSION_MAP (fst (upf_edge_n6 X M p)) = SESSION_MAP M"
  by (auto simp: upf_edge_n3_def upf_edge_n6_def try_n3_uplink_def try_n6_downlink_def uplink_stats_def
      downlink_stats_def Let_def split: option.split prod.split)

lemma report_all_sessions: "sessions (fst (report_all now es srv)) = sessions srv"
proof (induction es arbitrary: srv)
  case (Cons e es)
  have "sessions (fst (report_one now e srv)) = sessions srv"
    by (auto simp: report_one_def Let_def alloc_report_seq_def split: option.split prod.split)
  with Cons show ?case by (simp add: report_all_Cons del: report_all.simps(2))
qed simp

lemma task_sessions [simp]:
  "sessions (fst (keepalive_round now t sent srv sq)) = sessions srv"
  "sessions (fst (urr_tick now es srv)) = sessions srv"
  by (simp_all add: keepalive_round_def touch_activity_def urr_tick_def report_all_sessions split_beta Let_def
      split: option.split prod.split)

lemma serve_in_step:
  assumes "env_laws E" "server_inv R (st_server st)" "seid_room (st_server st)" "admitted data st" "in_step L r st"
  shows "in_step L (r \<and> env_roomy E) (fst (serve_datagram E data src st))"
proof -
  let ?st = "st\<lparr>st_server := touch_activity (env_now E) (st_server st)\<rparr>"
  have t: "in_step L r ?st" "new_ue body ?st = new_ue body st" for body
    using assms(5) by (simp_all add: touch_activity_def new_ue_def in_step_def)
  have i: "server_inv R (st_server ?st)" "seid_room (st_server ?st)"
    using assms(2,3) by (simp_all add: seid_room_def)
  have same: "in_step L (r \<and> env_roomy E) ?st" using t(1) by (simp add: in_step_def)
  show ?thesis
    unfolding serve_datagram_state handle_message_def
    using assms(4) t same agree_heartbeat.keeps_agree [OF assms(1) i] agree_association.keeps_agree [OF assms(1) i]
      agree_establishment.keeps_agree [OF assms(1) i] agree_modification.keeps_agree [OF assms(1) i]
      agree_deletion.keeps_agree [OF assms(1) i]
    by (auto simp: admitted_def split: sum.split)
qed

lemma orderly_run_in_step:
  assumes "orderly_run L r n st" "n < 2 ^ 48"
  shows "in_step L r st"
  using assms
proof (induction rule: orderly_run.induct)
  case (start loaded now t a b tui store srv effs M)
  then show ?case by (simp add: in_step_def agree_def dormant_def no_stray_def)
next
  case (datagram r n st E data src)
  have "server_inv (dom L) (st_server st)" "seid_room (st_server st)"
    using upf_run_inv [OF orderly_run_run [OF datagram(1)]] datagram.prems by (simp_all add: seid_room_def)
  with datagram show ?case by (intro serve_in_step) simp_all
qed (simp_all add: in_step_def keepalive_next urr_tick_next)

text \<open>
  A UPF restarted with one session in its store, associated with one SMF that establishes another session.
\<close>

definition stored_data :: session_data where
  "stored_data = \<lparr>sd_ue_ip = Ipv4Addr 10 45 0 9, sd_teid = 1000, sd_gnb_ip = Ipv4Addr 172 22 0 23, sd_cp_seid = 5\<rparr>"

abbreviation demo_data2 :: session_data where
  "demo_data2 \<equiv> lifecycle_data (Ipv4Addr 10 45 0 2) 1000 (Ipv4Addr 172 22 0 23) 5"

lemma demo_run:
  "\<exists>st a. orderly_run [7 \<mapsto> stored_data] True 2 st \<and> registered demo_src (Ipv4Addr 10 0 0 1) (st_server st) a \<and>
     as_sessions a 5 \<noteq> None \<and> next_seid (st_server st) = 2 \<and> sessions (st_server st) = [7 \<mapsto> stored_data, 1 \<mapsto> demo_data2] \<and>
     (\<exists>st0 data data'. tx_tui (st_server st0) \<and>
        st = fst (serve_datagram lifecycle_env data' demo_src (fst (serve_datagram lifecycle_env data demo_src st0))))"
proof -
  let ?srv = "(pfcp_server_new 0 0 (Ipv4Addr 10 0 0 2) (Ipv4Addr 10 0 0 3))\<lparr>tx_tui := True, session_store := True\<rparr>"
  let ?L = "[7 \<mapsto> stored_data]"
  obtain srv effs where load: "startup_load (Some [(7, stored_data)]) ?srv = (srv, effs)" by force
  have L: "sessions srv = ?L" using load by (auto simp: startup_load_def pfcp_server_new_def Let_def)
  let ?st0 = "\<lparr>st_server = srv, st_maps = demo_maps\<lparr>SESSION_MAP := Map.empty\<rparr>, st_effects = effs\<rparr>"
  let ?n = "Ipv4Addr 10 0 0 1" and ?ue = "Ipv4Addr 10 45 0 2" and ?net = "cfg_network demo_config"
  let ?a = "smf_association_new (env_now lifecycle_env) ?n demo_src 7"
  note srv = start_server [OF load]
  have r0: "orderly_run ?L True 0 ?st0" by (rule orderly_run.start [OF load L]) simp
  obtain st1 r1 where a: "serve_datagram lifecycle_env (association_request 1 ?n 7) demo_src ?st0 = (st1, r1)"
      "associations (st_server st1) = [?n \<mapsto> ?a]"
      "sessions (st_server st1) = ?L" "next_seid (st_server st1) = 1" "next_teid (st_server st1) = 1000"
    using serve_association [of 1 ?st0 ?n lifecycle_env 7 demo_src] srv L by auto
  obtain h b where "pfcp_header_decode (association_request 1 ?n 7) = Inr (h, b)" "msg_type h = PFCP_ASSOCIATION_SETUP_REQ"
    using association_request_header [of 1 ?n 7] by auto
  then have r1: "orderly_run ?L True 1 st1"
    using orderly_run.datagram [OF r0 lifecycle_env_ok(1), of "association_request 1 ?n 7" demo_src] a(1)
    by (simp add: admitted_def lifecycle_env_ok)
  have reg: "registered demo_src ?n (st_server st1) ?a"
    unfolding registered_def a(2) by (auto simp: smf_association_new_def)
  let ?req = "lifecycle_establishment_request ?net 2 5 ?ue 9"
  have gnb: "nc_gnb_addr ?net = Ipv4Addr 172 22 0 23" by (simp add: demo_config_def)
  obtain st2 r2 where e: "serve_datagram lifecycle_env ?req demo_src st1 = (st2, r2)"
      "sessions (st_server st2) = ?L(1 \<mapsto> demo_data2)" "next_seid (st_server st2) = 2"
      "registered demo_src ?n (st_server st2) (?a\<lparr>as_sessions := (as_sessions ?a)(5 \<mapsto> demo_data2)\<rparr>)"
    using serve_establishment [OF lifecycle_env_ok _ _ reg, of 2 ?net 5 ?ue 9] a(3-5) by (auto simp: gnb)
  obtain h where "pfcp_header_decode ?req = Inr (h, establishment_body (nc_smf_n4_addr ?net) 5
      (lifecycle_pdrs ?ue (nc_gnb_addr ?net)) (lifecycle_fars (nc_gnb_addr ?net) 9) [])"
    using lifecycle_request_header [of 2 ?net 5 ?ue 9] by auto
  moreover have "find_map pdr_ue_ip (map parsed_of_pdr_params (lifecycle_pdrs u g)) = Some u" for u g
    by (simp add: lifecycle_pdrs_def parsed_of_pdr_params_def)
  ultimately have "admitted ?req st1"
    by (auto simp: admitted_def new_ue_def a(3) stored_data_def lifecycle_body_decodes)
  then have "orderly_run ?L True 2 st2"
    using orderly_run.datagram [OF r1 lifecycle_env_ok(1), of ?req demo_src] e(1)
    by (simp add: lifecycle_env_ok numeral_2_eq_2)
  moreover have "st2 = fst (serve_datagram lifecycle_env ?req demo_src (fst (serve_datagram lifecycle_env (association_request 1 ?n 7) demo_src ?st0)))"
    "tx_tui (st_server ?st0)"
    using a(1) e(1) srv(5) by simp_all
  ultimately show ?thesis using e(2-4) by (intro exI [of _ st2] exI conjI) (assumption | simp)+
qed

text \<open>
  C9: In every state the UPF reaches with fewer than 2^48 - 1 datagrams, whatever sessions it restored from its
  store when it started and whatever the order of datagrams, keep-alives, reporter ticks, packets and
  interrupted deletions: every session either has a restored SEID or one that this UPF allocated, below
  the counter and within the 48 bits of the composed keys; every URR configuration belongs to an allocated
  SEID, under its own key; every association is stored under its own node id and indexes its sessions by
  their CP SEID; and the SEID allocated next fits the keys and is in use by no session, unless it was
  restored.
\<close>

theorem reachable_server_invariant:
  assumes "upf_run L n st" "n < 2 ^ 48 - 1"
  defines "srv \<equiv> st_server st"
  shows "(\<forall>sid. sessions srv sid \<noteq> None \<longrightarrow> L sid \<noteq> None \<or> sid < next_seid srv \<and> local_seid sid) \<and>
    (\<forall>sid uid c. urr_configs srv (sid, uid) = Some c \<longrightarrow>
      uc_seid c = sid \<and> uc_urr_id c = uid \<and> sid < next_seid srv \<and> local_seid sid) \<and>
    (\<forall>node a. associations srv node = Some a \<longrightarrow> as_node_id a = node \<and>
      (\<forall>cp d. as_sessions a cp = Some d \<longrightarrow> sd_cp_seid d = cp)) \<and>
    local_seid (next_seid srv) \<and> (L (next_seid srv) = None \<longrightarrow> sessions srv (next_seid srv) = None)"
proof -
  have i: "server_inv (dom L) srv" and b: "unat (next_seid srv) \<le> n + 1"
    using upf_run_inv [OF assms(1)] assms(2) by (auto simp: srv_def)
  have loc: "local_seid sid" if "sid < next_seid srv" for sid
    using that b assms(2) by (simp add: local_seid_def word_less_nat_alt)
  have "local_seid (next_seid srv)"
    using b assms(2) by (simp add: local_seid_def)
  moreover have old: "L sid \<noteq> None \<or> sid < next_seid srv" if "sessions srv sid \<noteq> None" for sid
    using that server_invD(1) [OF i] by blast
  moreover have "sessions srv (next_seid srv) = None" if "L (next_seid srv) = None"
    using old [of "next_seid srv"] that by (cases "sessions srv (next_seid srv)") auto
  ultimately show ?thesis
    using loc server_invD(2-4) [OF i] by blast
qed

theorem reachable_server_invariant_witness:
  "\<exists>st. upf_run [7 \<mapsto> stored_data] 2 st \<and> sessions (st_server st) = [7 \<mapsto> stored_data, 1 \<mapsto> demo_data2] \<and>
     next_seid (st_server st) = 2 \<and> sessions (st_server st) 2 = None \<and>
     (\<forall>node a. associations (st_server st) node = Some a \<longrightarrow> as_node_id a = node)"
proof -
  obtain st where st: "orderly_run [7 \<mapsto> stored_data] True 2 st" "next_seid (st_server st) = 2"
      "sessions (st_server st) = [7 \<mapsto> stored_data, 1 \<mapsto> demo_data2]"
    using demo_run by blast
  have "(2 :: nat) < 2 ^ 48 - 1" by simp
  from reachable_server_invariant [OF orderly_run_run [OF st(1)] this] st show ?thesis
    by (intro exI [of _ st]) (auto simp: orderly_run_run)
qed

text \<open>
  C10: The data path follows the control plane. Take any state reached, from an empty SESSION map and
  whatever sessions were restored from the store, with fewer than 2^48 requests that are served one after
  the other, none of them an establishment for a UE that still has a session. Every session of the
  server has an entry in the SESSION map, under its UE's address, that names its SEID and the tunnel end
  point last signalled, unless it is a restored session: that one may have none. Two sessions
  with one UE address are both restored and without an entry. If moreover every request found room in the
  kernel's maps, every entry belongs to a session of the server, and a packet to or from an address that
  belongs to no session is passed to the stack with packet and maps unchanged; so is, in any case, a packet
  of a restored session without an entry.
\<close>

theorem maps_follow_sessions:
  assumes "orderly_run L r n st" "n < 2 ^ 48"
  defines "S \<equiv> sessions (st_server st)" and "M \<equiv> st_maps st"
  shows "(\<forall>sid d. S sid = Some d \<longrightarrow>
      (\<exists>info. SESSION_MAP M (SessionKey (ip_be (sd_ue_ip d))) = Some info \<and>
        si_seid info = sid \<and> si_gnb_ip info = ip_be (sd_gnb_ip d) \<and> si_teid info = to_be (sd_teid d)) \<or>
      SESSION_MAP M (SessionKey (ip_be (sd_ue_ip d))) = None \<and> (\<exists>d0. L sid = Some d0 \<and> sd_ue_ip d0 = sd_ue_ip d)) \<and>
    (\<forall>sid sid' d d'. S sid = Some d \<and> S sid' = Some d' \<and> sd_ue_ip d = sd_ue_ip d' \<and> sid \<noteq> sid' \<longrightarrow>
      L sid \<noteq> None \<and> L sid' \<noteq> None \<and> SESSION_MAP M (SessionKey (ip_be (sd_ue_ip d))) = None) \<and>
    (r \<longrightarrow> (\<forall>key info. SESSION_MAP M key = Some info \<longrightarrow>
      (\<exists>d. S (si_seid info) = Some d \<and> key = SessionKey (ip_be (sd_ue_ip d))))) \<and>
    (\<forall>p f. uplink_parse p = Some f \<and>
      (r \<and> (\<forall>sid d. S sid = Some d \<longrightarrow> ip_be (sd_ue_ip d) \<noteq> pf_ue_ip f) \<or>
       (\<exists>sid d. S sid = Some d \<and> ip_be (sd_ue_ip d) = pf_ue_ip f \<and> (\<forall>info. SESSION_MAP M (SessionKey (pf_ue_ip f)) \<noteq> Some info))) \<longrightarrow>
      upf_edge_n3 X M p = (M, p, XDP_PASS)) \<and>
    (\<forall>p f. downlink_parse p = Some f \<and>
      (r \<and> (\<forall>sid d. S sid = Some d \<longrightarrow> ip_be (sd_ue_ip d) \<noteq> pf_dst_ip f) \<or>
       (\<exists>sid d. S sid = Some d \<and> ip_be (sd_ue_ip d) = pf_dst_ip f \<and> (\<forall>info. SESSION_MAP M (SessionKey (pf_dst_ip f)) \<noteq> Some info))) \<longrightarrow>
      upf_edge_n6 X M p = (M, p, XDP_PASS))"
proof -
  have a: "agree L S (SESSION_MAP M)" and n: "r \<Longrightarrow> no_stray (next_seid (st_server st)) S (SESSION_MAP M)"
    using orderly_run_in_step [OF assms(1,2)] by (simp_all add: in_step_def S_def M_def)
  have none: "SESSION_MAP M (SessionKey ue) = None" if "r" "\<forall>sid d. S sid = Some d \<longrightarrow> ip_be (sd_ue_ip d) \<noteq> ue" for ue
    using no_strayD(2) [OF n, of "SessionKey ue"] that by (cases "SESSION_MAP M (SessionKey ue)") (auto simp: ue_key_def)
  have pass: "upf_edge_n3 X M p = (M, p, XDP_PASS)" if "uplink_parse p = Some f" "SESSION_MAP M (SessionKey (pf_ue_ip f)) = None" for p f
    using that by (simp add: upf_edge_n3_def try_n3_uplink_def)
  have pass': "upf_edge_n6 X M p = (M, p, XDP_PASS)" if "downlink_parse p = Some f" "SESSION_MAP M (SessionKey (pf_dst_ip f)) = None" for p f
    using that by (simp add: upf_edge_n6_def try_n6_downlink_def)
  have one: "served (SESSION_MAP M) sid d \<or> dormant L (SESSION_MAP M) sid d" if "S sid = Some d" for sid d
    by (rule agreeD [OF a that])
  have two: "dormant L (SESSION_MAP M) sid d \<and> dormant L (SESSION_MAP M) sid' d'"
    if "S sid = Some d" "S sid' = Some d'" "sd_ue_ip d = sd_ue_ip d'" "sid \<noteq> sid'" for sid sid' d d'
    using agree_unique [OF a that(1,2) _ that(4)] that(3) by (simp add: ue_key_inject)
  have "\<exists>d. S (si_seid info) = Some d \<and> key = SessionKey (ip_be (sd_ue_ip d))" if "r" "SESSION_MAP M key = Some info" for key info
    using no_strayD(2) [OF n [OF that(1)] that(2)] by (auto simp: ue_key_def)
  moreover have "SESSION_MAP M k = None" if "\<forall>info. SESSION_MAP M k \<noteq> Some info" for k
    using that by (cases "SESSION_MAP M k") auto
  ultimately show ?thesis
    using one two none pass pass'
    by (auto simp: served_def dormant_def entry_of_def ue_key_def ue_key_inject) blast+
qed

theorem maps_follow_sessions_witness:
  "\<exists>st info. orderly_run [7 \<mapsto> stored_data] True 2 st \<and> sessions (st_server st) = [7 \<mapsto> stored_data, 1 \<mapsto> demo_data2] \<and>
    SESSION_MAP (st_maps st) (SessionKey (ip_be (Ipv4Addr 10 45 0 2))) = Some info \<and> si_seid info = 1"
proof -
  obtain st where st: "orderly_run [7 \<mapsto> stored_data] True 2 st" "sessions (st_server st) = [7 \<mapsto> stored_data, 1 \<mapsto> demo_data2]"
    using demo_run by blast
  have "(2 :: nat) < 2 ^ 48" by simp
  from maps_follow_sessions [OF st(1) this, THEN conjunct1, rule_format, of 1] st show ?thesis by auto
qed

section \<open>The gap in the deletion handler\<close>

text \<open>
  C31: The deletion handler gives up the server's lock before it cleans the maps, and it cleans them by
  the UE's address. When a deletion has passed its critical section and an establishment for the same
  UE, from an SMF with an association, is served before the deletion goes on, the establishment is
  answered and its session has its SESSION entry; the deletion then removes that entry. The server
  keeps the new session, but every packet of the UE is passed to the stack in both directions.
  The resulting state is one the UPF reaches.
\<close>

theorem deletion_race_cuts_off_session:
  assumes "env_laws E" "env_roomy E" "order_laws E" "unat sq < 2 ^ 24" "is_v4 src'"
    and "deletion_critical E sid src st = (st1, Inr d)" "registered src' node (st_server st1) a"
  defines "key \<equiv> SessionKey (ip_be (sd_ue_ip d))" and "new \<equiv> next_seid (st_server st1)"
  shows "\<exists>st2 r. serve_datagram E (lifecycle_establishment_request net sq cp (sd_ue_ip d) td) src' st1 = (st2, Some r) \<and>
    (\<exists>info. SESSION_MAP (st_maps st2) key = Some info \<and> si_seid info = new) \<and>
    (let st3 = deletion_cleanup E sid d st2; M = st_maps st3 in
      (\<exists>d'. sessions (st_server st3) new = Some d' \<and> sd_ue_ip d' = sd_ue_ip d) \<and> SESSION_MAP M key = None \<and>
      (\<forall>p f. uplink_parse p = Some f \<and> pf_ue_ip f = ip_be (sd_ue_ip d) \<longrightarrow> upf_edge_n3 X M p = (M, p, XDP_PASS)) \<and>
      (\<forall>p f. downlink_parse p = Some f \<and> pf_dst_ip f = ip_be (sd_ue_ip d) \<longrightarrow> upf_edge_n6 X M p = (M, p, XDP_PASS)) \<and>
      (\<forall>L n. upf_run L n st \<longrightarrow> upf_run L (n + 2) st3))"
proof -
  let ?req = "lifecycle_establishment_request net sq cp (sd_ue_ip d) td"
  obtain st2 r where e: "serve_datagram E ?req src' st1 = (st2, Some r)"
      "sessions (st_server st2) = (sessions (st_server st1))(new \<mapsto> lifecycle_data (sd_ue_ip d) (next_teid (st_server st1)) (nc_gnb_addr net) cp)"
      "SESSION_MAP (st_maps st2) = (SESSION_MAP (st_maps st1))(key \<mapsto>
         lifecycle_info new (next_teid (st_server st1)) (nc_gnb_addr net) (n3_addr (st_server st1)) (sd_ue_ip d))"
    using serve_establishment [OF assms(1-5,7), of net cp "sd_ue_ip d" td] unfolding new_def key_def by blast
  have gone: "SESSION_MAP (st_maps (deletion_cleanup E sid d st2)) key = None"
    by (simp add: deletion_cleanup_maps(1) [OF assms(1)] key_def)
  have "upf_run L (n + 2) (deletion_cleanup E sid d st2)" if "upf_run L n st" for L n
    using upf_run.deletion_finish [OF upf_run.datagram [OF upf_run.deletion_begin [OF that, of E sid src], of E ?req src'], of E sid d]
    by (simp add: assms(6) e(1))
  with e gone show ?thesis
    by (auto simp: Let_def key_def lifecycle_info_def session_info_of_def upf_edge_n3_def try_n3_uplink_def
        upf_edge_n6_def try_n6_downlink_def)
qed

theorem deletion_race_cuts_off_session_witness:
  "\<exists>st. upf_run [7 \<mapsto> stored_data] 4 st \<and> sessions (st_server st) 2 \<noteq> None \<and>
     SESSION_MAP (st_maps st) (SessionKey (ip_be (Ipv4Addr 10 45 0 2))) = None"
proof -
  let ?E = lifecycle_env and ?d = demo_data2
  obtain st a where st: "orderly_run [7 \<mapsto> stored_data] True 2 st" "registered demo_src (Ipv4Addr 10 0 0 1) (st_server st) a" "as_sessions a 5 \<noteq> None"
      "next_seid (st_server st) = 2" "sessions (st_server st) = [7 \<mapsto> stored_data, 1 \<mapsto> ?d]"
    using demo_run by blast
  let ?srv = "unregister_session (Ipv4Addr 10 0 0 1) 1 5 (st_server st)"
  have own: "check_ownership ?E (st_server st) demo_src 5 = Inr (Ipv4Addr 10 0 0 1)"
    by (rule registered_owner [OF lifecycle_env_ok(3) _ st(2,3)]) simp
  obtain st1 where c: "deletion_critical ?E 1 demo_src st = (st1, Inr ?d)" "st_server st1 = ?srv"
    using st(5) own by (simp add: deletion_critical_def Let_def)
  have "registered demo_src (Ipv4Addr 10 0 0 1) ?srv (a\<lparr>as_sessions := (as_sessions a)(5 := None)\<rparr>)"
    by (rule registered_update [OF st(2)]) (use st(2) in \<open>simp_all add: registered_def unregister_session_def Let_def\<close>)
  then have reg: "registered demo_src (Ipv4Addr 10 0 0 1) (st_server st1) (a\<lparr>as_sessions := (as_sessions a)(5 := None)\<rparr>)"
    by (simp add: c(2))
  have q: "unat (3 :: u32) < 2 ^ 24" "is_v4 demo_src" by simp_all
  from deletion_race_cuts_off_session [OF lifecycle_env_ok q c(1) reg, of "cfg_network demo_config" 6 9 demo_env]
    orderly_run_run [OF st(1)] st(4)
  show ?thesis
    by (fastforce simp: Let_def c(2) simp flip: numeral_plus_numeral)
qed

end
