(* ===== verification/Upf_Monitor.thy ===== *)
theory Upf_Monitor
  imports Session_Store Upf_Tui Upf_Agree
begin

text \<open>
  What an operator sees of the UPF: the gauge \<^verbatim>\<open>upf_pfcp_sessions_active\<close> and the session list of the
  terminal. Both are fed by the effects of the handlers; the lemmas follow them along every run. The
  terminal's events go through a channel with room for 100, in which senders other than the server put
  log lines and from which the interface reads when it gets to it; what finds no room is lost. The order in
  which the server's table is listed and the wording of log lines are arguments.
\<close>

section \<open>The gauge\<close>

definition gauge_spec :: "effect \<Rightarrow> int \<Rightarrow> int" where
  "gauge_spec eff g = (case eff of GaugeIncrement \<Rightarrow> g + 1 | GaugeDecrement \<Rightarrow> g - 1 | _ \<Rightarrow> g)"

abbreviation gauge_value :: "upf_state \<Rightarrow> int" where
  "gauge_value st \<equiv> fold gauge_spec (st_effects st) 0"

abbreviation session_count :: "upf_state \<Rightarrow> int" where
  "session_count st \<equiv> int (card (dom (sessions (st_server st))))"

lemma gauge_spec_simps [simp]:
  "gauge_spec GaugeIncrement g = g + 1" "gauge_spec GaugeDecrement g = g - 1" "gauge_spec (TuiLog l) g = g"
  "gauge_spec (TuiSessionsUpdated m) g = g" "gauge_spec TuiHeartbeatUpdated g = g" "gauge_spec (TuiAssociationChanged b) g = g"
  "gauge_spec (StoreSave sid d) g = g" "gauge_spec (StoreDelete sid) g = g" "gauge_spec (SetupUeRoute ip) g = g"
  "gauge_spec (TeardownUeRoute ip) g = g"
  by (simp_all add: gauge_spec_def)

lemma gauge_send [simp]:
  "fold gauge_spec (tui_log srv l) g = g" "fold gauge_spec (tui_sessions_updated srv) g = g"
  "fold gauge_spec (tui_send srv TuiHeartbeatUpdated) g = g" "fold gauge_spec (tui_send srv (TuiAssociationChanged b)) g = g"
  "fold gauge_spec (store_effect srv (StoreSave sid d)) g = g" "fold gauge_spec (store_effect srv (StoreDelete sid)) g = g"
  by (simp_all add: tui_send_def tui_log_def tui_sessions_updated_def store_effect_def)

abbreviation drift :: "upf_state \<Rightarrow> int" where
  "drift st \<equiv> gauge_value st - session_count st"

text \<open>
  A handler that moves the gauge as it moves the number of sessions, or counts a new session that takes
  the place of another one.
\<close>

locale counting_handler =
  fixes h :: "upf_env \<Rightarrow> pfcp_header \<Rightarrow> bytes \<Rightarrow> socket_addr \<Rightarrow> upf_state \<Rightarrow> upf_state \<times> (handler_error + bytes)"
  assumes counts: "drift (fst (h E hdr body src st)) = drift st \<or>
    drift (fst (h E hdr body src st)) = drift st + 1 \<and> sessions (st_server st) (next_seid (st_server st)) \<noteq> None \<and>
    next_seid (st_server (fst (h E hdr body src st))) = next_seid (st_server st) + 1"
begin

text \<open>If the gauge was right and the next SEID is free, it stays right.\<close>

lemma exact:
  fixes hdr :: pfcp_header and src :: socket_addr
  assumes "sessions (st_server st) (next_seid (st_server st)) = None" "gauge_value st = session_count st"
  shows "gauge_value (fst (h E hdr body src st)) = session_count (fst (h E hdr body src st))"
  using counts [of E hdr body src st] assms by auto

end

interpretation count_heartbeat: counting_handler handle_heartbeat
  by unfold_locales (simp add: heartbeat_frame(1), simp add: handle_heartbeat_def Let_def emit_def)

interpretation count_association: counting_handler handle_session_association
  by unfold_locales
    (simp add: association_frame(1), simp add: handle_session_association_def Let_def emit_def split: sum.split)

interpretation count_establishment: counting_handler handle_session_establishment
proof
  fix E hdr body src and st :: upf_state
  let ?S = "sessions (st_server st)" and ?sid = "next_seid (st_server st)"
  let ?st = "fst (handle_session_establishment E hdr body src st)"
  show "drift ?st = drift st \<or> drift ?st = drift st + 1 \<and> ?S ?sid \<noteq> None \<and> next_seid (st_server ?st) = ?sid + 1"
  proof (cases "snd (handle_session_establishment E hdr body src st)")
    case (Inl e)
    then have "handle_session_establishment E hdr body src st = (?st, Inl e)" by (metis prod.collapse)
    then have "sessions (st_server ?st) = ?S" "st_effects ?st = st_effects st"
      by (auto simp: handle_session_establishment_def Let_def alloc_seid_def alloc_teid_def install_rules_session_map split_beta
          emit_def split: sum.splits option.splits if_splits)
    then show ?thesis by simp
  next
    case (Inr r)
    then have "handle_session_establishment E hdr body src st = (?st, Inr r)" by (metis prod.collapse)
    then show ?thesis
    proof (cases rule: establishment_okE)
      case (1 req k a ue gnb sm srv3 M3)
      let ?srv2 = "fst (alloc_teid (fst (alloc_seid (st_server st))))"
      have srv3: "sessions srv3 = ?S" "next_seid srv3 = ?sid + 1"
        using install_rules_session_map(2) [of E ?sid "ser_cp_seid req" ue "ser_create_pdrs req" "ser_create_fars req" "ser_create_urrs req" ?srv2]
          install_rules_next [of E ?sid "ser_cp_seid req" ue "ser_create_pdrs req" "ser_create_fars req" "ser_create_urrs req" ?srv2] 1(6)
        by (simp_all add: alloc_seid_def alloc_teid_def) (metis fst_conv)+
      have "gauge_value ?st = gauge_value st + 1" by (simp add: 1(10) establishment_effects_def)
      moreover have "session_count ?st = session_count st + (if ?S ?sid = None then 1 else 0)"
        by (simp add: 1(7) srv3(1) card_insert_if domIff)
      ultimately show ?thesis by (simp add: 1(7) srv3(2))
    qed
  qed
qed

lemma same_sessions_dom: "same_sessions m m' \<Longrightarrow> dom m = dom m'"
  unfolding same_sessions_def dom_def by (metis option.map_disc_iff)

interpretation count_modification: counting_handler handle_session_modification
proof
  fix E hdr body src and st :: upf_state
  have "dom (sessions (st_server (fst (handle_session_modification E hdr body src st)))) = dom (sessions (st_server st))"
    by (rule same_sessions_dom) (use modification_sessions in blast)
  then show "drift (fst (handle_session_modification E hdr body src st)) = drift st \<or>
    drift (fst (handle_session_modification E hdr body src st)) = drift st + 1 \<and> sessions (st_server st) (next_seid (st_server st)) \<noteq> None \<and>
    next_seid (st_server (fst (handle_session_modification E hdr body src st))) = next_seid (st_server st) + 1" by simp
qed

text \<open>The gauge goes down where the session is taken out of the table.\<close>

lemma deletion_critical_drift: "drift (fst (deletion_critical E sid src st)) = drift st"
proof -
  have "int (card (dom m - {sid})) = int (card (dom m)) - 1" if "m sid = Some d" for m :: "u64 \<rightharpoonup> session_data" and d
    using that card_Suc_Diff1 [of "dom m" sid] by (simp add: domI)
  then show ?thesis
    by (auto simp: deletion_critical_def Let_def emit_def split: sum.split option.split)
qed

lemma deletion_cleanup_drift: "drift (deletion_cleanup E sid d st) = drift st"
  by (simp add: deletion_cleanup_def Let_def emit_def)

interpretation count_deletion: counting_handler handle_session_deletion
proof
  fix E body src and hdr :: pfcp_header and st :: upf_state
  let ?sid = "case seid hdr of None \<Rightarrow> 0 | Some s \<Rightarrow> s"
  obtain st1 res where c: "deletion_critical E ?sid src st = (st1, res)" by force
  have "drift (fst (handle_session_deletion E hdr body src st)) = drift st"
    using deletion_critical_drift [of E ?sid src st] deletion_cleanup_drift [of E ?sid _ st1] c
    by (simp add: handle_session_deletion_def Let_def emit_def split: sum.split)
  then show "drift (fst (handle_session_deletion E hdr body src st)) = drift st \<or>
    drift (fst (handle_session_deletion E hdr body src st)) = drift st + 1 \<and> sessions (st_server st) (next_seid (st_server st)) \<noteq> None \<and>
    next_seid (st_server (fst (handle_session_deletion E hdr body src st))) = next_seid (st_server st) + 1" by blast
qed

lemma serve_counts:
  "drift (fst (serve_datagram E data src st)) = drift st \<or>
    drift (fst (serve_datagram E data src st)) = drift st + 1 \<and> sessions (st_server st) (next_seid (st_server st)) \<noteq> None \<and>
    next_seid (st_server (fst (serve_datagram E data src st))) = next_seid (st_server st) + 1"
proof -
  let ?st = "st\<lparr>st_server := touch_activity (env_now E) (st_server st)\<rparr>"
  have t: "drift ?st = drift st" "sessions (st_server ?st) = sessions (st_server st)" "next_seid (st_server ?st) = next_seid (st_server st)"
    by (simp_all add: touch_activity_def)
  note h = count_heartbeat.counts count_association.counts count_establishment.counts count_modification.counts count_deletion.counts
  show ?thesis
    unfolding serve_datagram_state handle_message_def
    using h [of E _ _ src ?st, unfolded t] t(1) by (simp split: sum.split)
qed

lemma task_effects [simp]:
  "tx_tui (fst (keepalive_round now t sent srv sq)) = tx_tui srv" "tx_tui (fst (urr_tick now es srv)) = tx_tui srv"
proof -
  have one: "tx_tui (fst (report_one now e srv)) = tx_tui srv" for e srv
    by (auto simp: report_one_def Let_def alloc_report_seq_def split: option.split prod.split)
  have "tx_tui (fst (report_all now rs srv)) = tx_tui srv" for rs srv
    by (induction rs arbitrary: srv) (simp_all add: one report_all_Cons del: report_all.simps(2))
  then show "tx_tui (fst (urr_tick now es srv)) = tx_tui srv"
    by (simp add: urr_tick_def case_prod_beta Let_def split: option.splits)
qed (simp add: keepalive_round_def touch_activity_def split: prod.splits option.splits)

text \<open>Restored SEIDs that have not been handed out again.\<close>

abbreviation pending :: "(u64 \<rightharpoonup> session_data) \<Rightarrow> u64 \<Rightarrow> u64 set" where
  "pending L next \<equiv> {sid \<in> dom L. next \<le> sid}"

lemma pending_mono: "next \<le> next' \<Longrightarrow> int (card (pending L next')) \<le> int (card (pending L next))"
  by (intro zle_int [THEN iffD2] card_mono) auto

lemma pending_taken:
  assumes "L next \<noteq> None" "unat next + 1 < 2 ^ 64"
  shows "int (card (pending L (next + 1))) = int (card (pending L next)) - 1"
proof -
  have "sid = next \<or> next + 1 \<le> sid \<longleftrightarrow> next \<le> sid" for sid
    using assms(2) by (auto simp: word_le_nat_alt unat_word_ariths word_unat_eq_iff)
  then have "pending L next = insert next (pending L (next + 1))" using assms(1) by blast
  moreover have "next \<notin> pending L (next + 1)"
    using assms(2) by (simp add: word_le_nat_alt unat_word_ariths)
  ultimately show ?thesis by simp
qed

lemma run_drift:
  assumes "upf_run L n st" "n < 2 ^ 48"
  shows "- int (card (dom L)) \<le> drift st \<and> drift st \<le> - int (card (pending L (next_seid (st_server st))))"
  using assms
proof (induction rule: upf_run.induct)
  case (start loaded now t a b tui store srv effs M)
  have "fold gauge_spec effs 0 = 0"
    using startup_load_shape(2) [OF start(1)] by auto
  moreover have "card (pending L (next_seid srv)) \<le> card (dom L)" by (intro card_mono) auto
  ultimately show ?case using start(2) by simp
next
  case (datagram n st E data src)
  let ?st = "fst (serve_datagram E data src st)" and ?next = "next_seid (st_server st)"
  have i: "server_inv (dom L) (st_server st)" "unat ?next + 1 < 2 ^ 64" "seid_room (st_server st)"
    using upf_run_inv [OF datagram(1)] datagram.prems by (simp_all add: seid_room_def)
  have "?next \<le> next_seid (st_server ?st)"
    using serve_datagram_step [OF i(1,3), of E data src] by (auto simp: inv_step_def word_le_nat_alt)
  moreover have "L ?next \<noteq> None" if "sessions (st_server st) ?next \<noteq> None"
    using that server_invD(1) [OF i(1)] by fastforce
  ultimately show ?case
    using serve_counts [of E data src st] datagram.IH datagram.prems pending_mono [of ?next "next_seid (st_server ?st)" L] pending_taken [of L ?next] i(2)
    by auto
next
  case (deletion_begin n st E sid src)
  have "server_inv (dom L) (st_server st)" using upf_run_inv [OF deletion_begin(1)] deletion_begin.prems by simp
  with deletion_begin deletion_critical_server [of "dom L" st E sid src] deletion_critical_drift [of E sid src st] show ?case by simp
next
  case (deletion_finish n st E sid d)
  with deletion_cleanup_drift [of E sid d st] show ?case by simp
qed (simp_all add: keepalive_next urr_tick_next)

section \<open>The terminal\<close>

type_synonym session_order = "(u64 \<rightharpoonup> session_data) \<Rightarrow> u64 list"

definition session_entries :: "session_order \<Rightarrow> instant \<Rightarrow> (u64 \<rightharpoonup> session_data) \<Rightarrow> session_entry list" where
  "session_entries order now m = map (\<lambda>sid. let d = the (m sid) in
     \<lparr>se_seid = sid, se_ue_ip = sd_ue_ip d, se_teid = sd_teid d, se_gnb_ip = sd_gnb_ip d, se_duration = now\<rparr>) (order m)"

text \<open>The events the server sends to the interface.\<close>

definition app_event :: "session_order \<Rightarrow> instant \<Rightarrow> (log_line \<Rightarrow> string) \<Rightarrow> effect \<Rightarrow> upf_app_event option" where
  "app_event order now fmt eff =
     (case eff of
        TuiLog l \<Rightarrow> Some (UEvLog (ULine (fmt l)))
      | TuiSessionsUpdated m \<Rightarrow> Some (UEvSessionsUpdated (session_entries order now m))
      | TuiHeartbeatUpdated \<Rightarrow> Some UEvHeartbeatUpdated
      | TuiAssociationChanged b \<Rightarrow> Some (UEvAssociationChanged b)
      | _ \<Rightarrow> None)"

text \<open>The events among what the interface reads, keys and ticks left out.\<close>

definition received :: "(string \<times> upf_input) list \<Rightarrow> upf_app_event list" where
  "received inputs = List.map_filter (\<lambda>(t, inp). case inp of UReceived ev \<Rightarrow> Some ev | _ \<Rightarrow> None) inputs"

definition list_spec :: "upf_app_event \<Rightarrow> session_entry list \<Rightarrow> session_entry list" where
  "list_spec ev ss = (case ev of UEvSessionsUpdated ss' \<Rightarrow> ss' | _ \<Rightarrow> ss)"

lemma fold_log_sessions [simp]: "ua_sessions (fold (upf_app_log now) msgs app) = ua_sessions app"
  by (induction msgs arbitrary: app) simp_all

lemma execute_sessions: "ua_sessions (upf_execute_command now input app) = ua_sessions app"
  by (simp add: upf_execute_command_def Let_def split: sum.split upf_command.split option.split)

lemma step_sessions:
  "ua_sessions (fst (fst (upf_tui_step T now inp s))) =
    (case inp of UReceived ev \<Rightarrow> list_spec ev (ua_sessions (fst s)) | _ \<Rightarrow> ua_sessions (fst s))"
  by (cases s) (simp add: upf_tui_step_def list_spec_def Let_def execute_sessions sample_system_def
      split: upf_input.split upf_app_event.split option.split)

text \<open>Whatever keys are pressed in between, the list shown is that of the last update read.\<close>

lemma loop_sessions:
  "\<not> snd (upf_tui_loop T inputs s) \<Longrightarrow>
    ua_sessions (fst (fst (upf_tui_loop T inputs s))) = fold list_spec (received inputs) (ua_sessions (fst s))"
proof (induction T inputs s rule: upf_tui_loop.induct)
  case (2 T now inp rest s)
  obtain s' stop where st: "upf_tui_step T now inp s = (s', stop)" by (metis surj_pair)
  with 2 step_sessions [of T now inp s] show ?case
    by (cases stop) (auto simp: received_def List.map_filter_simps split: upf_input.splits)
qed (simp add: received_def List.map_filter_simps)

text \<open>What the handlers tell the interface of the table.\<close>

definition view_spec :: "effect \<Rightarrow> (u64 \<rightharpoonup> session_data) \<Rightarrow> (u64 \<rightharpoonup> session_data)" where
  "view_spec eff m = (case eff of TuiSessionsUpdated m' \<Rightarrow> m' | _ \<Rightarrow> m)"

abbreviation viewed :: "upf_state \<Rightarrow> u64 \<rightharpoonup> session_data" where
  "viewed st \<equiv> fold view_spec (st_effects st) Map.empty"

text \<open>
  The server's events are made from its effects, each list of sessions at its own time.
\<close>

definition sends :: "session_order \<Rightarrow> (log_line \<Rightarrow> string) \<Rightarrow> effect list \<Rightarrow> upf_app_event list \<Rightarrow> bool" where
  "sends order fmt es evs \<longleftrightarrow>
     list_all2 (\<lambda>eff ev. \<exists>now. app_event order now fmt eff = Some ev) (filter (\<lambda>eff. app_event order 0 fmt eff \<noteq> None) es) evs"

lemma sends_Nil: "sends order fmt [] evs \<longleftrightarrow> evs = []"
  by (simp add: sends_def)

lemma sends_Cons:
  "sends order fmt (e # es) evs \<longleftrightarrow>
    (if app_event order 0 fmt e = None then sends order fmt es evs
     else \<exists>ev evs' now. evs = ev # evs' \<and> app_event order now fmt e = Some ev \<and> sends order fmt es evs')"
  by (auto simp: sends_def list_all2_Cons1)

lemma events_view:
  assumes "sends order fmt es evs"
  shows "\<exists>now'. fold list_spec evs (session_entries order now m) = session_entries order now' (fold view_spec es m)"
  using assms
proof (induction es arbitrary: evs m now)
  case (Cons e es)
  then show ?case
    by (cases e) (auto simp: sends_Cons app_event_def list_spec_def view_spec_def)
qed (auto simp: sends_Nil)

text \<open>Every list sent is that of a table the server announced.\<close>

lemma sent_list:
  assumes "sends order fmt es evs" "UEvSessionsUpdated ss \<in> set evs"
  shows "\<exists>m now. TuiSessionsUpdated m \<in> set es \<and> ss = session_entries order now m"
  using assms
proof (induction es arbitrary: evs)
  case (Cons e es)
  then show ?case
    by (cases e) (fastforce simp: sends_Cons app_event_def)+
qed (simp add: sends_Nil)

subsection \<open>The channel\<close>

text \<open>
  What happens on the channel: the server offers an event, some logger offers a line, the interface takes
  the oldest event. \<open>ch_current\<close> says whether the list of sessions offered last found room.
\<close>

datatype chan_op = Server upf_app_event | Logger string | Take

record chan =
  ch_queue :: "upf_app_event list"
  ch_read :: "upf_app_event list"
  ch_current :: bool

definition chan_step :: "chan_op \<Rightarrow> chan \<Rightarrow> chan" where
  "chan_step op c =
     (case op of
        Server ev \<Rightarrow> c\<lparr>ch_queue := try_send ev (ch_queue c),
          ch_current := (case ev of UEvSessionsUpdated ss \<Rightarrow> length (ch_queue c) < TUI_CHANNEL | _ \<Rightarrow> ch_current c)\<rparr>
      | Logger msg \<Rightarrow> c\<lparr>ch_queue := try_send (UEvLog (ULine msg)) (ch_queue c)\<rparr>
      | Take \<Rightarrow> (case ch_queue c of [] \<Rightarrow> c | ev # q \<Rightarrow> c\<lparr>ch_queue := q, ch_read := ch_read c @ [ev]\<rparr>))"

definition channel_run :: "chan_op list \<Rightarrow> chan" where
  "channel_run ops = fold chan_step ops \<lparr>ch_queue = [], ch_read = [], ch_current = True\<rparr>"

definition server_events :: "chan_op list \<Rightarrow> upf_app_event list" where
  "server_events ops = List.map_filter (\<lambda>op. case op of Server ev \<Rightarrow> Some ev | _ \<Rightarrow> None) ops"

lemma channel_run_snoc: "channel_run (ops @ [op]) = chan_step op (channel_run ops)"
  by (simp add: channel_run_def)

lemma server_events_snoc [simp]:
  "server_events (ops @ [Server ev]) = server_events ops @ [ev]" "server_events (ops @ [Logger msg]) = server_events ops"
  "server_events (ops @ [Take]) = server_events ops" "server_events [] = []"
  by (simp_all add: server_events_def List.map_filter_def)

text \<open>What is read or waits was offered; log lines of others apart, by the server.\<close>

lemma channel_events:
  "set (ch_read (channel_run ops) @ ch_queue (channel_run ops)) \<subseteq> set (server_events ops) \<union> range (\<lambda>msg. UEvLog (ULine msg))"
proof (induction ops rule: rev_induct)
  case (snoc op ops)
  then show ?case
    by (cases op) (auto simp: channel_run_snoc chan_step_def try_send_def split: list.split)
qed (simp add: channel_run_def)

text \<open>If the last list found room, what is read and waits ends in the list that was offered last.\<close>

lemma channel_current:
  "ch_current (channel_run ops) \<Longrightarrow>
    fold list_spec (ch_read (channel_run ops) @ ch_queue (channel_run ops)) [] = fold list_spec (server_events ops) []"
proof (induction ops rule: rev_induct)
  case (snoc op ops)
  show ?case
  proof (cases op)
    case (Server ev)
    with snoc show ?thesis
      by (cases ev) (auto simp: channel_run_snoc chan_step_def try_send_def list_spec_def)
  next
    case (Logger msg)
    with snoc show ?thesis
      by (auto simp: channel_run_snoc chan_step_def try_send_def list_spec_def)
  next
    case Take
    with snoc show ?thesis
      by (auto simp: channel_run_snoc chan_step_def split: list.splits)
  qed
qed (simp add: channel_run_def)

lemma shown_list:
  assumes "fold list_spec evs ss = ss'"
  shows "ss' = ss \<or> UEvSessionsUpdated ss' \<in> set evs"
  using assms
proof (induction evs arbitrary: ss)
  case (Cons ev evs)
  then have "fold list_spec evs (list_spec ev ss) = ss'" by simp
  from Cons.IH [OF this] show ?case by (cases ev) (auto simp: list_spec_def)
qed simp

subsection \<open>The view follows the table\<close>

abbreviation watched :: "upf_state \<Rightarrow> bool" where
  "watched st \<equiv> same_sessions (viewed st) (sessions (st_server st))"

lemma view_spec_simps [simp]:
  "view_spec GaugeIncrement m = m" "view_spec GaugeDecrement m = m" "view_spec (TuiLog l) m = m"
  "view_spec (TuiSessionsUpdated m') m = m'" "view_spec TuiHeartbeatUpdated m = m" "view_spec (TuiAssociationChanged b) m = m"
  "view_spec (StoreSave sid d) m = m" "view_spec (StoreDelete sid) m = m" "view_spec (SetupUeRoute ip) m = m"
  "view_spec (TeardownUeRoute ip) m = m"
  by (simp_all add: view_spec_def)

lemma view_send [simp]:
  "fold view_spec (tui_log srv l) m = m" "fold view_spec (tui_sessions_updated srv) m = (if tx_tui srv then sessions srv else m)"
  "fold view_spec (tui_send srv TuiHeartbeatUpdated) m = m" "fold view_spec (tui_send srv (TuiAssociationChanged b)) m = m"
  "fold view_spec (store_effect srv (StoreSave sid d)) m = m" "fold view_spec (store_effect srv (StoreDelete sid)) m = m"
  by (simp_all add: tui_send_def tui_log_def tui_sessions_updated_def store_effect_def)

lemma tui_frame [simp]:
  "tx_tui (register_session node sid d srv) = tx_tui srv" "tx_tui (unregister_session owner sid cp srv) = tx_tui srv"
  "tx_tui (update_urrs sid us srv) = tx_tui srv" "tx_tui (touch_activity t srv) = tx_tui srv"
proof -
  show "tx_tui (update_urrs sid us srv) = tx_tui srv"
    by (induction sid us srv rule: update_urrs.induct) (simp_all split: option.split)
qed (simp_all add: register_session_def unregister_session_def touch_activity_def Let_def split: option.split)

lemma install_rules_tui: "tx_tui (fst (install_rules E sid cp ue pdrs fars urrs srv M)) = tx_tui srv"
proof -
  have "tx_tui (fst (install_urrs E sid cp urrs srv M1)) = tx_tui srv" for M1
    using install_urrs_shape [of E sid cp urrs srv M1] by auto
  then show ?thesis by (simp add: install_rules_def Let_def split_beta)
qed

lemma update_fars_tui: "tx_tui (fst (update_fars E sid key fs srv M)) = tx_tui srv"
proof (induction E sid key fs srv M rule: update_fars.induct)
  case (2 E sid key f fs srv M)
  have "tx_tui (update_session_data sid ohc srv) = tx_tui srv" for ohc
    by (simp add: update_session_data_def split: option.split)
  then show ?case using 2 by (auto split: option.split)
qed simp

text \<open>Every handler keeps what it told the terminal in step with the table, up to the tunnel.\<close>

locale watched_handler =
  fixes h :: "upf_env \<Rightarrow> pfcp_header \<Rightarrow> bytes \<Rightarrow> socket_addr \<Rightarrow> upf_state \<Rightarrow> upf_state \<times> (handler_error + bytes)"
  assumes keeps_tui: "tx_tui (st_server (fst (h E hdr body src st))) = tx_tui (st_server st)"
    and keeps_view: "tx_tui (st_server st) \<Longrightarrow> watched st \<Longrightarrow> watched (fst (h E hdr body src st))"
begin

lemma shows_same_seids:
  fixes hdr :: pfcp_header and src :: socket_addr
  assumes "tx_tui (st_server st)" "watched st"
  shows "dom (viewed (fst (h E hdr body src st))) = dom (sessions (st_server (fst (h E hdr body src st))))"
  using keeps_view [OF assms, of E hdr body src] by (rule same_sessions_dom)

end

interpretation watch_heartbeat: watched_handler handle_heartbeat
proof
  fix E hdr body src and st :: upf_state
  show "tx_tui (st_server (fst (handle_heartbeat E hdr body src st))) = tx_tui (st_server st)"
    by (cases rule: heartbeat_server_cases [of E hdr body src st]) simp_all
  show "watched st \<Longrightarrow> watched (fst (handle_heartbeat E hdr body src st))"
    unfolding heartbeat_frame(1) by (simp add: handle_heartbeat_def Let_def emit_def)
qed

interpretation watch_association: watched_handler handle_session_association
proof
  fix E hdr body src and st :: upf_state
  show "tx_tui (st_server (fst (handle_session_association E hdr body src st))) = tx_tui (st_server st)"
    using association_server_cases [of E hdr body src st] by auto
  show "watched st \<Longrightarrow> watched (fst (handle_session_association E hdr body src st))"
    unfolding association_frame(1) by (simp add: handle_session_association_def Let_def emit_def split: sum.split)
qed

interpretation watch_establishment: watched_handler handle_session_establishment
proof
  fix E hdr body src and st :: upf_state
  note frame = install_rules_frame [of E] install_rules_tui [of E]
  show "tx_tui (st_server (fst (handle_session_establishment E hdr body src st))) = tx_tui (st_server st)"
    by (auto simp: handle_session_establishment_def Let_def alloc_seid_def alloc_teid_def frame split_beta split: sum.split option.split)
  assume "tx_tui (st_server st)" "watched st"
  then show "watched (fst (handle_session_establishment E hdr body src st))"
    by (auto simp: handle_session_establishment_def Let_def alloc_seid_def alloc_teid_def frame split_beta
        emit_def establishment_effects_def split: sum.split option.split)
qed

interpretation watch_modification: watched_handler handle_session_modification
proof
  fix E hdr body src and st :: upf_state
  show "tx_tui (st_server (fst (handle_session_modification E hdr body src st))) = tx_tui (st_server st)"
    by (simp add: handle_session_modification_def split_beta Let_def update_fars_tui split: sum.split option.split)
  show "watched st \<Longrightarrow> watched (fst (handle_session_modification E hdr body src st))"
    using modification_sessions [of E hdr body src st] by (simp add: same_sessions_def)
qed

lemma deletion_critical_view:
  "tx_tui (st_server (fst (deletion_critical E sid src st))) = tx_tui (st_server st)"
  "tx_tui (st_server st) \<Longrightarrow> watched st \<Longrightarrow> watched (fst (deletion_critical E sid src st))"
  by (auto simp: deletion_critical_def Let_def emit_def split: sum.split option.split)

lemma deletion_cleanup_view [simp]: "viewed (deletion_cleanup E sid d st) = viewed st"
  by (simp add: deletion_cleanup_def Let_def emit_def)

interpretation watch_deletion: watched_handler handle_session_deletion
proof
  fix E body src and hdr :: pfcp_header and st :: upf_state
  let ?sid = "case seid hdr of None \<Rightarrow> 0 | Some s \<Rightarrow> s"
  obtain st1 res where c: "deletion_critical E ?sid src st = (st1, res)" by force
  show "tx_tui (st_server (fst (handle_session_deletion E hdr body src st))) = tx_tui (st_server st)"
    using deletion_critical_view(1) [of E ?sid src st] c
    by (simp add: handle_session_deletion_def Let_def split: sum.split)
  assume "tx_tui (st_server st)" "watched st"
  then show "watched (fst (handle_session_deletion E hdr body src st))"
    using deletion_critical_view(2) [of st E ?sid src] deletion_cleanup_view [of E ?sid _ st1] c
    by (simp add: handle_session_deletion_def Let_def emit_def split: sum.split)
qed

lemma serve_watched:
  "tx_tui (st_server (fst (serve_datagram E data src st))) = tx_tui (st_server st) \<and>
    (tx_tui (st_server st) \<longrightarrow> watched st \<longrightarrow> watched (fst (serve_datagram E data src st)))"
proof -
  let ?st = "st\<lparr>st_server := touch_activity (env_now E) (st_server st)\<rparr>"
  have t: "tx_tui (st_server ?st) = tx_tui (st_server st)" "watched ?st = watched st" by simp_all
  show ?thesis
    unfolding serve_datagram_state handle_message_def
    using watch_heartbeat.keeps_tui watch_association.keeps_tui watch_establishment.keeps_tui watch_modification.keeps_tui
      watch_deletion.keeps_tui watch_heartbeat.keeps_view [of ?st, unfolded t] watch_association.keeps_view [of ?st, unfolded t]
      watch_establishment.keeps_view [of ?st, unfolded t] watch_modification.keeps_view [of ?st, unfolded t]
      watch_deletion.keeps_view [of ?st, unfolded t] t(1)
    by (auto split: sum.split)
qed

lemma run_watched:
  assumes "upf_run L n st" "tx_tui (st_server st)"
  shows "watched st"
  using assms
proof (induction rule: upf_run.induct)
  case (start loaded now t a b tui store srv effs M)
  then show ?case
    using startup_load_shape(2) [OF start(1)] by (auto simp: pfcp_server_new_def)
next
  case (datagram n st E data src)
  with serve_watched [of E data src st] show ?case by blast
next
  case (deletion_begin n st E sid src)
  with deletion_critical_view [where E = E and sid = sid and src = src and st = st] show ?case by blast
next
  case (deletion_finish n st E sid d)
  then show ?case unfolding deletion_cleanup_view deletion_cleanup_server by blast
qed simp_all

lemma same_sessions_ues:
  assumes "same_sessions m m'"
  shows "{(sid, sd_ue_ip d) | sid d. m sid = Some d} = {(sid, sd_ue_ip d) | sid d. m' sid = Some d}"
proof -
  have half: "{(sid, sd_ue_ip d) | sid d. m sid = Some d} \<subseteq> {(sid, sd_ue_ip d) | sid d. m' sid = Some d}" if "same_sessions m m'" for m m'
  proof
    fix x assume "x \<in> {(sid, sd_ue_ip d) | sid d. m sid = Some d}"
    then obtain sid d where x: "x = (sid, sd_ue_ip d)" "m sid = Some d" by blast
    with that have "map_option identity (m' sid) = Some (identity d)" unfolding same_sessions_def by (metis option.simps(9))
    then obtain d' where "m' sid = Some d'" "sd_ue_ip d' = sd_ue_ip d" by (auto simp: identity_def)
    with x show "x \<in> {(sid, sd_ue_ip d) | sid d. m' sid = Some d}" by auto
  qed
  moreover have "same_sessions m' m" using assms by (simp add: same_sessions_def)
  ultimately show ?thesis using assms by blast
qed

section \<open>Properties\<close>

text \<open>
  C11: The gauge of active sessions. In every state the UPF reaches with fewer than 2^48 datagrams, whatever
  they are, however they fail and however deletions interleave, the gauge falls short of the number of
  sessions in the table by at most the number of sessions that were restored from the store at the start,
  and at least by the number of restored SEIDs that the counter has not reached. So it is exact for a UPF that
  restored none; and as long as no restored SEID has been handed out again, it counts exactly the
  sessions added since the start less those deleted, the restored ones being left out.
\<close>

theorem session_gauge_exact:
  assumes "upf_run L n st" "n < 2 ^ 48"
  shows "session_count st - int (card (dom L)) \<le> gauge_value st \<and>
    gauge_value st \<le> session_count st - int (card {sid \<in> dom L. next_seid (st_server st) \<le> sid}) \<and>
    (L = Map.empty \<longrightarrow> gauge_value st = session_count st) \<and>
    ((\<forall>sid \<in> dom L. next_seid (st_server st) \<le> sid) \<longrightarrow> gauge_value st = session_count st - int (card (dom L)))"
proof -
  note d = run_drift [OF assms]
  have "pending L (next_seid (st_server st)) = dom L" if "\<forall>sid \<in> dom L. next_seid (st_server st) \<le> sid"
    using that by blast
  with d show ?thesis by auto
qed

text \<open>A restored session and one established since: two in the table, one counted.\<close>

theorem session_gauge_exact_witness:
  "\<exists>st. upf_run [7 \<mapsto> stored_data] 2 st \<and> session_count st = 2 \<and> gauge_value st = 1"
proof -
  obtain st where st: "orderly_run [7 \<mapsto> stored_data] True 2 st" "next_seid (st_server st) = 2"
      "sessions (st_server st) = [7 \<mapsto> stored_data, 1 \<mapsto> demo_data2]"
    using demo_run by blast
  have "session_count st = 2" using st(3) by simp
  moreover have "(2 :: nat) < 2 ^ 48" by simp
  note session_gauge_exact [OF orderly_run_run [OF st(1)] this]
  ultimately show ?thesis using st orderly_run_run by (intro exI [of _ st]) auto
qed

text \<open>
  C26: The terminal lists the server's sessions. Take any state the UPF, started with the interface, has
  reached, whatever sessions it restored at the start. The server has offered its events to the channel
  of the terminal, other senders have offered log lines in between, an event that found 100 unread ones
  was dropped, and the interface has read some of the rest, with any keys and ticks in between, and was not
  ended. The list it shows is then one that the server announced (or still empty). If it has read the channel
  empty and the list of sessions offered last had found room, whatever was lost before, its list has exactly
  the SEIDs of the server's table, each with its UE address. A session modification offers no event at all,
  so the list keeps the tunnel as it was when a session was last added or deleted.
\<close>

theorem terminal_lists_sessions:
  fixes L :: "u64 \<rightharpoonup> session_data"
  assumes "\<And>m. set (order m) = dom m" "upf_run L n st" "tx_tui (st_server st)"
    and "sends order fmt (st_effects st) (server_events ops)"
    and "received inputs = ch_read (channel_run ops)" "\<not> snd (upf_tui_run T t inputs)"
  defines "shown \<equiv> ua_sessions (fst (fst (upf_tui_run T t inputs)))"
  shows "(shown = [] \<or> (\<exists>m now. TuiSessionsUpdated m \<in> set (st_effects st) \<and> shown = session_entries order now m)) \<and>
    (ch_queue (channel_run ops) = [] \<and> ch_current (channel_run ops) \<longrightarrow>
      (\<lambda>e. (se_seid e, se_ue_ip e)) ` set shown = {(sid, sd_ue_ip d) | sid d. sessions (st_server st) sid = Some d}) \<and>
    st_effects (fst (handle_session_modification E hdr body src st)) = st_effects st"
proof -
  let ?app = "upf_app_log t UStart upf_app_new"
  have shown: "shown = fold list_spec (ch_read (channel_run ops)) []"
    using loop_sessions [of T inputs "(?app, ta_default T)"] assms(5,6) by (simp add: upf_tui_run_def upf_app_new_def shown_def)
  have announced: "shown = [] \<or> (\<exists>m now. TuiSessionsUpdated m \<in> set (st_effects st) \<and> shown = session_entries order now m)"
    using shown_list [OF shown [symmetric]] channel_events [of ops] sent_list [OF assms(4), of shown] by auto
  have empty: "session_entries order 0 Map.empty = []"
    using assms(1) [of Map.empty] by (simp add: session_entries_def)
  have "(\<lambda>e. (se_seid e, se_ue_ip e)) ` set shown = {(sid, sd_ue_ip d) | sid d. sessions (st_server st) sid = Some d}"
    if q: "ch_queue (channel_run ops) = []" "ch_current (channel_run ops)"
  proof -
    obtain now where "shown = session_entries order now (viewed st)"
      using channel_current [OF q(2)] q(1) shown events_view [OF assms(4), of 0 Map.empty] by (auto simp: empty)
    then have "(\<lambda>e. (se_seid e, se_ue_ip e)) ` set shown = (\<lambda>sid. (sid, sd_ue_ip (the (viewed st sid)))) ` dom (viewed st)"
      by (simp add: session_entries_def image_image assms(1) Let_def)
    also have "\<dots> = {(sid, sd_ue_ip d) | sid d. viewed st sid = Some d}" by (force simp: dom_def)
    also have "\<dots> = {(sid, sd_ue_ip d) | sid d. sessions (st_server st) sid = Some d}"
      by (rule same_sessions_ues [OF run_watched [OF assms(2,3)]])
    finally show ?thesis .
  qed
  with announced show ?thesis by simp
qed

lemma received_events:
  "received (map (\<lambda>ev. (t, UReceived ev)) evs) = evs"
  "\<not> ua_should_quit (fst s) \<Longrightarrow> \<not> snd (upf_tui_loop T (map (\<lambda>ev. (t, UReceived ev)) evs) s)"
proof -
  show "received (map (\<lambda>ev. (t, UReceived ev)) evs) = evs"
    by (induction evs) (simp_all add: received_def List.map_filter_simps)
  show "\<not> ua_should_quit (fst s) \<Longrightarrow> \<not> snd (upf_tui_loop T (map (\<lambda>ev. (t, UReceived ev)) evs) s)"
  proof (induction evs arbitrary: s)
    case (Cons ev evs)
    obtain s' stop where st: "upf_tui_step T t (UReceived ev) s = (s', stop)" by (metis surj_pair)
    then have "\<not> stop" "\<not> ua_should_quit (fst s')"
      using Cons.prems by (cases s; cases ev; auto simp: upf_tui_step_def Let_def)+
    with Cons.IH [of s'] st show ?case by simp
  qed simp
qed

definition all_u64 :: "u64 list" where
  "all_u64 = map word_of_nat [0..<2 ^ 64]"

lemma in_all_u64: "w \<in> set all_u64"
proof -
  have "unat w < 2 ^ 64" using unsigned_less [of w, where 'a = nat] by simp
  then have "word_of_nat (unat w) \<in> set all_u64" unfolding all_u64_def set_map set_upt by (intro imageI) simp
  then show ?thesis by simp
qed

text \<open>An interface that reads every event before the next one is offered, with a log line in between.\<close>

lemma prompt_reader:
  fixes evs :: "upf_app_event list"
  defines "ops \<equiv> concat (map (\<lambda>ev. [Server ev, Take, Logger ''x'', Take]) evs)"
  shows "server_events ops = evs" "channel_run ops =
    \<lparr>ch_queue = [], ch_read = concat (map (\<lambda>ev. [ev, UEvLog (ULine ''x'')]) evs), ch_current = True\<rparr>"
proof -
  show "server_events ops = evs"
    unfolding ops_def by (induction evs) (simp_all add: server_events_def List.map_filter_def)
  have "fold chan_step (concat (map (\<lambda>ev. [Server ev, Take, Logger ''x'', Take]) evs)) \<lparr>ch_queue = [], ch_read = r, ch_current = True\<rparr> =
      \<lparr>ch_queue = [], ch_read = r @ concat (map (\<lambda>ev. [ev, UEvLog (ULine ''x'')]) evs), ch_current = True\<rparr>" for r
    by (induction evs arbitrary: r) (simp_all add: chan_step_def try_send_def TUI_CHANNEL_def split: upf_app_event.split)
  from this [of "[]"] show "channel_run ops =
    \<lparr>ch_queue = [], ch_read = concat (map (\<lambda>ev. [ev, UEvLog (ULine ''x'')]) evs), ch_current = True\<rparr>"
    by (simp add: channel_run_def ops_def)
qed

lemma sends_all: "sends order fmt es (List.map_filter (app_event order 0 fmt) es)"
  by (induction es) (auto simp: sends_Nil sends_Cons List.map_filter_simps split: option.split)

theorem terminal_lists_sessions_witness:
  "\<exists>inputs. (\<lambda>e. (se_seid e, se_ue_ip e)) `
     set (ua_sessions (fst (fst (upf_tui_run \<lparr>ta_default = (), ta_line0 = (\<lambda>_. []), ta_input = (\<lambda>t _ _. t)\<rparr> ''12:00:00'' inputs)))) =
     {(7, Ipv4Addr 10 45 0 9), (1, Ipv4Addr 10 45 0 2)}"
proof -
  let ?T = "\<lparr>ta_default = (), ta_line0 = (\<lambda>_. []), ta_input = (\<lambda>t _ _. t)\<rparr>"
  let ?order = "\<lambda>m :: u64 \<rightharpoonup> session_data. filter (\<lambda>s. m s \<noteq> None) all_u64" and ?fmt = "\<lambda>_ :: log_line. [] :: string"
  obtain st st0 data data' where st: "orderly_run [7 \<mapsto> stored_data] True 2 st" "sessions (st_server st) = [7 \<mapsto> stored_data, 1 \<mapsto> demo_data2]"
      "tx_tui (st_server st0)"
      "st = fst (serve_datagram lifecycle_env data' demo_src (fst (serve_datagram lifecycle_env data demo_src st0)))"
    using demo_run by blast
  have tui: "tx_tui (st_server st)"
    unfolding st(4) serve_watched [THEN conjunct1] by (rule st(3))
  let ?evs = "List.map_filter (app_event ?order 0 ?fmt) (st_effects st)"
  let ?ops = "concat (map (\<lambda>ev. [Server ev, Take, Logger ''x'', Take]) ?evs)"
  let ?inputs = "map (\<lambda>ev. (''12:00:01'', UReceived ev)) (ch_read (channel_run ?ops))"
  note p = prompt_reader [of ?evs]
  have o: "set (?order m) = dom m" for m using in_all_u64 by auto
  have "\<not> snd (upf_tui_run ?T ''12:00:00'' ?inputs)"
    unfolding upf_tui_run_def by (rule received_events(2)) (simp add: upf_app_log_def upf_app_add_def upf_app_new_def Let_def)
  moreover have "sends ?order ?fmt (st_effects st) (server_events ?ops)" unfolding p(1) by (rule sends_all)
  moreover have "received ?inputs = ch_read (channel_run ?ops)" by (rule received_events(1))
  ultimately have shown: "ch_queue (channel_run ?ops) = [] \<and> ch_current (channel_run ?ops) \<longrightarrow>
      (\<lambda>e. (se_seid e, se_ue_ip e)) ` set (ua_sessions (fst (fst (upf_tui_run ?T ''12:00:00'' ?inputs)))) =
      {(sid, sd_ue_ip d) | sid d. sessions (st_server st) sid = Some d}"
    using terminal_lists_sessions [where T = ?T and t = "''12:00:00''" and order = ?order and fmt = ?fmt and ops = ?ops
        and inputs = ?inputs and st = st, OF o orderly_run_run [OF st(1)] tui] by blast
  have "(\<lambda>e. (se_seid e, se_ue_ip e)) ` set (ua_sessions (fst (fst (upf_tui_run ?T ''12:00:00'' ?inputs)))) =
      {(sid, sd_ue_ip d) | sid d. sessions (st_server st) sid = Some d}"
    by (rule mp [OF shown]) (simp only: p(2) chan.simps simp_thms)
  also have "\<dots> = {(7, Ipv4Addr 10 45 0 9), (1, Ipv4Addr 10 45 0 2)}"
    by (auto simp: st(2) stored_data_def split: if_splits)
  finally show ?thesis by blast
qed

end
