(* ===== verification/Upf_Dispatch.thy ===== *)
theory Upf_Dispatch
  imports Upf_Handlers Pfcp_Registry Pfcp_Dict
begin

text \<open>
  Around the dispatch of \<open>handle_message\<close> (src/upf-edge/src/handle_msg.rs): decoding a datagram with the check
  against the message dictionary, whose verdict is only logged, and the label under which the processing
  time is recorded. The lemmas say what the dictionary and the message numbers mean for the dispatch.
\<close>

datatype dict_verdict = MandatoryMissing string "string list" | ValidationPassed string

definition decode_header :: "bytes \<Rightarrow> pfcp_error + (pfcp_header \<times> bytes \<times> dict_verdict)" where
  "decode_header data =
     (case pfcp_header_decode data of
        Inl e \<Rightarrow> Inl e
      | Inr (header, body) \<Rightarrow>
         (let val = validate (msg_type header) body;
              msg_name = (case map_option ms_name (dict_lookup (msg_type header)) of None \<Rightarrow> ''Unknow'' | Some n \<Rightarrow> n)
          in Inr (header, body,
               if \<not> is_ok val then MandatoryMissing msg_name (missing val) else ValidationPassed msg_name)))"

definition msg_type_label :: "u8 \<Rightarrow> string" where
  "msg_type_label t =
     (if t = PFCP_HEARTBEAT_REQ then ''Heartbeat Request''
      else if t = PFCP_HEARTBEAT_RSP then ''Heartbeat Response''
      else if t = PFCP_ASSOCIATION_SETUP_REQ then ''Association Setup Request''
      else if t = PFCP_ASSOCIATION_SETUP_RSP then ''Association Setup Response''
      else if t = PFCP_SESSION_ESTABLISHMENT_REQ then ''Session Establishment Request''
      else if t = PFCP_SESSION_ESTABLISHMENT_RSP then ''Session Establishment Response''
      else if t = PFCP_SESSION_MODIFICATION_REQ then ''Session Modification Request''
      else if t = PFCP_SESSION_MODIFICATION_RSP then ''Session Modification Response''
      else if t = PFCP_SESSION_DELETION_REQ then ''Session Deletion Request''
      else if t = PFCP_SESSION_DELETION_RSP then ''Session Deletion Response''
      else ''Unknown'')"

text \<open>What is logged and measured of one datagram; an undecodable one is not measured.\<close>

record message_trace =
  mt_verdict :: dict_verdict
  mt_label :: string

definition traced_message :: "upf_env \<Rightarrow> bytes \<Rightarrow> socket_addr \<Rightarrow> upf_state
    \<Rightarrow> (upf_state \<times> (handler_error + bytes)) \<times> message_trace option" where
  "traced_message E data src st =
     (case decode_header data of
        Inl e \<Rightarrow> ((st, Inl (HeaderError e)), None)
      | Inr (header, body, verdict) \<Rightarrow>
          (handle_message E data src st, Some \<lparr>mt_verdict = verdict, mt_label = msg_type_label (msg_type header)\<rparr>))"

text \<open>The verdict has no part in the dispatch.\<close>

lemma traced_message_result: "fst (traced_message E data src st) = handle_message E data src st"
  by (auto simp: traced_message_def decode_header_def handle_message_def Let_def split: sum.split)

lemma traced_message_measured: "snd (traced_message E data src st) = None \<longleftrightarrow> (\<exists>e. pfcp_header_decode data = Inl e)"
  by (auto simp: traced_message_def decode_header_def Let_def split: sum.split)

text \<open>The label of a message type is its name in the dictionary.\<close>

lemma label_is_dictionary_name:
  "\<forall>t\<in>{1, 2, 5, 6, 50, 51, 52, 53, 54, 55}. map_option ms_name (dict_lookup t) = Some (msg_type_label t)"
  by code_simp

text \<open>
  The last branch of the dispatch takes even numbers for responses. That holds for the node messages up to
  10 only: the registry's requests 12, 14 and 16 are dropped as responses, and the session responses, being
  odd, are reported as unhandled requests.
\<close>

definition served_types :: "u8 list" where
  "served_types = [PFCP_HEARTBEAT_REQ, PFCP_ASSOCIATION_SETUP_REQ, PFCP_SESSION_ESTABLISHMENT_REQ,
     PFCP_SESSION_MODIFICATION_REQ, PFCP_SESSION_DELETION_REQ, PFCP_SESSION_REPORT_RSP]"

lemma unserved_by_parity:
  assumes "pfcp_header_decode data = Inr (header, body)" "msg_type header \<notin> set served_types"
  shows "handle_message E data src st =
    (st, if msg_type header mod 2 = 0 then Inr [] else Inl (UnhandledType (msg_type header)))"
  using assms by (simp add: handle_message_def served_types_def)

lemma parity_misclassifies:
  "map fst (filter (\<lambda>(n, t). named ''_REQ'' n \<and> t \<notin> set served_types \<and> t mod 2 = 0) message_types) =
     [''PFCP_NODE_REPORT_REQ'', ''PFCP_SESSION_SET_DELETION_REQ'', ''PFCP_SESSION_SET_MODIFICATION_REQ'',
      ''PFCP_SESSION_REPORT_REQ'']"
  "map fst (filter (\<lambda>(n, t). named ''_RSP'' n \<and> t \<notin> set served_types \<and> t mod 2 = 1) message_types) =
     [''PFCP_VERSION_NOT_SUPPORTED_RSP'', ''PFCP_NODE_REPORT_RSP'', ''PFCP_SESSION_SET_DELETION_RSP'',
      ''PFCP_SESSION_SET_MODIFCATION_RSP'', ''PFCP_SESSION_ESTABLISHMENT_RSP'', ''PFCP_SESSION_MODIFICATION_RSP'',
      ''PFCP_SESSION_DELETION_RSP'']"
  by code_simp+

end
