(* ===== verification/Smf_Pairing.thy ===== *)
theory Smf_Pairing
  imports Smf_Tui
begin

text \<open>
  The simulator and the UPF as one system, driven from the simulator's terminal: any sequence of commands,
  each run to its end over a network that loses nothing. Both sides keep a table of sessions; the abstract
  specification is one table from CP SEIDs to UE addresses that both of them realise.
\<close>

section \<open>The specification\<close>

text \<open>The table, the next CP SEID and the next address of the pool.\<close>

type_synonym book = "(u64 \<rightharpoonup> ipv4) \<times> u64 \<times> u32"

fun add_spec :: "book \<Rightarrow> book" where
  "add_spec (m, cp, ue) = (m(cp \<mapsto> ip_from_u32 ue), cp + 1, ue + 1)"

fun command_spec :: "sim_command \<Rightarrow> book \<Rightarrow> book" where
  "command_spec (SimAddSession count) b = (add_spec ^^ unat count) b"
| "command_spec (SimDelSession cp) (m, next_cp, ue) = (m(cp := None), next_cp, ue)"
| "command_spec cmd b = b"

text \<open>The requests a command can send.\<close>

fun requests :: "sim_command \<Rightarrow> nat" where
  "requests (SimAddSession count) = unat count"
| "requests (SimDelSession cp) = 1"
| "requests cmd = 0"

primrec run_commands :: "'p net \<Rightarrow> ((u64 \<rightharpoonup> sim_session) \<Rightarrow> sim_session list) \<Rightarrow> ipv4 \<Rightarrow> ipv4 \<Rightarrow> sim_command list
    \<Rightarrow> pfcp_transport \<times> sim_state \<times> 'p \<Rightarrow> (pfcp_transport \<times> sim_state \<times> 'p) \<times> sim_app_event list" where
  "run_commands N order smf_addr gnb_addr [] w = (w, [])"
| "run_commands N order smf_addr gnb_addr (cmd # cmds) w =
     (case handle_async_command N order smf_addr gnb_addr cmd w of (w1, es) \<Rightarrow>
      case run_commands N order smf_addr gnb_addr cmds w1 of (w2, es') \<Rightarrow> (w2, es @ es'))"

definition failure :: "sim_app_event \<Rightarrow> bool" where
  "failure ev = (case ev of
     SEvLog (SAddFailed e) \<Rightarrow> True | SEvLog (SExtractFailed e) \<Rightarrow> True | SEvLog (SPoolFailed e) \<Rightarrow> True
   | SEvLog (SDeleteFailed e) \<Rightarrow> True | _ \<Rightarrow> False)"

section \<open>Two tables that agree\<close>

definition sim_book :: "sim_state \<Rightarrow> book" where
  "sim_book s = (\<lambda>cp. map_option ss_ue_ip (sim_sessions s cp), sim_next_cp_seid s, sim_next_ue_ip s)"

definition matched :: "sim_state \<Rightarrow> pfcp_server \<Rightarrow> bool" where
  "matched s U \<longleftrightarrow>
     (\<forall>cp x. sim_sessions s cp = Some x \<longrightarrow>
        (\<exists>d. sessions U (ss_upf_seid x) = Some d \<and> sd_cp_seid d = cp \<and> sd_ue_ip d = ss_ue_ip x)) \<and>
     (\<forall>sid d. sessions U sid = Some d \<longrightarrow> (\<exists>x. sim_sessions s (sd_cp_seid d) = Some x \<and> ss_upf_seid x = sid))"

definition fresh_ids :: "sim_state \<Rightarrow> pfcp_server \<Rightarrow> bool" where
  "fresh_ids s U \<longleftrightarrow> (\<forall>cp \<in> dom (sim_sessions s). unat cp < unat (sim_next_cp_seid s)) \<and>
     (\<forall>sid \<in> dom (sessions U). unat sid < unat (next_seid U))"

definition listed :: "sim_state \<Rightarrow> smf_association \<Rightarrow> bool" where
  "listed s a \<longleftrightarrow> (\<forall>cp \<in> dom (sim_sessions s). as_sessions a cp \<noteq> None)"

definition room :: "nat \<Rightarrow> sim_state \<Rightarrow> pfcp_server \<Rightarrow> bool" where
  "room n s U \<longleftrightarrow> unat (sim_next_seq s) + n \<le> 2 ^ 24 \<and> unat (sim_next_ue_ip s) + n \<le> unat (sim_ue_ip_end s) + 1 \<and>
     unat (sim_next_cp_seid s) + n < 2 ^ 64 \<and> 0 < unat (next_seid U) \<and> unat (next_seid U) + n < 2 ^ 64 \<and>
     0 < unat (next_teid U) \<and> unat (next_teid U) + n < 2 ^ 32"

definition in_sync :: "socket_addr \<Rightarrow> socket_addr \<Rightarrow> ipv4 \<Rightarrow> pfcp_transport \<times> sim_state \<times> upf_link \<Rightarrow> bool" where
  "in_sync src upf node w \<longleftrightarrow>
     (case w of (tr, s, l) \<Rightarrow> quiet l \<and> tr_ok upf tr \<and> matched s (st_server (lk_upf l)) \<and> fresh_ids s (st_server (lk_upf l)) \<and>
        (\<exists>a. registered src node (st_server (lk_upf l)) a \<and> listed s a))"

abbreviation world_room :: "nat \<Rightarrow> pfcp_transport \<times> sim_state \<times> upf_link \<Rightarrow> bool" where
  "world_room n w \<equiv> room n (fst (snd w)) (st_server (lk_upf (snd (snd w))))"

lemma unat_succ: "unat w + 1 < 2 ^ LENGTH('a) \<Longrightarrow> unat (w + 1 :: 'a::len word) = unat w + 1"
  by (simp add: unat_word_ariths)

lemma unat_succ_le: "unat (w + 1 :: 'a::len word) \<le> unat w + 1"
  by (simp add: unat_word_ariths)

lemma matchedD:
  assumes "matched s U"
  shows "sim_sessions s cp = Some x \<Longrightarrow> \<exists>d. sessions U (ss_upf_seid x) = Some d \<and> sd_cp_seid d = cp \<and> sd_ue_ip d = ss_ue_ip x"
    and "sessions U sid = Some d \<Longrightarrow> \<exists>x. sim_sessions s (sd_cp_seid d) = Some x \<and> ss_upf_seid x = sid"
  using assms by (auto simp: matched_def)

lemma matched_add:
  assumes "matched s U" "fresh_ids s U" "unat (sim_next_cp_seid s) + 1 < 2 ^ 64" "unat (next_seid U) + 1 < 2 ^ 64"
    and "sim_sessions s' = (sim_sessions s)(sim_next_cp_seid s \<mapsto> x)" "sim_next_cp_seid s' = sim_next_cp_seid s + 1"
    and "sessions U' = (sessions U)(next_seid U \<mapsto> d)" "next_seid U' = next_seid U + 1"
    and "ss_upf_seid x = next_seid U" "sd_cp_seid d = sim_next_cp_seid s" "sd_ue_ip d = ss_ue_ip x"
  shows "matched s' U'" "fresh_ids s' U'"
proof -
  have new: "sim_sessions s (sim_next_cp_seid s) = None" "sessions U (next_seid U) = None"
    using assms(2) by (auto simp: fresh_ids_def)
  have "ss_upf_seid y \<noteq> next_seid U" if "sim_sessions s cp = Some y" for cp y
    using matchedD(1) [OF assms(1) that] new(2) by auto
  moreover have "sd_cp_seid e \<noteq> sim_next_cp_seid s" if "sessions U sid = Some e" for sid e
    using matchedD(2) [OF assms(1) that] new(1) by auto
  ultimately show "matched s' U'"
    using assms(1) unfolding matched_def assms(5,7) by (simp add: assms(9-11))
  show "fresh_ids s' U'"
    using assms(2-4) unat_succ [of "sim_next_cp_seid s"] unat_succ [of "next_seid U"]
    by (auto simp: fresh_ids_def assms(5-8) less_Suc_eq)
qed

lemma matched_del:
  assumes "matched s U" "fresh_ids s U" "sim_sessions s cp = Some x"
    and "sim_sessions s' = (sim_sessions s)(cp := None)" "sim_next_cp_seid s' = sim_next_cp_seid s"
    and "sessions U' = (sessions U)(ss_upf_seid x := None)" "next_seid U' = next_seid U"
  shows "matched s' U'" "fresh_ids s' U'"
proof -
  obtain d where d: "sessions U (ss_upf_seid x) = Some d" "sd_cp_seid d = cp"
    using assms(1,3) by (auto simp: matched_def)
  have "ss_upf_seid y \<noteq> ss_upf_seid x" if "sim_sessions s cp' = Some y" "cp' \<noteq> cp" for cp' y
    using matchedD(1) [OF assms(1) that(1)] that(2) d by auto
  moreover have "sd_cp_seid e \<noteq> cp" if "sessions U sid = Some e" "sid \<noteq> ss_upf_seid x" for sid e
    using matchedD(2) [OF assms(1) that(1)] that(2) assms(3) by auto
  ultimately show "matched s' U'"
    using assms(1) unfolding matched_def assms(4,6) by (simp add: fun_upd_def)
  show "fresh_ids s' U'" using assms(2) by (auto simp: fresh_ids_def assms(4-7))
qed

section \<open>One command\<close>

lemma add_in_sync:
  fixes s :: sim_state and l :: upf_link
  assumes "env_laws E" "env_roomy E" "order_laws E" "is_v4 src" "in_sync src upf node (tr, s, l)"
    and "room (Suc n) s (st_server (lk_upf l))"
  shows "\<exists>tr' s' l' es. add_session (upf_net E src upf) order smf gnb tr s l = ((tr', s', l'), es, True) \<and>
    in_sync src upf node (tr', s', l') \<and> room n s' (st_server (lk_upf l')) \<and> sim_book s' = add_spec (sim_book s) \<and>
    (\<forall>e\<in>set es. \<not> failure e)"
proof -
  define U cp ue where "U = st_server (lk_upf l)" and "cp = sim_next_cp_seid s" and "ue = ip_from_u32 (sim_next_ue_ip s)"
  obtain a where a: "quiet l" "tr_ok upf tr" "matched s U" "fresh_ids s U" "registered src node U a" "listed s a"
    using assms(5) by (auto simp: in_sync_def U_def)
  have laws: "env_laws (E\<lparr>env_now := lk_clock l\<rparr>)" "env_roomy (E\<lparr>env_now := lk_clock l\<rparr>)" "order_laws (E\<lparr>env_now := lk_clock l\<rparr>)"
    using assms(1-3) by simp_all
  have r: "unat (sim_next_seq s) < 2 ^ 24" "sim_next_ue_ip s \<le> sim_ue_ip_end s" "next_seid U \<noteq> 0" "next_teid U \<noteq> 0"
      "unat cp + 1 < 2 ^ 64" "unat (next_seid U) + 1 < 2 ^ 64" "unat (next_teid U) + 1 < 2 ^ 32"
    using assms(6) by (simp_all add: room_def U_def cp_def word_le_nat_alt unat_gt_0)
  let ?req = "build_session_establishment_request (sim_next_seq s) smf cp ue gnb (sim_next_gnb_teid s)"
  let ?rsp = "build_session_establishment_response (sim_next_seq s) cp (next_seid U) (n3_addr U) [(1, next_teid U, n3_addr U)]"
  let ?d = "lifecycle_data ue (next_teid U) gnb cp" let ?a = "a\<lparr>as_sessions := (as_sessions a)(cp \<mapsto> ?d)\<rparr>"
  obtain st' where st': "serve_datagram (E\<lparr>env_now := lk_clock l\<rparr>) ?req src (lk_upf l) = (st', Some ?rsp)"
    and eff: "sessions (st_server st') = (sessions U)(next_seid U \<mapsto> ?d)" "registered src node (st_server st') ?a"
      "next_seid (st_server st') = next_seid U + 1" "next_teid (st_server st') = next_teid U + 1"
    using serve_basic [OF laws r(1) assms(4) a(5) [unfolded U_def], of smf cp ue gnb "sim_next_gnb_teid s"] unfolding U_def by blast
  let ?tr' = "tr\<lparr>tr_last_activity := lk_clock l + 1\<rparr>" and ?l' = "l\<lparr>lk_upf := st', lk_clock := lk_clock l + 1\<rparr>"
  let ?x = "\<lparr>ss_cp_seid = cp, ss_upf_seid = next_seid U, ss_upf_teid = next_teid U, ss_upf_n3_addr = n3_addr U, ss_ue_ip = ue,
    ss_gnb_teid = sim_next_gnb_teid s, ss_created_at = net_now (upf_net E src upf) ?l'\<rparr>"
  let ?s' = "s\<lparr>sim_next_seq := sim_next_seq s + 1, sim_next_ue_ip := sim_next_ue_ip s + 1, sim_next_gnb_teid := sim_next_gnb_teid s + 1,
    sim_next_cp_seid := cp + 1, sim_sessions := (sim_sessions s)(cp \<mapsto> ?x)\<rparr>"
  let ?es = "[SEvLog (SAddingUe ue), SEvLog (SSessionAdded ue (next_seid U)), SEvSessionsUpdated (order ((sim_sessions s)(cp \<mapsto> ?x)))]"
  have "send_and_recv (upf_net E src upf) tr ?req l = (?tr', ?l', Inr ?rsp)"
    by (rule link_send [OF basic_request_header [OF r(1)] a(1,2) answer_lengths(2) st'])
  moreover have "extract_session_info ?rsp = Inr (next_seid U, next_teid U, n3_addr U)"
    using r(1,3,4) by (rule extract_session_info_answer)
  ultimately have "add_session (upf_net E src upf) order smf gnb tr s l = ((?tr', ?s', ?l'), ?es, True)"
    using r(2) by (simp add: add_session_def next_seq_num_def alloc_ue_ip_def alloc_gnb_teid_def alloc_cp_seid_def
        cp_def [symmetric] ue_def [symmetric] Let_def)
  moreover have "matched ?s' (st_server st')" "fresh_ids ?s' (st_server st')"
    by (rule matched_add [OF a(3,4), where x = ?x and d = ?d];
        use r(5,6) eff in \<open>simp add: cp_def\<close>)+
  moreover have "listed ?s' ?a" using a(6) by (auto simp: listed_def)
  moreover have "room n ?s' (st_server st')"
    using assms(6) r unat_succ_le [of "sim_next_ue_ip s"] unfolding room_def eff(3,4) U_def [symmetric] cp_def
    by (simp add: unat_succ word_le_nat_alt unat_gt_0)
  moreover have "sim_book ?s' = add_spec (sim_book s)"
    by (auto simp: sim_book_def cp_def ue_def)
  moreover have "\<forall>e\<in>set ?es. \<not> failure e" by (simp add: failure_def)
  ultimately show ?thesis
    using a(1,2) eff(2) by (intro exI [of _ ?tr'] exI [of _ ?s'] exI [of _ ?l'] exI [of _ ?es]) (auto simp: in_sync_def)
qed

lemma adds_in_sync:
  assumes "env_laws E" "env_roomy E" "order_laws E" "is_v4 src" "in_sync src upf node w" "world_room (k + n) w"
  shows "\<exists>w' es. add_sessions k (upf_net E src upf) order smf gnb w = (w', es) \<and> in_sync src upf node w' \<and> world_room n w' \<and>
    sim_book (fst (snd w')) = (add_spec ^^ k) (sim_book (fst (snd w))) \<and> (\<forall>e\<in>set es. \<not> failure e)"
  using assms(5,6)
proof (induction k arbitrary: w)
  case (Suc k)
  obtain tr s l where w: "w = (tr, s, l)" by (cases w)
  obtain tr1 s1 l1 es1 where one: "add_session (upf_net E src upf) order smf gnb tr s l = ((tr1, s1, l1), es1, True)"
      "in_sync src upf node (tr1, s1, l1)" "room (k + n) s1 (st_server (lk_upf l1))" "sim_book s1 = add_spec (sim_book s)"
      "\<forall>e\<in>set es1. \<not> failure e"
    using add_in_sync [OF assms(1-4), of upf node tr s l "k + n" order smf gnb] Suc.prems by (auto simp: w)
  obtain w2 es2 where rest: "add_sessions k (upf_net E src upf) order smf gnb (tr1, s1, l1) = (w2, es2)" "in_sync src upf node w2"
      "world_room n w2" "sim_book (fst (snd w2)) = (add_spec ^^ k) (sim_book s1)" "\<forall>e\<in>set es2. \<not> failure e"
    using Suc.IH [OF one(2)] one(3) by auto
  with one show ?case by (auto simp: w funpow_swap1)
qed simp

lemma serve_deletion_server:
  assumes "order_laws E" "unat sq < 2 ^ 24" "is_v4 src" "registered src node (st_server st) a"
    and "sessions (st_server st) sid = Some d" "as_sessions a (sd_cp_seid d) \<noteq> None"
  shows "st_server (fst (serve_datagram E (deletion_request sid sq) src st)) =
    unregister_session node sid (sd_cp_seid d) (touch_activity (env_now E) (st_server st))"
proof -
  let ?srv = "touch_activity (env_now E) (st_server st)"
  obtain h where h: "pfcp_header_decode (deletion_request sid sq) = Inr (h, [])"
      "msg_type h = PFCP_SESSION_DELETION_REQ" "seid h = Some sid"
    using deletion_request_header [OF assms(2)] by blast
  have "check_ownership E ?srv src (sd_cp_seid d) = Inr node"
    by (rule registered_owner [OF assms(1,3)]) (use assms(4,6) in simp_all)
  with h assms(5) show ?thesis
    by (simp add: serve_datagram_state handle_message_def handle_session_deletion_def deletion_critical_def
        deletion_cleanup_def emit_def Let_def)
qed

lemma registered_unregister:
  assumes "registered src node srv a"
  shows "registered src node (unregister_session node sid cp srv) (a\<lparr>as_sessions := (as_sessions a)(cp := None)\<rparr>)"
    and "sessions (unregister_session node sid cp srv) = (sessions srv)(sid := None)"
    and "next_seid (unregister_session node sid cp srv) = next_seid srv" "next_teid (unregister_session node sid cp srv) = next_teid srv"
  using assms by (auto simp: registered_def unregister_session_def Let_def split: if_splits)

lemma del_in_sync:
  assumes "env_laws E" "order_laws E" "is_v4 src" "in_sync src upf node w" "world_room (Suc n) w"
  shows "\<exists>w' es. del_session (upf_net E src upf) order cp w = (w', es) \<and> in_sync src upf node w' \<and> world_room n w' \<and>
    sim_book (fst (snd w')) = command_spec (SimDelSession cp) (sim_book (fst (snd w))) \<and> (\<forall>e\<in>set es. \<not> failure e)"
proof -
  obtain tr s l where w: "w = (tr, s, l)" by (cases w)
  define U where "U = st_server (lk_upf l)"
  obtain a where a: "quiet l" "tr_ok upf tr" "matched s U" "fresh_ids s U" "registered src node U a" "listed s a"
    using assms(4) by (auto simp: in_sync_def U_def w)
  have sq: "unat (sim_next_seq s) < 2 ^ 24" and room: "room (Suc n) s U" using assms(5) by (simp_all add: room_def w U_def)
  show ?thesis
  proof (cases "sim_sessions s cp")
    case None
    with assms(4) room show ?thesis
      by (auto simp: del_session_def w failure_def sim_book_def room_def U_def)
  next
    case (Some x)
    obtain d where d: "sessions U (ss_upf_seid x) = Some d" "sd_cp_seid d = cp"
      using matchedD(1) [OF a(3) Some] by blast
    have own: "as_sessions a (sd_cp_seid d) \<noteq> None" using a(6) Some d(2) by (auto simp: listed_def)
    let ?E = "E\<lparr>env_now := lk_clock l\<rparr>" and ?req = "deletion_request (ss_upf_seid x) (sim_next_seq s)"
    let ?srv = "unregister_session node (ss_upf_seid x) cp (touch_activity (lk_clock l) U)"
    let ?a = "a\<lparr>as_sessions := (as_sessions a)(cp := None)\<rparr>" and ?s' = "s\<lparr>sim_next_seq := sim_next_seq s + 1, sim_sessions := (sim_sessions s)(cp := None)\<rparr>"
    obtain st' where st': "serve_datagram ?E ?req src (lk_upf l) = (st', Some (build_session_deletion_response (sim_next_seq s) (ss_upf_seid x)))"
      using serve_deletion [OF _ _ sq assms(3) a(5) [unfolded U_def] d(1) [unfolded U_def] own, of ?E] assms(1,2) by auto
    have srv: "st_server st' = ?srv"
      using serve_deletion_server [OF _ sq assms(3) a(5) [unfolded U_def] d(1) [unfolded U_def] own, of ?E] st' assms(2)
      by (simp add: d(2) U_def)
    have "\<exists>h. pfcp_header_decode ?req = Inr (h, []) \<and> msg_type h = PFCP_SESSION_DELETION_REQ \<and> seq_num h = sim_next_seq s"
      using deletion_request_header [OF sq] by blast
    note sent = link_send [OF this a(1,2) answer_lengths(4) st']
    have reg: "registered src node (touch_activity (lk_clock l) U) a" using a(5) by simp
    note u = registered_unregister [OF reg, of "ss_upf_seid x" cp]
    have "matched ?s' ?srv" "fresh_ids ?s' ?srv"
      by (rule matched_del [OF a(3,4) Some]; simp add: u)+
    moreover have "room n ?s' ?srv" using room sq by (simp add: room_def u unat_succ)
    moreover have "listed ?s' ?a" using a(6) by (auto simp: listed_def)
    ultimately show ?thesis
      using sent Some a(1,2) u(1) by (auto simp: del_session_def w next_seq_num_def in_sync_def srv failure_def sim_book_def Let_def)
  qed
qed

lemma command_in_sync:
  assumes "env_laws E" "env_roomy E" "order_laws E" "is_v4 src" "in_sync src upf node w" "world_room (requests cmd + n) w"
    and "cmd \<noteq> SimHeartbeat"
  shows "\<exists>w' es. handle_async_command (upf_net E src upf) order smf gnb cmd w = (w', es) \<and> in_sync src upf node w' \<and> world_room n w' \<and>
    sim_book (fst (snd w')) = command_spec cmd (sim_book (fst (snd w))) \<and> (\<forall>e\<in>set es. \<not> failure e)"
proof (cases cmd)
  case (SimAddSession count)
  with adds_in_sync [OF assms(1-5), of "unat count" n order smf gnb] assms(6) show ?thesis by (simp add: handle_async_command_def)
next
  case (SimDelSession cp)
  with del_in_sync [OF assms(1,3-5), of n order cp] assms(6) show ?thesis by (simp add: handle_async_command_def)
qed (use assms(5-7) in \<open>simp_all add: handle_async_command_def\<close>)

lemma commands_in_sync:
  assumes "env_laws E" "env_roomy E" "order_laws E" "is_v4 src"
    and "in_sync src upf node w" "world_room (sum_list (map requests cmds)) w" "SimHeartbeat \<notin> set cmds"
  shows "\<exists>w' es. run_commands (upf_net E src upf) order smf gnb cmds w = (w', es) \<and> in_sync src upf node w' \<and>
    sim_book (fst (snd w')) = fold command_spec cmds (sim_book (fst (snd w))) \<and> (\<forall>e\<in>set es. \<not> failure e)"
  using assms(5-)
proof (induction cmds arbitrary: w)
  case (Cons cmd cmds)
  obtain w1 es1 where one: "handle_async_command (upf_net E src upf) order smf gnb cmd w = (w1, es1)" "in_sync src upf node w1"
      "world_room (sum_list (map requests cmds)) w1" "sim_book (fst (snd w1)) = command_spec cmd (sim_book (fst (snd w)))"
      "\<forall>e\<in>set es1. \<not> failure e"
    using command_in_sync [OF assms(1-4) Cons.prems(1), of cmd "sum_list (map requests cmds)" order smf gnb] Cons.prems(2,3) by auto
  with Cons.IH [OF one(2,3)] Cons.prems(3) show ?case by fastforce
qed simp

section \<open>Properties\<close>

text \<open>
  C4: Simulator and UPF together refine one table. From an association without sessions, over a network
  that loses nothing, run any sequence of \<^verbatim>\<open>add session\<close>, \<^verbatim>\<open>del session\<close> and display commands, each to
  its end before the next, as long as addresses and identifiers last: no command fails; the simulator's sessions are, by CP SEID and UE
  address, those of the table that starts empty, gains the next CP SEID with the next address of the
  pool for every session added and loses the CP SEID that is deleted; the UPF holds exactly one session
  for each entry of the table and no other; and the SEID the simulator keeps for an entry is that of
  the UPF's session for it.
\<close>

theorem terminal_commands_refine_table:
  fixes s :: sim_state and l :: upf_link and smf :: ipv4
  assumes "env_laws E" "env_roomy E" "order_laws E" "is_v4 src" "quiet l" "tr_ok upf tr"
    and "registered src node (st_server (lk_upf l)) a" "sessions (st_server (lk_upf l)) = Map.empty" "sim_sessions s = Map.empty"
    and "room (sum_list (map requests cmds)) s (st_server (lk_upf l))" "SimHeartbeat \<notin> set cmds"
  defines "table \<equiv> fst (fold command_spec cmds (Map.empty, sim_next_cp_seid s, sim_next_ue_ip s))"
  shows "\<exists>tr' s' l' es. run_commands (upf_net E src upf) order smf gnb cmds (tr, s, l) = ((tr', s', l'), es) \<and>
    (\<forall>e\<in>set es. \<not> failure e) \<and> (\<forall>cp. map_option ss_ue_ip (sim_sessions s' cp) = table cp) \<and>
    (\<forall>cp ue. table cp = Some ue \<longleftrightarrow> (\<exists>!sid. \<exists>d. sessions (st_server (lk_upf l')) sid = Some d \<and> sd_cp_seid d = cp \<and> sd_ue_ip d = ue)) \<and>
    (\<forall>cp x. sim_sessions s' cp = Some x \<longrightarrow> (\<exists>d. sessions (st_server (lk_upf l')) (ss_upf_seid x) = Some d \<and> sd_cp_seid d = cp))"
proof -
  have "in_sync src upf node (tr, s, l)"
    using assms(5-9) by (auto simp: in_sync_def matched_def fresh_ids_def listed_def)
  moreover have "sim_book s = (Map.empty, sim_next_cp_seid s, sim_next_ue_ip s)"
    using assms(9) by (simp add: sim_book_def)
  ultimately obtain tr' s' l' es where run: "run_commands (upf_net E src upf) order smf gnb cmds (tr, s, l) = ((tr', s', l'), es)"
      "matched s' (st_server (lk_upf l'))" "fst (sim_book s') = table" "\<forall>e\<in>set es. \<not> failure e"
    using commands_in_sync [OF assms(1-4), of upf node "(tr, s, l)" cmds order smf gnb] assms(10,11)
    by (auto simp: in_sync_def table_def)
  have t: "map_option ss_ue_ip (sim_sessions s' cp) = table cp" for cp
    using run(3) by (auto simp: sim_book_def)
  have "table cp = Some ue \<longleftrightarrow> (\<exists>!sid. \<exists>d. sessions (st_server (lk_upf l')) sid = Some d \<and> sd_cp_seid d = cp \<and> sd_ue_ip d = ue)" for cp ue
  proof
    assume "table cp = Some ue"
    then obtain x where x: "sim_sessions s' cp = Some x" "ss_ue_ip x = ue" using t [of cp] by auto
    obtain d where d: "sessions (st_server (lk_upf l')) (ss_upf_seid x) = Some d" "sd_cp_seid d = cp" "sd_ue_ip d = ue"
      using matchedD(1) [OF run(2) x(1)] x(2) by blast
    have "sid = ss_upf_seid x" if "sessions (st_server (lk_upf l')) sid = Some e" "sd_cp_seid e = cp" for sid e
      using matchedD(2) [OF run(2) that(1)] that(2) x(1) by auto
    with d show "\<exists>!sid. \<exists>d. sessions (st_server (lk_upf l')) sid = Some d \<and> sd_cp_seid d = cp \<and> sd_ue_ip d = ue" by blast
  next
    assume "\<exists>!sid. \<exists>d. sessions (st_server (lk_upf l')) sid = Some d \<and> sd_cp_seid d = cp \<and> sd_ue_ip d = ue"
    then obtain sid d where d: "sessions (st_server (lk_upf l')) sid = Some d" "sd_cp_seid d = cp" "sd_ue_ip d = ue" by blast
    obtain x where x: "sim_sessions s' cp = Some x" "ss_upf_seid x = sid" using matchedD(2) [OF run(2) d(1)] d(2) by blast
    show "table cp = Some ue" using matchedD(1) [OF run(2) x(1)] x t [of cp] d by auto
  qed
  moreover have "\<exists>d. sessions (st_server (lk_upf l')) (ss_upf_seid x) = Some d \<and> sd_cp_seid d = cp" if "sim_sessions s' cp = Some x" for cp x
    using matchedD(1) [OF run(2) that] by blast
  ultimately show ?thesis
    by (intro exI [of _ tr'] exI [of _ s'] exI [of _ l'] exI [of _ es]) (use run(1,4) t in blast)
qed

text \<open>Two sessions added, the first deleted, one more added: the second and the third remain.\<close>

theorem terminal_commands_refine_table_witness:
  "\<exists>tr' s' l' es. run_commands (upf_net lifecycle_env demo_src demo_peer) (\<lambda>_. []) (Ipv4Addr 10 0 0 1) (Ipv4Addr 172 22 0 23)
      [SimAddSession 2, SimDelSession 1, SimAddSession 1]
      (transport_new 0 demo_peer default_response_timeout default_max_retries,
       sim_state_new 0 (cfg_session demo_config), (fresh_link [])\<lparr>lk_upf := demo_state\<rparr>) = ((tr', s', l'), es) \<and>
    dom (sim_sessions s') = {2, 3} \<and>
    (\<exists>!sid. \<exists>d. sessions (st_server (lk_upf l')) sid = Some d \<and> sd_cp_seid d = 3 \<and> sd_ue_ip d = Ipv4Addr 10 45 0 3)"
proof -
  let ?s = "sim_state_new 0 (cfg_session demo_config)" and ?l = "(fresh_link [])\<lparr>lk_upf := demo_state\<rparr>"
  let ?tr = "transport_new 0 demo_peer default_response_timeout default_max_retries"
  let ?cmds = "[SimAddSession 2, SimDelSession 1, SimAddSession 1]"
  have tr: "tr_ok demo_peer ?tr" and src: "is_v4 demo_src" and hb: "SimHeartbeat \<notin> set ?cmds"
    by (simp_all add: tr_ok_def transport_new_def)
  have v: "sim_next_seq ?s = 1" "sim_next_cp_seid ?s = 1" "sim_next_ue_ip ?s = 170721281" "sim_ue_ip_end ?s = 170721380"
      "sim_sessions ?s = Map.empty"
    by (simp_all add: sim_state_new_def demo_config_def u32_from_ip_def from_be_bytes_def)
  have r: "room (sum_list (map requests ?cmds)) ?s (st_server (lk_upf ?l))"
    unfolding room_def v demo_link_ready by simp
  have ip: "ip_from_u32 170721283 = Ipv4Addr 10 45 0 3"
    using ip_from_u32_from_ip [of "Ipv4Addr 10 45 0 3"] by (simp add: u32_from_ip_def from_be_bytes_def)
  define table where "table = fst (fold command_spec ?cmds (Map.empty, sim_next_cp_seid ?s, sim_next_ue_ip ?s))"
  have two: "(add_spec ^^ 2) b = add_spec (add_spec b)" for b by (simp add: numeral_2_eq_2)
  have t: "table = (Map.empty :: u64 \<rightharpoonup> ipv4)(2 \<mapsto> ip_from_u32 170721282, 3 \<mapsto> Ipv4Addr 10 45 0 3)"
    unfolding table_def v by (simp add: two ip fun_upd_twist)
  have table: "dom table = {2, 3}" "table 3 = Some (Ipv4Addr 10 45 0 3)"
    unfolding t by auto
  obtain tr' s' l' es where run: "run_commands (upf_net lifecycle_env demo_src demo_peer) (\<lambda>_. []) (Ipv4Addr 10 0 0 1) (Ipv4Addr 172 22 0 23)
      ?cmds (?tr, ?s, ?l) = ((tr', s', l'), es)" "\<forall>cp. map_option ss_ue_ip (sim_sessions s' cp) = table cp"
      "\<forall>cp ue. table cp = Some ue \<longleftrightarrow> (\<exists>!sid. \<exists>d. sessions (st_server (lk_upf l')) sid = Some d \<and> sd_cp_seid d = cp \<and> sd_ue_ip d = ue)"
    using terminal_commands_refine_table [OF lifecycle_env_ok src demo_link_ready(1) tr demo_link_ready(2,5) v(5) r hb, folded table_def,
        of "\<lambda>_. []" "Ipv4Addr 10 0 0 1" "Ipv4Addr 172 22 0 23"] by (elim exE conjE) (rule that)
  have "dom (sim_sessions s') = dom table"
    using run(2) [rule_format, symmetric] by (simp add: dom_def)
  with run(1,3) table show ?thesis by (intro exI conjI) (assumption, simp, blast)
qed

end
