(* ===== verification/Smf_Orphan.thy ===== *)
theory Smf_Orphan
  imports Smf_Pairing
begin

text \<open>
  What the manual heartbeat of the simulator's terminal does to the sessions it holds. The command
  sends the current time as its recovery time stamp, so the UPF takes every such heartbeat for a restart
  of the SMF and empties the association; the sessions themselves stay installed, and the requests for
  them are dropped without an answer until the transport gives up.
\<close>

section \<open>An association without sessions\<close>

definition orphaned :: "socket_addr \<Rightarrow> pfcp_server \<Rightarrow> bool" where
  "orphaned src srv \<longleftrightarrow> (\<forall>k b. associations srv k = Some b \<longrightarrow> as_peer_addr b = src \<longrightarrow> as_sessions b = Map.empty)"

lemma orphaned_touch [simp]: "orphaned src (touch_activity t srv) = orphaned src srv"
  by (simp add: orphaned_def)

lemma heartbeat_ts_decodes: "hbr_recovery_ts (heartbeat_req_decode (tlv PFCP_IE_RECOVERY_TIME_STAMP (to_be_bytes ts))) = Some ts"
  using recovery_ts.dec_enc [of ts] recovery_ts.iter_enc [of ts "[]"]
  by (simp add: heartbeat_req_decode_def find_ie_type_def raw_of_def)

lemma serve_restart_heartbeat:
  fixes st :: upf_state
  assumes "order_laws E" "is_v4 src" "unat sq < 2 ^ 24" "registered src node (st_server st) a" "as_recovery_ts a \<noteq> ts"
  shows "\<exists>st'. serve_datagram E (heartbeat_request sq ts) src st = (st', Some (build_heartbeat_response sq (srv_recovery_ts (st_server st)))) \<and>
    sessions (st_server st') = sessions (st_server st) \<and> st_maps st' = st_maps st \<and> orphaned src (st_server st')"
proof -
  let ?st = "st\<lparr>st_server := touch_activity (env_now E) (st_server st)\<rparr>"
  obtain h where h: "pfcp_header_decode (heartbeat_request sq ts) = Inr (h, tlv PFCP_IE_RECOVERY_TIME_STAMP (to_be_bytes ts))"
      "msg_type h = PFCP_HEARTBEAT_REQ" "seq_num h = sq"
    using heartbeat_request_header [OF assms(3)] by blast
  have fa: "find_association E (st_server ?st) src = Some (node, a)"
    by (rule registered_found [OF assms(1)]) (use assms(4) in simp)
  have "build_heartbeat_response sq t \<noteq> []" for t
    by (rule answer_nonempty [OF heartbeat_answer [OF assms(3)]])
  with h fa heartbeat_ts_decodes assms(2,4,5) show ?thesis
    by (auto simp: serve_datagram_def handle_message_def handle_heartbeat_def Let_def orphaned_def registered_def
        touch_activity_def)
qed

lemma serve_orphan_deletion:
  fixes st :: upf_state
  assumes "orphaned src (st_server st)" "unat sq < 2 ^ 24"
  shows "serve_datagram E (deletion_request sid sq) src st =
    (st\<lparr>st_server := touch_activity (env_now E) (st_server st)\<rparr>, None)"
proof -
  let ?st = "st\<lparr>st_server := touch_activity (env_now E) (st_server st)\<rparr>"
  obtain h where h: "pfcp_header_decode (deletion_request sid sq) = Inr (h, [])" "msg_type h = PFCP_SESSION_DELETION_REQ"
      "seid h = Some sid"
    using deletion_request_header [OF assms(2)] by blast
  have "\<exists>e. handle_session_deletion E (h\<lparr>seid := Some sid\<rparr>) [] src ?st = (?st, Inl e)"
    by (rule delete.foreign_source) (use assms(1) in \<open>auto simp: orphaned_def\<close>)
  moreover have "h\<lparr>seid := Some sid\<rparr> = h" using h(3) by simp
  ultimately show ?thesis using h by (auto simp: serve_datagram_def handle_message_def)
qed

lemma heartbeat_answer_length: "length (build_heartbeat_response sq ts) \<le> 4096"
  by (simp add: build_heartbeat_response_def mb_finish_def add_recovery_timestamp_def append_ie_tlv
      length_pfcp_header_encode header_len_def Let_def)

section \<open>A request that is never answered\<close>

text \<open>
  The UPF refuses the request in every state that satisfies \<open>P\<close> and stays in \<open>P\<close>: all attempts time out.
\<close>

lemma attempts_unanswered:
  fixes l :: upf_link
  assumes "\<And>now st. P st \<Longrightarrow> \<exists>st'. serve_datagram (E\<lparr>env_now := now\<rparr>) req smf st = (st', None) \<and> P st'"
    and "tr_ok upf tr" "quiet l" "P (lk_upf l)" "n = 0 \<longrightarrow> err = Some TimedOut"
  shows "\<exists>l'. attempt_loop (upf_net E smf upf) tr req t n err l = (tr, l', Inl TimedOut) \<and> P (lk_upf l') \<and> quiet l' \<and>
    lk_clock l' = lk_clock l + n * tr_response_timeout tr"
  using assms(3-5)
proof (induction n arbitrary: l err)
  case (Suc n)
  obtain st' where st': "serve_datagram (E\<lparr>env_now := lk_clock l\<rparr>) req smf (lk_upf l) = (st', None)" "P st'"
    using assms(1) [OF Suc.prems(2)] by blast
  let ?l = "l\<lparr>lk_upf := st'\<rparr>"
  let ?l2 = "?l\<lparr>lk_clock := lk_clock l + tr_response_timeout tr\<rparr>"
  have s: "net_send (upf_net E smf upf) l (tr_peer_addr tr) req = (?l, True)"
    using upf_net_send [OF st'(1)] assms(2) by (simp add: deliver_def tr_ok_def)
  have rl: "recv_loop (upf_net E smf upf) t (lk_clock l + tr_response_timeout tr) ?l = Some (?l2, Inl TimedOut)"
    using assms(2) Suc.prems(1) by (subst recv_loop.simps) (simp add: upf_net_recv(1) quiet_def tr_ok_def)
  have "quiet ?l2" "P (lk_upf ?l2)" using Suc.prems(1) st'(2) by (simp_all add: quiet_def)
  from Suc.IH [OF this, of "Some TimedOut"] s rl show ?case by (auto simp: add.assoc)
qed simp

lemma link_unanswered:
  fixes l :: upf_link
  assumes "\<And>now st. P st \<Longrightarrow> \<exists>st'. serve_datagram (E\<lparr>env_now := now\<rparr>) req smf st = (st', None) \<and> P st'"
    and "tr_ok upf tr" "quiet l" "P (lk_upf l)" "pfcp_header_decode req = Inr hb"
  shows "\<exists>l'. send_and_recv (upf_net E smf upf) tr req l = (tr, l', Inl TimedOut) \<and> P (lk_upf l') \<and> quiet l' \<and>
    lk_clock l' = lk_clock l + (unat (tr_max_retries tr) + 1) * tr_response_timeout tr"
  using attempts_unanswered [OF assms(1-4), of "unat (tr_max_retries tr) + 1" None] assms(5)
  by (cases hb) (simp add: send_and_recv_def del: attempt_loop.simps)

text \<open>Any number of \<^verbatim>\<open>del session\<close> commands while the association lists no session.\<close>

lemma orphan_deletions:
  fixes E :: upf_env and src upf :: socket_addr and S :: "u64 \<rightharpoonup> session_data" and M :: bpf_maps
  defines "P \<equiv> \<lambda>st. orphaned src (st_server st) \<and> sessions (st_server st) = S \<and> st_maps st = M"
  assumes "tr_ok upf tr" "quiet l" "P (lk_upf l)" "set cps \<subseteq> dom (sim_sessions s)" "unat (sim_next_seq s) + length cps < 2 ^ 24"
  shows "\<exists>s' l'. run_commands (upf_net E src upf) order smf gnb (map SimDelSession cps) (tr, s, l) =
      ((tr, s', l'), replicate (length cps) (SEvLog (SDeleteFailed TimedOut))) \<and>
    sim_sessions s' = sim_sessions s \<and> P (lk_upf l') \<and>
    lk_clock l' = lk_clock l + length cps * ((unat (tr_max_retries tr) + 1) * tr_response_timeout tr)"
  using assms(3-)
proof (induction cps arbitrary: s l)
  case (Cons cp cps)
  obtain session where session: "sim_sessions s cp = Some session" using Cons.prems(3) by auto
  let ?sq = "sim_next_seq s" and ?s = "s\<lparr>sim_next_seq := sim_next_seq s + 1\<rparr>"
  let ?req = "deletion_request (ss_upf_seid session) ?sq"
  have sq: "unat ?sq < 2 ^ 24" "unat (?sq + 1) = unat ?sq + 1" using Cons.prems(4) by (simp_all add: unat_word_ariths)
  have "\<exists>st'. serve_datagram (E\<lparr>env_now := now\<rparr>) ?req src st = (st', None) \<and> P st'" if "P st" for now st
    using serve_orphan_deletion [OF _ sq(1), of src st "E\<lparr>env_now := now\<rparr>"] that by (simp add: P_def)
  moreover obtain h where "pfcp_header_decode ?req = Inr (h, [])" using deletion_request_header [OF sq(1)] by blast
  ultimately obtain l1 where l1: "send_and_recv (upf_net E src upf) tr ?req l = (tr, l1, Inl TimedOut)" "P (lk_upf l1)" "quiet l1"
      "lk_clock l1 = lk_clock l + (unat (tr_max_retries tr) + 1) * tr_response_timeout tr"
    using link_unanswered [of P E ?req src upf tr l] assms(2) Cons.prems(1,2) by blast
  have del: "handle_async_command (upf_net E src upf) order smf gnb (SimDelSession cp) (tr, s, l) =
      ((tr, ?s, l1), [SEvLog (SDeleteFailed TimedOut)])"
    using l1(1) session by (simp add: handle_async_command_def del_session_def next_seq_num_def)
  obtain s' l' where "run_commands (upf_net E src upf) order smf gnb (map SimDelSession cps) (tr, ?s, l1) =
        ((tr, s', l'), replicate (length cps) (SEvLog (SDeleteFailed TimedOut)))" "sim_sessions s' = sim_sessions ?s" "P (lk_upf l')"
      "lk_clock l' = lk_clock l1 + length cps * ((unat (tr_max_retries tr) + 1) * tr_response_timeout tr)"
    using Cons.IH [OF l1(3,2), of ?s] Cons.prems(3,4) sq(2) by auto
  with del l1(4) show ?case by (intro exI [of _ s'] exI [of _ l']) (simp add: algebra_simps)
qed simp

section \<open>Properties\<close>

text \<open>
  C35: The command \<^verbatim>\<open>heartbeat\<close> of the simulator's terminal, given at another second than the one that the
  association was set up at, is answered and shown as successful, and it costs the simulator the sessions
  it holds then: of the \<^verbatim>\<open>del session\<close> commands that follow, for these sessions in any number and order,
  each is sent \<open>max_retries + 1\<close> times and never answered, and the terminal reports a timeout after as
  many response timeouts. Afterwards both sides still hold every session, and the maps of the data path
  are as they were. (This lasts until a session is added again, which the association then lists.)
\<close>

theorem manual_heartbeat_orphans_sessions:
  fixes E :: upf_env and src upf :: socket_addr and s :: sim_state and l :: upf_link
  defines "N \<equiv> upf_net E src upf"
  assumes "order_laws E" "is_v4 src" "quiet l" "tr_ok upf tr" "registered src node (st_server (lk_upf l)) a"
    and "as_recovery_ts a \<noteq> ucast (net_unix N l) + 2208988800"
    and "unat (sim_next_seq s) + 1 + length cps < 2 ^ 24" "set cps \<subseteq> dom (sim_sessions s)"
  shows "\<exists>tr1 s1 l1 s2 l2.
    handle_async_command N order smf gnb SimHeartbeat (tr, s, l) = ((tr1, s1, l1), [SEvLog SHeartbeatOk, SEvHeartbeatUpdated]) \<and>
    run_commands N order smf gnb (map SimDelSession cps) (tr1, s1, l1) =
      ((tr1, s2, l2), replicate (length cps) (SEvLog (SDeleteFailed TimedOut))) \<and>
    lk_clock l2 = lk_clock l1 + length cps * ((unat (tr_max_retries tr) + 1) * tr_response_timeout tr) \<and>
    sim_sessions s2 = sim_sessions s \<and>
    sessions (st_server (lk_upf l2)) = sessions (st_server (lk_upf l)) \<and> st_maps (lk_upf l2) = st_maps (lk_upf l)"
proof -
  let ?sq = "sim_next_seq s" and ?ts = "ucast (net_unix N l) + 2208988800" and ?s = "s\<lparr>sim_next_seq := sim_next_seq s + 1\<rparr>"
  have sq: "unat ?sq < 2 ^ 24" "unat (?sq + 1) = unat ?sq + 1"
    using assms(8) by (simp_all add: unat_word_ariths)
  obtain st1 where st1: "serve_datagram (E\<lparr>env_now := lk_clock l\<rparr>) (heartbeat_request ?sq ?ts) src (lk_upf l) =
      (st1, Some (build_heartbeat_response ?sq (srv_recovery_ts (st_server (lk_upf l)))))"
    and eff: "sessions (st_server st1) = sessions (st_server (lk_upf l))" "st_maps st1 = st_maps (lk_upf l)" "orphaned src (st_server st1)"
    using serve_restart_heartbeat [OF _ assms(3) sq(1) assms(6,7), of "E\<lparr>env_now := lk_clock l\<rparr>"] assms(2) by auto
  let ?l1 = "l\<lparr>lk_upf := st1, lk_clock := lk_clock l + 1\<rparr>" and ?tr1 = "tr\<lparr>tr_last_activity := lk_clock l + 1\<rparr>"
  have hd: "\<exists>h. pfcp_header_decode (heartbeat_request ?sq ?ts) = Inr (h, tlv PFCP_IE_RECOVERY_TIME_STAMP (to_be_bytes (?ts :: u32))) \<and>
      msg_type h = PFCP_HEARTBEAT_REQ \<and> seq_num h = ?sq"
    using heartbeat_request_header [OF sq(1), of ?ts] by auto
  have hb: "handle_async_command N order smf gnb SimHeartbeat (tr, s, l) =
      ((?tr1, ?s, ?l1), [SEvLog SHeartbeatOk, SEvHeartbeatUpdated])"
    using link_send [OF hd assms(4,5) heartbeat_answer_length st1]
    by (simp add: handle_async_command_def tui_heartbeat_def next_seq_num_def N_def)
  have "tr_ok upf ?tr1" "quiet ?l1" "set cps \<subseteq> dom (sim_sessions ?s)" "unat (sim_next_seq ?s) + length cps < 2 ^ 24"
    using assms(4,5,8,9) sq(2) by (simp_all add: tr_ok_def quiet_def)
  from orphan_deletions [OF this(1,2) _ this(3,4), of src "sessions (st_server (lk_upf l))" "st_maps (lk_upf l)" E order smf gnb] eff hb
  show ?thesis unfolding N_def by auto
qed

text \<open>The association dates from NTP second 77, the heartbeat from the Unix epoch.\<close>

theorem manual_heartbeat_orphans_sessions_witness:
  "\<exists>st1 st2 l2. handle_async_command (upf_net lifecycle_env demo_src demo_peer) (\<lambda>_. []) (Ipv4Addr 10 0 0 1) (Ipv4Addr 172 22 0 23)
      SimHeartbeat (transport_new 0 demo_peer default_response_timeout default_max_retries,
       (sim_state_new 0 (cfg_session demo_config))\<lparr>sim_sessions := [5 \<mapsto> demo_sim_session 5 1]\<rparr>,
       (fresh_link [])\<lparr>lk_upf := demo_state1\<rparr>) = (st1, [SEvLog SHeartbeatOk, SEvHeartbeatUpdated]) \<and>
    run_commands (upf_net lifecycle_env demo_src demo_peer) (\<lambda>_. []) (Ipv4Addr 10 0 0 1) (Ipv4Addr 172 22 0 23)
      [SimDelSession 5, SimDelSession 5] st1 =
        ((fst st1, st2, l2), [SEvLog (SDeleteFailed TimedOut), SEvLog (SDeleteFailed TimedOut)]) \<and>
    sessions (st_server (lk_upf l2)) 1 = Some demo_data"
proof -
  let ?s = "(sim_state_new 0 (cfg_session demo_config))\<lparr>sim_sessions := [5 \<mapsto> demo_sim_session 5 1]\<rparr>"
  let ?l = "(fresh_link [])\<lparr>lk_upf := demo_state1\<rparr>" and ?tr = "transport_new 0 demo_peer default_response_timeout default_max_retries"
  let ?a = "demo_smf\<lparr>as_sessions := [5 \<mapsto> demo_data]\<rparr>" and ?N = "upf_net lifecycle_env demo_src demo_peer"
  have a: "registered demo_src (Ipv4Addr 10 0 0 1) (st_server (lk_upf ?l)) ?a" "sessions (st_server (lk_upf ?l)) 1 = Some demo_data"
    by (simp_all add: demo_state1_def demo_state_def demo_smf_def smf_association_new_def registered_def demo_data_def)
  have h: "quiet ?l" "tr_ok demo_peer ?tr" "unat (sim_next_seq ?s) + 1 + length [5, 5 :: u64] < 2 ^ 24"
      "set [5, 5] \<subseteq> dom (sim_sessions ?s)"
    by (simp_all add: quiet_def fresh_link_def tr_ok_def transport_new_def sim_state_new_def)
  have t: "as_recovery_ts ?a \<noteq> ucast (net_unix ?N ?l) + 2208988800"
    by (simp add: upf_net_def fresh_link_def demo_smf_def smf_association_new_def)
  show ?thesis
    using manual_heartbeat_orphans_sessions [OF lifecycle_env_ok(3) _ h(1,2) a(1) t h(3,4), of "\<lambda>_. []" "Ipv4Addr 10 0 0 1"
        "Ipv4Addr 172 22 0 23"] a(2) by (auto simp: numeral_2_eq_2)
qed

end
