(* ===== verification/Smf_Shared.thy ===== *)
theory Smf_Shared
  imports Smf_Tui
begin

text \<open>
  The commands of the simulator's terminal as they run: every command is a task of its own
  (\<^verbatim>\<open>spawn_local\<close> in src/smf-sim/src/tui/runner.rs), and all of them send and receive on one socket. A
  task is split at its await points; a schedule says which task goes on next. \<open>Smf_Tui\<close> runs each command
  to its end; the first part shows that its results are those of one schedule, the second what another
  schedule of the same commands does.
\<close>

section \<open>One request in progress\<close>

text \<open>
  Where a call of \<^verbatim>\<open>send_and_recv\<close> stands: about to send (the attempts left, the last error), waiting for
  the response until a deadline, or finished.
\<close>

datatype call_pc = ToSend nat "sim_error option" | Awaiting nat instant | Returned "sim_error + bytes"

record call =
  ca_msg :: bytes
  ca_expected :: u8
  ca_pc :: call_pc

definition call_start :: "pfcp_transport \<Rightarrow> bytes \<Rightarrow> call" where
  "call_start tr msg =
     (case pfcp_header_decode msg of
        Inl e \<Rightarrow> \<lparr>ca_msg = msg, ca_expected = 0, ca_pc = Returned (Inl (DecodeFailed e))\<rparr>
      | Inr (hdr, body) \<Rightarrow>
          \<lparr>ca_msg = msg, ca_expected = msg_type hdr + 1, ca_pc = ToSend (unat (tr_max_retries tr) + 1) None\<rparr>)"

text \<open>A datagram that one waiting call has taken from the socket.\<close>

definition call_datagram :: "'p net \<Rightarrow> socket_addr \<Rightarrow> bytes \<Rightarrow> call \<Rightarrow> pfcp_transport \<Rightarrow> 'p \<Rightarrow> call \<times> pfcp_transport \<times> 'p" where
  "call_datagram N src data c tr p =
     (let buf = take 4096 data in
      case pfcp_header_decode buf of
        Inl e \<Rightarrow> (c, tr, p)
      | Inr (hdr, body) \<Rightarrow>
          if msg_type hdr = ca_expected c
          then (c\<lparr>ca_pc := Returned (Inr buf)\<rparr>, tr\<lparr>tr_last_activity := net_now N p\<rparr>, p)
          else (c, tr, answer_unsolicited N src buf p))"

text \<open>The next step of a call; \<open>None\<close> when it is blocked or finished.\<close>

definition call_run :: "'p net \<Rightarrow> call \<Rightarrow> pfcp_transport \<Rightarrow> 'p \<Rightarrow> (call \<times> pfcp_transport \<times> 'p) option" where
  "call_run N c tr p =
     (case ca_pc c of
        ToSend 0 err \<Rightarrow> Some (c\<lparr>ca_pc := Returned (Inl (case err of None \<Rightarrow> NoLastError | Some e \<Rightarrow> e))\<rparr>, tr, p)
      | ToSend (Suc n) err \<Rightarrow>
          (case net_send N p (tr_peer_addr tr) (ca_msg c) of
             (p1, False) \<Rightarrow> Some (c\<lparr>ca_pc := Returned (Inl SendFailed)\<rparr>, tr, p1)
           | (p1, True) \<Rightarrow> Some (c\<lparr>ca_pc := Awaiting n (net_now N p1 + tr_response_timeout tr)\<rparr>, tr, p1))
      | Awaiting n deadline \<Rightarrow>
          if deadline \<le> net_now N p then Some (c\<lparr>ca_pc := ToSend n (Some TimedOut)\<rparr>, tr, p)
          else (case net_recv N p (deadline - net_now N p) of
             (p1, Elapsed) \<Rightarrow> None
           | (p1, RecvErr) \<Rightarrow> Some (c\<lparr>ca_pc := ToSend n (Some RecvFailed)\<rparr>, tr, p1)
           | (p1, Got src data) \<Rightarrow> Some (call_datagram N src data c tr p1))
      | Returned r \<Rightarrow> None)"

section \<open>The commands as tasks\<close>

datatype job =
  AddNext nat
| AddWait nat ipv4 u32 u64 call
| DelStart u64
| DelWait u64 u32 call
| HbStart
| HbWait call
| JobDone

definition job_of :: "sim_command \<Rightarrow> job" where
  "job_of cmd =
     (case cmd of
        SimAddSession count \<Rightarrow> AddNext (unat count)
      | SimDelSession sid \<Rightarrow> DelStart sid
      | SimHeartbeat \<Rightarrow> HbStart
      | _ \<Rightarrow> JobDone)"

text \<open>What a command does before its request and after the call has returned.\<close>

definition add_begin :: "ipv4 \<Rightarrow> ipv4 \<Rightarrow> nat \<Rightarrow> pfcp_transport \<Rightarrow> sim_state \<Rightarrow> sim_state \<times> job \<times> sim_app_event list" where
  "add_begin smf_addr gnb_addr n tr s =
     (let (s1, sq) = next_seq_num s in
      case alloc_ue_ip s1 of
        (s2, Inl e) \<Rightarrow> (s2, JobDone, [SEvLog (SPoolFailed e)])
      | (s2, Inr ue_ip) \<Rightarrow>
         (let (s3, gnb_teid) = alloc_gnb_teid s2; (s4, cp_seid) = alloc_cp_seid s3;
              req = build_session_establishment_request sq smf_addr cp_seid ue_ip gnb_addr gnb_teid
          in (s4, AddWait n ue_ip gnb_teid cp_seid (call_start tr req), [SEvLog (SAddingUe ue_ip)])))"

definition add_end :: "((u64 \<rightharpoonup> sim_session) \<Rightarrow> sim_session list) \<Rightarrow> instant \<Rightarrow> ipv4 \<Rightarrow> u32 \<Rightarrow> u64 \<Rightarrow> sim_error + bytes \<Rightarrow> sim_state
    \<Rightarrow> sim_state \<times> sim_app_event list" where
  "add_end order now ue_ip gnb_teid cp_seid r s =
     (let (s5, line) =
        (case r of
           Inl e \<Rightarrow> (s, SAddFailed e)
         | Inr rsp \<Rightarrow>
            (case extract_session_info rsp of
               Inl e \<Rightarrow> (s, SExtractFailed e)
             | Inr (upf_seid, upf_teid, upf_n3_addr) \<Rightarrow>
                (s\<lparr>sim_sessions := (sim_sessions s)(cp_seid \<mapsto>
                   \<lparr>ss_cp_seid = cp_seid, ss_upf_seid = upf_seid, ss_upf_teid = upf_teid,
                    ss_upf_n3_addr = upf_n3_addr, ss_ue_ip = ue_ip, ss_gnb_teid = gnb_teid,
                    ss_created_at = now\<rparr>)\<rparr>, SSessionAdded ue_ip upf_seid)))
      in (s5, [SEvLog line, SEvSessionsUpdated (order (sim_sessions s5))]))"

definition del_begin :: "u64 \<Rightarrow> pfcp_transport \<Rightarrow> sim_state \<Rightarrow> sim_state \<times> job \<times> sim_app_event list" where
  "del_begin sid tr s =
     (case map_option ss_upf_seid (sim_sessions s sid) of
        None \<Rightarrow> (s, JobDone, [SEvLog (SNoSuchSession sid)])
      | Some upf_seid \<Rightarrow>
         (let (s1, sq) = next_seq_num s in (s1, DelWait sid sq (call_start tr (deletion_request upf_seid sq)), [])))"

definition del_end :: "((u64 \<rightharpoonup> sim_session) \<Rightarrow> sim_session list) \<Rightarrow> u64 \<Rightarrow> u32 \<Rightarrow> sim_error + bytes \<Rightarrow> sim_state
    \<Rightarrow> sim_state \<times> sim_app_event list" where
  "del_end order sid sq r s =
     (case r of
        Inl e \<Rightarrow> (s, [SEvLog (SDeleteFailed e)])
      | Inr rsp \<Rightarrow>
         (let ignored = validate_response PFCP_SESSION_DELETION_REQ sq rsp;
              s2 = s\<lparr>sim_sessions := (sim_sessions s)(sid := None)\<rparr>
          in (s2, [SEvSessionsUpdated (order (sim_sessions s2)), SEvLog (SSessionDeleted sid)])))"

definition hb_begin :: "u64 \<Rightarrow> pfcp_transport \<Rightarrow> sim_state \<Rightarrow> sim_state \<times> job \<times> sim_app_event list" where
  "hb_begin unix_secs tr s =
     (let (s1, sq) = next_seq_num s in (s1, HbWait (call_start tr (heartbeat_request sq (ucast unix_secs + 2208988800))), []))"

definition hb_end :: "sim_error + bytes \<Rightarrow> sim_app_event list" where
  "hb_end r = (case r of Inr rsp \<Rightarrow> [SEvLog SHeartbeatOk, SEvHeartbeatUpdated] | Inl e \<Rightarrow> [SEvLog (SHeartbeatFailed e)])"

type_synonym 'p sim_world = "pfcp_transport \<times> sim_state \<times> 'p"

text \<open>A task that waits goes on with its call, and with the rest of the command once the call has returned.\<close>

definition wait_run :: "'p net \<Rightarrow> (call \<Rightarrow> job) \<Rightarrow> (sim_error + bytes \<Rightarrow> sim_state \<Rightarrow> job \<times> sim_state \<times> sim_app_event list) \<Rightarrow> call
    \<Rightarrow> 'p sim_world \<Rightarrow> (job \<times> 'p sim_world \<times> sim_app_event list) option" where
  "wait_run N wait rest c w =
     (case w of (tr, s, p) \<Rightarrow>
      case ca_pc c of
        Returned r \<Rightarrow> (case rest r s of (j, s', es) \<Rightarrow> Some (j, (tr, s', p), es))
      | _ \<Rightarrow> map_option (\<lambda>(c', tr', p'). (wait c', (tr', s, p'), [])) (call_run N c tr p))"

definition job_run :: "'p net \<Rightarrow> ((u64 \<rightharpoonup> sim_session) \<Rightarrow> sim_session list) \<Rightarrow> ipv4 \<Rightarrow> ipv4 \<Rightarrow> job \<Rightarrow> 'p sim_world
    \<Rightarrow> (job \<times> 'p sim_world \<times> sim_app_event list) option" where
  "job_run N order smf_addr gnb_addr j w =
     (case w of (tr, s, p) \<Rightarrow>
      case j of
        AddNext 0 \<Rightarrow> Some (JobDone, w, [])
      | AddNext (Suc n) \<Rightarrow> (case add_begin smf_addr gnb_addr n tr s of (s', j', es) \<Rightarrow> Some (j', (tr, s', p), es))
      | AddWait n ue_ip gnb_teid cp_seid c \<Rightarrow>
          wait_run N (AddWait n ue_ip gnb_teid cp_seid) (\<lambda>r s. (AddNext n, add_end order (net_now N p) ue_ip gnb_teid cp_seid r s)) c w
      | DelStart sid \<Rightarrow> (case del_begin sid tr s of (s', j', es) \<Rightarrow> Some (j', (tr, s', p), es))
      | DelWait sid sq c \<Rightarrow> wait_run N (DelWait sid sq) (\<lambda>r s. (JobDone, del_end order sid sq r s)) c w
      | HbStart \<Rightarrow> (case hb_begin (net_unix N p) tr s of (s', j', es) \<Rightarrow> Some (j', (tr, s', p), es))
      | HbWait c \<Rightarrow> wait_run N HbWait (\<lambda>r s. (JobDone, s, hb_end r)) c w
      | JobDone \<Rightarrow> None)"

section \<open>Schedules\<close>

datatype action = Command sim_command | Run nat | Pass nat

record 'p shared =
  sh_world :: "'p sim_world"
  sh_jobs :: "job list"
  sh_events :: "sim_app_event list"

definition act :: "'p net \<Rightarrow> ((u64 \<rightharpoonup> sim_session) \<Rightarrow> sim_session list) \<Rightarrow> ipv4 \<Rightarrow> ipv4 \<Rightarrow> action \<Rightarrow> 'p shared \<Rightarrow> 'p shared option" where
  "act N order smf_addr gnb_addr a S =
     (case a of
        Command cmd \<Rightarrow> Some (S\<lparr>sh_jobs := sh_jobs S @ [job_of cmd]\<rparr>)
      | Run i \<Rightarrow>
          if i < length (sh_jobs S)
          then map_option (\<lambda>(j, w, es). S\<lparr>sh_world := w, sh_jobs := (sh_jobs S)[i := j], sh_events := sh_events S @ es\<rparr>)
                 (job_run N order smf_addr gnb_addr (sh_jobs S ! i) (sh_world S))
          else None
      | Pass dt \<Rightarrow> (case sh_world S of (tr, s, p) \<Rightarrow> Some (S\<lparr>sh_world := (tr, s, net_sleep N p dt)\<rparr>)))"

primrec run_schedule :: "'p net \<Rightarrow> ((u64 \<rightharpoonup> sim_session) \<Rightarrow> sim_session list) \<Rightarrow> ipv4 \<Rightarrow> ipv4 \<Rightarrow> action list \<Rightarrow> 'p shared \<Rightarrow> 'p shared option" where
  "run_schedule N order smf_addr gnb_addr [] S = Some S"
| "run_schedule N order smf_addr gnb_addr (a # as) S =
     Option.bind (act N order smf_addr gnb_addr a S) (run_schedule N order smf_addr gnb_addr as)"

lemma run_schedule_append:
  "run_schedule N order smf gnb (as @ bs) S = Option.bind (run_schedule N order smf gnb as S) (run_schedule N order smf gnb bs)"
  by (induction as arbitrary: S) (simp_all split: bind_split)

section \<open>Running one task alone\<close>

text \<open>
  The steps of one call, and of one task, while no other task runs; time may pass in between.
\<close>

inductive call_runs :: "'p net \<Rightarrow> call \<Rightarrow> pfcp_transport \<Rightarrow> 'p \<Rightarrow> call \<Rightarrow> pfcp_transport \<Rightarrow> 'p \<Rightarrow> bool" for N where
  stay: "call_runs N c tr p c tr p"
| step: "call_run N c tr p = Some (c1, tr1, p1) \<Longrightarrow> call_runs N c1 tr1 p1 c2 tr2 p2 \<Longrightarrow> call_runs N c tr p c2 tr2 p2"
| pass: "call_runs N c tr (net_sleep N p dt) c2 tr2 p2 \<Longrightarrow> call_runs N c tr p c2 tr2 p2"

inductive job_runs :: "'p net \<Rightarrow> ((u64 \<rightharpoonup> sim_session) \<Rightarrow> sim_session list) \<Rightarrow> ipv4 \<Rightarrow> ipv4 \<Rightarrow> job \<Rightarrow> 'p sim_world \<Rightarrow> job \<Rightarrow> 'p sim_world
    \<Rightarrow> sim_app_event list \<Rightarrow> bool" for N order smf gnb where
  stay: "job_runs N order smf gnb j w j w []"
| step: "job_run N order smf gnb j w = Some (j1, w1, es) \<Longrightarrow> job_runs N order smf gnb j1 w1 j2 w2 es' \<Longrightarrow>
    job_runs N order smf gnb j w j2 w2 (es @ es')"
| pass: "job_runs N order smf gnb j (tr, s, net_sleep N p dt) j2 w2 es \<Longrightarrow> job_runs N order smf gnb j (tr, s, p) j2 w2 es"

lemma call_runs_trans: "call_runs N c tr p c1 tr1 p1 \<Longrightarrow> call_runs N c1 tr1 p1 c2 tr2 p2 \<Longrightarrow> call_runs N c tr p c2 tr2 p2"
  by (induction rule: call_runs.induct) (auto intro: call_runs.intros)

lemma job_runs_trans:
  "job_runs N order smf gnb j w j1 w1 es \<Longrightarrow> job_runs N order smf gnb j1 w1 j2 w2 es' \<Longrightarrow> job_runs N order smf gnb j w j2 w2 (es @ es')"
  by (induction rule: job_runs.induct) (auto intro: job_runs.intros)

lemma job_runs_schedule:
  assumes "job_runs N order smf gnb j w j' w' es" "i < length (sh_jobs S)" "sh_jobs S ! i = j" "sh_world S = w"
  shows "\<exists>as. run_schedule N order smf gnb as S =
    Some (S\<lparr>sh_world := w', sh_jobs := (sh_jobs S)[i := j'], sh_events := sh_events S @ es\<rparr>)"
  using assms
proof (induction arbitrary: S rule: job_runs.induct)
  case (stay j w)
  then show ?case by (intro exI [of _ "[]"]) auto
next
  case (step j w j1 w1 es j2 w2 es')
  let ?S = "S\<lparr>sh_world := w1, sh_jobs := (sh_jobs S)[i := j1], sh_events := sh_events S @ es\<rparr>"
  obtain as where as: "run_schedule N order smf gnb as ?S =
      Some (?S\<lparr>sh_world := w2, sh_jobs := (sh_jobs ?S)[i := j2], sh_events := sh_events ?S @ es'\<rparr>)"
    using step.IH [of ?S] step.prems by auto
  have "act N order smf gnb (Run i) S = Some ?S"
    using step by (simp add: act_def)
  with as show ?case by (intro exI [of _ "Run i # as"]) simp
next
  case (pass j tr s p dt j2 w2 es)
  let ?S = "S\<lparr>sh_world := (tr, s, net_sleep N p dt)\<rparr>"
  obtain as where as: "run_schedule N order smf gnb as ?S =
      Some (?S\<lparr>sh_world := w2, sh_jobs := (sh_jobs ?S)[i := j2], sh_events := sh_events ?S @ es\<rparr>)"
    using pass.IH [of ?S] pass.prems by auto
  have "act N order smf gnb (Pass dt) S = Some ?S"
    using pass.prems by (simp add: act_def)
  with as show ?case by (intro exI [of _ "Pass dt # as"]) simp
qed

lemma wait_runs:
  assumes "call_runs N c tr p c' tr' p'" "ca_pc c' = Returned r" "rest p' r s = (j, s', es)"
    and run: "\<And>c tr p. job_run N order smf gnb (wait c) (tr, s, p) = wait_run N wait (rest p) c (tr, s, p)"
  shows "job_runs N order smf gnb (wait c) (tr, s, p) j (tr', s', p') es"
  using assms(1-3)
proof (induction rule: call_runs.induct)
  case (stay c tr p)
  then have "job_run N order smf gnb (wait c) (tr, s, p) = Some (j, (tr, s', p), es)" by (simp add: run wait_run_def)
  from job_runs.step [OF this job_runs.stay] show ?case by simp
next
  case (step c tr p c1 tr1 p1 c2 tr2 p2)
  from step(1) have "job_run N order smf gnb (wait c) (tr, s, p) = Some (wait c1, (tr1, s, p1), [])"
    by (auto simp: run wait_run_def call_run_def split: call_pc.splits)
  from job_runs.step [OF this step.IH [OF step.prems]] show ?case by simp
next
  case (pass c tr p dt c2 tr2 p2)
  from job_runs.pass [OF pass.IH [OF pass.prems]] show ?case .
qed

section \<open>The clock of the network\<close>

text \<open>
  Beside what the loops need to end, a receive that finds nothing has slept until its timeout, and
  sleeping takes the time asked for.
\<close>

locale timed_net = ticking_net +
  assumes recv_elapsed: "net_recv N p n = (p1, Elapsed) \<Longrightarrow> p1 = net_sleep N p n"
    and sleep_now: "net_now N (net_sleep N p n) = net_now N p + n"
begin

text \<open>The receive loop is the steps of a waiting call.\<close>

lemma recv_runs:
  assumes "recv_loop N t deadline p = Some (p', r)" "ca_expected c = t" "ca_pc c = Awaiting n deadline"
  shows "(\<forall>e. r = Inl e \<longrightarrow> call_runs N c tr p (c\<lparr>ca_pc := ToSend n (Some e)\<rparr>) tr p') \<and>
    (\<forall>b. r = Inr b \<longrightarrow> call_runs N c tr p (c\<lparr>ca_pc := Returned (Inr b)\<rparr>) (tr\<lparr>tr_last_activity := net_now N p'\<rparr>) p')"
  using assms(1)
proof (induction "deadline - net_now N p" arbitrary: p rule: less_induct)
  case less
  let ?n = "deadline - net_now N p"
  have expire: "call_runs N c tr q (c\<lparr>ca_pc := ToSend n (Some TimedOut)\<rparr>) tr q" if "deadline \<le> net_now N q" for q
    using that assms(3) by (intro call_runs.step [OF _ call_runs.stay]) (simp add: call_run_def)
  show ?case
  proof (cases "?n = 0")
    case True
    with less.prems expire [of p] show ?thesis by (auto simp: recv_loop.simps [of N t deadline p])
  next
    case False
    obtain p1 out where recv: "net_recv N p ?n = (p1, out)" by force
    show ?thesis
    proof (cases out)
      case Elapsed
      then have p1: "p1 = net_sleep N p ?n" using recv_elapsed recv by blast
      have "call_runs N c tr p (c\<lparr>ca_pc := ToSend n (Some TimedOut)\<rparr>) tr p1"
        unfolding p1 by (rule call_runs.pass [OF expire]) (simp add: sleep_now)
      with less.prems recv Elapsed False show ?thesis
        by (auto simp: recv_loop.simps [of N t deadline p])
    next
      case RecvErr
      have "call_run N c tr p = Some (c\<lparr>ca_pc := ToSend n (Some RecvFailed)\<rparr>, tr, p1)"
        using assms(3) False recv RecvErr by (simp add: call_run_def)
      from call_runs.step [OF this call_runs.stay] less.prems recv RecvErr False show ?thesis
        by (auto simp: recv_loop.simps [of N t deadline p])
    next
      case (Got src d)
      let ?buf = "take 4096 d"
      have run: "call_run N c tr p = Some (call_datagram N src d c tr p1)"
        using assms(3) False recv Got by (simp add: call_run_def)
      have IH: "(\<forall>e. r = Inl e \<longrightarrow> call_runs N c tr q (c\<lparr>ca_pc := ToSend n (Some e)\<rparr>) tr p') \<and>
          (\<forall>b. r = Inr b \<longrightarrow> call_runs N c tr q (c\<lparr>ca_pc := Returned (Inr b)\<rparr>) (tr\<lparr>tr_last_activity := net_now N p'\<rparr>) p')"
        if "recv_loop N t deadline q = Some (p', r)" "net_now N p1 \<le> net_now N q" for q
        by (rule less.hyps [OF _ that(1)]) (use recv_got [OF recv [unfolded Got]] that(2) False in simp)
      show ?thesis
        using less.prems run recv Got False assms(2) IH [of p1] IH [of "answer_unsolicited N src ?buf p1"] answer_now [of p1 src ?buf]
        by (auto simp: recv_loop.simps [of N t deadline p] call_datagram_def Let_def
            intro: call_runs.step [OF _ call_runs.stay] call_runs.step split: sum.splits if_splits)
    qed
  qed
qed

lemma attempt_runs:
  assumes "attempt_loop N tr (ca_msg c) (ca_expected c) n err p = (tr', p', r)" "ca_pc c = ToSend n err"
  shows "call_runs N c tr p (c\<lparr>ca_pc := Returned r\<rparr>) tr' p'"
  using assms
proof (induction n arbitrary: c err p)
  case 0
  then show ?case by (intro call_runs.step [OF _ call_runs.stay]) (simp add: call_run_def)
next
  case (Suc n)
  obtain p1 ok where send: "net_send N p (tr_peer_addr tr) (ca_msg c) = (p1, ok)" by force
  show ?case
  proof (cases ok)
    case False
    with Suc.prems send show ?thesis by (intro call_runs.step [OF _ call_runs.stay]) (simp add: call_run_def)
  next
    case True
    let ?c = "c\<lparr>ca_pc := Awaiting n (net_now N p1 + tr_response_timeout tr)\<rparr>"
    have run: "call_run N c tr p = Some (?c, tr, p1)"
      using Suc.prems(2) send True by (simp add: call_run_def)
    obtain p2 r2 where recv: "recv_loop N (ca_expected c) (net_now N p1 + tr_response_timeout tr) p1 = Some (p2, r2)"
      using recv_loop_returns by metis
    note runs = recv_runs [OF recv, of ?c n tr]
    show ?thesis
    proof (cases r2)
      case (Inl e)
      let ?d = "c\<lparr>ca_pc := ToSend n (Some e)\<rparr>"
      have "call_runs N ?d tr p2 (?d\<lparr>ca_pc := Returned r\<rparr>) tr' p'"
        by (rule Suc.IH) (use Suc.prems(1) send True recv Inl in simp_all)
      with call_runs_trans [of N ?c tr p1 ?d tr p2] runs Inl show ?thesis
        by (intro call_runs.step [OF run]) simp
    next
      case (Inr b)
      with Suc.prems(1) send True recv have "tr' = tr\<lparr>tr_last_activity := net_now N p2\<rparr>" "p' = p2" "r = Inr b" by auto
      with runs Inr show ?thesis by (intro call_runs.step [OF run]) simp
    qed
  qed
qed

lemma call_returns:
  assumes "send_and_recv N tr msg p = (tr', p', r)"
  shows "\<exists>c. call_runs N (call_start tr msg) tr p c tr' p' \<and> ca_pc c = Returned r"
proof (cases "pfcp_header_decode msg")
  case (Inl e)
  with assms show ?thesis by (intro exI [of _ "call_start tr msg"]) (auto simp: send_and_recv_def call_start_def intro: call_runs.stay)
next
  case (Inr hb)
  obtain h b where hb: "hb = (h, b)" by force
  let ?c = "call_start tr msg"
  have "call_runs N ?c tr p (?c\<lparr>ca_pc := Returned r\<rparr>) tr' p'"
    by (rule attempt_runs) (use assms Inr hb in \<open>simp_all add: send_and_recv_def call_start_def\<close>)
  then show ?thesis by (intro exI [of _ "?c\<lparr>ca_pc := Returned r\<rparr>"]) simp
qed

text \<open>A command run to its end is the steps of its task.\<close>

lemma add_runs:
  assumes "add_sessions n N order smf gnb w = (w', es)"
  shows "job_runs N order smf gnb (AddNext n) w JobDone w' es"
  using assms
proof (induction n arbitrary: w w' es)
  case 0
  have "job_run N order smf gnb (AddNext 0) w = Some (JobDone, w, [])" by (cases w) (simp add: job_run_def)
  from job_runs.step [OF this job_runs.stay] 0 show ?case by simp
next
  case (Suc n)
  obtain tr s p where w: "w = (tr, s, p)" by (cases w)
  obtain s1 sq where q: "next_seq_num s = (s1, sq)" by force
  obtain s2 ra where a: "alloc_ue_ip s1 = (s2, ra)" by force
  show ?case
  proof (cases ra)
    case (Inl e)
    have "job_run N order smf gnb (AddNext (Suc n)) w = Some (JobDone, (tr, s2, p), [SEvLog (SPoolFailed e)])"
      by (simp add: job_run_def w add_begin_def q a Inl)
    from job_runs.step [OF this job_runs.stay] Suc.prems show ?thesis
      by (simp add: w add_session_def q a Inl)
  next
    case (Inr ue)
    obtain s3 td where t: "alloc_gnb_teid s2 = (s3, td)" by force
    obtain s4 cp where c: "alloc_cp_seid s3 = (s4, cp)" by force
    let ?req = "build_session_establishment_request sq smf cp ue gnb td"
    obtain tr1 p1 r where x: "send_and_recv N tr ?req p = (tr1, p1, r)" by (metis prod_cases3)
    obtain s5 es5 where e: "add_end order (net_now N p1) ue td cp r s4 = (s5, es5)" by force
    have one: "add_session N order smf gnb tr s p = ((tr1, s5, p1), SEvLog (SAddingUe ue) # es5, True)"
      using e by (auto simp: add_session_def q a Inr t c x add_end_def Let_def split: sum.splits prod.splits)
    obtain w2 es2 where rest: "add_sessions n N order smf gnb (tr1, s5, p1) = (w2, es2)" by (metis surj_pair)
    obtain c' where c': "call_runs N (call_start tr ?req) tr p c' tr1 p1" "ca_pc c' = Returned r"
      using call_returns [OF x] by blast
    have "job_run N order smf gnb (AddNext (Suc n)) w = Some (AddWait n ue td cp (call_start tr ?req), (tr, s4, p), [SEvLog (SAddingUe ue)])"
      by (simp add: job_run_def w add_begin_def q a Inr t c)
    moreover have "job_runs N order smf gnb (AddWait n ue td cp (call_start tr ?req)) (tr, s4, p) (AddNext n) (tr1, s5, p1) es5"
      by (rule wait_runs [OF c', where rest = "\<lambda>p r s. (AddNext n, add_end order (net_now N p) ue td cp r s)"])
        (simp_all add: job_run_def e)
    moreover note Suc.IH [OF rest]
    ultimately have "job_runs N order smf gnb (AddNext (Suc n)) w JobDone w2 ([SEvLog (SAddingUe ue)] @ es5 @ es2)"
      by (intro job_runs.step job_runs_trans)
    with Suc.prems one rest show ?thesis by (simp add: w)
  qed
qed

lemma del_runs:
  assumes "del_session N order sid w = (w', es)"
  shows "job_runs N order smf gnb (DelStart sid) w JobDone w' es"
proof -
  obtain tr s p where w: "w = (tr, s, p)" by (cases w)
  show ?thesis
  proof (cases "sim_sessions s sid")
    case None
    have "job_run N order smf gnb (DelStart sid) w = Some (JobDone, w, [SEvLog (SNoSuchSession sid)])"
      by (simp add: job_run_def w del_begin_def None)
    from job_runs.step [OF this job_runs.stay] assms show ?thesis by (simp add: del_session_def w None)
  next
    case (Some session)
    obtain s1 sq where q: "next_seq_num s = (s1, sq)" by force
    let ?req = "deletion_request (ss_upf_seid session) sq"
    obtain tr1 p1 r where x: "send_and_recv N tr ?req p = (tr1, p1, r)" by (metis prod_cases3)
    obtain s2 es2 where e: "del_end order sid sq r s1 = (s2, es2)" by force
    obtain c' where c': "call_runs N (call_start tr ?req) tr p c' tr1 p1" "ca_pc c' = Returned r"
      using call_returns [OF x] by blast
    have "job_run N order smf gnb (DelStart sid) w = Some (DelWait sid sq (call_start tr ?req), (tr, s1, p), [])"
      by (simp add: job_run_def w del_begin_def Some q)
    moreover have "job_runs N order smf gnb (DelWait sid sq (call_start tr ?req)) (tr, s1, p) JobDone (tr1, s2, p1) es2"
      by (rule wait_runs [OF c', where rest = "\<lambda>p r s. (JobDone, del_end order sid sq r s)"]) (simp_all add: job_run_def e)
    ultimately have "job_runs N order smf gnb (DelStart sid) w JobDone (tr1, s2, p1) ([] @ es2)" by (rule job_runs.step)
    with assms e show ?thesis by (cases r) (simp_all add: del_session_def w Some q x del_end_def Let_def)
  qed
qed

lemma heartbeat_runs:
  assumes "tui_heartbeat N w = (w', es)"
  shows "job_runs N order smf gnb HbStart w JobDone w' es"
proof -
  obtain tr s p where w: "w = (tr, s, p)" by (cases w)
  obtain s1 sq where q: "next_seq_num s = (s1, sq)" by force
  let ?req = "heartbeat_request sq (ucast (net_unix N p) + 2208988800)"
  obtain tr1 p1 r where x: "send_and_recv N tr ?req p = (tr1, p1, r)" by (metis prod_cases3)
  obtain c' where c': "call_runs N (call_start tr ?req) tr p c' tr1 p1" "ca_pc c' = Returned r"
    using call_returns [OF x] by blast
  have "job_run N order smf gnb HbStart w = Some (HbWait (call_start tr ?req), (tr, s1, p), [])"
    by (simp add: job_run_def w hb_begin_def q)
  moreover have "job_runs N order smf gnb (HbWait (call_start tr ?req)) (tr, s1, p) JobDone (tr1, s1, p1) (hb_end r)"
    by (rule wait_runs [OF c', where rest = "\<lambda>p r s. (JobDone, s, hb_end r)"]) (simp_all add: job_run_def)
  ultimately have "job_runs N order smf gnb HbStart w JobDone (tr1, s1, p1) ([] @ hb_end r)" by (rule job_runs.step)
  with assms show ?thesis by (cases r) (simp_all add: tui_heartbeat_def w q x hb_end_def)
qed

lemma command_scheduled:
  assumes "handle_async_command N order smf gnb cmd w = (w', es)" "sh_world S = w"
  shows "\<exists>as. run_schedule N order smf gnb as S =
    Some (S\<lparr>sh_world := w', sh_jobs := sh_jobs S @ [JobDone], sh_events := sh_events S @ es\<rparr>)"
proof -
  let ?S = "S\<lparr>sh_jobs := sh_jobs S @ [job_of cmd]\<rparr>"
  have "job_runs N order smf gnb (job_of cmd) w JobDone w' es"
    using assms(1)
    by (cases cmd) (simp_all add: handle_async_command_def job_of_def add_runs del_runs heartbeat_runs job_runs.stay)
  from job_runs_schedule [OF this, of "length (sh_jobs S)" ?S] assms(2)
  obtain as where "run_schedule N order smf gnb as ?S =
      Some (?S\<lparr>sh_world := w', sh_jobs := sh_jobs S @ [JobDone], sh_events := sh_events S @ es\<rparr>)" by auto
  then show ?thesis by (intro exI [of _ "Command cmd # as"]) (simp add: act_def)
qed

end

interpretation upf_clock: timed_net "upf_net E smf upf" for E smf upf
  by unfold_locales
    (auto simp: upf_net_def deliver_def Let_def split: if_splits prod.splits option.splits list.splits)

section \<open>Single steps of an added session\<close>

definition waiting :: "bytes \<Rightarrow> call_pc \<Rightarrow> call" where
  "waiting req pc = \<lparr>ca_msg = req, ca_expected = PFCP_SESSION_ESTABLISHMENT_RSP, ca_pc = pc\<rparr>"

lemma waiting_pc [simp]: "ca_pc (waiting req pc) = pc" "(waiting req pc)\<lparr>ca_pc := pc'\<rparr> = waiting req pc'"
  "ca_msg (waiting req pc) = req" "ca_expected (waiting req pc) = PFCP_SESSION_ESTABLISHMENT_RSP"
  by (simp_all add: waiting_def)

lemma run_begin:
  fixes s :: sim_state and smf gnb :: ipv4
  assumes "unat (sim_next_seq s) < 2 ^ 24" "sim_next_ue_ip s \<le> sim_ue_ip_end s"
  defines "ue \<equiv> ip_from_u32 (sim_next_ue_ip s)"
  defines "req \<equiv> build_session_establishment_request (sim_next_seq s) smf (sim_next_cp_seid s) ue gnb (sim_next_gnb_teid s)"
  shows "job_run N order smf gnb (AddNext (Suc n)) (tr, s, p) =
    Some (AddWait n ue (sim_next_gnb_teid s) (sim_next_cp_seid s) (waiting req (ToSend (unat (tr_max_retries tr) + 1) None)),
      (tr, s\<lparr>sim_next_seq := sim_next_seq s + 1, sim_next_ue_ip := sim_next_ue_ip s + 1,
         sim_next_gnb_teid := sim_next_gnb_teid s + 1, sim_next_cp_seid := sim_next_cp_seid s + 1\<rparr>, p), [SEvLog (SAddingUe ue)])"
proof -
  obtain h where "pfcp_header_decode req = Inr (h, establishment_body smf (sim_next_cp_seid s) (basic_pdrs ue) (basic_fars gnb (sim_next_gnb_teid s)) [])"
      "msg_type h = PFCP_SESSION_ESTABLISHMENT_REQ"
    unfolding req_def using basic_request_header [OF assms(1)] by blast
  then show ?thesis
    using assms(2) by (simp add: job_run_def add_begin_def call_start_def waiting_def next_seq_num_def alloc_ue_ip_def
        alloc_gnb_teid_def alloc_cp_seid_def ue_def [symmetric] req_def [symmetric])
qed

lemma run_send:
  assumes "serve_datagram (E\<lparr>env_now := lk_clock l\<rparr>) req smf_sock (lk_upf l) = (st', Some r)" "lk_lost l = []" "tr_ok upf tr"
  shows "job_run (upf_net E smf_sock upf) order smf gnb (AddWait n ue td cp (waiting req (ToSend (Suc k) err))) (tr, s, l) =
    Some (AddWait n ue td cp (waiting req (Awaiting k (lk_clock l + tr_response_timeout tr))),
      (tr, s, l\<lparr>lk_upf := st', lk_inbox := lk_inbox l @ [r]\<rparr>), [])"
  using assms by (simp add: job_run_def wait_run_def call_run_def upf_net_send [OF assms(1)] deliver_def tr_ok_def)

lemma run_recv:
  assumes "lk_inbox l = r # rs" "length r \<le> 4096" "lk_clock l < deadline"
    and "validate_response PFCP_SESSION_ESTABLISHMENT_REQ sq r = Inr ()"
  shows "job_run (upf_net E smf_sock upf) order smf gnb (AddWait n ue td cp (waiting req (Awaiting k deadline))) (tr, s, l) =
    Some (AddWait n ue td cp (waiting req (Returned (Inr r))),
      (tr\<lparr>tr_last_activity := lk_clock l + 1\<rparr>, s, l\<lparr>lk_inbox := rs, lk_clock := lk_clock l + 1\<rparr>), [])"
proof -
  obtain h b where "pfcp_header_decode r = Inr (h, b)" "msg_type h = PFCP_SESSION_ESTABLISHMENT_RSP"
    using assms(4) by (auto simp: validate_response_def Let_def split: sum.splits if_splits)
  with assms(1-3) show ?thesis
    by (simp add: job_run_def wait_run_def call_run_def call_datagram_def upf_net_recv(2) Let_def)
qed

lemma run_end:
  fixes N :: "'p net" and p :: 'p and cp :: u64 and ue :: ipv4 and td :: u32
  assumes "extract_session_info r = Inr (sid, td', ip)"
  defines "session \<equiv> \<lparr>ss_cp_seid = cp, ss_upf_seid = sid, ss_upf_teid = td', ss_upf_n3_addr = ip, ss_ue_ip = ue,
    ss_gnb_teid = td, ss_created_at = net_now N p\<rparr>"
  shows "job_run N order smf gnb (AddWait n ue td cp (waiting req (Returned (Inr r)))) (tr, s, p) =
    Some (AddNext n, (tr, s\<lparr>sim_sessions := (sim_sessions s)(cp \<mapsto> session)\<rparr>, p),
      [SEvLog (SSessionAdded ue sid), SEvSessionsUpdated (order ((sim_sessions s)(cp \<mapsto> session)))])"
  using assms by (simp add: job_run_def wait_run_def add_end_def)

section \<open>Properties\<close>

lemma act_first:
  assumes "job_run N order smf gnb j0 w = Some (j, w', es)"
  shows "act N order smf gnb (Run 0) \<lparr>sh_world = w, sh_jobs = [j0, j1], sh_events = ev\<rparr> =
    Some \<lparr>sh_world = w', sh_jobs = [j, j1], sh_events = ev @ es\<rparr>"
  using assms by (simp add: act_def)

lemma act_second:
  assumes "job_run N order smf gnb j1 w = Some (j, w', es)"
  shows "act N order smf gnb (Run 1) \<lparr>sh_world = w, sh_jobs = [j0, j1], sh_events = ev\<rparr> =
    Some \<lparr>sh_world = w', sh_jobs = [j0, j], sh_events = ev @ es\<rparr>"
  using assms by (simp add: act_def)

lemma run_schedule_Cons:
  "act N order smf gnb a S = Some S1 \<Longrightarrow> run_schedule N order smf gnb as S1 = X \<Longrightarrow> run_schedule N order smf gnb (a # as) S = X"
  by simp

lemma word_succ_nonzero: "unat (w :: 'a::len word) + 1 < 2 ^ LENGTH('a) \<Longrightarrow> w + 1 \<noteq> 0"
  using unat_word_ariths(1) [of w 1] by (metis add_eq_0_iff_both_eq_0 mod_less unat_0 unat_1 zero_neq_one)

lemma two_adds_crossed:
  fixes s :: sim_state and l :: upf_link
  assumes "env_laws E" "env_roomy E" "order_laws E" "is_v4 src" "quiet l" "tr_ok upf tr" "1 < tr_response_timeout tr"
    and "registered src node (st_server (lk_upf l)) a"
    and "unat (sim_next_seq s) + 2 < 2 ^ 24" "unat (sim_next_ue_ip s) + 1 \<le> unat (sim_ue_ip_end s)"
    and "next_seid (st_server (lk_upf l)) \<noteq> 0" "unat (next_seid (st_server (lk_upf l))) + 1 < 2 ^ 64"
    and "next_teid (st_server (lk_upf l)) \<noteq> 0" "unat (next_teid (st_server (lk_upf l))) + 1 < 2 ^ 32"
  defines "U \<equiv> st_server (lk_upf l)" and "N \<equiv> upf_net E src upf"
  defines "ue \<equiv> ip_from_u32 (sim_next_ue_ip s)" and "ue' \<equiv> ip_from_u32 (sim_next_ue_ip s + 1)"
    and "cp \<equiv> sim_next_cp_seid s" and "sid \<equiv> next_seid U" and "td \<equiv> next_teid U"
  shows "\<exists>as tr' s' l' es a' x y. run_schedule N order smf gnb (Command (SimAddSession 1) # Command (SimAddSession 1) # as)
      \<lparr>sh_world = (tr, s, l), sh_jobs = [], sh_events = []\<rparr> =
      Some \<lparr>sh_world = (tr', s', l'), sh_jobs = [JobDone, JobDone], sh_events = es\<rparr> \<and>
    {SEvLog (SSessionAdded ue (sid + 1)), SEvLog (SSessionAdded ue' sid)} \<subseteq> set es \<and>
    sim_sessions s' = (sim_sessions s)(cp \<mapsto> x, cp + 1 \<mapsto> y) \<and> ss_upf_seid x = sid + 1 \<and> ss_upf_seid y = sid \<and>
    sessions (st_server (lk_upf l')) = (sessions U)(sid \<mapsto> lifecycle_data ue td gnb cp, sid + 1 \<mapsto> lifecycle_data ue' (td + 1) gnb (cp + 1)) \<and>
    sim_next_seq s' = sim_next_seq s + 2 \<and> quiet l' \<and> tr_ok upf tr' \<and>
    registered src node (st_server (lk_upf l')) a' \<and> as_sessions a' (cp + 1) \<noteq> None"
proof -
  let ?E = "E\<lparr>env_now := lk_clock l\<rparr>" and ?sq = "sim_next_seq s" and ?g = "sim_next_gnb_teid s"
  let ?n3 = "n3_addr U"
  let ?s1 = "s\<lparr>sim_next_seq := ?sq + 1, sim_next_ue_ip := sim_next_ue_ip s + 1, sim_next_gnb_teid := ?g + 1, sim_next_cp_seid := cp + 1\<rparr>"
  let ?s2 = "?s1\<lparr>sim_next_seq := ?sq + 1 + 1, sim_next_ue_ip := sim_next_ue_ip s + 1 + 1, sim_next_gnb_teid := ?g + 1 + 1, sim_next_cp_seid := cp + 1 + 1\<rparr>"
  let ?req = "build_session_establishment_request ?sq smf cp ue gnb ?g"
  let ?req' = "build_session_establishment_request (?sq + 1) smf (cp + 1) ue' gnb (?g + 1)"
  let ?r = "build_session_establishment_response ?sq cp sid ?n3 [(1, td, ?n3)]"
  have sq: "unat ?sq < 2 ^ 24" "unat (?sq + 1) < 2 ^ 24"
    using assms(9) by (simp_all add: unat_word_ariths)
  have pool: "sim_next_ue_ip s \<le> sim_ue_ip_end s" "sim_next_ue_ip s + 1 \<le> sim_ue_ip_end s"
    using assms(10) unsigned_less [of "sim_ue_ip_end s", where 'a = nat] by (simp_all add: word_le_nat_alt unat_word_ariths)
  have nz: "sid \<noteq> 0" "td \<noteq> 0" "sid + 1 \<noteq> 0" "td + 1 \<noteq> 0"
    using assms(11-14) word_succ_nonzero [of sid] word_succ_nonzero [of td] by (simp_all add: sid_def td_def U_def)
  have laws: "env_laws ?E" "env_roomy ?E" "order_laws ?E" using assms(1-3) by simp_all
  let ?a1 = "a\<lparr>as_sessions := (as_sessions a)(cp \<mapsto> lifecycle_data ue td gnb cp)\<rparr>"
  obtain st1 where st1: "serve_datagram ?E ?req src (lk_upf l) = (st1, Some ?r)"
      "sessions (st_server st1) = (sessions U)(sid \<mapsto> lifecycle_data ue td gnb cp)" "registered src node (st_server st1) ?a1"
      "next_seid (st_server st1) = sid + 1" "next_teid (st_server st1) = td + 1"
    using serve_basic [OF laws sq(1) assms(4,8), of smf cp ue gnb ?g] unfolding U_def sid_def td_def by blast
  let ?n3' = "n3_addr (st_server st1)" and ?d' = "lifecycle_data ue' (td + 1) gnb (cp + 1)"
  let ?r' = "build_session_establishment_response (?sq + 1) (cp + 1) (sid + 1) ?n3' [(1, td + 1, ?n3')]"
  let ?a2 = "?a1\<lparr>as_sessions := (as_sessions ?a1)(cp + 1 \<mapsto> ?d')\<rparr>"
  obtain st2 where st2: "serve_datagram ?E ?req' src st1 = (st2, Some ?r')"
      "sessions (st_server st2) = (sessions (st_server st1))(sid + 1 \<mapsto> ?d')" "registered src node (st_server st2) ?a2"
    using serve_basic [OF laws sq(2) assms(4) st1(3), of smf "cp + 1" ue' gnb "?g + 1"] unfolding st1(4,5) by blast
  let ?l1 = "l\<lparr>lk_upf := st1, lk_inbox := lk_inbox l @ [?r]\<rparr>"
  let ?l2 = "?l1\<lparr>lk_upf := st2, lk_inbox := lk_inbox ?l1 @ [?r']\<rparr>"
  let ?l3 = "?l2\<lparr>lk_inbox := [?r'], lk_clock := lk_clock ?l2 + 1\<rparr>"
  let ?l4 = "?l3\<lparr>lk_inbox := [], lk_clock := lk_clock ?l3 + 1\<rparr>"
  let ?tr1 = "tr\<lparr>tr_last_activity := lk_clock ?l2 + 1\<rparr>" let ?tr2 = "?tr1\<lparr>tr_last_activity := lk_clock ?l3 + 1\<rparr>"
  let ?k = "unat (tr_max_retries tr)" and ?d = "lk_clock l + tr_response_timeout tr"
  let ?J = "\<lambda>pc. AddWait 0 ue ?g cp (waiting ?req pc)" and ?J' = "\<lambda>pc. AddWait 0 ue' (?g + 1) (cp + 1) (waiting ?req' pc)"
  have b0: "job_run N order smf gnb (AddNext (Suc 0)) (tr, s, l) = Some (?J (ToSend (Suc ?k) None), (tr, ?s1, l), [SEvLog (SAddingUe ue)])"
    using run_begin [OF sq(1) pool(1), of N order smf gnb 0 tr l] by (simp add: ue_def cp_def)
  have b1: "job_run N order smf gnb (AddNext (Suc 0)) (tr, ?s1, l) = Some (?J' (ToSend (Suc ?k) None), (tr, ?s2, l), [SEvLog (SAddingUe ue')])"
    using run_begin [of ?s1 N order smf gnb 0 tr l] sq(2) pool(2) by (simp add: ue'_def cp_def)
  have s0: "job_run N order smf gnb (?J (ToSend (Suc ?k) None)) (tr, ?s2, l) = Some (?J (Awaiting ?k ?d), (tr, ?s2, ?l1), [])"
    unfolding N_def by (rule run_send [OF st1(1)]) (use assms(5,6) in \<open>simp_all add: quiet_def\<close>)
  have s1: "job_run N order smf gnb (?J' (ToSend (Suc ?k) None)) (tr, ?s2, ?l1) = Some (?J' (Awaiting ?k ?d), (tr, ?s2, ?l2), [])"
    unfolding N_def using run_send [where E = E and l = ?l1 and req = ?req' and smf_sock = src and st' = st2 and r = ?r' and upf = upf and tr = tr]
      st2(1) assms(5,6) by (simp add: quiet_def)
  have r1: "job_run N order smf gnb (?J' (Awaiting ?k ?d)) (tr, ?s2, ?l2) = Some (?J' (Returned (Inr ?r)), (?tr1, ?s2, ?l3), [])"
    unfolding N_def by (rule run_recv [OF _ answer_lengths(2) _ establishment_answer [OF sq(1)]])
      (use assms(5,7) in \<open>simp_all add: quiet_def\<close>)
  have r0: "job_run N order smf gnb (?J (Awaiting ?k ?d)) (?tr1, ?s2, ?l3) = Some (?J (Returned (Inr ?r')), (?tr2, ?s2, ?l4), [])"
    unfolding N_def by (rule run_recv [OF _ answer_lengths(2) _ establishment_answer [OF sq(2)]])
      (use assms(7) in simp_all)
  note x0 = extract_session_info_answer [OF sq(1) nz(1,2), of cp ?n3]
  note x1 = extract_session_info_answer [OF sq(2) nz(3,4), of "cp + 1" ?n3']
  define x y where "x = \<lparr>ss_cp_seid = cp, ss_upf_seid = sid + 1, ss_upf_teid = td + 1, ss_upf_n3_addr = ?n3', ss_ue_ip = ue,
      ss_gnb_teid = ?g, ss_created_at = net_now N ?l4\<rparr>"
    and "y = \<lparr>ss_cp_seid = cp + 1, ss_upf_seid = sid, ss_upf_teid = td, ss_upf_n3_addr = ?n3, ss_ue_ip = ue',
      ss_gnb_teid = ?g + 1, ss_created_at = net_now N ?l4\<rparr>"
  let ?s3 = "?s2\<lparr>sim_sessions := (sim_sessions ?s2)(cp \<mapsto> x)\<rparr>"
  let ?s4 = "?s3\<lparr>sim_sessions := (sim_sessions ?s3)(cp + 1 \<mapsto> y)\<rparr>"
  let ?e0 = "[SEvLog (SSessionAdded ue (sid + 1)), SEvSessionsUpdated (order ((sim_sessions ?s2)(cp \<mapsto> x)))]"
  let ?e1 = "[SEvLog (SSessionAdded ue' sid), SEvSessionsUpdated (order ((sim_sessions ?s3)(cp + 1 \<mapsto> y)))]"
  have e0: "job_run N order smf gnb (?J (Returned (Inr ?r'))) (?tr2, ?s2, ?l4) = Some (AddNext 0, (?tr2, ?s3, ?l4), ?e0)"
    unfolding x_def by (rule run_end [OF x1])
  have e1: "job_run N order smf gnb (?J' (Returned (Inr ?r))) (?tr2, ?s3, ?l4) = Some (AddNext 0, (?tr2, ?s4, ?l4), ?e1)"
    unfolding y_def by (rule run_end [OF x0])
  have fin: "job_run N order smf gnb (AddNext 0) (?tr2, ?s4, ?l4) = Some (JobDone, (?tr2, ?s4, ?l4), [])"
    by (simp add: job_run_def)
  let ?ev = "[SEvLog (SAddingUe ue)] @ [SEvLog (SAddingUe ue')] @ ?e0 @ ?e1"
  have run: "run_schedule N order smf gnb [Run 0, Run 1, Run 0, Run 1, Run 1, Run 0, Run 0, Run 1, Run 0, Run 1]
      \<lparr>sh_world = (tr, s, l), sh_jobs = [AddNext (Suc 0), AddNext (Suc 0)], sh_events = []\<rparr> =
      Some \<lparr>sh_world = (?tr2, ?s4, ?l4), sh_jobs = [JobDone, JobDone], sh_events = ?ev\<rparr>"
    by (rule run_schedule_Cons [OF act_first [OF b0]], rule run_schedule_Cons [OF act_second [OF b1]],
        rule run_schedule_Cons [OF act_first [OF s0]], rule run_schedule_Cons [OF act_second [OF s1]],
        rule run_schedule_Cons [OF act_second [OF r1]], rule run_schedule_Cons [OF act_first [OF r0]],
        rule run_schedule_Cons [OF act_first [OF e0]], rule run_schedule_Cons [OF act_second [OF e1]],
        rule run_schedule_Cons [OF act_first [OF fin]], rule run_schedule_Cons [OF act_second [OF fin]]) simp
  have start: "run_schedule N order smf gnb (Command (SimAddSession 1) # Command (SimAddSession 1) # as)
      \<lparr>sh_world = (tr, s, l), sh_jobs = [], sh_events = []\<rparr> =
      run_schedule N order smf gnb as \<lparr>sh_world = (tr, s, l), sh_jobs = [AddNext (Suc 0), AddNext (Suc 0)], sh_events = []\<rparr>" for as
    by (simp add: act_def job_of_def)
  show ?thesis
  proof (intro exI conjI, rule run [folded start])
    show "quiet ?l4" using assms(5) by (simp add: quiet_def)
    show "tr_ok upf ?tr2" using assms(6) by (simp add: tr_ok_def)
    show "registered src node (st_server (lk_upf ?l4)) ?a2" using st2(3) by simp
    show "sessions (st_server (lk_upf ?l4)) = (sessions U)(sid \<mapsto> lifecycle_data ue td gnb cp, sid + 1 \<mapsto> ?d')"
      by (simp add: st1(2) st2(2))
    show "sim_sessions ?s4 = (sim_sessions s)(cp \<mapsto> x, cp + 1 \<mapsto> y)" by simp
    show "sim_next_seq ?s4 = ?sq + 2" by simp
  qed (simp_all add: x_def y_def)
qed

text \<open>
  C32: Two \<^verbatim>\<open>add session\<close> commands in progress at the same time can end with each other's answers. Every
  request is sent once and every answer arrives; the two tasks wait for the same response type and
  neither compares sequence numbers, so the one that receives first takes the answer to the other's
  request. Both report a session added; the simulator then holds for each of its CP SEIDs the UPF SEID of
  the other one, and \<^verbatim>\<open>del session\<close> of the first removes the second UE's session from the UPF, while the
  first UE's session stays there without the simulator knowing.
\<close>

theorem concurrent_adds_swap_sessions:
  fixes s :: sim_state and l :: upf_link
  assumes "env_laws E" "env_roomy E" "order_laws E" "is_v4 src" "quiet l" "tr_ok upf tr" "1 < tr_response_timeout tr"
    and "registered src node (st_server (lk_upf l)) a"
    and "unat (sim_next_seq s) + 2 < 2 ^ 24" "unat (sim_next_ue_ip s) + 1 \<le> unat (sim_ue_ip_end s)"
    and "next_seid (st_server (lk_upf l)) \<noteq> 0" "unat (next_seid (st_server (lk_upf l))) + 1 < 2 ^ 64"
    and "next_teid (st_server (lk_upf l)) \<noteq> 0" "unat (next_teid (st_server (lk_upf l))) + 1 < 2 ^ 32"
  defines "U \<equiv> st_server (lk_upf l)" and "N \<equiv> upf_net E src upf"
  defines "ue \<equiv> ip_from_u32 (sim_next_ue_ip s)" and "ue' \<equiv> ip_from_u32 (sim_next_ue_ip s + 1)"
    and "cp \<equiv> sim_next_cp_seid s" and "sid \<equiv> next_seid U"
  shows "\<exists>as tr' s' l' es x y. run_schedule N order smf gnb (Command (SimAddSession 1) # Command (SimAddSession 1) # as)
      \<lparr>sh_world = (tr, s, l), sh_jobs = [], sh_events = []\<rparr> =
      Some \<lparr>sh_world = (tr', s', l'), sh_jobs = [JobDone, JobDone], sh_events = es\<rparr> \<and>
    {SEvLog (SSessionAdded ue (sid + 1)), SEvLog (SSessionAdded ue' sid)} \<subseteq> set es \<and>
    sim_sessions s' = (sim_sessions s)(cp \<mapsto> x, cp + 1 \<mapsto> y) \<and> ss_upf_seid x = sid + 1 \<and> ss_upf_seid y = sid \<and>
    (\<exists>d d'. sessions (st_server (lk_upf l')) = (sessions U)(sid \<mapsto> d, sid + 1 \<mapsto> d') \<and>
       sd_ue_ip d = ue \<and> sd_cp_seid d = cp \<and> sd_ue_ip d' = ue' \<and> sd_cp_seid d' = cp + 1 \<and>
       (\<exists>tr'' s'' l'' es'. handle_async_command N order smf gnb (SimDelSession cp) (tr', s', l') = ((tr'', s'', l''), es') \<and>
          SEvLog (SSessionDeleted cp) \<in> set es' \<and> sessions (st_server (lk_upf l'')) = (sessions U)(sid \<mapsto> d, sid + 1 := None) \<and>
          sim_sessions s'' = (sim_sessions s)(cp := None, cp + 1 \<mapsto> y)))"
proof -
  obtain as tr' s' l' es a' x y where run: "run_schedule N order smf gnb (Command (SimAddSession 1) # Command (SimAddSession 1) # as)
      \<lparr>sh_world = (tr, s, l), sh_jobs = [], sh_events = []\<rparr> =
      Some \<lparr>sh_world = (tr', s', l'), sh_jobs = [JobDone, JobDone], sh_events = es\<rparr>"
      "{SEvLog (SSessionAdded ue (sid + 1)), SEvLog (SSessionAdded ue' sid)} \<subseteq> set es"
    and sim: "sim_sessions s' = (sim_sessions s)(cp \<mapsto> x, cp + 1 \<mapsto> y)" "ss_upf_seid x = sid + 1" "ss_upf_seid y = sid"
    and upf: "sessions (st_server (lk_upf l')) = (sessions U)(sid \<mapsto> lifecycle_data ue (next_teid U) gnb cp,
        sid + 1 \<mapsto> lifecycle_data ue' (next_teid U + 1) gnb (cp + 1))"
    and st: "sim_next_seq s' = sim_next_seq s + 2" "quiet l'" "tr_ok upf tr'"
      "registered src node (st_server (lk_upf l')) a'" "as_sessions a' (cp + 1) \<noteq> None"
    using two_adds_crossed [OF assms(1-14), of order smf gnb, folded N_def ue_def ue'_def cp_def, folded U_def, folded sid_def]
    by (elim exE conjE) (rule that)
  let ?d' = "lifecycle_data ue' (next_teid U + 1) gnb (cp + 1)"
  have sq: "unat (sim_next_seq s') < 2 ^ 24" using assms(9) st(1) by (simp add: unat_word_ariths)
  have laws: "env_laws (E\<lparr>env_now := lk_clock l'\<rparr>)" "order_laws (E\<lparr>env_now := lk_clock l'\<rparr>)" using assms(1,3) by simp_all
  have cur: "sessions (st_server (lk_upf l')) (sid + 1) = Some ?d'" "as_sessions a' (sd_cp_seid ?d') \<noteq> None"
    using upf st(5) by simp_all
  obtain st' where st': "serve_datagram (E\<lparr>env_now := lk_clock l'\<rparr>) (deletion_request (sid + 1) (sim_next_seq s')) src (lk_upf l') =
      (st', Some (build_session_deletion_response (sim_next_seq s') (sid + 1)))"
      "sessions (st_server st') = (sessions (st_server (lk_upf l')))(sid + 1 := None)"
    using serve_deletion [OF laws sq assms(4) st(4) cur] by blast
  have hd: "\<exists>h. pfcp_header_decode (deletion_request (sid + 1) (sim_next_seq s')) = Inr (h, []) \<and>
      msg_type h = PFCP_SESSION_DELETION_REQ \<and> seq_num h = sim_next_seq s'"
    using deletion_request_header [OF sq] by blast
  have x: "sim_sessions s' cp = Some x" by (simp add: sim(1))
  note link_send [OF hd st(2,3) answer_lengths(4) st'(1)]
  then obtain tr'' s'' l'' es' where del: "handle_async_command N order smf gnb (SimDelSession cp) (tr', s', l') = ((tr'', s'', l''), es')"
      "SEvLog (SSessionDeleted cp) \<in> set es'"
      "sessions (st_server (lk_upf l'')) = (sessions U)(sid \<mapsto> lifecycle_data ue (next_teid U) gnb cp, sid + 1 := None)"
      "sim_sessions s'' = (sim_sessions s)(cp := None, cp + 1 \<mapsto> y)"
    using st'(2) upf x sim(1,2) by (simp add: handle_async_command_def del_session_def next_seq_num_def N_def fun_upd_twist)
  show ?thesis
    by (intro exI conjI, rule run, rule run, rule sim, rule sim, rule sim, rule upf) (use del in \<open>(assumption | simp)+\<close>)
qed

theorem concurrent_adds_swap_sessions_witness:
  "\<exists>as tr' s' l' es x. run_schedule (upf_net lifecycle_env demo_src demo_peer) (\<lambda>_. []) (Ipv4Addr 10 0 0 1) (Ipv4Addr 172 22 0 23)
      (Command (SimAddSession 1) # Command (SimAddSession 1) # as)
      \<lparr>sh_world = (transport_new 0 demo_peer default_response_timeout default_max_retries,
         sim_state_new 0 (cfg_session demo_config), (fresh_link [])\<lparr>lk_upf := demo_state\<rparr>), sh_jobs = [], sh_events = []\<rparr> =
      Some \<lparr>sh_world = (tr', s', l'), sh_jobs = [JobDone, JobDone], sh_events = es\<rparr> \<and>
    sim_sessions s' 1 = Some x \<and> ss_upf_seid x = 2"
proof -
  let ?s = "sim_state_new 0 (cfg_session demo_config)" and ?l = "(fresh_link [])\<lparr>lk_upf := demo_state\<rparr>"
  let ?tr = "transport_new 0 demo_peer default_response_timeout default_max_retries"
  have h: "tr_ok demo_peer ?tr" "1 < tr_response_timeout ?tr" "unat (sim_next_seq ?s) + 2 < 2 ^ 24"
      "unat (sim_next_ue_ip ?s) + 1 \<le> unat (sim_ue_ip_end ?s)" "sim_next_cp_seid ?s = 1"
    by (simp_all add: tr_ok_def transport_new_def sim_state_new_def demo_config_def u32_from_ip_def from_be_bytes_def)
  have u: "next_seid (st_server (lk_upf ?l)) \<noteq> 0" "unat (next_seid (st_server (lk_upf ?l))) + 1 < 2 ^ 64"
      "next_teid (st_server (lk_upf ?l)) \<noteq> 0" "unat (next_teid (st_server (lk_upf ?l))) + 1 < 2 ^ 32"
    unfolding demo_link_ready by simp_all
  obtain as tr' s' l' es x y where w: "run_schedule (upf_net lifecycle_env demo_src demo_peer) (\<lambda>_. []) (Ipv4Addr 10 0 0 1) (Ipv4Addr 172 22 0 23)
      (Command (SimAddSession 1) # Command (SimAddSession 1) # as) \<lparr>sh_world = (?tr, ?s, ?l), sh_jobs = [], sh_events = []\<rparr> =
      Some \<lparr>sh_world = (tr', s', l'), sh_jobs = [JobDone, JobDone], sh_events = es\<rparr>"
      "sim_sessions s' = (sim_sessions ?s)(sim_next_cp_seid ?s \<mapsto> x, sim_next_cp_seid ?s + 1 \<mapsto> y)"
      "ss_upf_seid x = next_seid (st_server (lk_upf ?l)) + 1"
    using concurrent_adds_swap_sessions [OF lifecycle_env_ok _ demo_link_ready(1) h(1,2) demo_link_ready(2) h(3,4) u, of "\<lambda>_. []"
        "Ipv4Addr 10 0 0 1" "Ipv4Addr 172 22 0 23"]
    by (elim meta_impE exE conjE) (simp, rule that)
  have "sim_sessions s' 1 = Some x" "ss_upf_seid x = 2"
    using w(2,3) unfolding demo_link_ready(3) by (simp_all add: h(5))
  with w(1) show ?thesis by (intro exI conjI)
qed

end
