(* ===== verification/Smf_Keepalive.thy ===== *)
theory Smf_Keepalive
  imports Smf_Shared Smf_Orphan
begin

text \<open>
  The keep-alive task of the simulator (src/smf-sim/src/keepalive.rs), which \<^verbatim>\<open>main\<close> spawns beside the terminal
  and which sends and receives on the same socket. It is split at its await points like the commands of
  \<open>Smf_Shared\<close>; \<open>ka_round\<close> of \<open>Smf_Client\<close> is one of its runs.
\<close>

section \<open>The task\<close>

datatype ka_pc = KaCheck | KaBeat call | KaBackoff instant | KaAssoc u32 call | KaSleep instant

record ka_task =
  kt_pc :: ka_pc
  kt_state :: keepalive_state

definition ka_begin_assoc :: "u32 \<Rightarrow> ipv4 \<Rightarrow> pfcp_transport \<Rightarrow> keepalive_state \<Rightarrow> ka_task" where
  "ka_begin_assoc rts smf_addr tr ka =
     (let (ka1, sq) = ka_next_seq ka
      in \<lparr>kt_pc = KaAssoc sq (call_start tr (association_request sq smf_addr rts)), kt_state = ka1\<rparr>)"

text \<open>What follows the heartbeat.\<close>

definition ka_beaten :: "nat \<Rightarrow> u32 \<Rightarrow> ipv4 \<Rightarrow> pfcp_transport \<Rightarrow> instant \<Rightarrow> sim_error + bytes \<Rightarrow> keepalive_state \<Rightarrow> ka_task" where
  "ka_beaten interval rts smf_addr tr now r ka =
     (case r of
        Inl e \<Rightarrow> \<lparr>kt_pc = KaBackoff (now + secs 5), kt_state = ka\<rparr>
      | Inr rsp \<Rightarrow>
         (case extract_recovery_ts rsp of
            None \<Rightarrow> \<lparr>kt_pc = KaSleep (now + interval), kt_state = ka\<rparr>
          | Some recv \<Rightarrow>
             (let stored = ucast (ka_upf_ts ka) :: u32 in
              if stored = 0 then \<lparr>kt_pc = KaSleep (now + interval), kt_state = ka\<lparr>ka_upf_ts := ucast recv\<rparr>\<rparr>
              else if stored \<noteq> recv then
                ka_begin_assoc rts smf_addr tr (ka\<lparr>ka_upf_ts := ucast recv, ka_restarts := ka_restarts ka @ [recv]\<rparr>)
              else \<lparr>kt_pc = KaSleep (now + interval), kt_state = ka\<rparr>)))"

text \<open>What follows the association.\<close>

definition ka_associated :: "nat \<Rightarrow> u32 \<Rightarrow> instant \<Rightarrow> sim_error + bytes \<Rightarrow> keepalive_state \<Rightarrow> ka_task" where
  "ka_associated interval sq now r ka =
     \<lparr>kt_pc = KaSleep (now + interval),
      kt_state = (case r of
         Inl e \<Rightarrow> ka
       | Inr rsp \<Rightarrow>
          (case validate_response PFCP_ASSOCIATION_SETUP_REQ sq rsp of
             Inl e \<Rightarrow> ka
           | Inr u \<Rightarrow> (case extract_recovery_ts rsp of None \<Rightarrow> ka | Some ts \<Rightarrow> ka\<lparr>ka_upf_ts := ucast ts\<rparr>)))\<rparr>"

text \<open>A waiting task goes on with its call, and with what follows once the call has returned.\<close>

definition ka_wait :: "'p net \<Rightarrow> (call \<Rightarrow> ka_pc) \<Rightarrow> (sim_error + bytes \<Rightarrow> ka_task) \<Rightarrow> call \<Rightarrow> ka_task \<Rightarrow> pfcp_transport \<Rightarrow> 'p
    \<Rightarrow> (ka_task \<times> pfcp_transport \<times> 'p) option" where
  "ka_wait N wait rest c k tr p =
     (case ca_pc c of
        Returned r \<Rightarrow> Some (rest r, tr, p)
      | _ \<Rightarrow> map_option (\<lambda>(c', tr', p'). (k\<lparr>kt_pc := wait c'\<rparr>, tr', p')) (call_run N c tr p))"

definition ka_run :: "'p net \<Rightarrow> nat \<Rightarrow> u32 \<Rightarrow> ipv4 \<Rightarrow> ka_task \<Rightarrow> pfcp_transport \<Rightarrow> 'p \<Rightarrow> (ka_task \<times> pfcp_transport \<times> 'p) option" where
  "ka_run N interval rts smf_addr k tr p =
     (case kt_pc k of
        KaCheck \<Rightarrow>
          (let idle = elapsed (net_now N p) (tr_last_activity tr) in
           if idle \<ge> interval then
             let (ka1, sq) = ka_next_seq (kt_state k)
             in Some (\<lparr>kt_pc = KaBeat (call_start tr (heartbeat_request sq rts)), kt_state = ka1\<rparr>, tr, p)
           else Some (k\<lparr>kt_pc := KaSleep (net_now N p + (interval - idle))\<rparr>, tr, p))
      | KaBeat c \<Rightarrow> ka_wait N KaBeat (\<lambda>r. ka_beaten interval rts smf_addr tr (net_now N p) r (kt_state k)) c k tr p
      | KaBackoff t \<Rightarrow> if t \<le> net_now N p then Some (ka_begin_assoc rts smf_addr tr (kt_state k), tr, p) else None
      | KaAssoc sq c \<Rightarrow> ka_wait N (KaAssoc sq) (\<lambda>r. ka_associated interval sq (net_now N p) r (kt_state k)) c k tr p
      | KaSleep t \<Rightarrow> if t \<le> net_now N p then Some (k\<lparr>kt_pc := KaCheck\<rparr>, tr, p) else None)"

inductive ka_runs :: "'p net \<Rightarrow> nat \<Rightarrow> u32 \<Rightarrow> ipv4 \<Rightarrow> ka_task \<Rightarrow> pfcp_transport \<Rightarrow> 'p \<Rightarrow> ka_task \<Rightarrow> pfcp_transport \<Rightarrow> 'p \<Rightarrow> bool"
  for N interval rts smf_addr where
  stay: "ka_runs N interval rts smf_addr k tr p k tr p"
| step: "ka_run N interval rts smf_addr k tr p = Some (k1, tr1, p1) \<Longrightarrow> ka_runs N interval rts smf_addr k1 tr1 p1 k2 tr2 p2 \<Longrightarrow>
    ka_runs N interval rts smf_addr k tr p k2 tr2 p2"
| pass: "ka_runs N interval rts smf_addr k tr (net_sleep N p dt) k2 tr2 p2 \<Longrightarrow> ka_runs N interval rts smf_addr k tr p k2 tr2 p2"

lemma ka_runs_trans:
  "ka_runs N i rts smf k tr p k1 tr1 p1 \<Longrightarrow> ka_runs N i rts smf k1 tr1 p1 k2 tr2 p2 \<Longrightarrow> ka_runs N i rts smf k tr p k2 tr2 p2"
  by (induction rule: ka_runs.induct) (auto intro: ka_runs.intros)

lemma ka_run_step: "ka_run N i rts smf k tr p = Some (k1, tr1, p1) \<Longrightarrow> ka_runs N i rts smf k tr p k1 tr1 p1"
  by (rule ka_runs.step [OF _ ka_runs.stay])

text \<open>The steps of a call are steps of the task that waits for it.\<close>

lemma ka_waits:
  assumes "call_runs N c tr p c' tr' p'" "ca_pc c' = Returned r"
    and "\<And>c tr p. ka_run N i rts smf \<lparr>kt_pc = wait c, kt_state = ka\<rparr> tr p = ka_wait N wait (rest tr p) c \<lparr>kt_pc = wait c, kt_state = ka\<rparr> tr p"
  shows "ka_runs N i rts smf \<lparr>kt_pc = wait c, kt_state = ka\<rparr> tr p (rest tr' p' r) tr' p'"
  using assms(1,2)
proof (induction rule: call_runs.induct)
  case (stay c tr p)
  then show ?case by (intro ka_run_step) (simp add: assms(3) ka_wait_def)
next
  case (step c tr p c1 tr1 p1 c2 tr2 p2)
  have "ka_run N i rts smf \<lparr>kt_pc = wait c, kt_state = ka\<rparr> tr p = Some (\<lparr>kt_pc = wait c1, kt_state = ka\<rparr>, tr1, p1)"
    using step.hyps(1) by (auto simp: assms(3) ka_wait_def call_run_def split: call_pc.splits)
  from ka_runs.step [OF this step.IH [OF step.prems]] show ?case .
next
  case (pass c tr p dt c2 tr2 p2)
  from ka_runs.pass [OF pass.IH [OF pass.prems]] show ?case .
qed

section \<open>A round is a run\<close>

context timed_net
begin

lemma sleep_runs:
  "ka_runs N i rts smf \<lparr>kt_pc = KaSleep (net_now N p + n), kt_state = ka\<rparr> tr p \<lparr>kt_pc = KaCheck, kt_state = ka\<rparr> tr (net_sleep N p n)"
  by (rule ka_runs.pass [of _ _ _ _ _ _ _ n], rule ka_run_step) (simp add: ka_run_def sleep_now)

lemma assoc_runs:
  assumes "reassociate N rts smf tr ka p = (tr', ka', p')"
  shows "ka_runs N i rts smf (ka_begin_assoc rts smf tr ka) tr p \<lparr>kt_pc = KaSleep (net_now N p' + i), kt_state = ka'\<rparr> tr' p'"
proof -
  obtain ka1 sq where q: "ka_next_seq ka = (ka1, sq)" by force
  let ?req = "association_request sq smf rts"
  obtain tr1 p1 r where x: "send_and_recv N tr ?req p = (tr1, p1, r)" by (metis prod_cases3)
  obtain c where c: "call_runs N (call_start tr ?req) tr p c tr1 p1" "ca_pc c = Returned r" using call_returns [OF x] by blast
  have "ka_runs N i rts smf \<lparr>kt_pc = KaAssoc sq (call_start tr ?req), kt_state = ka1\<rparr> tr p (ka_associated i sq (net_now N p1) r ka1) tr1 p1"
    by (rule ka_waits [OF c, where rest = "\<lambda>tr p r. ka_associated i sq (net_now N p) r ka1"]) (simp add: ka_run_def)
  moreover have "ka_associated i sq (net_now N p1) r ka1 = \<lparr>kt_pc = KaSleep (net_now N p' + i), kt_state = ka'\<rparr>" "tr' = tr1" "p' = p1"
    using assms by (auto simp: reassociate_def do_association_def exchange_def q x ka_associated_def split: sum.splits option.splits)
  ultimately show ?thesis by (simp add: ka_begin_assoc_def q)
qed

lemma beat_runs:
  assumes "ka_next_seq ka = (ka1, sq)" "send_and_recv N tr (heartbeat_request sq rts) p = (tr1, p1, r)"
    and "i \<le> elapsed (net_now N p) (tr_last_activity tr)"
  shows "ka_runs N i rts smf \<lparr>kt_pc = KaCheck, kt_state = ka\<rparr> tr p (ka_beaten i rts smf tr1 (net_now N p1) r ka1) tr1 p1"
proof -
  let ?req = "heartbeat_request sq rts"
  obtain c where c: "call_runs N (call_start tr ?req) tr p c tr1 p1" "ca_pc c = Returned r" using call_returns [OF assms(2)] by blast
  have "ka_run N i rts smf \<lparr>kt_pc = KaCheck, kt_state = ka\<rparr> tr p = Some (\<lparr>kt_pc = KaBeat (call_start tr ?req), kt_state = ka1\<rparr>, tr, p)"
    using assms(1,3) by (simp add: ka_run_def Let_def)
  moreover have "ka_runs N i rts smf \<lparr>kt_pc = KaBeat (call_start tr ?req), kt_state = ka1\<rparr> tr p (ka_beaten i rts smf tr1 (net_now N p1) r ka1) tr1 p1"
    by (rule ka_waits [OF c, where rest = "\<lambda>tr p r. ka_beaten i rts smf tr (net_now N p) r ka1"]) (simp add: ka_run_def)
  ultimately show ?thesis by (rule ka_runs.step)
qed

lemma round_runs:
  assumes "ka_round N i rts smf tr ka p = (tr', ka', p')"
  shows "ka_runs N i rts smf \<lparr>kt_pc = KaCheck, kt_state = ka\<rparr> tr p \<lparr>kt_pc = KaCheck, kt_state = ka'\<rparr> tr' p'"
proof (cases "i \<le> elapsed (net_now N p) (tr_last_activity tr)")
  case False
  let ?n = "i - elapsed (net_now N p) (tr_last_activity tr)"
  have "ka_run N i rts smf \<lparr>kt_pc = KaCheck, kt_state = ka\<rparr> tr p = Some (\<lparr>kt_pc = KaSleep (net_now N p + ?n), kt_state = ka\<rparr>, tr, p)"
    using False by (simp add: ka_run_def Let_def)
  from ka_runs.step [OF this sleep_runs] False assms show ?thesis by (auto simp: ka_round_def)
next
  case True
  obtain ka1 sq where q: "ka_next_seq ka = (ka1, sq)" by force
  obtain tr1 p1 r where x: "send_and_recv N tr (heartbeat_request sq rts) p = (tr1, p1, r)" by (metis prod_cases3)
  note beat = beat_runs [OF q x True, of smf]
  note round = assms [unfolded ka_round_def Let_def q x prod.case if_P [OF True]]
  have reassoc: ?thesis if "ka_runs N i rts smf \<lparr>kt_pc = KaCheck, kt_state = ka\<rparr> tr p (ka_begin_assoc rts smf tr1 ka2) tr1 p2"
      "reassociate N rts smf tr1 ka2 p2 = (tr', ka', p3)" "p' = net_sleep N p3 i" for ka2 p2 p3
    using ka_runs_trans [OF that(1) ka_runs_trans [OF assoc_runs [OF that(2)] sleep_runs]] that(3) by simp
  have sleep: ?thesis if "ka_beaten i rts smf tr1 (net_now N p1) r ka1 = \<lparr>kt_pc = KaSleep (net_now N p1 + i), kt_state = ka'\<rparr>"
      "tr' = tr1" "p' = net_sleep N p1 i"
    using ka_runs_trans [OF beat [unfolded that(1)] sleep_runs] that(2,3) by simp
  show ?thesis
  proof (cases r)
    case (Inl e)
    obtain p3 where re: "reassociate N rts smf tr1 ka1 (net_sleep N p1 (secs 5)) = (tr', ka', p3)" "p' = net_sleep N p3 i"
      using round by (auto simp: Inl split: prod.splits)
    have "ka_runs N i rts smf \<lparr>kt_pc = KaBackoff (net_now N p1 + secs 5), kt_state = ka1\<rparr> tr1 p1 (ka_begin_assoc rts smf tr1 ka1) tr1 (net_sleep N p1 (secs 5))"
      by (rule ka_runs.pass [of _ _ _ _ _ _ _ "secs 5"], rule ka_run_step) (simp add: ka_run_def sleep_now)
    with beat have "ka_runs N i rts smf \<lparr>kt_pc = KaCheck, kt_state = ka\<rparr> tr p (ka_begin_assoc rts smf tr1 ka1) tr1 (net_sleep N p1 (secs 5))"
      by (auto simp: ka_beaten_def Inl intro: ka_runs_trans)
    from reassoc [OF this re] show ?thesis .
  next
    case (Inr rsp)
    show ?thesis
    proof (cases "extract_recovery_ts rsp")
      case None
      with Inr round show ?thesis by (intro sleep) (auto simp: ka_beaten_def)
    next
      case (Some recv)
      let ?ka2 = "ka1\<lparr>ka_upf_ts := ucast recv, ka_restarts := ka_restarts ka1 @ [recv]\<rparr>"
      consider "(ucast (ka_upf_ts ka1) :: u32) = 0" | "(ucast (ka_upf_ts ka1) :: u32) \<noteq> 0" "(ucast (ka_upf_ts ka1) :: u32) = recv"
        | "(ucast (ka_upf_ts ka1) :: u32) \<noteq> 0" "(ucast (ka_upf_ts ka1) :: u32) \<noteq> recv" by blast
      then show ?thesis
      proof cases
        case 3
        obtain p3 where re: "reassociate N rts smf tr1 ?ka2 p1 = (tr', ka', p3)" "p' = net_sleep N p3 i"
          using round 3 by (auto simp: Inr Some split: prod.splits)
        have "ka_beaten i rts smf tr1 (net_now N p1) r ka1 = ka_begin_assoc rts smf tr1 ?ka2"
          using 3 by (simp add: ka_beaten_def Inr Some Let_def)
        from reassoc [OF beat [unfolded this] re] show ?thesis .
      qed (use Inr Some round in \<open>intro sleep; auto simp: ka_beaten_def\<close>)+
    qed
  qed
qed

end

section \<open>Terminal and keep-alive on one socket\<close>

datatype process_action = Task action | KeepAlive

definition process_act :: "'p net \<Rightarrow> ((u64 \<rightharpoonup> sim_session) \<Rightarrow> sim_session list) \<Rightarrow> nat \<Rightarrow> u32 \<Rightarrow> ipv4 \<Rightarrow> ipv4 \<Rightarrow> process_action
    \<Rightarrow> 'p shared \<times> ka_task \<Rightarrow> ('p shared \<times> ka_task) option" where
  "process_act N order interval rts smf_addr gnb_addr a P =
     (case P of (S, k) \<Rightarrow>
      case a of
        Task b \<Rightarrow> map_option (\<lambda>S'. (S', k)) (act N order smf_addr gnb_addr b S)
      | KeepAlive \<Rightarrow>
         (case sh_world S of (tr, s, p) \<Rightarrow>
          map_option (\<lambda>(k', tr', p'). (S\<lparr>sh_world := (tr', s, p')\<rparr>, k')) (ka_run N interval rts smf_addr k tr p)))"

primrec run_process :: "'p net \<Rightarrow> ((u64 \<rightharpoonup> sim_session) \<Rightarrow> sim_session list) \<Rightarrow> nat \<Rightarrow> u32 \<Rightarrow> ipv4 \<Rightarrow> ipv4 \<Rightarrow> process_action list
    \<Rightarrow> 'p shared \<times> ka_task \<Rightarrow> ('p shared \<times> ka_task) option" where
  "run_process N order interval rts smf_addr gnb_addr [] P = Some P"
| "run_process N order interval rts smf_addr gnb_addr (a # as) P =
     Option.bind (process_act N order interval rts smf_addr gnb_addr a P) (run_process N order interval rts smf_addr gnb_addr as)"

lemma run_process_Cons:
  "process_act N order i rts smf gnb a P = Some P1 \<Longrightarrow> run_process N order i rts smf gnb as P1 = X \<Longrightarrow>
    run_process N order i rts smf gnb (a # as) P = X"
  by simp

lemma process_task:
  assumes "job_run N order smf gnb j w = Some (j', w', es)"
  shows "process_act N order i rts smf gnb (Task (Run 0)) (\<lparr>sh_world = w, sh_jobs = [j], sh_events = ev\<rparr>, k) =
    Some (\<lparr>sh_world = w', sh_jobs = [j'], sh_events = ev @ es\<rparr>, k)"
  using assms by (simp add: process_act_def act_def)

lemma process_keepalive:
  assumes "ka_run N i rts smf k tr p = Some (k', tr', p')"
  shows "process_act N order i rts smf gnb KeepAlive (\<lparr>sh_world = (tr, s, p), sh_jobs = js, sh_events = ev\<rparr>, k) =
    Some (\<lparr>sh_world = (tr', s, p'), sh_jobs = js, sh_events = ev\<rparr>, k')"
  using assms by (simp add: process_act_def)

text \<open>A response to another request is dropped by the call that receives it.\<close>

lemma call_drops:
  assumes "lk_inbox l = r # rs" "length r \<le> 4096" "lk_clock l < deadline" "ca_pc c = Awaiting k deadline"
    and "pfcp_header_decode r = Inr (h, b)" "msg_type h \<noteq> ca_expected c" "msg_type h \<noteq> PFCP_HEARTBEAT_REQ"
  shows "call_run (upf_net E smf_sock upf) c tr l = Some (c, tr, l\<lparr>lk_inbox := rs, lk_clock := lk_clock l + 1\<rparr>)"
  using assms by (simp add: call_run_def call_datagram_def upf_net_recv(2) answer_unsolicited_def handle_unsolicited_def Let_def)

text \<open>A heartbeat with the recovery time stamp of the association changes nothing but activity times.\<close>

lemma serve_heartbeat:
  fixes st :: upf_state
  assumes "order_laws E" "is_v4 src" "unat sq < 2 ^ 24" "registered src node (st_server st) a" "as_recovery_ts a = ts"
  shows "\<exists>st' a'. serve_datagram E (heartbeat_request sq ts) src st = (st', Some (build_heartbeat_response sq (srv_recovery_ts (st_server st)))) \<and>
    sessions (st_server st') = sessions (st_server st) \<and> registered src node (st_server st') a' \<and>
    next_seid (st_server st') = next_seid (st_server st) \<and> next_teid (st_server st') = next_teid (st_server st)"
proof -
  let ?st = "st\<lparr>st_server := touch_activity (env_now E) (st_server st)\<rparr>"
  obtain h where h: "pfcp_header_decode (heartbeat_request sq ts) = Inr (h, tlv PFCP_IE_RECOVERY_TIME_STAMP (to_be_bytes ts))"
      "msg_type h = PFCP_HEARTBEAT_REQ" "seq_num h = sq"
    using heartbeat_request_header [OF assms(3)] by blast
  have fa: "find_association E (st_server ?st) src = Some (node, a)"
    by (rule registered_found [OF assms(1)]) (use assms(4) in simp)
  let ?a = "a\<lparr>as_last_activity := env_now E, as_heartbeat := (as_heartbeat a)\<lparr>hb_last_response := Some (env_now E), hb_consecutive_failures := 0\<rparr>\<rparr>"
  have "build_heartbeat_response sq t \<noteq> []" for t
    by (rule answer_nonempty [OF heartbeat_answer [OF assms(3)]])
  moreover have "registered src node ((st_server ?st)\<lparr>associations := (associations (st_server ?st))(node \<mapsto> ?a)\<rparr>) ?a"
    by (rule registered_update [of _ _ "st_server ?st" a]) (use assms(4) in simp_all)
  ultimately show ?thesis
    using h fa heartbeat_ts_decodes assms(2,5)
    by (auto simp: serve_datagram_def handle_message_def handle_heartbeat_def Let_def touch_activity_def)
qed

lemma run_process_append:
  "run_process N order i rts smf gnb (as @ bs) P = Option.bind (run_process N order i rts smf gnb as P) (run_process N order i rts smf gnb bs)"
  by (induction as arbitrary: P) (simp_all split: bind_split)

lemma ka_runs_process:
  assumes "ka_runs N i rts smf k tr p k' tr' p'" "sh_world S = (tr, s, p)"
  shows "\<exists>as. run_process N order i rts smf gnb as (S, k) = Some (S\<lparr>sh_world := (tr', s, p')\<rparr>, k')"
  using assms
proof (induction arbitrary: S rule: ka_runs.induct)
  case (stay k tr p)
  then show ?case by (intro exI [of _ "[]"]) simp
next
  case (step k tr p k1 tr1 p1 k2 tr2 p2)
  then obtain as where "run_process N order i rts smf gnb as (S\<lparr>sh_world := (tr1, s, p1)\<rparr>, k1) = Some (S\<lparr>sh_world := (tr2, s, p2)\<rparr>, k2)"
    using step.IH [of "S\<lparr>sh_world := (tr1, s, p1)\<rparr>"] by auto
  with step.hyps(1) step.prems show ?case by (intro exI [of _ "KeepAlive # as"]) (simp add: process_act_def)
next
  case (pass k tr p dt k2 tr2 p2)
  then obtain as where "run_process N order i rts smf gnb as (S\<lparr>sh_world := (tr, s, net_sleep N p dt)\<rparr>, k) = Some (S\<lparr>sh_world := (tr2, s, p2)\<rparr>, k2)"
    using pass.IH [of "S\<lparr>sh_world := (tr, s, net_sleep N p dt)\<rparr>"] by auto
  with pass.prems show ?case by (intro exI [of _ "Task (Pass dt) # as"]) (simp add: process_act_def act_def)
qed

text \<open>A round of the keep-alive loop, as \<open>Smf_Client\<close> has it, is a schedule of the process in which no command moves.\<close>

lemma keepalive_round_scheduled:
  assumes "ka_round (upf_net E src upf) i rts smf tr ka p = (tr', ka', p')" "sh_world S = (tr, s, p)"
  shows "\<exists>as. run_process (upf_net E src upf) order i rts smf gnb as (S, \<lparr>kt_pc = KaCheck, kt_state = ka\<rparr>) =
    Some (S\<lparr>sh_world := (tr', s, p')\<rparr>, \<lparr>kt_pc = KaCheck, kt_state = ka'\<rparr>)"
  by (rule ka_runs_process [OF upf_clock.round_runs [OF assms(1)] assms(2)])

text \<open>Single steps of the keep-alive task and of an add that meets it.\<close>

lemma ka_checks:
  assumes "i \<le> elapsed (net_now N p) (tr_last_activity tr)" "unat (ka_seq ka) < 2 ^ 24"
  shows "ka_run N i rts smf \<lparr>kt_pc = KaCheck, kt_state = ka\<rparr> tr p =
    Some (\<lparr>kt_pc = KaBeat \<lparr>ca_msg = heartbeat_request (ka_seq ka) rts, ca_expected = PFCP_HEARTBEAT_RSP,
        ca_pc = ToSend (unat (tr_max_retries tr) + 1) None\<rparr>, kt_state = ka\<lparr>ka_seq := ka_seq ka + 1\<rparr>\<rparr>, tr, p)"
proof -
  obtain h b where "pfcp_header_decode (heartbeat_request (ka_seq ka) rts) = Inr (h, b)" "msg_type h = PFCP_HEARTBEAT_REQ"
    using heartbeat_request_header [OF assms(2)] by blast
  with assms(1) show ?thesis by (simp add: ka_run_def ka_next_seq_def call_start_def Let_def)
qed

lemma ka_sends:
  assumes "serve_datagram (E\<lparr>env_now := lk_clock l\<rparr>) (ca_msg c) smf_sock (lk_upf l) = (st', Some r)" "lk_lost l = []" "tr_ok upf tr"
    and "ca_pc c = ToSend (Suc n) err"
  shows "ka_run (upf_net E smf_sock upf) i rts smf \<lparr>kt_pc = KaBeat c, kt_state = ka\<rparr> tr l =
    Some (\<lparr>kt_pc = KaBeat (c\<lparr>ca_pc := Awaiting n (lk_clock l + tr_response_timeout tr)\<rparr>), kt_state = ka\<rparr>, tr,
      l\<lparr>lk_upf := st', lk_inbox := lk_inbox l @ [r]\<rparr>)"
  using assms by (simp add: ka_run_def ka_wait_def call_run_def upf_net_send [OF assms(1)] deliver_def tr_ok_def)

lemma ka_drops:
  assumes "call_run N c tr p = Some (c, tr, p')"
  shows "ka_run N i rts smf \<lparr>kt_pc = KaBeat c, kt_state = ka\<rparr> tr p = Some (\<lparr>kt_pc = KaBeat c, kt_state = ka\<rparr>, tr, p')"
  using assms by (auto simp: ka_run_def ka_wait_def call_run_def split: call_pc.splits)

lemma add_drops:
  assumes "call_run N c tr p = Some (c, tr, p')"
  shows "job_run N order smf gnb (AddWait n ue td cp c) (tr, s, p) = Some (AddWait n ue td cp c, (tr, s, p'), [])"
  using assms by (auto simp: job_run_def wait_run_def call_run_def split: call_pc.splits)

lemma add_expires:
  assumes "deadline \<le> net_now N p"
  shows "job_run N order smf gnb (AddWait n ue td cp (waiting req (Awaiting k deadline))) (tr, s, p) =
    Some (AddWait n ue td cp (waiting req (ToSend k (Some TimedOut))), (tr, s, p), [])"
  using assms by (simp add: job_run_def wait_run_def call_run_def)

definition crossed_schedule :: "nat \<Rightarrow> process_action list" where
  "crossed_schedule dt = [KeepAlive, KeepAlive, Task (Run 0), Task (Run 0), Task (Run 0), KeepAlive, Task (Pass dt),
     Task (Run 0), Task (Run 0), Task (Run 0), Task (Run 0), Task (Run 0)]"

text \<open>
  The schedule, given what the UPF answers: the keep-alive sends, the add sends, each receives the answer to the
  other's request, and after the timeout the add sends again.
\<close>

lemma crossed_run:
  fixes s :: sim_state and l :: upf_link and ka :: keepalive_state and smf gnb :: ipv4
  assumes "quiet l" "tr_ok upf tr" "1 < tr_response_timeout tr" "unat (tr_max_retries tr) = Suc m"
    and "interval \<le> elapsed (lk_clock l) (tr_last_activity tr)" "unat (ka_seq ka) < 2 ^ 24"
    and "unat (sim_next_seq s) < 2 ^ 24" "sim_next_ue_ip s \<le> sim_ue_ip_end s" "sid' \<noteq> 0" "td' \<noteq> 0"
  defines "ue \<equiv> ip_from_u32 (sim_next_ue_ip s)" and "cp \<equiv> sim_next_cp_seid s" and "t3 \<equiv> lk_clock l + 2 + tr_response_timeout tr"
  defines "req \<equiv> build_session_establishment_request (sim_next_seq s) smf cp ue gnb (sim_next_gnb_teid s)"
  assumes st1: "serve_datagram (E\<lparr>env_now := lk_clock l\<rparr>) (heartbeat_request (ka_seq ka) rts) src (lk_upf l) = (st1, Some hr)"
      "hr = build_heartbeat_response (ka_seq ka) ts"
    and st2: "serve_datagram (E\<lparr>env_now := lk_clock l\<rparr>) req src st1 = (st2, Some r2)"
      "r2 = build_session_establishment_response (sim_next_seq s) cp sid ip [(1, td, ip)]"
    and st3: "serve_datagram (E\<lparr>env_now := t3\<rparr>) req src st2 = (st3, Some r3)"
      "r3 = build_session_establishment_response (sim_next_seq s) cp sid' ip' [(1, td', ip')]"
  shows "\<exists>tr' s' l' k' es x. run_process (upf_net E src upf) order interval rts smf gnb (crossed_schedule (tr_response_timeout tr))
      (\<lparr>sh_world = (tr, s, l), sh_jobs = [AddNext (Suc 0)], sh_events = []\<rparr>, \<lparr>kt_pc = KaCheck, kt_state = ka\<rparr>) =
      Some (\<lparr>sh_world = (tr', s', l'), sh_jobs = [JobDone], sh_events = es\<rparr>, k') \<and>
    SEvLog (SSessionAdded ue sid') \<in> set es \<and> sim_sessions s' = (sim_sessions s)(cp \<mapsto> x) \<and> ss_upf_seid x = sid' \<and>
    lk_upf l' = st3 \<and> lk_lost l' = []"
proof -
  let ?N = "upf_net E src upf" and ?t = "lk_clock l" and ?T = "tr_response_timeout tr" and ?sq = "sim_next_seq s" and ?g = "sim_next_gnb_teid s"
  let ?n = "unat (tr_max_retries tr)" and ?hb = "heartbeat_request (ka_seq ka) rts"
  obtain hh hb where hh: "pfcp_header_decode hr = Inr (hh, hb)" "msg_type hh = PFCP_HEARTBEAT_RSP"
    using heartbeat_response_decodes [OF assms(6)] unfolding st1(2) by blast
  obtain eh eb where eh: "pfcp_header_decode r2 = Inr (eh, eb)" "msg_type eh = PFCP_SESSION_ESTABLISHMENT_RSP"
    using establishment_answer_decodes [OF assms(7)] unfolding st2(2) by blast
  let ?k = "\<lambda>pc. \<lparr>kt_pc = KaBeat \<lparr>ca_msg = ?hb, ca_expected = PFCP_HEARTBEAT_RSP, ca_pc = pc\<rparr>, kt_state = ka\<lparr>ka_seq := ka_seq ka + 1\<rparr>\<rparr>"
  let ?J = "\<lambda>pc. AddWait 0 ue ?g cp (waiting req pc)"
  let ?s1 = "s\<lparr>sim_next_seq := ?sq + 1, sim_next_ue_ip := sim_next_ue_ip s + 1, sim_next_gnb_teid := ?g + 1, sim_next_cp_seid := cp + 1\<rparr>"
  let ?l1 = "l\<lparr>lk_upf := st1, lk_inbox := [hr]\<rparr>" let ?l2 = "?l1\<lparr>lk_upf := st2, lk_inbox := [hr, r2]\<rparr>"
  let ?l3 = "?l2\<lparr>lk_inbox := [r2], lk_clock := ?t + 1\<rparr>" let ?l4 = "?l3\<lparr>lk_inbox := [], lk_clock := ?t + 2\<rparr>"
  let ?l5 = "?l4\<lparr>lk_clock := t3\<rparr>" let ?l6 = "?l5\<lparr>lk_upf := st3, lk_inbox := [r3]\<rparr>" let ?l7 = "?l6\<lparr>lk_inbox := [], lk_clock := t3 + 1\<rparr>"
  let ?tr' = "tr\<lparr>tr_last_activity := t3 + 1\<rparr>"
  have lost: "lk_inbox l = []" "lk_lost l = []" using assms(1) by (simp_all add: quiet_def)
  have k1: "ka_run ?N interval rts smf \<lparr>kt_pc = KaCheck, kt_state = ka\<rparr> tr l = Some (?k (ToSend (Suc ?n) None), tr, l)"
    using ka_checks [OF _ assms(6), of interval ?N l tr rts smf] assms(5) by simp
  have k2: "ka_run ?N interval rts smf (?k (ToSend (Suc ?n) None)) tr l = Some (?k (Awaiting ?n (?t + ?T)), tr, ?l1)"
    using ka_sends [where E = E and l = l and c = "\<lparr>ca_msg = ?hb, ca_expected = PFCP_HEARTBEAT_RSP, ca_pc = ToSend (Suc ?n) None\<rparr>"
        and smf_sock = src and st' = st1 and r = hr and upf = upf and tr = tr]
      st1(1) lost assms(2) by simp
  have j1: "job_run ?N order smf gnb (AddNext (Suc 0)) (tr, s, ?l1) = Some (?J (ToSend (Suc ?n) None), (tr, ?s1, ?l1), [SEvLog (SAddingUe ue)])"
    using run_begin [OF assms(7,8), of ?N order smf gnb 0 tr ?l1] by (simp add: ue_def cp_def req_def)
  have j2: "job_run ?N order smf gnb (?J (ToSend (Suc ?n) None)) (tr, ?s1, ?l1) = Some (?J (Awaiting ?n (?t + ?T)), (tr, ?s1, ?l2), [])"
    using run_send [where E = E and l = ?l1 and req = req and smf_sock = src and st' = st2 and r = r2 and upf = upf and tr = tr] st2(1) lost assms(2) by simp
  have j3: "job_run ?N order smf gnb (?J (Awaiting ?n (?t + ?T))) (tr, ?s1, ?l2) = Some (?J (Awaiting ?n (?t + ?T)), (tr, ?s1, ?l3), [])"
    by (rule add_drops, rule call_drops [THEN trans])
      (use hh assms(3) heartbeat_answer_length in \<open>auto simp: st1(2)\<close>)
  have k3: "ka_run ?N interval rts smf (?k (Awaiting ?n (?t + ?T))) tr ?l3 = Some (?k (Awaiting ?n (?t + ?T)), tr, ?l4)"
    by (rule ka_drops, rule call_drops [THEN trans])
      (use eh assms(3) in \<open>auto simp: st2(2) answer_lengths(2)\<close>)
  have pass: "process_act ?N order interval rts smf gnb (Task (Pass ?T)) (\<lparr>sh_world = (tr, ?s1, ?l4), sh_jobs = js, sh_events = ev\<rparr>, k) =
      Some (\<lparr>sh_world = (tr, ?s1, ?l5), sh_jobs = js, sh_events = ev\<rparr>, k)" for js ev k
    by (simp add: process_act_def act_def t3_def add_ac)
  have j4: "job_run ?N order smf gnb (?J (Awaiting ?n (?t + ?T))) (tr, ?s1, ?l5) = Some (?J (ToSend (Suc m) (Some TimedOut)), (tr, ?s1, ?l5), [])"
    using add_expires [of "?t + ?T" ?N ?l5] assms(4) by (simp add: t3_def)
  have j5: "job_run ?N order smf gnb (?J (ToSend (Suc m) (Some TimedOut))) (tr, ?s1, ?l5) = Some (?J (Awaiting m (t3 + ?T)), (tr, ?s1, ?l6), [])"
    using run_send [where E = E and l = ?l5 and req = req and smf_sock = src and st' = st3 and r = r3 and upf = upf and tr = tr] st3(1) lost assms(2) by simp
  have j6: "job_run ?N order smf gnb (?J (Awaiting m (t3 + ?T))) (tr, ?s1, ?l6) = Some (?J (Returned (Inr r3)), (?tr', ?s1, ?l7), [])"
    using run_recv [where l = ?l6 and r = r3 and rs = "[]" and deadline = "t3 + ?T" and sq = ?sq] establishment_answer [OF assms(7)] assms(3)
    by (simp add: st3(2) answer_lengths(2))
  define x where "x = \<lparr>ss_cp_seid = cp, ss_upf_seid = sid', ss_upf_teid = td', ss_upf_n3_addr = ip', ss_ue_ip = ue,
      ss_gnb_teid = ?g, ss_created_at = net_now ?N ?l7\<rparr>"
  let ?s2 = "?s1\<lparr>sim_sessions := (sim_sessions ?s1)(cp \<mapsto> x)\<rparr>"
  let ?es = "[SEvLog (SSessionAdded ue sid'), SEvSessionsUpdated (order ((sim_sessions ?s1)(cp \<mapsto> x)))]"
  have j7: "job_run ?N order smf gnb (?J (Returned (Inr r3))) (?tr', ?s1, ?l7) = Some (AddNext 0, (?tr', ?s2, ?l7), ?es)"
    unfolding x_def st3(2) by (rule run_end [OF extract_session_info_answer [OF assms(7,9,10)]])
  have j8: "job_run ?N order smf gnb (AddNext 0) (?tr', ?s2, ?l7) = Some (JobDone, (?tr', ?s2, ?l7), [])"
    by (simp add: job_run_def)
  have run: "run_process ?N order interval rts smf gnb (crossed_schedule ?T)
      (\<lparr>sh_world = (tr, s, l), sh_jobs = [AddNext (Suc 0)], sh_events = []\<rparr>, \<lparr>kt_pc = KaCheck, kt_state = ka\<rparr>) =
      Some (\<lparr>sh_world = (?tr', ?s2, ?l7), sh_jobs = [JobDone], sh_events = [SEvLog (SAddingUe ue)] @ ?es\<rparr>, ?k (Awaiting ?n (?t + ?T)))"
    unfolding crossed_schedule_def
    by (rule run_process_Cons [OF process_keepalive [OF k1]], rule run_process_Cons [OF process_keepalive [OF k2]],
        rule run_process_Cons [OF process_task [OF j1]], rule run_process_Cons [OF process_task [OF j2]],
        rule run_process_Cons [OF process_task [OF j3]], rule run_process_Cons [OF process_keepalive [OF k3]],
        rule run_process_Cons [OF pass], rule run_process_Cons [OF process_task [OF j4]],
        rule run_process_Cons [OF process_task [OF j5]], rule run_process_Cons [OF process_task [OF j6]],
        rule run_process_Cons [OF process_task [OF j7]], rule run_process_Cons [OF process_task [OF j8]]) simp
  show ?thesis
    by (intro exI [of _ x] exI conjI, rule run) (use lost in \<open>simp_all add: x_def\<close>)
qed

section \<open>Properties\<close>

text \<open>
  C33: The keep-alive task and a command take each other's answers. Both have sent their request and wait on
  the same socket; the network loses nothing and the UPF answers both at once. The command may receive
  the heartbeat response and the keep-alive the establishment response; each drops what it did not ask
  for. The command then times out and sends its request again, which the UPF takes for a new one: the
  command reports the second session, and the UPF keeps both, the first one under the same UE address
  and CP SEID without the simulator knowing.
\<close>

theorem keepalive_takes_answer:
  fixes s :: sim_state and l :: upf_link and ka :: keepalive_state
  assumes "env_laws E" "env_roomy E" "order_laws E" "is_v4 src" "quiet l" "tr_ok upf tr" "1 < tr_response_timeout tr" "0 < tr_max_retries tr"
    and "registered src node (st_server (lk_upf l)) a" "as_recovery_ts a = rts"
    and "interval \<le> elapsed (lk_clock l) (tr_last_activity tr)" "unat (ka_seq ka) < 2 ^ 24"
    and "unat (sim_next_seq s) < 2 ^ 24" "sim_next_ue_ip s \<le> sim_ue_ip_end s"
    and "unat (next_seid (st_server (lk_upf l))) + 1 < 2 ^ 64" "unat (next_teid (st_server (lk_upf l))) + 1 < 2 ^ 32"
  defines "N \<equiv> upf_net E src upf" and "ue \<equiv> ip_from_u32 (sim_next_ue_ip s)" and "cp \<equiv> sim_next_cp_seid s"
    and "U \<equiv> sessions (st_server (lk_upf l))" and "sid \<equiv> next_seid (st_server (lk_upf l))"
  shows "\<exists>as tr' s' l' k' es x d d'. run_process N order interval rts smf gnb (Task (Command (SimAddSession 1)) # as)
      (\<lparr>sh_world = (tr, s, l), sh_jobs = [], sh_events = []\<rparr>, \<lparr>kt_pc = KaCheck, kt_state = ka\<rparr>) =
      Some (\<lparr>sh_world = (tr', s', l'), sh_jobs = [JobDone], sh_events = es\<rparr>, k') \<and>
    SEvLog (SSessionAdded ue (sid + 1)) \<in> set es \<and> sim_sessions s' = (sim_sessions s)(cp \<mapsto> x) \<and> ss_upf_seid x = sid + 1 \<and>
    sessions (st_server (lk_upf l')) = U(sid \<mapsto> d, sid + 1 \<mapsto> d') \<and>
    sd_ue_ip d = ue \<and> sd_ue_ip d' = ue \<and> sd_cp_seid d = cp \<and> sd_cp_seid d' = cp \<and> lk_lost l' = []"
proof -
  let ?t = "lk_clock l" and ?t3 = "lk_clock l + 2 + tr_response_timeout tr" and ?td = "next_teid (st_server (lk_upf l))"
  let ?E = "\<lambda>t. E\<lparr>env_now := t\<rparr>" and ?req = "build_session_establishment_request (sim_next_seq s) smf cp ue gnb (sim_next_gnb_teid s)"
  obtain m where m: "unat (tr_max_retries tr) = Suc m" using assms(8) by (metis gr0_implies_Suc unat_gt_0 word_gt_0)
  have laws: "env_laws (?E t)" "env_roomy (?E t)" "order_laws (?E t)" for t using assms(1-3) by simp_all
  obtain st1 a1 where st1: "serve_datagram (?E ?t) (heartbeat_request (ka_seq ka) rts) src (lk_upf l) =
      (st1, Some (build_heartbeat_response (ka_seq ka) (srv_recovery_ts (st_server (lk_upf l)))))" "sessions (st_server st1) = U"
      "registered src node (st_server st1) a1" "next_seid (st_server st1) = sid" "next_teid (st_server st1) = ?td"
    using serve_heartbeat [OF laws(3) assms(4,12,9,10)] unfolding U_def sid_def by blast
  let ?d = "lifecycle_data ue ?td gnb cp" and ?d' = "lifecycle_data ue (?td + 1) gnb cp"
  obtain st2 a2 ip where st2: "serve_datagram (?E ?t) ?req src st1 =
        (st2, Some (build_session_establishment_response (sim_next_seq s) cp sid ip [(1, ?td, ip)]))"
      "sessions (st_server st2) = U(sid \<mapsto> ?d)" "registered src node (st_server st2) a2" "next_seid (st_server st2) = sid + 1"
      "next_teid (st_server st2) = ?td + 1"
    using serve_basic [OF laws assms(13,4) st1(3), of ?t smf cp ue gnb "sim_next_gnb_teid s"] unfolding st1 by blast
  obtain st3 ip3 where st3: "serve_datagram (?E ?t3) ?req src st2 =
        (st3, Some (build_session_establishment_response (sim_next_seq s) cp (sid + 1) ip3 [(1, ?td + 1, ip3)]))"
      "sessions (st_server st3) = U(sid \<mapsto> ?d, sid + 1 \<mapsto> ?d')"
    using serve_basic [OF laws assms(13,4) st2(3), of ?t3 smf cp ue gnb "sim_next_gnb_teid s"] unfolding st2 by blast
  have nz: "sid + 1 \<noteq> 0" "?td + 1 \<noteq> 0"
    using assms(15,16) word_succ_nonzero [of sid] word_succ_nonzero [of ?td] by (simp_all add: sid_def)
  obtain tr' s' l' k' es x where run: "run_process N order interval rts smf gnb (crossed_schedule (tr_response_timeout tr))
      (\<lparr>sh_world = (tr, s, l), sh_jobs = [AddNext (Suc 0)], sh_events = []\<rparr>, \<lparr>kt_pc = KaCheck, kt_state = ka\<rparr>) =
      Some (\<lparr>sh_world = (tr', s', l'), sh_jobs = [JobDone], sh_events = es\<rparr>, k')"
      "SEvLog (SSessionAdded ue (sid + 1)) \<in> set es" "sim_sessions s' = (sim_sessions s)(cp \<mapsto> x)" "ss_upf_seid x = sid + 1"
      "lk_upf l' = st3" "lk_lost l' = []"
    using crossed_run [OF assms(5-7) m assms(11-14) nz, folded ue_def cp_def, OF st1(1) refl st2(1) refl st3(1) refl, of order]
    unfolding N_def by blast
  have cmd: "process_act N order interval rts smf gnb (Task (Command (SimAddSession 1))) (\<lparr>sh_world = w, sh_jobs = [], sh_events = []\<rparr>, k) =
      Some (\<lparr>sh_world = w, sh_jobs = [AddNext (Suc 0)], sh_events = []\<rparr>, k)" for w k
    by (simp add: process_act_def act_def job_of_def)
  show ?thesis
    by (intro exI conjI, rule run_process_Cons [OF cmd run(1)], rule run, rule run, rule run, unfold run(5), rule st3(2))
      (use run(6) in simp_all)
qed

theorem keepalive_takes_answer_witness:
  "\<exists>as tr' s' l' k' es d d'. run_process (upf_net lifecycle_env demo_src demo_peer) (\<lambda>_. []) (secs 15) (as_recovery_ts demo_smf)
      (Ipv4Addr 10 0 0 1) (Ipv4Addr 172 22 0 23) (Task (Command (SimAddSession 1)) # as)
      (\<lparr>sh_world = (transport_new 0 demo_peer default_response_timeout default_max_retries, sim_state_new 0 (cfg_session demo_config),
         (fresh_link [])\<lparr>lk_upf := demo_state, lk_clock := secs 15\<rparr>), sh_jobs = [], sh_events = []\<rparr>,
       \<lparr>kt_pc = KaCheck, kt_state = \<lparr>ka_seq = 100, ka_upf_ts = 0, ka_restarts = []\<rparr>\<rparr>) =
      Some (\<lparr>sh_world = (tr', s', l'), sh_jobs = [JobDone], sh_events = es\<rparr>, k') \<and>
    sessions (st_server (lk_upf l')) = [1 \<mapsto> d, 2 \<mapsto> d'] \<and> sd_ue_ip d = sd_ue_ip d'"
proof -
  let ?s = "sim_state_new 0 (cfg_session demo_config)" and ?l = "(fresh_link [])\<lparr>lk_upf := demo_state, lk_clock := secs 15\<rparr>"
  let ?tr = "transport_new 0 demo_peer default_response_timeout default_max_retries" and ?ka = "\<lparr>ka_seq = 100, ka_upf_ts = 0, ka_restarts = []\<rparr>"
  have h: "tr_ok demo_peer ?tr" "1 < tr_response_timeout ?tr" "0 < tr_max_retries ?tr" "unat (sim_next_seq ?s) < 2 ^ 24"
      "sim_next_ue_ip ?s \<le> sim_ue_ip_end ?s" "unat (ka_seq ?ka) < 2 ^ 24" "secs 15 \<le> elapsed (lk_clock ?l) (tr_last_activity ?tr)"
      "is_v4 demo_src" "quiet ?l"
    using demo_link_ready(1)
    by (simp_all add: tr_ok_def transport_new_def sim_state_new_def demo_config_def u32_from_ip_def from_be_bytes_def elapsed_def)
  have u: "lk_upf ?l = lk_upf ((fresh_link [])\<lparr>lk_upf := demo_state\<rparr>)" by simp
  have id: "unat (next_seid (st_server (lk_upf ?l))) + 1 < 2 ^ 64" "unat (next_teid (st_server (lk_upf ?l))) + 1 < 2 ^ 32"
      "registered demo_src (Ipv4Addr 10 0 0 1) (st_server (lk_upf ?l)) demo_smf"
    unfolding u demo_link_ready using demo_link_ready(2) by simp_all
  obtain as tr' s' l' k' es d d' where w: "run_process (upf_net lifecycle_env demo_src demo_peer) (\<lambda>_. []) (secs 15) (as_recovery_ts demo_smf)
      (Ipv4Addr 10 0 0 1) (Ipv4Addr 172 22 0 23) (Task (Command (SimAddSession 1)) # as)
      (\<lparr>sh_world = (?tr, ?s, ?l), sh_jobs = [], sh_events = []\<rparr>, \<lparr>kt_pc = KaCheck, kt_state = ?ka\<rparr>) =
      Some (\<lparr>sh_world = (tr', s', l'), sh_jobs = [JobDone], sh_events = es\<rparr>, k')"
      "sessions (st_server (lk_upf l')) = (sessions (st_server (lk_upf ?l)))(next_seid (st_server (lk_upf ?l)) \<mapsto> d, next_seid (st_server (lk_upf ?l)) + 1 \<mapsto> d')"
      "sd_ue_ip d = ip_from_u32 (sim_next_ue_ip ?s)" "sd_ue_ip d' = ip_from_u32 (sim_next_ue_ip ?s)"
    using keepalive_takes_answer [OF lifecycle_env_ok h(8,9,1-3) id(3) refl h(7,6,4,5) id(1,2), of "\<lambda>_. []" "Ipv4Addr 10 0 0 1" "Ipv4Addr 172 22 0 23"]
    by (elim exE conjE) (rule that)
  have "sessions (st_server (lk_upf l')) = [1 \<mapsto> d, 2 \<mapsto> d']" "sd_ue_ip d = sd_ue_ip d'"
    using w(2-4) unfolding u demo_link_ready by simp_all
  with w(1) show ?thesis by (intro exI conjI)
qed

end
