(* ===== verification/Smf_Main.thy ===== *)
theory Smf_Main
  imports Lifecycle Rust_Text
begin

text \<open>
  The simulator's process (\<^verbatim>\<open>smf-sim/src/main.rs\<close> and the socket set-up of
  \<^verbatim>\<open>smf-sim/src/transport.rs\<close>): the command line, the choice of a network device for the socket, and
  the dispatch of the commands to the routines of \<open>Smf_Client\<close>. The text that \<^verbatim>\<open>ip -o -4 addr show\<close>
  prints and the results of the socket calls are parameters. The interactive command is \<open>Smf_Tui\<close>;
  the keep-alive task that runs beside it, or beside a scenario, is \<open>ka_round\<close>.
\<close>

section \<open>The socket\<close>

text \<open>Indexing a list out of range panics.\<close>

datatype iface_lookup = LookupPanic | NoInterface | Interface string

fun scan_interfaces :: "ipv4 \<Rightarrow> string list \<Rightarrow> iface_lookup" where
  "scan_interfaces ip [] = NoInterface"
| "scan_interfaces ip (line # rest) =
     (let parts = split_whitespace line in
      if length parts < 4 then
        (if length parts \<le> 1 then LookupPanic
         else let iface = parts ! 1 in
           if length parts \<le> 3 then LookupPanic
           else if parse_ipv4 (hd (split_char CHR ''/'' (parts ! 3))) = Some ip then Interface iface
           else scan_interfaces ip rest)
      else scan_interfaces ip rest)"

definition find_interface_for_addr :: "string option \<Rightarrow> ipv4 \<Rightarrow> iface_lookup" where
  "find_interface_for_addr output ip =
     (case output of None \<Rightarrow> NoInterface | Some s \<Rightarrow> scan_interfaces ip (text_lines s))"

record socket_calls =
  sk_output :: "string option"
  sk_create :: bool
  sk_bind_device :: "string \<Rightarrow> bool"
  sk_bind :: "ipv4 \<Rightarrow> u16 \<Rightarrow> bool"

datatype 'a opened = OpenPanic | OpenFailed | Opened "string option" 'a

text \<open>\<open>PfcpTransport::new\<close>: the device the socket is bound to, if any, and the transport.\<close>

definition open_transport :: "socket_calls \<Rightarrow> instant \<Rightarrow> ipv4 \<Rightarrow> u16 \<Rightarrow> socket_addr \<Rightarrow> u64 \<Rightarrow> u32 \<Rightarrow> pfcp_transport opened" where
  "open_transport K now addr port peer timeout_ms retries =
     (if \<not> sk_create K then OpenFailed
      else case find_interface_for_addr (sk_output K) addr of
        LookupPanic \<Rightarrow> OpenPanic
      | NoInterface \<Rightarrow>
          if sk_bind K addr port then Opened None (transport_new now peer timeout_ms retries) else OpenFailed
      | Interface iface \<Rightarrow>
          if \<not> sk_bind_device K iface then OpenFailed
          else if sk_bind K addr port then Opened (Some iface) (transport_new now peer timeout_ms retries)
          else OpenFailed)"

section \<open>Commands\<close>

datatype single_message =
  HeartBeat
| AssociationSetup
| SessionEstablish ipv4 u64
| SessionDelete u64
| SessionModify u64 "u64 option" "u32 option"

datatype commands = Run u8 u32 | Send single_message | Interactive

text \<open>\<^verbatim>\<open>send\<close>: the answer of the establishment and the reports it waits for are only printed.\<close>

fun send_message :: "'p net \<Rightarrow> sim_config \<Rightarrow> u32 \<Rightarrow> single_message \<Rightarrow> pfcp_transport \<Rightarrow> 'p
    \<Rightarrow> pfcp_transport \<times> 'p \<times> (sim_error + unit)" where
  "send_message N cfg rts HeartBeat tr p = send_heartbeat N rts tr p"
| "send_message N cfg rts AssociationSetup tr p = send_association_setup N rts (nc_smf_n4_addr (cfg_network cfg)) tr p"
| "send_message N cfg rts (SessionEstablish ue_ip wait) tr p =
     (case send_session_establishment N cfg ue_ip wait tr p of
        (tr1, p1, reports, r) \<Rightarrow> (tr1, p1, map_sum id (\<lambda>_. ()) r))"
| "send_message N cfg rts (SessionModify sd vol period) tr p = send_session_modification N sd vol period tr p"
| "send_message N cfg rts (SessionDelete sd) tr p = send_session_deletion N sd tr p"

text \<open>\<^verbatim>\<open>run\<close>: \<open>None\<close> when the scenario never gets its association. The number of UEs is ignored.\<close>

definition run_scenario :: "'p net \<Rightarrow> sim_config \<Rightarrow> u32 \<Rightarrow> u64 \<Rightarrow> u8 \<Rightarrow> u32 \<Rightarrow> pfcp_transport \<Rightarrow> 'p
    \<Rightarrow> (pfcp_transport \<times> sim_state \<times> 'p \<times> (sim_error + unit)) option" where
  "run_scenario N cfg rts unix_secs scenario num_ues tr p =
     (let s = sim_state_new unix_secs (cfg_session cfg) in
      if scenario = 1 then basic_lifecycle_run N cfg rts tr s p
      else Some (tr, s, p, Inl (ScenarioNotImplemented scenario)))"

section \<open>The process\<close>

text \<open>
  \<^verbatim>\<open>main\<close> after the command line is parsed: the content of the configuration file (\<open>None\<close> when it cannot be
  read), the TOML parser and the socket calls are arguments. The scenario and the interactive command
  start with a keep-alive task in state \<open>keepalive_start\<close>, whose rounds are \<open>ka_round\<close>; the interactive
  command then hands the transport and a new simulator state to the terminal.
\<close>

definition keepalive_start :: keepalive_state where
  "keepalive_start = \<lparr>ka_seq = 100, ka_upf_ts = 0, ka_restarts = []\<rparr>"

datatype 'p sim_exit =
  ConfigUnreadable
| ConfigInvalid
| SocketPanic
| SocketFailed
| Sent "pfcp_transport \<times> 'p \<times> (sim_error + unit)"
| Ran keepalive_state "(pfcp_transport \<times> sim_state \<times> 'p \<times> (sim_error + unit)) option"
| Terminal keepalive_state pfcp_transport sim_state 'p

definition sim_main :: "socket_calls \<Rightarrow> (string \<Rightarrow> sim_config option) \<Rightarrow> string option \<Rightarrow> 'p net \<Rightarrow> u32 \<Rightarrow> u64 \<Rightarrow> commands \<Rightarrow> 'p \<Rightarrow> 'p sim_exit" where
  "sim_main K toml content N rts unix_secs cmd p =
     (case content of
        None \<Rightarrow> ConfigUnreadable
      | Some text \<Rightarrow>
         (case toml text of
            None \<Rightarrow> ConfigInvalid
          | Some cfg \<Rightarrow>
             (let net = cfg_network cfg; timing = cfg_timing cfg in
              case open_transport K (net_now N p) (nc_smf_n4_addr net) (nc_smf_n4_port net)
                     (SocketV4 (nc_upf_n4_addr net) (nc_upf_n4_port net)) (tc_response_timeout_ms timing) (tc_max_retries timing) of
                OpenPanic \<Rightarrow> SocketPanic
              | OpenFailed \<Rightarrow> SocketFailed
              | Opened device tr \<Rightarrow>
                 (case cmd of
                    Send message \<Rightarrow> Sent (send_message N cfg rts message tr p)
                  | Run scenario num_ues \<Rightarrow> Ran keepalive_start (run_scenario N cfg rts unix_secs scenario num_ues tr p)
                  | Interactive \<Rightarrow> Terminal keepalive_start tr (sim_state_new unix_secs (cfg_session cfg)) p))))"

section \<open>The device is never found\<close>

text \<open>What the comment in the source describes: the device of the first line with the address.\<close>

definition wanted_interface :: "ipv4 \<Rightarrow> string list \<Rightarrow> string option" where
  "wanted_interface ip ls = find_map (\<lambda>line. let parts = split_whitespace line in
     if 4 \<le> length parts \<and> parse_ipv4 (hd (split_char CHR ''/'' (parts ! 3))) = Some ip
     then Some (parts ! 1) else None) ls"

lemma scan_interfaces_exact:
  "scan_interfaces ip ls = (if \<exists>line\<in>set ls. length (split_whitespace line) < 4 then LookupPanic else NoInterface)"
  by (induction ls) (auto simp: Let_def)

text \<open>
  The simulator never binds its socket to the device of its address. The test on the number of
  words is the wrong way round, so a line of at least four words, as the command prints them, is
  skipped even when it has the address, and a shorter line makes the program panic.
\<close>

theorem device_never_bound:
  "find_interface_for_addr output ip \<noteq> Interface iface \<and>
   open_transport K now ip port peer timeout_ms retries \<noteq> Opened (Some iface) tr \<and>
   (find_interface_for_addr output ip = LookupPanic \<longleftrightarrow>
     (\<exists>s. output = Some s \<and> (\<exists>line\<in>set (text_lines s). length (split_whitespace line) < 4)))"
proof -
  have f: "find_interface_for_addr out ip \<noteq> Interface iface" for out
    by (simp add: find_interface_for_addr_def scan_interfaces_exact split: option.split)
  then have "open_transport K now ip port peer timeout_ms retries \<noteq> Opened (Some iface) tr"
    by (auto simp: open_transport_def split: iface_lookup.split)
  moreover have "find_interface_for_addr output ip = LookupPanic \<longleftrightarrow>
      (\<exists>s. output = Some s \<and> (\<exists>line\<in>set (text_lines s). length (split_whitespace line) < 4))"
    by (simp add: find_interface_for_addr_def scan_interfaces_exact split: option.split)
  ultimately show ?thesis
    using f by blast
qed

theorem device_never_bound_witness:
  "let s = ''6: br0    inet 10.0.0.1/8'' in
   wanted_interface (Ipv4Addr 10 0 0 1) (text_lines s) = Some ''br0'' \<and>
   find_interface_for_addr (Some s) (Ipv4Addr 10 0 0 1) \<noteq> Interface ''br0'' \<and>
   find_interface_for_addr (Some ''7: br1'') (Ipv4Addr 10 0 0 1) = LookupPanic"
proof -
  let ?s = "''6: br0    inet 10.0.0.1/8''"
  have "wanted_interface (Ipv4Addr 10 0 0 1) (text_lines ?s) = Some ''br0''" by code_simp
  moreover have "\<exists>line\<in>set (text_lines ''7: br1''). length (split_whitespace line) < 4" by code_simp
  ultimately show ?thesis
    using device_never_bound [of "Some ?s" "Ipv4Addr 10 0 0 1" "''br0''"]
      device_never_bound [of "Some ''7: br1''" "Ipv4Addr 10 0 0 1"]
    by (auto simp: Let_def)
qed

section \<open>A whole run\<close>

text \<open>A transport is opened exactly when the socket can be created and bound and no line of the listing is short.\<close>

lemma open_transport_iff:
  "open_transport K now addr port peer timeout_ms retries = Opened device tr \<longleftrightarrow>
     sk_create K \<and> sk_bind K addr port \<and> device = None \<and> tr = transport_new now peer timeout_ms retries \<and>
     (\<forall>s. sk_output K = Some s \<longrightarrow> (\<forall>line\<in>set (text_lines s). 4 \<le> length (split_whitespace line)))"
  by (auto simp: open_transport_def find_interface_for_addr_def scan_interfaces_exact not_less [symmetric] split: option.splits if_splits)

text \<open>
  The whole process for \<^verbatim>\<open>run --scenario 1\<close>: with a readable configuration, a socket and an address of the pool
  to give, against a UPF that does not know the simulator over a network that loses nothing, it ends
  without an error, with no session left on either side that was not there before.
\<close>

lemma scenario_process_passes:
  fixes cfg :: sim_config and l :: upf_link
  assumes laws: "env_laws E" "env_roomy E" "order_laws E" "is_v4 src" "quiet l"
    and cfg: "toml text = Some cfg" "tc_response_timeout_ms (cfg_timing cfg) \<noteq> 0"
      "sc_ue_ip_pool_start (cfg_session cfg) = a" "u32_from_ip a \<le> u32_from_ip (sc_ue_ip_pool_end (cfg_session cfg))"
    and sock: "sk_create K" "sk_bind K (nc_smf_n4_addr (cfg_network cfg)) (nc_smf_n4_port (cfg_network cfg))" "sk_output K = None"
    and upf: "stranger src (nc_smf_n4_addr (cfg_network cfg)) (st_server (lk_upf l))"
      "next_seid (st_server (lk_upf l)) \<noteq> 0" "next_teid (st_server (lk_upf l)) \<noteq> 0"
      "local_seid (next_seid (st_server (lk_upf l)))" "sessions (st_server (lk_upf l)) (next_seid (st_server (lk_upf l))) = None"
  defines "peer \<equiv> SocketV4 (nc_upf_n4_addr (cfg_network cfg)) (nc_upf_n4_port (cfg_network cfg))"
  shows "\<exists>tr' s' l'. sim_main K toml (Some text) (upf_net E src peer) rts t (Run 1 n) l =
      Ran keepalive_start (Some (tr', s', l', Inr ())) \<and>
    sim_sessions s' = Map.empty \<and> sessions (st_server (lk_upf l')) = sessions (st_server (lk_upf l))"
proof -
  let ?N = "upf_net E src peer" and ?s = "sim_state_new t (cfg_session cfg)" and ?sid = "next_seid (st_server (lk_upf l))"
  let ?tr = "transport_new (net_now ?N l) peer (tc_response_timeout_ms (cfg_timing cfg)) (tc_max_retries (cfg_timing cfg))"
  have "unat (tc_response_timeout_ms (cfg_timing cfg)) \<noteq> 0" using cfg(2) by (simp add: unat_eq_0)
  then have tr: "tr_ok peer ?tr" by (simp add: tr_ok_def transport_new_def)
  let ?s1 = "?s\<lparr>sim_next_seq := sim_next_seq ?s + 1\<rparr>" and ?smf = "nc_smf_n4_addr (cfg_network cfg)"
  have s: "unat (sim_next_seq ?s) < 2 ^ 24" "unat (sim_next_seq ?s1) + 2 < 2 ^ 24" "sim_next_ue_ip ?s1 \<le> sim_ue_ip_end ?s1"
    using cfg(3,4) by (simp_all add: sim_state_new_def)
  obtain tr1 l1 rsp as where a: "associate_loop ?N ?smf rts ?tr ?s 0 l = Some (tr1, ?s1, 1, l1, rsp)"
      "tr_ok peer tr1" "quiet l1" "registered src ?smf (st_server (lk_upf l1)) as"
      "sessions (st_server (lk_upf l1)) = sessions (st_server (lk_upf l))" "next_seid (st_server (lk_upf l1)) = ?sid"
      "next_teid (st_server (lk_upf l1)) = next_teid (st_server (lk_upf l))"
    using link_associate [OF laws(5) tr s(1) upf(1), where E = E and rts = rts] by blast
  obtain tr2 s2 l2 where "lifecycle_session ?N cfg tr1 ?s1 l1 = (tr2, s2, l2, Inr ())"
      "sim_sessions s2 = (sim_sessions ?s1)(sim_next_cp_seid ?s1 := None)"
      "sessions (st_server (lk_upf l2)) = (sessions (st_server (lk_upf l1)))(?sid := None)"
    using link_session [OF laws(1-4) a(3,2,4) s(2,3), of cfg] upf(2-4) unfolding a(6,7) by blast
  moreover have "sim_sessions ?s = Map.empty" by (simp add: sim_state_new_def)
  moreover have "open_transport K (net_now ?N l) ?smf (nc_smf_n4_port (cfg_network cfg)) peer
      (tc_response_timeout_ms (cfg_timing cfg)) (tc_max_retries (cfg_timing cfg)) = Opened None ?tr"
    using sock by (simp add: open_transport_iff)
  ultimately show ?thesis
    using a upf(5) cfg(1) by (auto simp: sim_main_def run_scenario_def basic_lifecycle_run_def peer_def fun_upd_idem)
qed

end
