(* ===== verification/Upf_Main.thy ===== *)
theory Upf_Main
  imports Session_Store
begin

text \<open>
  The UPF process around the server (\<^verbatim>\<open>upf-edge/src/config.rs\<close>, \<^verbatim>\<open>upf-edge/src/main.rs\<close> and the
  route commands of \<^verbatim>\<open>upf-edge/src/handle_msg.rs\<close>): the configuration with the defaults of its
  sections, the command line, the MAC addresses and interface indices, and the start-up sequence up
  to the running server.

  The operating system is the parameter \<open>host\<close>: files, and subprocesses whose answer may depend on
  the commands run before. The TOML parser, the loading and attaching of the eBPF programs, the Redis
  client and the metrics exporter are the parameter \<open>platform\<close>. \<open>toml_config\<close> is a parsed document:
  a section or key that is missing is \<open>None\<close>, and \<open>upf_config_of\<close> is what the derived deserialiser
  makes of it.
\<close>

section \<open>The configuration\<close>

record interfaces_config =
  ic_n3_iface :: "string option"
  ic_n3_addr :: "string option"
  ic_n6_iface :: "string option"
  ic_ue_deliver_iface :: "string option"

record pfcp_config =
  pc_n4_addr :: "string option"
  pc_n4_port :: u16

record peers_config =
  pe_gnb_mac :: "string option"
  pe_gnb_addr :: "string option"
  pe_smf_addr :: "string option"

record redis_config =
  rc_url :: string
  rc_enabled :: bool

record metrics_config =
  mc_enabled :: bool
  mc_listen_addr :: string

record upf_config =
  uc_interfaces :: interfaces_config
  uc_pfcp :: pfcp_config
  uc_peers :: peers_config
  uc_redis :: redis_config
  uc_metrics :: metrics_config

definition default_n4_port :: u16 where
  "default_n4_port = 8805"

definition default_redis_url :: string where
  "default_redis_url = ''redis://127.0.0.1/''"

definition default_metrics_addr :: string where
  "default_metrics_addr = ''0.0.0.0:9091''"

text \<open>The \<^verbatim>\<open>Default\<close> instances: derived for the first three sections, written out for the others.\<close>

definition interfaces_default :: interfaces_config where
  "interfaces_default = \<lparr>ic_n3_iface = None, ic_n3_addr = None, ic_n6_iface = None, ic_ue_deliver_iface = None\<rparr>"

definition pfcp_default :: pfcp_config where
  "pfcp_default = \<lparr>pc_n4_addr = None, pc_n4_port = 0\<rparr>"

definition peers_default :: peers_config where
  "peers_default = \<lparr>pe_gnb_mac = None, pe_gnb_addr = None, pe_smf_addr = None\<rparr>"

definition redis_default :: redis_config where
  "redis_default = \<lparr>rc_url = default_redis_url, rc_enabled = True\<rparr>"

definition metrics_default :: metrics_config where
  "metrics_default = \<lparr>mc_enabled = True, mc_listen_addr = default_metrics_addr\<rparr>"

definition upf_config_default :: upf_config where
  "upf_config_default = \<lparr>uc_interfaces = interfaces_default, uc_pfcp = pfcp_default, uc_peers = peers_default,
     uc_redis = redis_default, uc_metrics = metrics_default\<rparr>"

record toml_config =
  t_interfaces :: "interfaces_config option"
  t_pfcp :: "(string option \<times> u16 option) option"
  t_peers :: "peers_config option"
  t_redis :: "(string option \<times> bool option) option"
  t_metrics :: "(bool option \<times> string option) option"

definition or_default :: "'a \<Rightarrow> 'a option \<Rightarrow> 'a" where
  "or_default d x = (case x of None \<Rightarrow> d | Some y \<Rightarrow> y)"

definition upf_config_of :: "toml_config \<Rightarrow> upf_config" where
  "upf_config_of t = \<lparr>
     uc_interfaces = or_default interfaces_default (t_interfaces t),
     uc_pfcp = (case t_pfcp t of None \<Rightarrow> pfcp_default
                | Some (addr, port) \<Rightarrow> \<lparr>pc_n4_addr = addr, pc_n4_port = or_default default_n4_port port\<rparr>),
     uc_peers = or_default peers_default (t_peers t),
     uc_redis = (case t_redis t of None \<Rightarrow> redis_default
                 | Some (url, on) \<Rightarrow> \<lparr>rc_url = or_default default_redis_url url, rc_enabled = or_default True on\<rparr>),
     uc_metrics = (case t_metrics t of None \<Rightarrow> metrics_default
                   | Some (on, addr) \<Rightarrow> \<lparr>mc_enabled = or_default True on,
                       mc_listen_addr = or_default default_metrics_addr addr\<rparr>)\<rparr>"

section \<open>The host and the errors of start-up\<close>

datatype command_result = SpawnError | Exited bool "string option"

record host =
  file_exists :: "string \<Rightarrow> bool"
  read_file :: "string \<Rightarrow> string option"
  run_command :: "string list list \<Rightarrow> string list \<Rightarrow> command_result"

datatype start_error =
  ConfigUnreadable string
| ConfigInvalid string
| InvalidConfigIp string
| FileUnreadable string
| CommandNotRun
| CommandFailed
| OutputNotUtf8
| InvalidHexByte
| InvalidMac string
| InvalidNumber
| InvalidAddress
| ArpLearnFailed ipv4
| GnbMacUnknown
| EbpfNotLoaded
| EbpfLoggerFailed
| ArrayIndexOutOfBounds
| AttachFailed
| ExporterFailed
| WithContext string start_error

fun and_then :: "'e + 'a \<Rightarrow> ('a \<Rightarrow> 'e + 'b) \<Rightarrow> 'e + 'b" where
  "and_then (Inl e) f = Inl e"
| "and_then (Inr x) f = f x"

definition ok_or :: "'e \<Rightarrow> 'a option \<Rightarrow> 'e + 'a" where
  "ok_or e x = (case x of None \<Rightarrow> Inl e | Some y \<Rightarrow> Inr y)"

definition ensure :: "'e \<Rightarrow> bool \<Rightarrow> 'e + unit" where
  "ensure e b = (if b then Inr () else Inl e)"

section \<open>MAC addresses\<close>

text \<open>\<^verbatim>\<open>str::find\<close> of a pattern: the position of its first occurrence.\<close>

fun find_text :: "string \<Rightarrow> string \<Rightarrow> nat option" where
  "find_text p [] = (if p = [] then Some 0 else None)"
| "find_text p (c # cs) = (if take (length p) (c # cs) = p then Some 0 else map_option Suc (find_text p cs))"

definition parse_mac :: "string \<Rightarrow> start_error + mac_addr" where
  "parse_mac s =
     (case those (map parse_hex (split_char CHR '':'' (trim_text s))) of
        None \<Rightarrow> Inl InvalidHexByte
      | Some parts \<Rightarrow>
          if length parts \<noteq> 6 then Inl (InvalidMac s)
          else Inr (MacAddr (parts ! 0) (parts ! 1) (parts ! 2) (parts ! 3) (parts ! 4) (parts ! 5)))"

definition net_path :: "string \<Rightarrow> string \<Rightarrow> string" where
  "net_path iface file = ''/sys/class/net/'' @ iface @ ''/'' @ file"

definition read_iface_mac :: "host \<Rightarrow> string \<Rightarrow> start_error + mac_addr" where
  "read_iface_mac H iface =
     and_then (ok_or (FileUnreadable (net_path iface ''address'')) (read_file H (net_path iface ''address'')))
       (\<lambda>s. parse_mac (trim_text s))"

text \<open>Functions that run commands thread the list of commands run so far.\<close>

definition read_arp_cache :: "host \<Rightarrow> ipv4 \<Rightarrow> string list list \<Rightarrow> string list list \<times> (start_error + mac_addr option)" where
  "read_arp_cache H addr hist =
     (let cmd = [''ip'', ''neigh'', ''show'', print_ipv4 addr] in
      (hist @ [cmd],
       case run_command H hist cmd of
         SpawnError \<Rightarrow> Inl CommandNotRun
       | Exited _ None \<Rightarrow> Inl OutputNotUtf8
       | Exited _ (Some s) \<Rightarrow>
           (case find_text ''lladdr '' s of
              None \<Rightarrow> Inr None
            | Some i \<Rightarrow>
                (let mac_str = takeWhile (\<lambda>c. \<not> is_whitespace c) (drop (i + 7) s) in
                 if length (split_char CHR '':'' mac_str) = 6 then map_sum id Some (parse_mac mac_str)
                 else Inr None))))"

definition arp_learn_mac :: "host \<Rightarrow> ipv4 \<Rightarrow> string list list \<Rightarrow> string list list \<times> (start_error + mac_addr)" where
  "arp_learn_mac H addr hist =
     (case read_arp_cache H addr hist of
        (hist1, Inl e) \<Rightarrow> (hist1, Inl e)
      | (hist1, Inr (Some mac)) \<Rightarrow> (hist1, Inr mac)
      | (hist1, Inr None) \<Rightarrow>
          (let ping = [''ping'', ''-c'', ''1'', ''-W'', ''1'', print_ipv4 addr];
               (hist2, r) = read_arp_cache H addr (hist1 @ [ping])
           in (hist2, and_then r (ok_or (ArpLearnFailed addr)))))"

definition read_gnb_mac ::
  "host \<Rightarrow> string option \<Rightarrow> string option \<Rightarrow> string list list \<Rightarrow> string list list \<times> (start_error + mac_addr)" where
  "read_gnb_mac H config_mac config_addr hist =
     (case config_mac of
        Some mac_str \<Rightarrow> (hist, map_err (WithContext ''peers.gnb_mac'') (parse_mac mac_str))
      | None \<Rightarrow>
          (case config_addr of
             Some addr_str \<Rightarrow>
               (case parse_ipv4 addr_str of
                  None \<Rightarrow> (hist, Inl (WithContext ''peers.gnb_addr'' InvalidAddress))
                | Some addr \<Rightarrow> map_prod id (map_err (WithContext ''ARP learn'')) (arp_learn_mac H addr hist))
           | None \<Rightarrow> (hist, Inl GnbMacUnknown)))"

section \<open>Routes of the UEs\<close>

text \<open>\<^verbatim>\<open>UE_DELIVER_IFACE\<close> is set once; later calls leave it.\<close>

definition set_ue_deliver_iface :: "string \<Rightarrow> string option \<Rightarrow> string option" where
  "set_ue_deliver_iface iface cell = (case cell of None \<Rightarrow> Some iface | Some old \<Rightarrow> Some old)"

definition deliver_iface :: "string option \<Rightarrow> string" where
  "deliver_iface cell = or_default ''upfedge1'' cell"

definition setup_ue_route ::
  "host \<Rightarrow> string option \<Rightarrow> ipv4 \<Rightarrow> string list list \<Rightarrow> string list list \<times> (start_error + unit)" where
  "setup_ue_route H cell ue hist =
     (let iface = deliver_iface cell in
      case read_file H (net_path iface ''address'') of
        None \<Rightarrow> (hist, Inl (FileUnreadable (net_path iface ''address'')))
      | Some s \<Rightarrow>
          (let mac = trim_text s;
               route = [''ip'', ''route'', ''replace'', print_ipv4 ue @ ''/32'', ''dev'', iface];
               neigh = [''ip'', ''neigh'', ''replace'', print_ipv4 ue, ''lladdr'', mac, ''dev'', iface, ''nud'', ''permanent'']
           in case run_command H hist route of
                SpawnError \<Rightarrow> (hist @ [route], Inl CommandNotRun)
              | Exited ok1 _ \<Rightarrow>
                  (case run_command H (hist @ [route]) neigh of
                     SpawnError \<Rightarrow> (hist @ [route, neigh], Inl CommandNotRun)
                   | Exited ok2 _ \<Rightarrow> (hist @ [route, neigh], ensure CommandFailed (ok1 \<and> ok2)))))"

definition teardown_ue_route :: "string option \<Rightarrow> ipv4 \<Rightarrow> string list list \<Rightarrow> string list list" where
  "teardown_ue_route cell ue hist =
     (let iface = deliver_iface cell in
      hist @ [[''ip'', ''route'', ''del'', print_ipv4 ue @ ''/32'', ''dev'', iface],
             [''ip'', ''neigh'', ''del'', print_ipv4 ue, ''dev'', iface]])"

text \<open>The route commands of the handlers' effects; a failed set-up is only logged.\<close>

fun run_route_effect :: "host \<Rightarrow> string option \<Rightarrow> effect \<Rightarrow> string list list \<Rightarrow> string list list" where
  "run_route_effect H cell (SetupUeRoute ue) hist = fst (setup_ue_route H cell ue hist)"
| "run_route_effect H cell (TeardownUeRoute ue) hist = teardown_ue_route cell ue hist"
| "run_route_effect H cell _ hist = hist"

section \<open>Start-up\<close>

record opt =
  opt_config :: "string option"
  opt_iface_n3 :: string
  opt_iface_n6 :: string
  opt_n4_addr :: ipv4
  opt_n3_addr :: ipv4
  opt_tui :: bool

text \<open>\<open>ebpf_logger\<close> is \<open>None\<close> when the logger cannot be initialised, which is only warned about, and
  otherwise says whether its descriptor could be registered.\<close>

record platform =
  p_host :: host
  toml_from_str :: "string \<Rightarrow> toml_config option"
  ebpf_load :: bool
  ebpf_logger :: "bool option"
  xdp_attach :: "string \<Rightarrow> string \<Rightarrow> bool"
  redis_open :: "string \<Rightarrow> bool"
  exporter_init :: "string \<Rightarrow> bool"

definition load_config :: "platform \<Rightarrow> string \<Rightarrow> start_error + upf_config" where
  "load_config P path =
     (if \<not> file_exists (p_host P) path then Inr upf_config_default
      else and_then (ok_or (ConfigUnreadable path) (read_file (p_host P) path)) (\<lambda>content.
           and_then (ok_or (ConfigInvalid path) (toml_from_str P content)) (\<lambda>t. Inr (upf_config_of t))))"

definition load_or_default :: "platform \<Rightarrow> string option \<Rightarrow> start_error + upf_config" where
  "load_or_default P explicit = load_config P (or_default ''upf-edge/configs/upf-edge-default.toml'' explicit)"

definition override_with_config :: "string \<Rightarrow> string \<Rightarrow> string option \<Rightarrow> string" where
  "override_with_config cli_value cli_default config_value =
     (if cli_value \<noteq> cli_default then cli_value else or_default cli_value config_value)"

definition override_ipv4_with_config :: "ipv4 \<Rightarrow> ipv4 \<Rightarrow> string option \<Rightarrow> start_error + ipv4" where
  "override_ipv4_with_config cli_value cli_default config_value =
     (if cli_value \<noteq> cli_default then Inr cli_value
      else case config_value of
        Some s \<Rightarrow> ok_or (InvalidConfigIp s) (parse_ipv4 s)
      | None \<Rightarrow> Inr cli_value)"

text \<open>An index file holds a decimal number and a line feed.\<close>

definition read_ifindex :: "host \<Rightarrow> string \<Rightarrow> start_error + u32" where
  "read_ifindex H iface =
     and_then (ok_or (FileUnreadable (net_path iface ''ifindex'')) (read_file H (net_path iface ''ifindex'')))
       (\<lambda>s. ok_or InvalidNumber (parse_word (trim_text s)))"

text \<open>An eBPF array of \<open>n\<close> entries starts zeroed and accepts indices below \<open>n\<close>.\<close>

definition zeroed :: "nat \<Rightarrow> 'a \<Rightarrow> nat \<rightharpoonup> 'a" where
  "zeroed n z i = (if i < n then Some z else None)"

definition array_set :: "nat \<Rightarrow> nat \<Rightarrow> 'a \<Rightarrow> (nat \<rightharpoonup> 'a) \<Rightarrow> start_error + (nat \<rightharpoonup> 'a)" where
  "array_set n i v m = (if i < n then Inr (m(i \<mapsto> v)) else Inl ArrayIndexOutOfBounds)"

definition loaded_maps :: bpf_maps where
  "loaded_maps = \<lparr>SESSION_MAP = Map.empty, PDR_MAP = Map.empty, FAR_MAP = Map.empty,
     IF_INDEX = zeroed 2 0, GW_MAC = zeroed 2 (MacAddr 0 0 0 0 0 0), STATS_MAP = Map.empty, URR_MAP = Map.empty\<rparr>"

text \<open>
  The four array writes together; \<open>main\<close> writes the MAC addresses before it reads the indices, which
  makes no difference because writes below the size do not fail.
\<close>

definition fill_maps :: "mac_addr \<Rightarrow> mac_addr \<Rightarrow> u32 \<Rightarrow> u32 \<Rightarrow> bpf_maps \<Rightarrow> start_error + bpf_maps" where
  "fill_maps mac0 mac1 n3_index n6_index M =
     and_then (and_then (array_set 2 0 mac0 (GW_MAC M)) (array_set 2 1 mac1)) (\<lambda>gw.
     and_then (and_then (array_set 2 0 n3_index (IF_INDEX M)) (array_set 2 1 n6_index)) (\<lambda>ix.
     Inr (M\<lparr>GW_MAC := gw, IF_INDEX := ix\<rparr>)))"

record upf_start =
  us_server :: pfcp_server
  us_maps :: bpf_maps
  us_deliver_iface :: "string option"
  us_commands :: "string list list"
  us_poller :: bool

definition start_server :: "platform \<Rightarrow> instant \<Rightarrow> u64 \<Rightarrow> opt \<Rightarrow> upf_config \<Rightarrow> start_error + pfcp_server" where
  "start_server P now unix_secs opt cfg =
     and_then (override_ipv4_with_config (opt_n4_addr opt) (Ipv4Addr 0 0 0 0) (pc_n4_addr (uc_pfcp cfg))) (\<lambda>n4.
     and_then (override_ipv4_with_config (opt_n3_addr opt) (Ipv4Addr 127 22 0 8) (ic_n3_addr (uc_interfaces cfg))) (\<lambda>n3.
     let srv = pfcp_server_new now unix_secs n4 n3 in
     Inr (if redis_open P (rc_url (uc_redis cfg)) then set_session_store srv else srv)))"

text \<open>\<open>main\<close> up to the point where the server task is spawned.\<close>

definition upf_main :: "platform \<Rightarrow> instant \<Rightarrow> u64 \<Rightarrow> opt \<Rightarrow> start_error + upf_start" where
  "upf_main P now unix_secs opt =
     and_then (load_or_default P (opt_config opt)) (\<lambda>cfg.
     let H = p_host P;
         iface_n3 = override_with_config (opt_iface_n3 opt) ''eth0'' (ic_n3_iface (uc_interfaces cfg));
         iface_n6 = override_with_config (opt_iface_n6 opt) ''eth1'' (ic_n6_iface (uc_interfaces cfg));
         deliver = or_default ''upfedge1'' (ic_ue_deliver_iface (uc_interfaces cfg));
         cell = set_ue_deliver_iface deliver None
     in and_then (ensure EbpfNotLoaded (ebpf_load P)) (\<lambda>_.
        and_then (ensure EbpfLoggerFailed (ebpf_logger P \<noteq> Some False)) (\<lambda>_.
        and_then (map_err (WithContext ''read upfedge0 MAC'') (read_iface_mac H ''upfedge0'')) (\<lambda>mac0.
        let (hist, gnb) = read_gnb_mac H (pe_gnb_mac (uc_peers cfg)) (pe_gnb_addr (uc_peers cfg)) [] in
        and_then (map_err (WithContext ''read gNB MAC'') gnb) (\<lambda>mac1.
        and_then (read_ifindex H deliver) (\<lambda>n6_index.
        and_then (map_err (WithContext ''N3 ifindex'') (read_ifindex H iface_n3)) (\<lambda>n3_index.
        and_then (fill_maps mac0 mac1 n3_index n6_index loaded_maps) (\<lambda>M.
        and_then (ensure (WithContext ''N3'' AttachFailed) (xdp_attach P ''upf_edge_n3'' iface_n3)) (\<lambda>_.
        and_then (ensure (WithContext ''N6'' AttachFailed) (xdp_attach P ''upf_edge_n6'' iface_n6)) (\<lambda>_.
        and_then (start_server P now unix_secs opt cfg) (\<lambda>srv.
        and_then (ensure ExporterFailed (mc_enabled (uc_metrics cfg) \<longrightarrow> exporter_init P (mc_listen_addr (uc_metrics cfg)))) (\<lambda>_.
        Inr \<lparr>us_server = (if opt_tui opt then set_tui_sender srv else srv), us_maps = M,
             us_deliver_iface = cell, us_commands = hist, us_poller = mc_enabled (uc_metrics cfg)\<rparr>))))))))))))"

text \<open>The first step of the server task: the sessions of the store.\<close>

definition upf_boot :: "'r redis \<Rightarrow> 'r \<Rightarrow> upf_start \<Rightarrow> upf_state" where
  "upf_boot R r u =
     (let (srv, effs) = startup_load (load_all R r) (us_server u)
      in \<lparr>st_server = srv, st_maps = us_maps u, st_effects = effs\<rparr>)"

section \<open>Reading back what the kernel prints\<close>

text \<open>The kernel's format of a MAC address: six bytes of two hexadecimal digits.\<close>

definition print_hex_byte :: "u8 \<Rightarrow> string" where
  "print_hex_byte b = [digit_char (unat b div 16), digit_char (unat b mod 16)]"

fun print_mac :: "mac_addr \<Rightarrow> string" where
  "print_mac (MacAddr a b c d e f) = print_hex_byte a @ '':'' @ print_hex_byte b @ '':'' @ print_hex_byte c @ '':'' @
     print_hex_byte d @ '':'' @ print_hex_byte e @ '':'' @ print_hex_byte f"

lemma parse_hex_byte: "parse_hex (print_hex_byte b) = Some b"
proof -
  have b: "unat b < 256" using unsigned_less [of b, where 'a = nat] by simp
  then have "to_digit 16 (digit_char (unat b div 16)) = Some (unat b div 16)"
      "to_digit 16 (digit_char (unat b mod 16)) = Some (unat b mod 16)"
    by (simp_all add: to_digit_char)
  then have d: "digits_of 16 (print_hex_byte b) = Some [unat b div 16, unat b mod 16]"
    by (simp add: digits_of_def print_hex_byte_def)
  have "hd (print_hex_byte b) \<noteq> CHR ''+''"
  proof
    assume "hd (print_hex_byte b) = CHR ''+''"
    with \<open>to_digit 16 (digit_char (unat b div 16)) = Some (unat b div 16)\<close>
    have "to_digit 16 CHR ''+'' = Some (unat b div 16)" by (simp add: print_hex_byte_def)
    then show False by (simp add: to_digit_def)
  qed
  moreover have "number 16 0 [unat b div 16, unat b mod 16] = unat b" by simp
  ultimately have "from_str_radix 16 256 (print_hex_byte b) = Some (unat b)"
    using from_str_radix_exact [of 16 256 "print_hex_byte b"] d b by (simp add: Let_def print_hex_byte_def)
  then show ?thesis by (simp add: parse_hex_def)
qed

lemma print_hex_byte_alnum: "c \<in> set (print_hex_byte b) \<Longrightarrow> c \<noteq> CHR '':'' \<and> \<not> is_whitespace c"
proof -
  have "unat b < 256" using unsigned_less [of b, where 'a = nat] by simp
  then have d: "unat b div 16 < 16" "unat b mod 16 < 16" by simp_all
  have "digit_char d \<noteq> CHR '':'' \<and> \<not> is_whitespace (digit_char d)" if "d < 16" for d
  proof -
    have "to_digit 16 (digit_char d) = Some d" by (rule to_digit_char) (use that in simp_all)
    then show ?thesis by (auto simp: to_digit_def is_whitespace_def Let_def split: if_splits)
  qed
  with d show "c \<in> set (print_hex_byte b) \<Longrightarrow> c \<noteq> CHR '':'' \<and> \<not> is_whitespace c"
    by (auto simp: print_hex_byte_def)
qed

lemma print_mac_solid: "c \<in> set (print_mac m) \<Longrightarrow> \<not> is_whitespace c"
proof -
  have "\<not> is_whitespace CHR '':''" by (simp add: is_whitespace_def)
  then show "c \<in> set (print_mac m) \<Longrightarrow> \<not> is_whitespace c"
    by (cases m) (auto dest: print_hex_byte_alnum)
qed

lemma split_print_mac:
  "split_char CHR '':'' (print_mac (MacAddr a b c d e f)) = map print_hex_byte [a, b, c, d, e, f]"
proof -
  have "CHR '':'' \<notin> set (print_hex_byte w)" for w using print_hex_byte_alnum by blast
  then show ?thesis by simp
qed

lemma print_mac_not_Nil: "print_mac m \<noteq> []"
  by (cases m) (simp add: print_hex_byte_def)

lemma trim_solid:
  assumes "\<forall>c\<in>set s. \<not> is_whitespace c" "\<forall>c\<in>set ws. is_whitespace c" "s \<noteq> []"
  shows "trim_text (s @ ws) = s"
proof -
  have solid: "dropWhile is_whitespace t = t" if "\<forall>c\<in>set t. \<not> is_whitespace c" for t
    using that by (cases t) simp_all
  have "dropWhile is_whitespace (s @ ws) = s @ ws" using assms(1,3) by (cases s) simp_all
  moreover have "dropWhile is_whitespace (rev ws @ t) = dropWhile is_whitespace t" for t
    using assms(2) by (simp add: dropWhile_append)
  moreover have "dropWhile is_whitespace (rev s) = rev s" using assms(1) by (intro solid) simp
  ultimately show ?thesis by (simp add: trim_text_def)
qed

lemma trim_print_mac: "\<forall>c\<in>set ws. is_whitespace c \<Longrightarrow> trim_text (print_mac m @ ws) = print_mac m"
  by (rule trim_solid) (auto simp: print_mac_not_Nil print_mac_solid)

lemma parse_mac_line:
  assumes "\<forall>c\<in>set ws. is_whitespace c"
  shows "parse_mac (print_mac m @ ws) = Inr m"
proof (cases m)
  case (MacAddr a b c d e f)
  show ?thesis
    unfolding parse_mac_def trim_print_mac [OF assms] unfolding MacAddr split_print_mac
    by (simp add: parse_hex_byte)
qed

interpretation mac_text: text_codec print_mac "\<lambda>s. ok_of (parse_mac s)"
proof
  fix m c
  show "ok_of (parse_mac (print_mac m)) = Some m" using parse_mac_line [of "[]" m] by simp
qed (auto simp: print_mac_not_Nil print_mac_solid)

lemma line_feed: "\<forall>c\<in>set [CHR 0x0A]. is_whitespace c"
  by (simp add: is_whitespace_def)

lemma iface_mac_read:
  assumes "read_file H (net_path iface ''address'') = Some (print_mac m @ [CHR 0x0A])"
  shows "read_iface_mac H iface = Inr m"
  unfolding read_iface_mac_def assms ok_or_def option.case and_then.simps trim_print_mac [OF line_feed]
  using parse_mac_line [of "[]" m] by simp

lemma ifindex_read:
  assumes "read_file H (net_path iface ''ifindex'') = Some (print_word n @ [CHR 0x0A])"
  shows "read_ifindex H iface = Inr n"
proof -
  have "trim_text (print_word n @ [CHR 0x0A]) = print_word n"
    using decimal.show_solid decimal.show_not_Nil line_feed by (intro trim_solid) blast+
  with assms show ?thesis by (simp add: read_ifindex_def ok_or_def decimal.read_show)
qed

section \<open>Learning the gNB's address\<close>

lemma find_text_take: "find_text p s = None \<Longrightarrow> take (length p) s \<noteq> p"
  by (cases s) (auto split: if_splits)

text \<open>A pattern whose last character occurs only there cannot begin in what precedes it.\<close>

lemma find_text_append:
  assumes "p \<noteq> []" "last p \<notin> set (butlast p)"
  shows "find_text p pre = None \<Longrightarrow> find_text p (pre @ p @ rest) = Some (length pre)"
proof (induction pre)
  case Nil
  then show ?case using assms(1) by (cases p) simp_all
next
  case (Cons c pre)
  let ?s = "(c # pre) @ p @ rest"
  have "take (length p) ?s \<noteq> p"
  proof
    assume eq: "take (length p) ?s = p"
    show False
    proof (cases "length p \<le> length (c # pre)")
      case True
      then have "take (length p) (c # pre) = p" using eq by (metis append_Nil2 diff_is_0_eq take0 take_append)
      with find_text_take [OF Cons.prems] show False by simp
    next
      case False
      let ?i = "length p - 1 - length (c # pre)"
      have i: "?i < length p - 1" "length p - 1 = length (c # pre) + ?i" using False by auto
      have "last p = ?s ! (length p - 1)"
        using eq assms(1) by (metis diff_less last_conv_nth length_greater_0_conv nth_take zero_less_one)
      also have "\<dots> = (p @ rest) ! ?i" by (subst i(2), subst nth_append_length_plus) simp
      also have "\<dots> = p ! ?i" using i(1) by (intro nth_append_left) linarith
      also have "\<dots> = butlast p ! ?i" using i(1) by (simp add: nth_butlast)
      finally show False using assms(2) i(1) by (metis length_butlast nth_mem)
    qed
  qed
  moreover have "find_text p pre = None" using Cons.prems by (auto split: if_splits)
  ultimately show ?case using Cons.IH by simp
qed

lemma arp_cache_read:
  assumes "run_command H hist [''ip'', ''neigh'', ''show'', print_ipv4 addr] =
      Exited ok (Some (pre @ ''lladdr '' @ print_mac m @ rest))"
    and "find_text ''lladdr '' pre = None" "rest = [] \<or> is_whitespace (hd rest)"
  shows "snd (read_arp_cache H addr hist) = Inr (Some m)"
proof -
  have f: "find_text ''lladdr '' (pre @ ''lladdr '' @ print_mac m @ rest) = Some (length pre)"
    by (rule find_text_append [OF _ _ assms(2)]) simp_all
  have "drop (length pre + 7) (pre @ ''lladdr '' @ print_mac m @ rest) = print_mac m @ rest"
    by simp
  moreover have "takeWhile (\<lambda>c. \<not> is_whitespace c) (print_mac m @ rest) = print_mac m"
    using assms(3) print_mac_solid [of _ m] by (cases rest) (auto simp: takeWhile_append)
  moreover have "length (split_char CHR '':'' (print_mac m)) = 6"
    by (cases m) (simp add: split_print_mac del: print_mac.simps)
  moreover have "parse_mac (print_mac m) = Inr m" using parse_mac_line [of "[]" m] by simp
  ultimately show ?thesis
    unfolding read_arp_cache_def Let_def assms(1) snd_conv command_result.case option.case f
    by (simp del: append.append_Cons)
qed

text \<open>
  The gNB's MAC address is learned from the neighbour table: if the entry of the address is
  already there, or appears after the ping, with the address in the kernel's format after the word
  \<^verbatim>\<open>lladdr\<close>, exactly that MAC address is returned, and the ping is sent only in the second case.
\<close>

theorem gnb_mac_learned:
  assumes "find_text ''lladdr '' pre = None" "rest = [] \<or> is_whitespace (hd rest)"
    and "find_text ''lladdr '' none = None"
    and "entry = pre @ ''lladdr '' @ print_mac m @ rest"
    and "neigh = [''ip'', ''neigh'', ''show'', print_ipv4 addr]"
    and "ping = [''ping'', ''-c'', ''1'', ''-W'', ''1'', print_ipv4 addr]"
  shows "(run_command H hist neigh = Exited ok (Some entry) \<longrightarrow>
        read_gnb_mac H None (Some (print_ipv4 addr)) hist = (hist @ [neigh], Inr m)) \<and>
      (run_command H hist neigh = Exited ok' (Some none) \<and>
        run_command H (hist @ [neigh, ping]) neigh = Exited ok (Some entry) \<longrightarrow>
        read_gnb_mac H None (Some (print_ipv4 addr)) hist = (hist @ [neigh, ping, neigh], Inr m))"
proof -
  have ran: "fst (read_arp_cache H addr h) = h @ [neigh]" for h
    by (simp add: read_arp_cache_def Let_def assms(5))
  have hit: "read_arp_cache H addr h = (h @ [neigh], Inr (Some m))"
    if "run_command H h neigh = Exited ok (Some entry)" for h
    using arp_cache_read [OF _ assms(1,2)] that ran by (simp add: assms(4,5) prod_eq_iff)
  have miss: "read_arp_cache H addr h = (h @ [neigh], Inr None)"
    if "run_command H h neigh = Exited ok' (Some none)" for h
    using that assms(3) by (simp add: read_arp_cache_def assms(5))
  have "read_gnb_mac H None (Some (print_ipv4 addr)) hist = (hist @ [neigh], Inr m)"
    if "run_command H hist neigh = Exited ok (Some entry)"
    using hit [OF that] by (simp add: read_gnb_mac_def ipv4_text.read_show arp_learn_mac_def)
  moreover have "read_gnb_mac H None (Some (print_ipv4 addr)) hist = (hist @ [neigh, ping, neigh], Inr m)"
    if "run_command H hist neigh = Exited ok' (Some none)"
      "run_command H (hist @ [neigh, ping]) neigh = Exited ok (Some entry)"
    using miss [OF that(1)] hit [of "hist @ [neigh, ping]"] that(2)
    by (simp add: read_gnb_mac_def ipv4_text.read_show arp_learn_mac_def assms(6) Let_def ok_or_def)
  ultimately show ?thesis by blast
qed

text \<open>A host whose neighbour table learns the gNB from the ping.\<close>

definition demo_mac :: mac_addr where
  "demo_mac = MacAddr 0x02 0x42 0xAC 0x16 0 0x17"

definition demo_neighbours :: "bool \<Rightarrow> string" where
  "demo_neighbours known = (if known then ''172.22.0.23 dev n3 '' @ ''lladdr '' @ print_mac demo_mac @ '' REACHABLE''
     else ''172.22.0.23 dev n3 FAILED'')"

definition demo_host :: host where
  "demo_host = \<lparr>file_exists = (\<lambda>path. path = ''upf.toml''),
     read_file = map_of [(''upf.toml'', ''[peers]''), (net_path ''upfedge0'' ''address'', print_mac (MacAddr 6 6 6 6 6 6) @ [CHR 0x0A]),
       (net_path ''eth0'' ''ifindex'', print_word (3 :: u32) @ [CHR 0x0A]),
       (net_path ''upfedge1'' ''ifindex'', print_word (4 :: u32) @ [CHR 0x0A])],
     run_command = (\<lambda>hist cmd. Exited True (Some (demo_neighbours (\<exists>c\<in>set hist. hd c = ''ping''))))\<rparr>"

theorem gnb_mac_learned_witness:
  "snd (read_gnb_mac demo_host None (Some (print_ipv4 (Ipv4Addr 172 22 0 23))) []) = Inr demo_mac"
proof -
  have n: "find_text ''lladdr '' ''172.22.0.23 dev n3 '' = None" "find_text ''lladdr '' ''172.22.0.23 dev n3 FAILED'' = None"
      "'' REACHABLE'' = [] \<or> is_whitespace (hd '' REACHABLE'')"
    by (simp_all add: is_whitespace_def)
  show ?thesis
    using gnb_mac_learned [OF n(1,3,2) refl refl refl, where hist = "[]" and H = demo_host and ok = True and ok' = True
        and m = demo_mac and addr = "Ipv4Addr 172 22 0 23"]
    by (simp add: demo_host_def demo_neighbours_def del: print_ipv4.simps)
qed

section \<open>A successful start\<close>

lemma and_then_ok: "and_then r f = Inr y \<longleftrightarrow> (\<exists>x. r = Inr x \<and> f x = Inr y)"
  by (cases r) simp_all

lemma map_err_ok: "map_err f r = Inr y \<longleftrightarrow> r = Inr y"
  by (cases r) simp_all

lemma ensure_ok: "ensure e b = Inr u \<longleftrightarrow> b"
  by (simp add: ensure_def)

lemma ok_or_ok: "ok_or e x = Inr y \<longleftrightarrow> x = Some y"
  by (simp add: ok_or_def split: option.split)

lemmas start_ok = and_then_ok map_err_ok ensure_ok ok_or_ok

lemma fill_loaded_maps:
  "fill_maps mac0 mac1 n3_index n6_index loaded_maps =
     Inr (loaded_maps\<lparr>GW_MAC := [0 \<mapsto> mac0, 1 \<mapsto> mac1], IF_INDEX := [0 \<mapsto> n3_index, 1 \<mapsto> n6_index]\<rparr>)"
proof -
  have "(zeroed 2 z)(0 \<mapsto> x, 1 \<mapsto> y) = [0 \<mapsto> x, 1 \<mapsto> y]" for x y z :: u32
    by (rule ext) (simp add: zeroed_def)
  moreover have "(zeroed 2 z)(0 \<mapsto> x, 1 \<mapsto> y) = [0 \<mapsto> x, 1 \<mapsto> y]" for x y z :: mac_addr
    by (rule ext) (simp add: zeroed_def)
  ultimately show ?thesis
    by (simp add: fill_maps_def array_set_def loaded_maps_def)
qed

lemma start_server_ok:
  assumes "start_server P now t opt cfg = Inr srv"
  shows "associations srv = Map.empty" "next_seid srv = 1" "next_teid srv = 1000" "sessions srv = Map.empty"
    "session_store srv = redis_open P (rc_url (uc_redis cfg))"
    "override_ipv4_with_config (opt_n3_addr opt) (Ipv4Addr 127 22 0 8) (ic_n3_addr (uc_interfaces cfg)) = Inr (n3_addr srv)"
  using assms
  by (auto simp: start_server_def start_ok Let_def set_session_store_def pfcp_server_new_def split: if_splits)

definition start_iface :: "opt \<Rightarrow> upf_config \<Rightarrow> string" where
  "start_iface opt cfg = override_with_config (opt_iface_n3 opt) ''eth0'' (ic_n3_iface (uc_interfaces cfg))"

definition start_deliver :: "upf_config \<Rightarrow> string" where
  "start_deliver cfg = or_default ''upfedge1'' (ic_ue_deliver_iface (uc_interfaces cfg))"

lemma upf_main_okE:
  assumes "upf_main P now t opt = Inr u"
  obtains cfg mac0 mac1 if0 if1 where
    "load_or_default P (opt_config opt) = Inr cfg"
    "read_iface_mac (p_host P) ''upfedge0'' = Inr mac0"
    "read_gnb_mac (p_host P) (pe_gnb_mac (uc_peers cfg)) (pe_gnb_addr (uc_peers cfg)) [] = (us_commands u, Inr mac1)"
    "read_ifindex (p_host P) (start_iface opt cfg) = Inr if0" "read_ifindex (p_host P) (start_deliver cfg) = Inr if1"
    "us_maps u = loaded_maps\<lparr>GW_MAC := [0 \<mapsto> mac0, 1 \<mapsto> mac1], IF_INDEX := [0 \<mapsto> if0, 1 \<mapsto> if1]\<rparr>"
    "associations (us_server u) = Map.empty" "next_seid (us_server u) = 1"
    "override_ipv4_with_config (opt_n3_addr opt) (Ipv4Addr 127 22 0 8) (ic_n3_addr (uc_interfaces cfg)) =
       Inr (n3_addr (us_server u))"
proof -
  from assms obtain cfg mac0 mac1 if0 if1 srv where
    c: "load_or_default P (opt_config opt) = Inr cfg" "read_iface_mac (p_host P) ''upfedge0'' = Inr mac0"
      "snd (read_gnb_mac (p_host P) (pe_gnb_mac (uc_peers cfg)) (pe_gnb_addr (uc_peers cfg)) []) = Inr mac1"
      "read_ifindex (p_host P) (start_iface opt cfg) = Inr if0" "read_ifindex (p_host P) (start_deliver cfg) = Inr if1"
    and s: "start_server P now t opt cfg = Inr srv"
    and u: "us_server u = (if opt_tui opt then set_tui_sender srv else srv)"
      "us_commands u = fst (read_gnb_mac (p_host P) (pe_gnb_mac (uc_peers cfg)) (pe_gnb_addr (uc_peers cfg)) [])"
      "us_maps u = loaded_maps\<lparr>GW_MAC := [0 \<mapsto> mac0, 1 \<mapsto> mac1], IF_INDEX := [0 \<mapsto> if0, 1 \<mapsto> if1]\<rparr>"
    unfolding upf_main_def Let_def start_ok prod.case_eq_if fill_loaded_maps start_iface_def [symmetric]
      start_deliver_def [symmetric] by (elim exE conjE) auto
  have "associations (us_server u) = Map.empty" "next_seid (us_server u) = 1" "n3_addr (us_server u) = n3_addr srv"
    using start_server_ok [OF s] by (simp_all add: u(1) set_tui_sender_def)
  with c start_server_ok(6) [OF s] u show thesis
    by (intro that [of cfg mac0 mac1 if0 if1]) (simp_all add: prod_eq_iff)
qed

lemma restore_frame:
  "associations (restore_sessions ss srv) = associations srv" "n3_addr (restore_sessions ss srv) = n3_addr srv"
  by (induction ss srv rule: restore_sessions.induct) simp_all

lemma upf_boot_frame:
  "associations (st_server (upf_boot R r u)) = associations (us_server u)"
  "next_seid (st_server (upf_boot R r u)) = next_seid (us_server u)"
  "n3_addr (st_server (upf_boot R r u)) = n3_addr (us_server u)" "st_maps (upf_boot R r u) = us_maps u"
  by (simp_all add: upf_boot_def startup_load_def restore_frame restore_sessions_next Let_def split: option.split)

lemma no_config_default:
  assumes "\<not> file_exists (p_host P) (or_default ''upf-edge/configs/upf-edge-default.toml'' (opt_config opt))"
  shows "load_or_default P (opt_config opt) = Inr upf_config_default"
  using assms by (simp add: load_or_default_def load_config_def)

text \<open>
  Without a configuration file the UPF does not start: the defaults name no gNB, and the
  command line has no option for it, so whatever the options and the host, \<open>main\<close> ends with an error.
\<close>

theorem no_config_no_start:
  assumes "\<not> file_exists (p_host P) (or_default ''upf-edge/configs/upf-edge-default.toml'' (opt_config opt))"
  shows "\<exists>e. upf_main P now t opt = Inl e"
proof (cases "upf_main P now t opt")
  case (Inr u)
  then show ?thesis
  proof (rule upf_main_okE)
    fix cfg mac1
    assume "load_or_default P (opt_config opt) = Inr cfg"
      and g: "read_gnb_mac (p_host P) (pe_gnb_mac (uc_peers cfg)) (pe_gnb_addr (uc_peers cfg)) [] = (us_commands u, Inr mac1)"
    then have "cfg = upf_config_default" using no_config_default [OF assms] by simp
    with g show ?thesis by (simp add: upf_config_default_def peers_default_def read_gnb_mac_def)
  qed
qed simp

definition demo_toml :: toml_config where
  "demo_toml = \<lparr>t_interfaces = None, t_pfcp = None,
     t_peers = Some \<lparr>pe_gnb_mac = Some (print_mac demo_mac), pe_gnb_addr = None, pe_smf_addr = None\<rparr>,
     t_redis = None, t_metrics = None\<rparr>"

definition demo_platform :: platform where
  "demo_platform = \<lparr>p_host = demo_host, toml_from_str = (\<lambda>_. Some demo_toml), ebpf_load = True, ebpf_logger = None,
     xdp_attach = (\<lambda>_ _. True), redis_open = (\<lambda>_. True), exporter_init = (\<lambda>_. True)\<rparr>"

definition demo_opt :: "string option \<Rightarrow> opt" where
  "demo_opt path = \<lparr>opt_config = path, opt_iface_n3 = ''eth0'', opt_iface_n6 = ''eth1'',
     opt_n4_addr = Ipv4Addr 0 0 0 0, opt_n3_addr = Ipv4Addr 127 22 0 8, opt_tui = False\<rparr>"

theorem no_config_no_start_witness: "\<exists>e. upf_main demo_platform 0 0 (demo_opt None) = Inl e"
  using no_config_no_start [of demo_platform "demo_opt None" 0 0]
  by (simp add: demo_platform_def demo_host_def demo_opt_def or_default_def)

lemma demo_files:
  "read_iface_mac demo_host ''upfedge0'' = Inr (MacAddr 6 6 6 6 6 6)"
  "read_ifindex demo_host ''eth0'' = Inr 3" "read_ifindex demo_host ''upfedge1'' = Inr 4"
  by (rule iface_mac_read ifindex_read, simp add: demo_host_def net_path_def)+

lemma demo_start:
  "\<exists>u. upf_main demo_platform 0 0 (demo_opt (Some ''upf.toml'')) = Inr u \<and> n3_addr (us_server u) = Ipv4Addr 127 22 0 8"
  "load_or_default demo_platform (Some ''upf.toml'') = Inr (upf_config_of demo_toml)"
  "start_iface (demo_opt path) (upf_config_of demo_toml) = ''eth0''" "start_deliver (upf_config_of demo_toml) = ''upfedge1''"
proof -
  show l: "load_or_default demo_platform (Some ''upf.toml'') = Inr (upf_config_of demo_toml)"
    by (simp add: load_or_default_def load_config_def or_default_def ok_or_def demo_platform_def demo_host_def)
  have m: "parse_mac (print_mac demo_mac) = Inr demo_mac" using parse_mac_line [of "[]" demo_mac] by simp
  have cfg: "uc_interfaces (upf_config_of demo_toml) = interfaces_default" "uc_pfcp (upf_config_of demo_toml) = pfcp_default"
      "pe_gnb_mac (uc_peers (upf_config_of demo_toml)) = Some (print_mac demo_mac)"
    by (simp_all add: upf_config_of_def demo_toml_def or_default_def)
  have p: "p_host demo_platform = demo_host" "ebpf_load demo_platform" "ebpf_logger demo_platform = None"
      "xdp_attach demo_platform = (\<lambda>_ _. True)" "exporter_init demo_platform = (\<lambda>_. True)"
    by (simp_all add: demo_platform_def)
  have srv: "\<exists>srv. start_server demo_platform 0 0 (demo_opt (Some ''upf.toml'')) (upf_config_of demo_toml) = Inr srv \<and>
      n3_addr srv = Ipv4Addr 127 22 0 8"
    by (simp add: start_server_def override_ipv4_with_config_def cfg interfaces_default_def pfcp_default_def demo_opt_def
        set_session_store_def pfcp_server_new_def Let_def)
  have o: "opt_config (demo_opt (Some ''upf.toml'')) = Some ''upf.toml''" "opt_iface_n3 (demo_opt (Some ''upf.toml'')) = ''eth0''"
    by (simp_all add: demo_opt_def)
  show "\<exists>u. upf_main demo_platform 0 0 (demo_opt (Some ''upf.toml'')) = Inr u \<and> n3_addr (us_server u) = Ipv4Addr 127 22 0 8"
    using srv
    by (auto simp: upf_main_def o l p cfg ensure_def override_with_config_def or_default_def interfaces_default_def
        read_gnb_mac_def m demo_files fill_loaded_maps set_tui_sender_def Let_def)
  show "start_iface (demo_opt path) (upf_config_of demo_toml) = ''eth0''" "start_deliver (upf_config_of demo_toml) = ''upfedge1''"
    by (simp_all add: start_iface_def start_deliver_def demo_opt_def override_with_config_def upf_config_of_def demo_toml_def
        or_default_def interfaces_default_def)
qed

end
