(* ===== verification/Pfcp_Dump.thy ===== *)
theory Pfcp_Dump
  imports Rust_Text
begin

text \<open>
  The hex dump of \<^verbatim>\<open>pfcp-common/src/dump.rs\<close>: \<open>print_hex\<close> as the list of lines it logs. A complete
  row of sixteen bytes is one format string in the source, the last incomplete row is built byte by
  byte; \<open>partial_row\<close> follows the second loop with its counter \<open>k\<close>.
\<close>

section \<open>The dump\<close>

text \<open>The formats \<^verbatim>\<open>{:02x}\<close> and \<^verbatim>\<open>{:04x}\<close>: at least so many digits.\<close>

definition pad_hex :: "nat \<Rightarrow> nat \<Rightarrow> string" where
  "pad_hex w n = replicate (w - length (print_radix 16 n)) CHR ''0'' @ print_radix 16 n"

definition hex2 :: "u8 \<Rightarrow> string" where
  "hex2 b = pad_hex 2 (unat b)"

definition full_row :: "nat \<Rightarrow> bytes \<Rightarrow> string" where
  "full_row i b =
     pad_hex 4 i @ '': '' @ hex2 (b ! 0) @ hex2 (b ! 1) @ '' '' @ hex2 (b ! 2) @ hex2 (b ! 3) @ '' | '' @
     hex2 (b ! 4) @ hex2 (b ! 5) @ '' '' @ hex2 (b ! 6) @ hex2 (b ! 7) @ '' | '' @
     hex2 (b ! 8) @ hex2 (b ! 9) @ '' '' @ hex2 (b ! 10) @ hex2 (b ! 11) @ '' | '' @
     hex2 (b ! 12) @ hex2 (b ! 13) @ '' '' @ hex2 (b ! 14) @ hex2 (b ! 15) @ '' ''"

fun partial_row :: "nat \<Rightarrow> nat \<Rightarrow> bytes \<Rightarrow> string" where
  "partial_row j k [] = []"
| "partial_row j k (b # bs) =
     (if k = 0 then pad_hex 4 j @ '': '' @ hex2 b
      else if k mod 2 = 1 then hex2 b
      else if k mod 4 = 2 then '' '' @ hex2 b
      else if k mod 4 = 0 then '' | '' @ hex2 b
      else []) @ partial_row (j + 1) (k + 1) bs"

function dump_rows :: "nat \<Rightarrow> nat \<Rightarrow> bytes \<Rightarrow> string list" where
  "dump_rows i n buffer =
     (if n \<le> i then []
      else (if i + 16 \<le> n then full_row i (take 16 (drop i buffer))
            else partial_row i 0 (drop i (take n buffer)))
           # dump_rows (i + 16) n buffer)"
  by pat_completeness auto

termination dump_rows
  by (relation "measure (\<lambda>(i, n, _). n - i)") auto

declare dump_rows.simps [simp del]

definition print_hex :: "bytes \<Rightarrow> nat \<Rightarrow> string list" where
  "print_hex buffer len =
     (let n = min len (length buffer) in
      (''Message DUMP ('' @ print_radix 10 n @ '' Bytes)'') # ''==================================='' #
      dump_rows 0 n buffer @ [[]])"

section \<open>Rows are injective\<close>

lemma length_hex2: "length (hex2 b) = 2"
proof -
  have "unat b < 16 ^ 2" using unsigned_less [of b, where 'a = nat] by simp
  then have "length (digits 16 (unat b)) \<le> 2" by (rule digits_length [rotated]) simp_all
  then show ?thesis by (simp add: hex2_def pad_hex_def print_radix_def)
qed

lemma number_zeros: "number b 0 (replicate k 0 @ ds) = number b 0 ds"
  by (induction k) simp_all

lemma digits_of_pad: "digits_of 16 (pad_hex w n) = Some (replicate (w - length (digits 16 n)) 0 @ digits 16 n)"
proof -
  have z: "to_digit 16 CHR ''0'' = Some 0" by (simp add: to_digit_def)
  have "digits_of 16 s = Some ds \<Longrightarrow> digits_of 16 (replicate k CHR ''0'' @ s) = Some (replicate k 0 @ ds)" for k s ds
    by (induction k) (simp_all add: z digits_of_def)
  with digits_of_print [of 16 n] show ?thesis
    unfolding pad_hex_def by (simp add: print_radix_def)
qed

lemma hex2_inject: "hex2 a = hex2 b \<longleftrightarrow> a = b"
proof
  assume "hex2 a = hex2 b"
  then have "digits_of 16 (hex2 a) = digits_of 16 (hex2 b)" by simp
  then have "number 16 0 (replicate (2 - length (digits 16 (unat a))) 0 @ digits 16 (unat a)) =
      number 16 0 (replicate (2 - length (digits 16 (unat b))) 0 @ digits 16 (unat b))"
    unfolding hex2_def digits_of_pad by simp
  then show "a = b" by (simp add: number_zeros number_digits word_unat_eq_iff)
qed simp

lemma hex2_append: "hex2 a @ s = hex2 b @ t \<longleftrightarrow> a = b \<and> s = t"
  using hex2_inject by (simp add: append_eq_append_conv length_hex2)

text \<open>The literal format of a complete row is what the byte-by-byte loop prints, and a space.\<close>

lemma full_row_eq: "length b = 16 \<Longrightarrow> full_row i b = partial_row i 0 b @ '' ''"
proof -
  assume l: "length b = 16"
  have u: "[0..<16] = [0, 1, 2, 3, 4, 5, 6, 7, 8, 9, 10, 11, 12, 13, 14, 15]" by (simp add: upt_rec)
  have "b = map ((!) b) [0..<16]" using map_nth [of b] l by simp
  then have b: "b = [b ! 0, b ! 1, b ! 2, b ! 3, b ! 4, b ! 5, b ! 6, b ! 7, b ! 8, b ! 9, b ! 10, b ! 11, b ! 12,
      b ! 13, b ! 14, b ! 15]" unfolding u by simp
  have "full_row i b = partial_row i 0 [b ! 0, b ! 1, b ! 2, b ! 3, b ! 4, b ! 5, b ! 6, b ! 7, b ! 8, b ! 9, b ! 10,
      b ! 11, b ! 12, b ! 13, b ! 14, b ! 15] @ '' ''"
    by (simp add: full_row_def)
  then show ?thesis using b by argo
qed

lemma partial_row_inject:
  "length bs = length cs \<Longrightarrow> partial_row j k bs = partial_row j k cs \<Longrightarrow> bs = cs"
proof (induction bs cs arbitrary: j k rule: list_induct2)
  case (Cons b bs c cs)
  have "k mod 2 = 1 \<or> k mod 4 = 2 \<or> k mod 4 = 0" by presburger
  with Cons.prems have "b = c \<and> partial_row (j + 1) (k + 1) bs = partial_row (j + 1) (k + 1) cs"
    by (auto simp: hex2_append split: if_splits)
  with Cons.IH show ?case by blast
qed simp

lemma dump_rows_inject:
  assumes "length xs = length ys" "n \<le> length xs"
  shows "dump_rows i n xs = dump_rows i n ys \<Longrightarrow> drop i (take n xs) = drop i (take n ys)"
proof (induction "n - i" arbitrary: i rule: less_induct)
  case less
  show ?case
  proof (cases "n \<le> i")
    case False
    note rows = less.prems [unfolded dump_rows.simps [of i] if_not_P [OF False] list.inject]
    show ?thesis
    proof (cases "i + 16 \<le> n")
      case True
      let ?x = "take 16 (drop i xs)" and ?y = "take 16 (drop i ys)"
      have l: "length ?x = 16" "length ?y = 16" using assms True by simp_all
      have "partial_row i 0 ?x = partial_row i 0 ?y"
        using rows True by (simp add: full_row_eq [OF l(1)] full_row_eq [OF l(2)])
      then have "?x = ?y" using l by (intro partial_row_inject) simp_all
      moreover have "drop (i + 16) (take n xs) = drop (i + 16) (take n ys)"
        using less.hyps [of "i + 16"] rows False by simp
      moreover have "drop i (take n zs) = take 16 (drop i zs) @ drop (i + 16) (take n zs)" for zs :: bytes
      proof -
        have "16 \<le> n - i" using True by linarith
        then show ?thesis
          using append_take_drop_id [of 16 "drop i (take n zs)"] by (simp add: drop_take add.commute)
      qed
      ultimately show ?thesis by metis
    next
      case False
      with rows assms show ?thesis by (auto intro: partial_row_inject)
    qed
  qed simp
qed

lemma dump_rows_take: "dump_rows i n xs = dump_rows i n (take n xs)"
proof (induction "n - i" arbitrary: i rule: less_induct)
  case less
  have "take 16 (drop i xs) = take 16 (drop i (take n xs))" if "i + 16 \<le> n"
    using that by (simp add: drop_take min_def)
  with less.hyps [of "i + 16"] show ?case
    by (subst (1 2) dump_rows.simps) simp
qed

lemma print_hex_bytes:
  "print_hex xs m = (''Message DUMP ('' @ print_radix 10 (length (take m xs)) @ '' Bytes)'') #
     ''==================================='' # dump_rows 0 (length (take m xs)) (take m xs) @ [[]]"
proof -
  have "take (min m (length xs)) xs = take m xs" by (simp add: min_def)
  then show ?thesis
    using dump_rows_take [of 0 "min m (length xs)" xs] by (simp add: print_hex_def Let_def min.commute)
qed

text \<open>
  The hex dump loses nothing: two dumps are equal exactly when the dumped bytes are, the
  complete rows of the format string and the byte-by-byte last row included.
\<close>

theorem print_hex_faithful: "print_hex xs m = print_hex ys n \<longleftrightarrow> take m xs = take n ys"
proof
  assume e: "print_hex xs m = print_hex ys n"
  let ?x = "take m xs" and ?y = "take n ys"
  have "print_radix 10 (length ?x) = print_radix 10 (length ?y)" using e by (simp add: print_hex_bytes)
  then have "digits 10 (length ?x) = digits 10 (length ?y)"
    using digits_of_print [of 10 "length ?x"] digits_of_print [of 10 "length ?y"] by simp
  then have l: "length ?x = length ?y"
    using number_digits [of 10 "length ?x"] number_digits [of 10 "length ?y"] by simp
  then have "dump_rows 0 (length ?x) ?x = dump_rows 0 (length ?x) ?y" using e by (simp add: print_hex_bytes)
  from dump_rows_inject [OF l order_refl this] l show "?x = ?y" by (metis drop_0 take_all_iff order_refl)
qed (simp only: print_hex_bytes)

end
