(* ===== verification/Spec2Isabelle.thy ===== *)
theory Spec2Isabelle
  imports Tui_Draw Upf_Monitor Upf_Agree Upf_Dispatch Smf_Orphan Smf_Pairing Smf_Keepalive Smf_Main Upf_Main Pfcp_Dump
begin

text \<open>
  A verification library for \<^verbatim>\<open>upf-edge\<close>, a 5G User Plane Function whose control plane (PFCP over
  UDP) runs in user space and whose data plane is a pair of XDP programs in the kernel, and for
  \<^verbatim>\<open>smf-sim\<close>, the SMF simulator that drives it. File names below are relative to \<^verbatim>\<open>src/\<close>.

  \<^bold>\<open>How the program works.\<close> An SMF sends PFCP requests: association, heartbeat, session
  establishment, modification, deletion. The UPF decodes a datagram, checks which association it
  comes from, changes its tables of sessions and usage rules, writes PDR, FAR, URR and SESSION entries
  into eBPF maps, and answers. The XDP program on N3 strips the GTP-U header from uplink packets and
  redirects them, the one on N6 wraps downlink packets; both select the rule by priority and count
  traffic per session and usage rule. Tasks beside the receive loop send keep-alives, report usage and
  export statistics; established sessions are mirrored into Redis and read back at start-up. The
  simulator allocates identifiers, sends requests with time-out and retry, validates answers, listens
  for usage reports, runs a lifecycle scenario and offers commands in a terminal. Both programs share
  the codec crate \<^verbatim>\<open>pfcp-common\<close>.

  \<^bold>\<open>Theories and the code they model.\<close>
  \<^item> \<open>Prelude\<close>: machine integers, byte order, IPv4 addresses, results, loops with early exit; the
    collections \<open>wire\<close>, \<open>ie_parse\<close> and \<open>upf_defs\<close>. \<open>Rust_Text\<close>: the text functions of Rust's standard
    library (trim, split, lines, integer and address parsing and printing). \<open>Rust_F32\<close>: single precision
    numbers with rounding to even, as far as the terminal computes with them.
  \<^item> \<open>Pfcp_Types\<close>, \<open>Pfcp_Header\<close>, \<open>Pfcp_Ie\<close>, \<open>Pfcp_Builder\<close>, \<open>Pfcp_Dict\<close>, \<open>Pfcp_Messages\<close>, \<open>Pfcp_Dump\<close>:
    \<^verbatim>\<open>pfcp-common/src\<close>, one theory per file (constants, header codec, information elements, message
    builder, dictionary and validation, request decoders, hex dump). \<open>Pfcp_Registry\<close>: the complete tables of
    \<^verbatim>\<open>types.rs\<close>.
  \<^item> \<open>Upf_Common\<close>: \<^verbatim>\<open>upf-edge-common/src/lib.rs\<close>, the keys and values of the maps. \<open>Gtpu\<close>, \<open>Xdp\<close>:
    \<^verbatim>\<open>upf-edge-ebpf/src\<close>, the packet headers and both XDP programs.
  \<^item> \<open>Upf_Server\<close>: \<^verbatim>\<open>upf-edge/src/association.rs\<close> and \<^verbatim>\<open>pfcp_server.rs\<close> (server state, allocators,
    keep-alive, restoration). \<open>Upf_Handlers\<close>: \<^verbatim>\<open>handle_msg.rs\<close>, one definition per handler, and the body
    of the receive loop (\<open>serve_datagram\<close>). \<open>Urr_Reporter\<close>: \<^verbatim>\<open>urr_reporter.rs\<close> and
    \<^verbatim>\<open>metrics/session_stats.rs\<close>. \<open>Upf_Invariant\<close>, \<open>Upf_Run\<close>, \<open>Upf_Session\<close>, \<open>Upf_Datapath\<close>, \<open>Upf_Agree\<close>: the
    lemmas about them. \<open>Upf_Dispatch\<close>: what \<^verbatim>\<open>handle_message\<close> logs and measures. \<open>Session_Store\<close>: \<^verbatim>\<open>session_store.rs\<close>. \<open>Upf_Main\<close>: \<^verbatim>\<open>config.rs\<close>, \<^verbatim>\<open>main.rs\<close> and the
    route commands of \<^verbatim>\<open>handle_msg.rs\<close>. \<open>Upf_Tui\<close> with \<open>Tui_Common\<close>: \<^verbatim>\<open>tui/\<close>.
    \<open>Upf_Monitor\<close>: the gauge and the events that feed the terminal. \<open>Tui_Draw\<close>: \<^verbatim>\<open>tui/ui.rs\<close> and the
    simulator's \<^verbatim>\<open>tui/tui.rs\<close>.
  \<^item> \<open>Smf_State\<close>: \<^verbatim>\<open>smf-sim/src/config.rs\<close>, \<^verbatim>\<open>state.rs\<close>, \<^verbatim>\<open>validator.rs\<close>. \<open>Smf_Transport\<close>:
    \<^verbatim>\<open>transport.rs\<close>. \<open>Smf_Client\<close>: \<^verbatim>\<open>keepalive.rs\<close>, \<^verbatim>\<open>scenario/basic_lifecycle.rs\<close> and the commands of
    \<^verbatim>\<open>main.rs\<close>. \<open>Smf_Main\<close>: socket set-up, dispatch and \<^verbatim>\<open>main\<close>. \<open>Smf_Tui\<close>: \<^verbatim>\<open>tui/\<close>, each
    command run to its end. \<open>Smf_Shared\<close>: the same commands as tasks interleaved at their await points on
    the shared socket. \<open>Smf_Keepalive\<close>: the keep-alive task beside them.
  \<^item> \<open>Smf_Upf\<close>, \<open>Lifecycle\<close>, \<open>Smf_Pairing\<close>, \<open>Smf_Orphan\<close> and this theory: both programs together.

  \<^bold>\<open>State and operations.\<close> A struct is a record, an enum a datatype, a hash map a partial function, a
  Rust function one definition with the same name where HOL allows it. The UPF's state is
  \<open>upf_state\<close>: the server, the eBPF maps and the list of effects issued so far (interface events,
  store tasks, gauges, route commands), which \<open>run_store_task\<close> and \<open>run_route_effect\<close> carry out. A
  handler takes state and request and returns the new state and an error or the answer; an early
  return keeps the changes made before it. The data path is a function from maps and packet bytes to
  maps, packet and verdict. The simulator's routines thread transport, simulator state and an
  abstract network.

  \<^bold>\<open>Parameters and what is assumed of them.\<close> \<open>upf_env\<close> holds the kernel's hash map operations
  (\<open>env_laws\<close>: an insertion that succeeds sets the key, and replacing never fails; \<open>env_roomy\<close>: no map
  is full), the iteration order of hash maps and sets (\<open>order_laws\<close>: exactly the entries are visited), the
  clock and the CPU count. \<open>xdp_env\<close> holds \<^verbatim>\<open>bpf_xdp_adjust_head\<close> (\<open>adjust_head_laws\<close>), redirection and
  the current CPU. \<open>net\<close> is any network with a clock; \<open>upf_net\<close> is the one with the modelled UPF behind
  it, which may lose answers. Its receive loops are over the clock of the network; that they end is shown for networks whose
  clock goes on with every datagram received (\<open>ticking_net\<close>). \<open>redis\<close> comes with \<open>redis_laws\<close> and \<open>redis_up\<close>;
  the store tasks are independent and run in any order. \<open>host\<close> and \<open>platform\<close> are the operating system, the TOML parser, the
  eBPF loader and the exporter; \<open>textarea\<close> the input widget, \<open>layout\<close> the
  layout of \<^verbatim>\<open>ratatui\<close> (\<open>layout_laws\<close>: one rectangle per constraint). Each law has an instance in a witness.

  \<^bold>\<open>Conventions.\<close> Arithmetic wraps, as in the release build the README asks for. Host and eBPF target
  are little-endian. Time is a natural number of nanoseconds. Text holds characters below 256. SEIDs
  are handed out from 1, and the composed keys keep 48 bits of them, which bounds the runs in the
  invariant by \<open>2^48 - 1\<close> datagrams; sequence numbers have 24 bits. Loops that depend on a peer or on the
  clock are \<open>partial_function (option)\<close>; all others terminate, so no fuel is used.
  Concurrent tasks that lock the server are steps of the relation \<open>upf_run\<close>, in any interleaving, from any
  start, with whatever sessions \<open>startup_load\<close> restored; the deletion handler, which releases the lock in between, is
  two steps. \<open>orderly_run\<close> has requests served one after the other, none of them an establishment for a
  UE that still has a session, and says whether each found room in the maps. The channel of the UPF's terminal has 100
  places (\<open>try_send\<close>): the server and the loggers offer events, and what finds no room is lost.

  \<^bold>\<open>What is shown.\<close>
  \<^item> Codec: header and request round trips, loss-free splitting into elements, exact validation, an
    injective hex dump.
  \<^item> Data path: rule selection is the first match of least precedence; encapsulation and decapsulation
    are byte-exact and inverse; a drop action drops; counters add exactly one packet.
  \<^item> Control plane: what establishment, modification and deletion do to tables and maps; foreign
    requests change nothing; an invariant of all reachable states; the SESSION map follows the server's table
    in orderly runs, restored sessions apart, which may have no entry; usage reports are exact and
    thresholds are reported once.
  \<^item> Operator's view: the gauge equals the number of sessions but for restored ones, the terminal that has read the
    server's last list shows the server's sessions, and drawing does not panic.
  \<^item> Store: a restarted UPF reads back the sessions of the old one (a refinement of an abstract map), and beside them
    the deleted ones whose deletion task overtook the task that saves them.
  \<^item> Simulator: requests come back after boundedly many transmissions; the address pool is exact; the
    UPF's answers always pass the simulator's validation; usage reports are read back.
  \<^item> Together: from a cold start to the first packet, the whole lifecycle scenario, and any sequence of
    commands from the terminal, run one after the other, under which both sides refine one table of sessions. (That a command run to its
    end is one schedule of the interleaved system is a lemma of \<open>Smf_Shared\<close>.)
  \<^item> Where the code does not do what it means to, the theorem states what it does: sessions leaked by a
    retransmission, restored sessions nobody can manage, sessions orphaned by a restart, ownership by
    CP SEID alone, uplink volume charged as downlink, stale responses, two meanings of a SEID, a deletion that
    cuts off the session that followed it, answers swapped between concurrent commands, answers taken by the keep-alive.

  \<^bold>\<open>Interfaces.\<close> Contracts shared by several components are locales, interpreted on the model:
  encoded elements (\<open>ie_codec\<close>), composed keys (\<open>rule_key\<close>), counters handing out identifiers
  (\<open>allocator\<close>), per-CPU counters (\<open>percpu_counter\<close>), printed values (\<open>text_codec\<close>), bounded logs
  (\<open>log_buffer\<close>), operations guarded by ownership (\<open>owned_operation\<close>), and handlers that keep the
  invariant (\<open>inv_handler\<close>), that answer in kind (\<open>answering_handler\<close>), that mirror their sessions
  into the store (\<open>mirroring_handler\<close>), that keep the SESSION map in step (\<open>agreeing_handler\<close>), that keep the gauge
  exact (\<open>counting_handler\<close>) and that tell the terminal (\<open>watched_handler\<close>); and networks whose clock goes on (\<open>ticking_net\<close>), or advances exactly
  as the calls say (\<open>timed_net\<close>).

  \<^bold>\<open>Not modelled.\<close> The exporter starts a library's HTTP server. Log texts, the logger set-up, command line
  parsing, help texts, unit tests and build scripts have no behaviour to verify. What a terminal shows of a widget
  is the drawing library's. The lifecycle scenario is run on its own, without the keep-alive task beside it.
\<close>

section \<open>From the control plane to the data plane\<close>

text \<open>A session the maps serve carries the traffic of its UE in both directions.\<close>

lemma served_traffic:
  assumes "adjust_head_laws X" "serves_ue M sid ue n3 gnb td"
    and "GW_MAC M 0 = Some mac0" "GW_MAC M 1 = Some mac1" "IF_INDEX M 0 = Some if0" "IF_INDEX M 1 = Some if1"
  shows "downlink_parse p = Some f \<Longrightarrow> pf_dst_ip f = ip_be ue \<Longrightarrow> snd (upf_edge_n6 X M p) =
      (encapsulated mac1 (take 6 p) (ip_be n3) (ip_be gnb) (to_be td) (drop 14 p), ucast (bpf_redirect X if0 0))"
    and "uplink_parse p = Some f \<Longrightarrow> pf_ue_ip f = ip_be ue \<Longrightarrow> snd (upf_edge_n3 X M p) =
      (mac_bytes mac0 @ take 6 (drop 6 p) @ [0x08, 0x00] @ drop (pf_outer_total f) p, ucast (bpf_redirect X if1 0))"
proof -
  obtain session where s: "SESSION_MAP M (SessionKey (ip_be ue)) = Some session"
      "si_upf_ip session = ip_be n3"
      "\<And>f. flow_action M session IFACE_ACCESS f = (False, 0)"
      "\<And>f. flow_action M session IFACE_CORE f = (False, 0)"
      "downlink_endpoint M session = Some (ip_be gnb, to_be td)"
    using serves_ue_selection [OF assms(2)] by blast
  show "snd (upf_edge_n6 X M p) = (encapsulated mac1 (take 6 p) (ip_be n3) (ip_be gnb) (to_be td) (drop 14 p),
      ucast (bpf_redirect X if0 0))" if "downlink_parse p = Some f" "pf_dst_ip f = ip_be ue"
    using that s assms(1,4,5) downlink_parse_bounds [OF that(1)]
    by (simp add: upf_edge_n6_def try_n6_downlink_def Let_def downlink_encap_eq downlink_stats_def)
  show "snd (upf_edge_n3 X M p) = (mac_bytes mac0 @ take 6 (drop 6 p) @ [0x08, 0x00] @ drop (pf_outer_total f) p,
      ucast (bpf_redirect X if1 0))" if "uplink_parse p = Some f" "pf_ue_ip f = ip_be ue"
    using that s assms(1,3,6) uplink_parse_bounds [OF that(1)]
    by (simp add: upf_edge_n3_def try_n3_uplink_def Let_def uplink_decap_eq uplink_stats_def)
qed

text \<open>
  C2: End to end: when an associated SMF sends the standard Session Establishment Request and the
  maps have room, the UPF accepts it, and from then on every downlink packet to the UE leaves as a
  G-PDU to the requested gNB address and TEID, and every G-PDU of the UE leaves decapsulated
  towards N6.
\<close>

theorem establishment_opens_data_path:
  assumes "env_laws E" "env_roomy E" "adjust_head_laws X" "unat sq < 2 ^ 24" "is_v4 src"
    and "find_association E (st_server st) src = Some (k, a)" "local_seid (next_seid (st_server st))"
    and "GW_MAC (st_maps st) 0 = Some mac0" "GW_MAC (st_maps st) 1 = Some mac1"
    and "IF_INDEX (st_maps st) 0 = Some if0" "IF_INDEX (st_maps st) 1 = Some if1"
  shows "\<exists>st' r. handle_message E (build_session_establishment_request sq smf cp ue gnb td) src st = (st', Inr r) \<and>
    (\<forall>p f. downlink_parse p = Some f \<and> pf_dst_ip f = ip_be ue \<longrightarrow>
      snd (upf_edge_n6 X (st_maps st') p) =
        (encapsulated mac1 (take 6 p) (ip_be (n3_addr (st_server st))) (ip_be gnb) (to_be td) (drop 14 p),
         ucast (bpf_redirect X if0 0))) \<and>
    (\<forall>p f. uplink_parse p = Some f \<and> pf_ue_ip f = ip_be ue \<longrightarrow>
      snd (upf_edge_n3 X (st_maps st') p) =
        (mac_bytes mac0 @ take 6 (drop 6 p) @ [0x08, 0x00] @ drop (pf_outer_total f) p,
         ucast (bpf_redirect X if1 0)))"
proof -
  obtain st' r where h: "handle_message E (build_session_establishment_request sq smf cp ue gnb td) src st = (st', Inr r)"
      "serves_ue (st_maps st') (next_seid (st_server st)) ue (n3_addr (st_server st)) gnb td"
      "GW_MAC (st_maps st') = GW_MAC (st_maps st)" "IF_INDEX (st_maps st') = IF_INDEX (st_maps st)"
    using basic_request_served [OF assms(1,2,4,5,6,7)] by blast
  note served_traffic [OF assms(3) h(2), unfolded h(3,4), OF assms(8-11)]
  with h(1) show ?thesis
    by blast
qed

theorem establishment_opens_data_path_witness:
  "\<exists>st' r. handle_message (demo_upf_env [Ipv4Addr 10 0 0 1])
       (build_session_establishment_request 7 (Ipv4Addr 10 0 0 1) 5 (Ipv4Addr 10 45 0 2) (Ipv4Addr 172 22 0 23) 9)
       demo_src demo_state = (st', Inr r) \<and>
     snd (upf_edge_n3 demo_env (st_maps st') demo_uplink) =
       ([6, 6, 6, 6, 6, 6, 2, 2, 2, 2, 2, 2, 0x08, 0x00] @ demo_inner, 4)"
proof -
  have ip: "ip_be (Ipv4Addr 10 45 0 2) = 0x02002D0A"
    by code_simp
  have m: "st_maps demo_state = demo_maps" and l: "local_seid (next_seid (st_server demo_state))"
    by (simp_all add: demo_state_def pfcp_server_new_def local_seid_def)
  have q: "unat (7 :: u32) < 2 ^ 24" "is_v4 demo_src"
    by simp_all
  from establishment_opens_data_path [OF demo_upf_env_ok demo_env_laws(1) q demo_find_association l,
      where smf = "Ipv4Addr 10 0 0 1" and cp = 5 and ue = "Ipv4Addr 10 45 0 2" and gnb = "Ipv4Addr 172 22 0 23"
        and td = 9, unfolded m, OF demo_maps_lookup(2,4,5,3)]
  obtain st' r where h: "handle_message (demo_upf_env [Ipv4Addr 10 0 0 1])
       (build_session_establishment_request 7 (Ipv4Addr 10 0 0 1) 5 (Ipv4Addr 10 45 0 2) (Ipv4Addr 172 22 0 23) 9)
       demo_src demo_state = (st', Inr r)"
    and up: "\<And>p f. uplink_parse p = Some f \<and> pf_ue_ip f = ip_be (Ipv4Addr 10 45 0 2) \<Longrightarrow>
      snd (upf_edge_n3 demo_env (st_maps st') p) =
        (mac_bytes (MacAddr 6 6 6 6 6 6) @ take 6 (drop 6 p) @ [0x08, 0x00] @ drop (pf_outer_total f) p,
         ucast (bpf_redirect demo_env 4 0))"
    by blast
  have "snd (upf_edge_n3 demo_env (st_maps st') demo_uplink) =
      ([6, 6, 6, 6, 6, 6, 2, 2, 2, 2, 2, 2, 0x08, 0x00] @ demo_inner, 4)"
    using up [OF conjI [OF demo_uplink_parse]] by (simp add: ip demo_uplink_def demo_env_def)
  with h show ?thesis
    by blast
qed

section \<open>From power-on to the first packet\<close>

text \<open>
  C1: From a cold start: if \<open>main\<close> reaches the server, then whatever the store holds, an SMF that
  associates and sends the standard establishment request is accepted, and the UE's traffic is
  carried in both directions with the MAC addresses and interface indices read at start-up: downlink
  to the gNB's MAC over the N3 interface, uplink with the MAC of upfedge0 over the delivery interface.
\<close>

theorem cold_start_opens_data_path:
  assumes "upf_main P now t opt = Inr u" "env_laws E" "env_roomy E" "order_laws E" "adjust_head_laws X"
    and "unat sq < 2 ^ 24" "unat sq' < 2 ^ 24" "is_v4 src"
  shows "\<exists>cfg hist mac0 mac1 if0 if1 st1 r1 st2 r2.
    load_or_default P (opt_config opt) = Inr cfg \<and> read_iface_mac (p_host P) ''upfedge0'' = Inr mac0 \<and>
    read_gnb_mac (p_host P) (pe_gnb_mac (uc_peers cfg)) (pe_gnb_addr (uc_peers cfg)) [] = (hist, Inr mac1) \<and>
    read_ifindex (p_host P) (start_iface opt cfg) = Inr if0 \<and> read_ifindex (p_host P) (start_deliver cfg) = Inr if1 \<and>
    serve_datagram E (association_request sq node ts) src (upf_boot R r u) = (st1, Some r1) \<and>
    handle_message E (build_session_establishment_request sq' smf cp ue gnb td) src st1 = (st2, Inr r2) \<and>
    (\<forall>p f. downlink_parse p = Some f \<and> pf_dst_ip f = ip_be ue \<longrightarrow>
      snd (upf_edge_n6 X (st_maps st2) p) =
        (encapsulated mac1 (take 6 p) (ip_be (n3_addr (us_server u))) (ip_be gnb) (to_be td) (drop 14 p),
         ucast (bpf_redirect X if0 0))) \<and>
    (\<forall>p f. uplink_parse p = Some f \<and> pf_ue_ip f = ip_be ue \<longrightarrow>
      snd (upf_edge_n3 X (st_maps st2) p) =
        (mac_bytes mac0 @ take 6 (drop 6 p) @ [0x08, 0x00] @ drop (pf_outer_total f) p,
         ucast (bpf_redirect X if1 0)))"
  using assms(1)
proof (rule upf_main_okE)
  fix cfg mac0 mac1 if0 if1
  assume c: "load_or_default P (opt_config opt) = Inr cfg" "read_iface_mac (p_host P) ''upfedge0'' = Inr mac0"
      "read_gnb_mac (p_host P) (pe_gnb_mac (uc_peers cfg)) (pe_gnb_addr (uc_peers cfg)) [] = (us_commands u, Inr mac1)"
      "read_ifindex (p_host P) (start_iface opt cfg) = Inr if0" "read_ifindex (p_host P) (start_deliver cfg) = Inr if1"
    and m: "us_maps u = loaded_maps\<lparr>GW_MAC := [0 \<mapsto> mac0, 1 \<mapsto> mac1], IF_INDEX := [0 \<mapsto> if0, 1 \<mapsto> if1]\<rparr>"
    and s: "associations (us_server u) = Map.empty" "next_seid (us_server u) = 1"
  let ?st = "upf_boot R r u"
  obtain st1 r1 where a: "serve_datagram E (association_request sq node ts) src ?st = (st1, Some r1)"
      "associations (st_server st1) = [node \<mapsto> smf_association_new (env_now E) node src ts]"
      "next_seid (st_server st1) = 1" "n3_addr (st_server st1) = n3_addr (us_server u)" "st_maps st1 = us_maps u"
    using serve_association [OF assms(6), of ?st node E ts src] s by (auto simp: upf_boot_frame)
  have "registered src node (st_server st1) (smf_association_new (env_now E) node src ts)"
    unfolding registered_def a(2) by (auto simp: smf_association_new_def)
  then have f: "find_association E (st_server st1) src = Some (node, smf_association_new (env_now E) node src ts)"
    by (rule registered_found [OF assms(4)])
  have l: "local_seid (next_seid (st_server st1))" by (simp add: a(3) local_seid_def)
  obtain st2 r2 where h: "handle_message E (build_session_establishment_request sq' smf cp ue gnb td) src st1 = (st2, Inr r2)"
      "serves_ue (st_maps st2) (next_seid (st_server st1)) ue (n3_addr (st_server st1)) gnb td"
      "GW_MAC (st_maps st2) = GW_MAC (st_maps st1)" "IF_INDEX (st_maps st2) = IF_INDEX (st_maps st1)"
    using basic_request_served [OF assms(2,3,7,8) f l] by blast
  have g: "GW_MAC (st_maps st2) 0 = Some mac0" "GW_MAC (st_maps st2) 1 = Some mac1"
      "IF_INDEX (st_maps st2) 0 = Some if0" "IF_INDEX (st_maps st2) 1 = Some if1"
    by (simp_all add: h(3,4) a(5) m)
  note served_traffic [OF assms(5) h(2) g, unfolded a(4)]
  with c a(1) h(1) show ?thesis
    by blast
qed

text \<open>The UPF of the demonstration start-up, an empty store, and one G-PDU.\<close>

theorem cold_start_opens_data_path_witness:
  "\<exists>u st1 r1 st2 r2. upf_main demo_platform 0 0 (demo_opt (Some ''upf.toml'')) = Inr u \<and>
    serve_datagram lifecycle_env (association_request 1 (Ipv4Addr 10 0 0 1) 7) demo_src (upf_boot demo_redis [] u) = (st1, Some r1) \<and>
    handle_message lifecycle_env
      (build_session_establishment_request 2 (Ipv4Addr 10 0 0 1) 5 (Ipv4Addr 10 45 0 2) (Ipv4Addr 172 22 0 23) 9)
      demo_src st1 = (st2, Inr r2) \<and>
    snd (upf_edge_n3 demo_env (st_maps st2) demo_uplink) = ([6, 6, 6, 6, 6, 6, 2, 2, 2, 2, 2, 2, 0x08, 0x00] @ demo_inner, 4)"
proof -
  have ip: "ip_be (Ipv4Addr 10 45 0 2) = 0x02002D0A"
    by code_simp
  obtain u where u: "upf_main demo_platform 0 0 (demo_opt (Some ''upf.toml'')) = Inr u"
    using demo_start(1) by blast
  have q: "unat (1 :: u32) < 2 ^ 24" "unat (2 :: u32) < 2 ^ 24" "is_v4 demo_src"
    by simp_all
  have d: "opt_config (demo_opt (Some ''upf.toml'')) = Some ''upf.toml''" "p_host demo_platform = demo_host"
    by (simp_all add: demo_opt_def demo_platform_def)
  from cold_start_opens_data_path [OF u lifecycle_env_ok demo_env_laws(1) q, unfolded d demo_files demo_start(2),
      of "Ipv4Addr 10 0 0 1" 7 demo_redis "[]" "Ipv4Addr 10 0 0 1" 5 "Ipv4Addr 10 45 0 2" "Ipv4Addr 172 22 0 23" 9]
  obtain st1 r1 st2 r2 where
    h: "serve_datagram lifecycle_env (association_request 1 (Ipv4Addr 10 0 0 1) 7) demo_src (upf_boot demo_redis [] u) = (st1, Some r1)"
      "handle_message lifecycle_env
        (build_session_establishment_request 2 (Ipv4Addr 10 0 0 1) 5 (Ipv4Addr 10 45 0 2) (Ipv4Addr 172 22 0 23) 9)
        demo_src st1 = (st2, Inr r2)"
    and up: "\<And>p f. uplink_parse p = Some f \<and> pf_ue_ip f = ip_be (Ipv4Addr 10 45 0 2) \<Longrightarrow>
      snd (upf_edge_n3 demo_env (st_maps st2) p) =
        (mac_bytes (MacAddr 6 6 6 6 6 6) @ take 6 (drop 6 p) @ [0x08, 0x00] @ drop (pf_outer_total f) p,
         ucast (bpf_redirect demo_env 4 0))"
    by (auto simp: demo_start demo_files)
  have "snd (upf_edge_n3 demo_env (st_maps st2) demo_uplink) =
      ([6, 6, 6, 6, 6, 6, 2, 2, 2, 2, 2, 2, 0x08, 0x00] @ demo_inner, 4)"
    using up [OF conjI [OF demo_uplink_parse]] by (simp add: ip demo_uplink_def demo_env_def)
  with u h show ?thesis
    by blast
qed

end
